(* ===== verification/Prelude.thy ===== *)
theory Prelude
  imports Main "HOL-Library.Word"
begin

unbundle bit_operations_syntax

text \<open>
  Shared vocabulary of the development: the machine types of the firmware
  (\<open>uint8_t\<close>, \<open>uint16_t\<close>, \<open>uint32_t\<close> as words, buffers as byte lists, raw memory as
  functions from offsets), the collections the component theories add to, and the
  facts about words, lists and monotone counters that several of them use.

  Integer convention. A stored integer has the width of its C++ type. Where the
  source computes in \<open>int\<close> after integer promotion (\<open>_x + advance > right\<close>), the model
  reads the operands with \<open>unat\<close> and computes in \<open>nat\<close>; where the source casts back
  (\<open>(uint16_t)(...)\<close>) the model uses the wrapping arithmetic of the word.
\<close>

type_synonym u8 = "8 word"
type_synonym u16 = "16 word"
type_synonym u32 = "32 word"
type_synonym bytes = "u8 list"

named_theorems model_defs \<open>definitions a component proof unfolds\<close>
named_theorems inv_rules \<open>preservation lemmas of component invariants\<close>
named_theorems frame_simps \<open>fields an operation leaves alone\<close>

subsection \<open>Words\<close>

lemma unat_add_small:
  fixes x :: u16
  assumes "unat x + n < 65536"
  shows "unat (x + of_nat n) = unat x + n"
proof -
  have "unat (of_nat n :: u16) = n"
    using assms by (simp add: unat_of_nat)
  then show ?thesis
    using assms by (subst unat_add_lem[THEN iffD1]) auto
qed

lemma unat_u8_lt [simp]: "unat (x :: u8) < 256"
  using unsigned_less[of x] by simp

lemma unat_u16_lt [simp]: "unat (x :: u16) < 65536"
  using unsigned_less[of x] by simp

lemma unat_u32_lt [simp]: "unat (x :: u32) < 4294967296"
  using unsigned_less[of x] by simp

lemma unat_u16_le [simp]: "unat (x :: u16) \<le> 65535"
  using unat_u16_lt[of x] by linarith

lemma bit_FF: "bit (0xFF :: u8) n \<longleftrightarrow> n < 8"
  using bit_mask_iff[of 8 n, where ?'a = u8] by (simp add: mask_eq_exp_minus_1)

lemma unat_of_nat_u16: "n < 65536 \<Longrightarrow> unat (of_nat n :: u16) = n"
  by (simp add: unat_of_nat)

lemma unat_of_nat_u8: "n < 256 \<Longrightarrow> unat (of_nat n :: u8) = n"
  by (simp add: unat_of_nat)

lemma unat_of_nat_u32: "n < 4294967296 \<Longrightarrow> unat (of_nat n :: u32) = n"
  by (simp add: unat_of_nat)

lemma unat_of_nat_le: "unat (of_nat n :: 'a::len word) \<le> n"
  by (simp add: unat_of_nat)

subsection \<open>Lists\<close>

lemma take_list_update_ge: "n \<le> i \<Longrightarrow> take n (xs[i := v]) = take n xs"
  by (rule take_update_cancel)

lemma take_Suc_snoc_update:
  "n < length xs \<Longrightarrow> take (Suc n) (xs[n := v]) = take n xs @ [v]"
  by (simp add: take_Suc_conv_app_nth take_list_update_ge)

text \<open>
  The C idiom that closes the gap after deleting element \<open>i\<close> of an array prefix: every
  later element moves one place down.
\<close>

definition remove_at :: "nat \<Rightarrow> 'a list \<Rightarrow> 'a list" where
  "remove_at i xs = take i xs @ drop (Suc i) xs"

lemma length_remove_at: "i < length xs \<Longrightarrow> length (remove_at i xs) = length xs - 1"
  by (simp add: remove_at_def)

lemma set_remove_at_distinct:
  assumes "distinct xs" and "i < length xs"
  shows "set (remove_at i xs) = set xs - {xs ! i}" and "distinct (remove_at i xs)"
proof -
  have split: "xs = take i xs @ xs ! i # drop (Suc i) xs"
    using assms(2) by (simp add: id_take_nth_drop)
  have d: "distinct (take i xs @ xs ! i # drop (Suc i) xs)"
    using assms(1) split by simp
  show "set (remove_at i xs) = set xs - {xs ! i}"
    using d by (subst (2) split) (auto simp: remove_at_def)
  show "distinct (remove_at i xs)"
    using d by (simp add: remove_at_def)
qed

text \<open>Ground evaluation of array updates at numeral positions.\<close>

lemma list_update_Cons_numeral [simp]:
  "(x # xs)[numeral n := v] = x # xs[pred_numeral n := v]"
  by (simp add: numeral_eq_Suc)

text \<open>Index of the first element that satisfies a test, as the scan loops find it.\<close>

fun find_index :: "('a \<Rightarrow> bool) \<Rightarrow> 'a list \<Rightarrow> nat option" where
  "find_index p [] = None"
| "find_index p (x # xs) = (if p x then Some 0 else map_option Suc (find_index p xs))"

lemma find_index_None: "find_index p xs = None \<longleftrightarrow> (\<forall>x \<in> set xs. \<not> p x)"
  by (induction xs) auto

lemma find_index_Some:
  "find_index p xs = Some i \<Longrightarrow> i < length xs \<and> p (xs ! i) \<and> (\<forall>j < i. \<not> p (xs ! j))"
proof (induction xs arbitrary: i)
  case Nil
  then show ?case by simp
next
  case (Cons x xs)
  then show ?case
    by (auto split: if_splits simp: nth_Cons split: nat.splits)
qed

lemma find_index_eq_Some_mem: "x \<in> set xs \<Longrightarrow> \<exists>i. find_index (\<lambda>y. y = x) xs = Some i"
  using find_index_None[of "\<lambda>y. y = x" xs] by (cases "find_index (\<lambda>y. y = x) xs") auto

text \<open>Strictly ascending keys, checked neighbour by neighbour.\<close>

fun ascending :: "'a::ord list \<Rightarrow> bool" where
  "ascending (a # b # xs) \<longleftrightarrow> a < b \<and> ascending (b # xs)"
| "ascending _ \<longleftrightarrow> True"

lemma ascending_sorted: "ascending xs \<longleftrightarrow> sorted_wrt (<) (xs :: 'a::order list)"
proof (induction xs rule: ascending.induct)
  case (1 a b xs)
  then show ?case by (auto intro: order.strict_trans)
qed auto

end
