(* ===== verification/InputLayer.thy ===== *)
theory InputLayer
  imports Prelude
begin

text \<open>
  The keyboard's logic layer, \<open>lib/Keypad/src/InputLayer.h\<close> and \<open>InputLayer.cpp\<close>: key
  codes go down and up, characters and actions come out. Modifiers are one-shot, and a
  third simultaneous key is refused because the matrix has no diodes. The theory holds
  the class's state, its operations, the invariant they keep and a set-based
  specification they refine.
\<close>

section \<open>Key codes, modifiers, events\<close>

definition KEY_NONE :: u8 where "KEY_NONE = 0"
definition KEY_SHIFT :: u8 where "KEY_SHIFT = 1"
definition KEY_ALT :: u8 where "KEY_ALT = 2"
definition KEY_SYM :: u8 where "KEY_SYM = 3"

definition MOD_NONE :: u8 where "MOD_NONE = 0"
definition MOD_SHIFT :: u8 where "MOD_SHIFT = 1"
definition MOD_ALT :: u8 where "MOD_ALT = 2"
definition MOD_SYM :: u8 where "MOD_SYM = 4"

lemmas key_codes = KEY_NONE_def KEY_SHIFT_def KEY_ALT_def KEY_SYM_def
lemmas mod_codes = MOD_NONE_def MOD_SHIFT_def MOD_ALT_def MOD_SYM_def

datatype event_type = NONE | CHARACTER | ACTION | REFUSED

record event =
  ev_type :: event_type
  ev_ch :: u8
  ev_code :: u8
  ev_mods :: u8

definition GHOST_THRESHOLD :: nat where "GHOST_THRESHOLD = 3"
definition MAX_TRACKED :: nat where "MAX_TRACKED = 8"

text \<open>
  \<open>KeymapFn\<close> is caller-supplied data, possibly null; its context pointer is folded into
  the function.
\<close>

record input_layer =
  keymap :: "(u8 \<Rightarrow> u8 \<Rightarrow> u8) option"
  pending :: u8
  down :: "u8 list"
  down_count :: nat
  refused :: u32

definition new_input_layer :: "(u8 \<Rightarrow> u8 \<Rightarrow> u8) option \<Rightarrow> input_layer" where
  "new_input_layer km = \<lparr>keymap = km, pending = MOD_NONE, down = [0,0,0,0,0,0,0,0],
     down_count = 0, refused = 0\<rparr>"

section \<open>Operations\<close>

definition mod_bit :: "u8 \<Rightarrow> u8" where
  "mod_bit code =
     (if code = KEY_SHIFT then MOD_SHIFT
      else if code = KEY_ALT then MOD_ALT
      else if code = KEY_SYM then MOD_SYM
      else MOD_NONE)"

text \<open>The tracked keys are the first \<open>_down_count\<close> cells of \<open>_down\<close>.\<close>

definition held :: "input_layer \<Rightarrow> u8 list" where
  "held s = take (down_count s) (down s)"

definition track_down :: "u8 \<Rightarrow> input_layer \<Rightarrow> bool \<times> input_layer" where
  "track_down code s =
     (if find_index (\<lambda>k. k = code) (held s) \<noteq> None then (False, s)
      else if down_count s < MAX_TRACKED
      then (True, s\<lparr>down := (down s)[down_count s := code], down_count := Suc (down_count s)\<rparr>)
      else (True, s\<lparr>down_count := MAX_TRACKED\<rparr>))"

definition track_up :: "u8 \<Rightarrow> input_layer \<Rightarrow> bool \<times> input_layer" where
  "track_up code s =
     (case find_index (\<lambda>k. k = code) (held s) of
        Some i \<Rightarrow>
          (True, s\<lparr>down := remove_at i (held s) @ drop (down_count s - 1) (down s),
                   down_count := down_count s - 1\<rparr>)
      | None \<Rightarrow> (False, s))"

definition ghost_risk :: "input_layer \<Rightarrow> bool" where
  "ghost_risk s \<longleftrightarrow> GHOST_THRESHOLD \<le> down_count s"

definition key_down :: "u8 \<Rightarrow> input_layer \<Rightarrow> event \<times> input_layer" where
  "key_down code s =
     (let ev = \<lparr>ev_type = NONE, ev_ch = 0, ev_code = code, ev_mods = 0\<rparr> in
      if code = KEY_NONE then (ev, s)
      else
        (let (fresh, s1) = track_down code s in
         if \<not> fresh then (ev, s1)
         else if GHOST_THRESHOLD \<le> down_count s1
         then (ev\<lparr>ev_type := REFUSED\<rparr>, s1\<lparr>refused := refused s1 + 1\<rparr>)
         else
           (let b = mod_bit code in
            if b \<noteq> MOD_NONE
            then (ev, s1\<lparr>pending := (if pending s1 AND b \<noteq> 0 then pending s1 AND NOT b
                                    else pending s1 OR b)\<rparr>)
            else
              (let applied = pending s1;
                   s2 = s1\<lparr>pending := MOD_NONE\<rparr>;
                   ch = (case keymap s2 of Some f \<Rightarrow> f code applied | None \<Rightarrow> 0) in
               if ch \<noteq> 0 then (ev\<lparr>ev_mods := applied, ev_type := CHARACTER, ev_ch := ch\<rparr>, s2)
               else (ev\<lparr>ev_mods := applied, ev_type := ACTION\<rparr>, s2)))))"

definition key_up :: "u8 \<Rightarrow> input_layer \<Rightarrow> input_layer" where
  "key_up code s = snd (track_up code s)"

definition reset_input :: "input_layer \<Rightarrow> input_layer" where
  "reset_input s = s\<lparr>pending := MOD_NONE, down_count := 0\<rparr>"

section \<open>Invariant\<close>

definition il_inv :: "input_layer \<Rightarrow> bool" where
  "il_inv s \<longleftrightarrow> length (down s) = 8 \<and> down_count s \<le> MAX_TRACKED \<and> distinct (held s)
     \<and> KEY_NONE \<notin> set (held s) \<and> pending s AND 7 = pending s"

lemma length_held: "il_inv s \<Longrightarrow> length (held s) = down_count s"
  by (simp add: il_inv_def held_def MAX_TRACKED_def)

lemma held_reset [simp]: "held (reset_input s) = []"
  by (simp add: reset_input_def held_def)

lemma held_pending [simp]: "held (s\<lparr>pending := p\<rparr>) = held s"
  and held_refused [simp]: "held (s\<lparr>refused := r\<rparr>) = held s"
  by (simp_all add: held_def)

lemma track_down_cases:
  assumes "il_inv s"
  obtains (rebroadcast) "code \<in> set (held s)" "track_down code s = (False, s)"
    | (fresh) s1 where "code \<notin> set (held s)" "down_count s < MAX_TRACKED"
        "track_down code s = (True, s1)" "held s1 = held s @ [code]"
        "down_count s1 = Suc (down_count s)" "pending s1 = pending s" "keymap s1 = keymap s"
        "refused s1 = refused s" "length (down s1) = length (down s)"
    | (full) "code \<notin> set (held s)" "down_count s = MAX_TRACKED" "track_down code s = (True, s)"
proof (cases "code \<in> set (held s)")
  case True
  then show ?thesis
    using rebroadcast find_index_eq_Some_mem[OF True] by (auto simp: track_down_def)
next
  case False
  then have none: "find_index (\<lambda>k. k = code) (held s) = None"
    by (auto simp: find_index_None)
  have len: "length (down s) = 8" and le: "down_count s \<le> MAX_TRACKED"
    using assms by (auto simp: il_inv_def)
  show ?thesis
  proof (cases "down_count s < MAX_TRACKED")
    case True
    let ?s1 = "s\<lparr>down := (down s)[down_count s := code], down_count := Suc (down_count s)\<rparr>"
    have "held ?s1 = held s @ [code]"
      using True len by (simp add: held_def MAX_TRACKED_def take_Suc_snoc_update)
    then show ?thesis
      using fresh[of ?s1] False True none by (simp add: track_down_def)
  next
    case F: False
    then have "down_count s = MAX_TRACKED" using le by simp
    then show ?thesis using full False none by (simp add: track_down_def)
  qed
qed

lemma pending_mask_or: "p AND 7 = p \<Longrightarrow> (p OR mod_bit c) AND 7 = p OR mod_bit c"
  for p :: u8
  by (simp add: mod_bit_def mod_codes bit.conj_disj_distrib2)

lemma pending_mask_andnot: "p AND 7 = p \<Longrightarrow> (p AND NOT b) AND 7 = p AND NOT b"
  for p :: u8
  by (metis and.assoc and.commute)

lemma toggle_is_xor:
  "(if p AND mod_bit c \<noteq> 0 then p AND NOT (mod_bit c) else p OR mod_bit c) = p XOR mod_bit c"
  for p :: u8
proof (cases "mod_bit c = 0")
  case True
  then show ?thesis by simp
next
  case False
  then obtain k where k: "mod_bit c = push_bit k 1"
    by (auto simp: mod_bit_def mod_codes split: if_splits
        intro: that[of 0] that[of 1] that[of 2])
  have test: "(p AND push_bit k 1 \<noteq> 0) = bit p k"
    by (simp add: and_exp_eq_0_iff_not_bit push_bit_eq_mult)
  show ?thesis
    unfolding k test
    using flip_bit_eq_if[of k p]
    by (auto simp: flip_bit_eq_xor set_bit_eq_or unset_bit_eq_and_not)
qed

lemma toggle_off: "p AND mod_bit c \<noteq> 0 \<Longrightarrow> p AND NOT (mod_bit c) = p XOR mod_bit c"
  and toggle_on: "p AND mod_bit c = 0 \<Longrightarrow> p OR mod_bit c = p XOR mod_bit c" for p :: u8
  using toggle_is_xor[of p c] by auto

lemma key_down_inv: "il_inv s \<Longrightarrow> il_inv (snd (key_down code s))"
proof -
  assume inv: "il_inv s"
  show ?thesis
    using inv
  proof (cases rule: track_down_cases[where code = code])
    case rebroadcast
    then show ?thesis using inv by (simp add: key_down_def Let_def)
  next
    case (fresh s1)
    have "il_inv (s1\<lparr>pending := p\<rparr>)" if "code \<noteq> KEY_NONE" "p AND 7 = p" for p
      using fresh inv that by (auto simp: il_inv_def)
    then show ?thesis
      using fresh inv by (auto simp: key_down_def Let_def il_inv_def MOD_NONE_def pending_mask_or
          pending_mask_andnot)
  next
    case full
    then show ?thesis
      using inv by (auto simp: key_down_def Let_def il_inv_def GHOST_THRESHOLD_def MAX_TRACKED_def)
  qed
qed

lemma key_up_cases:
  assumes "il_inv s"
  shows "il_inv (key_up code s) \<and> set (held (key_up code s)) = set (held s) - {code}
    \<and> pending (key_up code s) = pending s \<and> keymap (key_up code s) = keymap s"
proof (cases "find_index (\<lambda>k. k = code) (held s)")
  case None
  then have "code \<notin> set (held s)"
    using find_index_None[of "\<lambda>k. k = code" "held s"] by auto
  then show ?thesis
    using assms None by (simp add: key_up_def track_up_def)
next
  case (Some i)
  let ?t = "s\<lparr>down := remove_at i (held s) @ drop (down_count s - 1) (down s),
              down_count := down_count s - 1\<rparr>"
  have i: "i < length (held s)" "held s ! i = code"
    using find_index_Some[OF Some] by auto
  have len: "length (held s) = down_count s" "distinct (held s)"
    using assms length_held by (auto simp: il_inv_def)
  have rl: "length (remove_at i (held s)) = down_count s - 1"
    using i len by (simp add: length_remove_at)
  have held: "held ?t = remove_at i (held s)"
    unfolding held_def[of ?t] using rl by simp
  have pos: "0 < down_count s"
    using i(1) len(1) by (cases "down_count s") auto
  have "il_inv ?t"
    using assms i(1) set_remove_at_distinct[OF len(2) i(1)] rl pos
    unfolding il_inv_def held by (simp add: MAX_TRACKED_def) linarith
  then show ?thesis
    using Some set_remove_at_distinct[OF len(2) i(1)] i held
    by (simp add: key_up_def track_up_def)
qed

lemma reset_input_inv: "il_inv s \<Longrightarrow> il_inv (reset_input s)"
  by (auto simp: il_inv_def reset_input_def held_def MOD_NONE_def)

lemma new_input_layer_inv: "il_inv (new_input_layer km)"
  by (simp add: il_inv_def new_input_layer_def held_def MOD_NONE_def)

section \<open>Specification: a set of held keys and a mask of armed modifiers\<close>

text \<open>
  What the class promises, without its array: the held keys are a set, pressing a modifier
  toggles its bit, an ordinary key spends the whole mask, and from the third held key on
  nothing is emitted. At most \<open>MAX_TRACKED\<close> keys are remembered.
\<close>

type_synonym kb_spec = "u8 set \<times> u8"

definition spec_key_down :: "(u8 \<Rightarrow> u8 \<Rightarrow> u8) option \<Rightarrow> u8 \<Rightarrow> kb_spec \<Rightarrow> event \<times> kb_spec" where
  "spec_key_down km code st =
     (let (H, P) = st;
          ev = (\<lambda>t ch m. \<lparr>ev_type = t, ev_ch = ch, ev_code = code, ev_mods = m\<rparr>) in
      if code = KEY_NONE \<or> code \<in> H then (ev NONE 0 0, (H, P))
      else
        (let H' = (if card H < MAX_TRACKED then insert code H else H) in
         if GHOST_THRESHOLD \<le> card H' then (ev REFUSED 0 0, (H', P))
         else if mod_bit code \<noteq> MOD_NONE then (ev NONE 0 0, (H', P XOR mod_bit code))
         else
           (let ch = (case km of Some f \<Rightarrow> f code P | None \<Rightarrow> 0) in
            (ev (if ch \<noteq> 0 then CHARACTER else ACTION) ch P, (H', MOD_NONE)))))"

definition spec_key_up :: "u8 \<Rightarrow> kb_spec \<Rightarrow> kb_spec" where
  "spec_key_up code st = (fst st - {code}, snd st)"

definition il_abs :: "input_layer \<Rightarrow> kb_spec" where
  "il_abs s = (set (held s), pending s)"

lemma card_held: "il_inv s \<Longrightarrow> card (set (held s)) = down_count s"
  by (metis distinct_card il_inv_def length_held)

lemma key_down_keymap: "il_inv s \<Longrightarrow> keymap (snd (key_down code s)) = keymap s"
  by (cases rule: track_down_cases[of s code]) (auto simp: key_down_def Let_def)

lemma key_down_abs:
  assumes inv: "il_inv s"
  shows "fst (key_down code s) = fst (spec_key_down (keymap s) code (il_abs s))
    \<and> il_abs (snd (key_down code s)) = snd (spec_key_down (keymap s) code (il_abs s))"
proof (cases "code = KEY_NONE")
  case True
  then show ?thesis by (simp add: key_down_def spec_key_down_def il_abs_def)
next
  case nz: False
  show ?thesis
    using inv
  proof (cases rule: track_down_cases[where code = code])
    case rebroadcast
    then show ?thesis using nz by (simp add: key_down_def spec_key_down_def il_abs_def)
  next
    case (fresh s1)
    have card: "card (insert code (set (held s))) = Suc (down_count s)"
      using fresh(1) card_held[OF inv] by simp
    show ?thesis
      using fresh nz card card_held[OF inv]
      by (auto simp: key_down_def spec_key_down_def il_abs_def Let_def toggle_on toggle_off
          MOD_NONE_def split: option.splits)
  next
    case full
    then show ?thesis
      using nz card_held[OF inv]
      by (auto simp: key_down_def spec_key_down_def il_abs_def Let_def MAX_TRACKED_def
          GHOST_THRESHOLD_def)
  qed
qed

subsection \<open>Runs\<close>

datatype key_op = Down u8 | Up u8 | ResetKeys

fun key_step :: "key_op \<Rightarrow> input_layer \<Rightarrow> event list \<times> input_layer" where
  "key_step (Down c) s = (let (e, s') = key_down c s in ([e], s'))"
| "key_step (Up c) s = ([], key_up c s)"
| "key_step ResetKeys s = ([], reset_input s)"

fun key_run :: "key_op list \<Rightarrow> input_layer \<Rightarrow> event list \<times> input_layer" where
  "key_run [] s = ([], s)"
| "key_run (k # ks) s =
     (let (es, s1) = key_step k s; (es', s2) = key_run ks s1 in (es @ es', s2))"

fun spec_step :: "(u8 \<Rightarrow> u8 \<Rightarrow> u8) option \<Rightarrow> key_op \<Rightarrow> kb_spec \<Rightarrow> event list \<times> kb_spec" where
  "spec_step km (Down c) st = (let (e, st') = spec_key_down km c st in ([e], st'))"
| "spec_step km (Up c) st = ([], spec_key_up c st)"
| "spec_step km ResetKeys st = ([], ({}, MOD_NONE))"

fun spec_run :: "(u8 \<Rightarrow> u8 \<Rightarrow> u8) option \<Rightarrow> key_op list \<Rightarrow> kb_spec \<Rightarrow> event list \<times> kb_spec" where
  "spec_run km [] st = ([], st)"
| "spec_run km (k # ks) st =
     (let (es, st1) = spec_step km k st; (es', st2) = spec_run km ks st1 in (es @ es', st2))"

lemma key_step_refines:
  assumes "il_inv s"
  shows "il_inv (snd (key_step k s)) \<and> keymap (snd (key_step k s)) = keymap s
    \<and> fst (key_step k s) = fst (spec_step (keymap s) k (il_abs s))
    \<and> il_abs (snd (key_step k s)) = snd (spec_step (keymap s) k (il_abs s))"
proof (cases k)
  case (Down c)
  then show ?thesis
    using key_down_inv[OF assms, of c] key_down_abs[OF assms, of c] key_down_keymap[OF assms, of c]
    by (simp add: case_prod_beta)
next
  case (Up c)
  then show ?thesis
    using key_up_cases[OF assms, of c] by (simp add: spec_key_up_def il_abs_def)
next
  case ResetKeys
  then show ?thesis
    using reset_input_inv[OF assms] by (simp add: il_abs_def) (simp add: reset_input_def)
qed

lemma key_run_refines:
  "il_inv s \<Longrightarrow> il_inv (snd (key_run ks s))
    \<and> fst (key_run ks s) = fst (spec_run (keymap s) ks (il_abs s))
    \<and> il_abs (snd (key_run ks s)) = snd (spec_run (keymap s) ks (il_abs s))"
proof (induction ks arbitrary: s)
  case Nil
  then show ?case by simp
next
  case (Cons k ks)
  then show ?case
    using key_step_refines[OF Cons.prems, of k] Cons.IH[of "snd (key_step k s)"]
    by (simp add: case_prod_beta)
qed

lemma key_run_keymap: "il_inv s \<Longrightarrow> keymap (snd (key_run ks s)) = keymap s"
proof (induction ks arbitrary: s)
  case Nil
  then show ?case by simp
next
  case (Cons k ks)
  then show ?case
    using key_step_refines[OF Cons.prems, of k] by (simp add: case_prod_beta)
qed

lemma spec_run_append:
  "snd (spec_run km (ks @ ks') st) = snd (spec_run km ks' (snd (spec_run km ks st)))"
  by (induction ks arbitrary: st) (simp_all add: case_prod_beta)

section \<open>Properties\<close>

text \<open>C5: for every sequence of key presses, releases and resets, a fresh input layer emits
  exactly the events of the set-based specification (modifiers toggle, an ordinary key
  spends the mask, a third held key is refused), and its array state stays well formed.\<close>

theorem input_layer_refines_spec:
  "fst (key_run ks (new_input_layer km)) = fst (spec_run km ks ({}, MOD_NONE))
   \<and> il_abs (snd (key_run ks (new_input_layer km))) = snd (spec_run km ks ({}, MOD_NONE))
   \<and> il_inv (snd (key_run ks (new_input_layer km)))"
proof -
  have "il_abs (new_input_layer km) = ({}, MOD_NONE)" "keymap (new_input_layer km) = km"
    by (simp_all add: il_abs_def new_input_layer_def held_def)
  then show ?thesis
    using key_run_refines[OF new_input_layer_inv, of ks km] by simp
qed

text \<open>C18: the ghost guard and the one-shot rule, in any well-formed state: a key that
  produces a character or an action was not already held, leaves fewer than
  \<open>GHOST_THRESHOLD\<close> tracked keys down, is reported with exactly the modifiers that were
  armed, and disarms them all.\<close>

theorem emission_is_safe_and_one_shot:
  assumes inv: "il_inv s" and emit: "ev_type (fst (key_down c s)) \<in> {CHARACTER, ACTION}"
  shows "c \<notin> set (held s) \<and> \<not> ghost_risk (snd (key_down c s))
    \<and> ev_mods (fst (key_down c s)) = pending s \<and> pending (snd (key_down c s)) = MOD_NONE"
  using inv
proof (cases rule: track_down_cases[where code = c])
  case (fresh s1)
  then show ?thesis
    using emit by (auto simp: key_down_def Let_def ghost_risk_def split: if_splits)
qed (use emit in \<open>auto simp: key_down_def Let_def GHOST_THRESHOLD_def MAX_TRACKED_def split: if_splits\<close>)

definition demo_keymap :: "u8 \<Rightarrow> u8 \<Rightarrow> u8" where
  "demo_keymap code mods = (if code = 8 then (if mods AND MOD_SHIFT \<noteq> 0 then 65 else 97) else 0)"

definition shifted :: input_layer where
  "shifted = snd (key_run [Down KEY_SHIFT, Up KEY_SHIFT] (new_input_layer (Some demo_keymap)))"

lemma shifted_eval:
  "ev_type (fst (key_down 8 shifted)) = CHARACTER" "ev_ch (fst (key_down 8 shifted)) = 65"
  by code_simp+

theorem emission_is_safe_and_one_shot_witness:
  "8 \<notin> set (held shifted) \<and> \<not> ghost_risk (snd (key_down 8 shifted))
    \<and> ev_mods (fst (key_down 8 shifted)) = pending shifted
    \<and> pending (snd (key_down 8 shifted)) = MOD_NONE"
proof (rule emission_is_safe_and_one_shot)
  show "il_inv shifted"
    unfolding shifted_def by (rule key_run_refines[OF new_input_layer_inv, THEN conjunct1])
  show "ev_type (fst (key_down 8 shifted)) \<in> {CHARACTER, ACTION}"
    by (simp add: shifted_eval)
qed

text \<open>The keys a sequence leaves physically down, whatever the layer tracks.\<close>

definition physically_down :: "key_op list \<Rightarrow> u8 set" where
  "physically_down ks = fold (\<lambda>k H. case k of Down c \<Rightarrow> insert c H | Up c \<Rightarrow> H - {c} | ResetKeys \<Rightarrow> H) ks {}"

definition overfull_chord :: "key_op list" where
  "overfull_chord = map Down [10,11,12,13,14,15,16,17,18,19] @ map Up [10,11,12,13,14,15,16,17]"

text \<open>C38: the limit of the ghost guard. Only \<open>MAX_TRACKED\<close> keys are remembered, so after ten
  keys were down and the eight tracked ones released, a further key is emitted although
  three keys are physically down: the guard of the diode-less matrix has counted one.\<close>

theorem ghost_guard_misses_untracked_keys:
  "card (physically_down (overfull_chord @ [Down 20])) = 3
   \<and> (let s = snd (key_run overfull_chord (new_input_layer None))
      in ev_type (fst (key_down 20 s)) = ACTION \<and> down_count (snd (key_down 20 s)) = 1)"
proof -
  let ?s = "snd (key_run overfull_chord (new_input_layer None))"
  have downs: "snd (spec_run None (map Down [10,11,12,13,14,15,16,17,18,19]) ({}, 0))
      = ({10,11,12,13,14,15,16,17}, 0)"
    by (simp add: spec_key_down_def mod_bit_def key_codes mod_codes GHOST_THRESHOLD_def
        MAX_TRACKED_def insert_commute)
  have ups: "snd (spec_run None (map Up [10,11,12,13,14,15,16,17])
      ({10,11,12,13,14,15,16,17}, 0)) = ({}, 0)"
    by (simp add: spec_key_up_def insert_Diff_if)
  have new: "il_abs (new_input_layer None) = ({}, 0)" "keymap (new_input_layer None) = None"
    by (simp_all add: il_abs_def new_input_layer_def held_def MOD_NONE_def)
  have inv: "il_inv ?s" and abs: "il_abs ?s = ({}, 0)"
    using key_run_refines[OF new_input_layer_inv[of None], of overfull_chord]
    unfolding overfull_chord_def spec_run_append new downs ups by simp_all
  have km: "keymap ?s = None"
    by (simp add: key_run_keymap new_input_layer_inv new)
  have step: "ev_type (fst (key_down 20 ?s)) = ACTION" "il_abs (snd (key_down 20 ?s)) = ({20}, 0)"
    using key_down_abs[OF inv, of 20] unfolding abs km
    by (simp_all add: spec_key_down_def mod_bit_def key_codes mod_codes GHOST_THRESHOLD_def
        MAX_TRACKED_def)
  then have "down_count (snd (key_down 20 ?s)) = 1"
    using card_held[OF key_down_inv[OF inv, of 20]] by (simp add: il_abs_def)
  moreover have "physically_down (overfull_chord @ [Down 20]) = {18, 19, 20}"
    by (simp add: physically_down_def overfull_chord_def) auto
  ultimately show ?thesis
    using step(1) by (simp add: Let_def)
qed

end
