(* ===== verification/Tca8418.thy ===== *)
theory Tca8418
  imports Prelude
begin

text \<open>
  The keypad scanner driver, \<open>lib/Keypad/src/Tca8418.h\<close> and \<open>Tca8418.cpp\<close>: the decoding
  of one FIFO byte, the configuration of the matrix rectangle and the draining of the
  event FIFO. The chip is reached through the abstract \<open>Tca8418Bus\<close>: here a pair of
  functions on a bus state, with the laws a client relies on stated as the locale
  \<open>tca_bus\<close>. The scriptable bus of \<open>test/test_tca8418/test_tca8418.cpp\<close> provides them.
\<close>

section \<open>Registers, bits, geometry\<close>

definition TCA_CFG :: u8 where "TCA_CFG = 0x01"
definition TCA_INT_STAT :: u8 where "TCA_INT_STAT = 0x02"
definition TCA_KEY_LCK_EC :: u8 where "TCA_KEY_LCK_EC = 0x03"
definition TCA_KEY_EVENT_A :: u8 where "TCA_KEY_EVENT_A = 0x04"
definition TCA_KP_GPIO1 :: u8 where "TCA_KP_GPIO1 = 0x1D"
definition TCA_KP_GPIO2 :: u8 where "TCA_KP_GPIO2 = 0x1E"
definition TCA_KP_GPIO3 :: u8 where "TCA_KP_GPIO3 = 0x1F"
definition TCA_DEBOUNCE_DIS1 :: u8 where "TCA_DEBOUNCE_DIS1 = 0x29"

definition TCA_CFG_OVR_FLOW_M :: u8 where "TCA_CFG_OVR_FLOW_M = push_bit 5 1"
definition TCA_CFG_OVR_FLOW_IEN :: u8 where "TCA_CFG_OVR_FLOW_IEN = push_bit 3 1"
definition TCA_CFG_KE_IEN :: u8 where "TCA_CFG_KE_IEN = push_bit 0 1"
definition TCA_INT_OVR_FLOW :: u8 where "TCA_INT_OVR_FLOW = push_bit 3 1"
definition TCA_INT_K :: u8 where "TCA_INT_K = push_bit 0 1"

definition TCA_ROWS :: u8 where "TCA_ROWS = 8"
definition TCA_COLS :: u8 where "TCA_COLS = 10"
definition TCA_GPI_FIRST :: u8 where "TCA_GPI_FIRST = 97"

lemmas tca_regs = TCA_CFG_def TCA_INT_STAT_def TCA_KEY_LCK_EC_def TCA_KEY_EVENT_A_def
  TCA_KP_GPIO1_def TCA_KP_GPIO2_def TCA_KP_GPIO3_def TCA_DEBOUNCE_DIS1_def
lemmas tca_bits = TCA_CFG_OVR_FLOW_M_def TCA_CFG_OVR_FLOW_IEN_def TCA_CFG_KE_IEN_def
  TCA_INT_OVR_FLOW_def TCA_INT_K_def
lemmas tca_geometry = TCA_ROWS_def TCA_COLS_def TCA_GPI_FIRST_def

record key_event =
  ke_row :: u8
  ke_col :: u8
  ke_pressed :: bool

section \<open>Decoding a FIFO byte\<close>

definition decode :: "u8 \<Rightarrow> key_event option" where
  "decode raw =
     (if raw = 0 then None
      else
        (let key = raw AND 0x7F in
         if key = 0 then None
         else if TCA_GPI_FIRST \<le> key then None
         else if TCA_ROWS * TCA_COLS < key then None
         else Some \<lparr>ke_row = (key - 1) div TCA_COLS, ke_col = (key - 1) mod TCA_COLS,
                    ke_pressed = (raw AND 0x80 \<noteq> 0)\<rparr>))"

section \<open>The bus and the driver\<close>

type_synonym 'b bus_read = "'b \<Rightarrow> u8 \<Rightarrow> 'b \<times> u8 option"
type_synonym 'b bus_write = "'b \<Rightarrow> u8 \<Rightarrow> u8 \<Rightarrow> 'b \<times> bool"

definition row_mask :: "u8 \<Rightarrow> u8" where
  "row_mask rows = ucast (push_bit (unat rows) (1 :: u32) - 1)"

definition col_mask1 :: "u8 \<Rightarrow> u8" where
  "col_mask1 cols = (if 8 \<le> cols then 0xFF else ucast (push_bit (unat cols) (1 :: u32) - 1))"

definition col_mask2 :: "u8 \<Rightarrow> u8" where
  "col_mask2 cols = (if 8 < cols then ucast (push_bit (unat (cols - 8)) (1 :: u32) - 1) else 0)"

text \<open>A sequence of register writes that stops at the first one the bus rejects.\<close>

fun write_all :: "'b bus_write \<Rightarrow> (u8 \<times> u8) list \<Rightarrow> 'b \<Rightarrow> 'b \<times> bool" where
  "write_all wr [] b = (b, True)"
| "write_all wr ((r, v) # ws) b =
     (case wr b r v of (b', ok) \<Rightarrow> if ok then write_all wr ws b' else (b', False))"

definition tca_begin :: "'b bus_read \<Rightarrow> 'b bus_write \<Rightarrow> u8 \<Rightarrow> u8 \<Rightarrow> 'b \<Rightarrow> 'b \<times> bool" where
  "tca_begin rd wr rows cols b =
     (if rows = 0 \<or> TCA_ROWS < rows \<or> cols = 0 \<or> TCA_COLS < cols then (b, False)
      else
        (case write_all wr
            [(TCA_KP_GPIO1, row_mask rows), (TCA_KP_GPIO2, col_mask1 cols),
             (TCA_KP_GPIO3, col_mask2 cols), (TCA_DEBOUNCE_DIS1, 0),
             (TCA_CFG, TCA_CFG_KE_IEN OR TCA_CFG_OVR_FLOW_IEN OR TCA_CFG_OVR_FLOW_M)] b of
           (b1, False) \<Rightarrow> (b1, False)
         | (b1, True) \<Rightarrow>
             (case rd b1 TCA_INT_STAT of
                (b2, Some stat) \<Rightarrow>
                  (if stat \<noteq> 0 then (fst (wr b2 TCA_INT_STAT stat), True) else (b2, True))
              | (b2, None) \<Rightarrow> (b2, True))))"

text \<open>
  The drain loop: \<open>pending\<close> is the count the chip reported, \<open>room\<close> the caller's \<open>max\<close>,
  \<open>out\<close> the events written so far (\<open>n\<close> is its length).
\<close>

fun drain :: "'b bus_read \<Rightarrow> nat \<Rightarrow> nat \<Rightarrow> key_event list \<Rightarrow> 'b \<Rightarrow> 'b \<times> key_event list" where
  "drain rd 0 room out b = (b, out)"
| "drain rd (Suc pending) room out b =
     (if length out < room
      then (case rd b TCA_KEY_EVENT_A of
              (b', None) \<Rightarrow> (b', out)
            | (b', Some raw) \<Rightarrow>
                (if raw = 0 then (b', out)
                 else drain rd pending room
                        (case decode raw of Some ev \<Rightarrow> out @ [ev] | None \<Rightarrow> out) b'))
      else (b, out))"

text \<open>The overflow flag is a value of its own: \<open>poll\<close> sets it, this resets it.\<close>

definition clear_overflow :: "bool \<Rightarrow> bool" where
  "clear_overflow ovf = False"

text \<open>
  \<open>poll\<close>: the bus after it, the sticky overflow flag, and the events written to \<open>out\<close>
  (\<open>None\<close> for \<open>room\<close> stands for a null \<open>out\<close>).
\<close>

definition poll ::
  "'b bus_read \<Rightarrow> 'b bus_write \<Rightarrow> nat option \<Rightarrow> bool \<Rightarrow> 'b \<Rightarrow> 'b \<times> bool \<times> key_event list" where
  "poll rd wr out_max ovf b =
     (case out_max of
        None \<Rightarrow> (b, ovf, [])
      | Some room \<Rightarrow>
          if room = 0 then (b, ovf, [])
          else
            (case rd b TCA_INT_STAT of
               (b1, None) \<Rightarrow> (b1, ovf, [])
             | (b1, Some stat) \<Rightarrow>
                 (let ovf' = (ovf \<or> stat AND TCA_INT_OVR_FLOW \<noteq> 0);
                      ack = (\<lambda>b. if stat \<noteq> 0 then fst (wr b TCA_INT_STAT stat) else b) in
                  if stat AND TCA_INT_K \<noteq> 0
                  then (case rd b1 TCA_KEY_LCK_EC of
                          (b2, None) \<Rightarrow> (b2, ovf', [])
                        | (b2, Some ec) \<Rightarrow>
                            (case drain rd (unat (ec AND 0x0F)) room [] b2 of
                               (b3, evs) \<Rightarrow> (ack b3, ovf', evs)))
                  else (ack b1, ovf', []))))"

section \<open>The scriptable bus of the host tests\<close>

record fake_bus =
  fb_reads :: "u8 \<Rightarrow> bytes"
  fb_writes :: "(u8 \<times> u8) list"
  fail_all :: bool

definition fake_write :: "fake_bus bus_write" where
  "fake_write b reg v =
     (if fail_all b then (b, False) else (b\<lparr>fb_writes := fb_writes b @ [(reg, v)]\<rparr>, True))"

definition fake_read :: "fake_bus bus_read" where
  "fake_read b reg =
     (if fail_all b then (b, None)
      else (case fb_reads b reg of
              [] \<Rightarrow> (b, Some 0)
            | v # vs \<Rightarrow> (b\<lparr>fb_reads := (fb_reads b)(reg := vs)\<rparr>, Some v)))"

section \<open>Decoding: the key numbering\<close>

text \<open>The byte the chip reports for a matrix key: bit 7 the press, below it the key number.\<close>

definition encode_key :: "key_event \<Rightarrow> u8" where
  "encode_key ev = (ke_row ev * TCA_COLS + ke_col ev + 1) OR (if ke_pressed ev then 0x80 else 0)"

definition on_matrix :: "key_event \<Rightarrow> bool" where
  "on_matrix ev \<longleftrightarrow> ke_row ev < TCA_ROWS \<and> ke_col ev < TCA_COLS"

lemma and_7F: "unat (x AND 0x7F) = unat x mod 128" for x :: u8
proof -
  have "x AND 0x7F = take_bit 7 x"
    by (simp add: take_bit_eq_mask mask_eq_exp_minus_1)
  then show ?thesis by (simp add: unat_mod take_bit_eq_mod)
qed

lemma and_80: "(x AND 0x80 \<noteq> 0) \<longleftrightarrow> 128 \<le> unat x" for x :: u8
proof -
  have "(x AND 0x80 \<noteq> 0) = bit x 7"
    using and_exp_eq_0_iff_not_bit[of x 7] by simp
  also have "\<dots> = bit (unat x) 7"
    by (simp add: bit_unsigned_iff)
  also have "\<dots> = odd (unat x div 128)"
    by (simp add: bit_iff_odd)
  also have "unat x div 128 = (if 128 \<le> unat x then 1 else 0)"
    using unat_u8_lt[of x] by (auto intro: div_nat_eqI)
  also have "odd (if 128 \<le> unat x then 1 else 0 :: nat) = (128 \<le> unat x)"
    by simp
  finally show ?thesis .
qed

lemma unat_div_u8: "unat (a div b) = unat a div unat b" for a b :: u8
  by (rule unat_div)

lemma decode_unat:
  "decode raw = (let k = unat raw mod 128 in
     if 1 \<le> k \<and> k \<le> 80
     then Some \<lparr>ke_row = of_nat ((k - 1) div 10), ke_col = of_nat ((k - 1) mod 10),
                ke_pressed = (128 \<le> unat raw)\<rparr>
     else None)"
proof -
  let ?k = "raw AND 0x7F"
  have k: "unat ?k = unat raw mod 128" by (rule and_7F)
  have zero: "(?k = 0) = (unat raw mod 128 = 0)"
    using k by (metis unat_eq_zero)
  have gpi: "(TCA_GPI_FIRST \<le> ?k) = (97 \<le> unat raw mod 128)"
    and past: "(TCA_ROWS * TCA_COLS < ?k) = (80 < unat raw mod 128)"
    by (simp_all add: word_le_nat_alt word_less_nat_alt k tca_geometry)
  have sub: "?k - 1 = of_nat (unat raw mod 128 - 1)" if "?k \<noteq> 0"
  proof -
    have "unat (?k - 1) = unat raw mod 128 - 1"
      using unat_minus_one[OF that] k by simp
    moreover have "unat (of_nat (unat raw mod 128 - 1) :: u8) = unat raw mod 128 - 1"
      by (rule unat_of_nat_u8) (use unat_u8_lt[of raw] in linarith)
    ultimately show ?thesis by (simp only: word_unat_eq_iff)
  qed
  have small: "unat raw mod 128 - 1 < 256"
    using unat_u8_lt[of raw] by (meson less_imp_diff_less mod_less_eq_dividend order.strict_trans1)
  have "(of_nat n :: u8) div 10 = of_nat (n div 10)" "(of_nat n :: u8) mod 10 = of_nat (n mod 10)"
    if "n < 256" for n
    using that by (simp_all add: word_unat_eq_iff unat_div unat_mod unat_of_nat)
  note dm = this[OF small]
  show ?thesis
    unfolding decode_def Let_def and_80 gpi past zero
    using zero sub dm by (auto simp: TCA_COLS_def)
qed

lemma or_80: "unat x < 128 \<Longrightarrow> x OR 0x80 = x + 0x80" for x :: u8
proof -
  assume "unat x < 128"
  then have "\<not> bit x 7"
    using and_80[of x] and_exp_eq_0_iff_not_bit[of x 7] by auto
  moreover have "bit (0x80 :: u8) n \<longleftrightarrow> n = 7" for n
    using bit_exp_iff[of 7 n, where ?'a = u8] by (auto dest: bit_imp_le_length)
  ultimately show ?thesis
    using disjunctive_add[of x "0x80"] by metis
qed

lemma unat_encode:
  assumes "on_matrix ev"
  shows "unat (encode_key ev) = unat (ke_row ev) * 10 + unat (ke_col ev) + 1
    + (if ke_pressed ev then 128 else 0)"
proof -
  let ?r = "unat (ke_row ev)" and ?c = "unat (ke_col ev)"
  have rc: "?r < 8" "?c < 10"
    using assms by (simp_all add: on_matrix_def tca_geometry word_less_nat_alt)
  let ?n = "?r * 10 + ?c + 1"
  have n: "ke_row ev * TCA_COLS + ke_col ev + 1 = of_nat ?n"
    by (simp add: TCA_COLS_def)
  have un: "unat (of_nat ?n :: u8) = ?n"
    by (rule unat_of_nat_u8) (use rc in simp)
  have "(of_nat ?n :: u8) OR 0x80 = of_nat ?n + 0x80"
    by (rule or_80) (use un rc in linarith)
  moreover have "unat (of_nat ?n + 0x80 :: u8) = ?n + 128"
    using un rc by (subst unat_word_ariths) (simp del: of_nat_add of_nat_mult)
  ultimately show ?thesis
    unfolding encode_key_def n using un by (simp del: of_nat_add of_nat_mult)
qed

lemma decode_encode:
  assumes "on_matrix ev"
  shows "decode (encode_key ev) = Some ev"
proof -
  let ?r = "unat (ke_row ev)" and ?c = "unat (ke_col ev)"
  have rc: "?r < 8" "?c < 10"
    using assms by (simp_all add: on_matrix_def tca_geometry word_less_nat_alt)
  have k: "unat (encode_key ev) mod 128 = ?r * 10 + ?c + 1"
    and p: "(128 \<le> unat (encode_key ev)) = ke_pressed ev"
    unfolding unat_encode[OF assms] using rc by (auto simp: mod_if)
  have div: "(?r * 10 + ?c) div 10 = ?r" "(?r * 10 + ?c) mod 10 = ?c"
    using rc by simp_all
  have "of_nat ?r = ke_row ev" "of_nat ?c = ke_col ev"
    by simp_all
  then show ?thesis
    unfolding decode_unat Let_def k p using rc div by simp
qed

lemma decode_on_matrix:
  assumes "decode raw = Some ev"
  shows "on_matrix ev \<and> encode_key ev = raw"
proof -
  let ?k = "unat raw mod 128"
  have k: "1 \<le> ?k" "?k \<le> 80"
    and ev: "ev = \<lparr>ke_row = of_nat ((?k - 1) div 10), ke_col = of_nat ((?k - 1) mod 10),
                ke_pressed = (128 \<le> unat raw)\<rparr>"
    using assms unfolding decode_unat Let_def by (auto split: if_splits)
  have r: "unat (ke_row ev) = (?k - 1) div 10" and c: "unat (ke_col ev) = (?k - 1) mod 10"
    unfolding ev using k by (simp_all add: unat_of_nat)
  have on: "on_matrix ev"
    using k r c by (simp add: on_matrix_def tca_geometry word_less_nat_alt) linarith
  have "unat raw < 256" by (rule unat_u8_lt)
  then have raw: "?k + (if 128 \<le> unat raw then 128 else 0) = unat raw"
    using div_mult_mod_eq[of "unat raw" 128] div_nat_eqI[of 128 1 "unat raw"]
    by (cases "128 \<le> unat raw") simp_all
  have key: "(?k - 1) div 10 * 10 + (?k - 1) mod 10 + 1 = ?k"
    using k(1) div_mult_mod_eq[of "?k - 1" 10] by linarith
  have pressed: "ke_pressed ev = (128 \<le> unat raw)"
    by (simp add: ev)
  have "unat (encode_key ev) = unat raw"
    unfolding unat_encode[OF on] r c key pressed by (rule raw)
  then show ?thesis using on by (simp only: word_unat_eq_iff)
qed

section \<open>What a client relies on: the bus as an interface\<close>

text \<open>
  A working bus has a FIFO behind \<open>TCA_KEY_EVENT_A\<close>: a read of that register takes its
  head (or gives 0 when it is empty); reads of other registers and all writes succeed and
  leave the FIFO alone.
\<close>

locale tca_bus =
  fixes rd :: "'b bus_read" and wr :: "'b bus_write"
    and fifo :: "'b \<Rightarrow> bytes" and live :: "'b \<Rightarrow> bool"
  assumes read_event: "live b \<Longrightarrow> \<exists>b'. rd b TCA_KEY_EVENT_A =
      (b', Some (case fifo b of [] \<Rightarrow> 0 | x # _ \<Rightarrow> x)) \<and> fifo b' = tl (fifo b) \<and> live b'"
    and read_other: "live b \<Longrightarrow> reg \<noteq> TCA_KEY_EVENT_A \<Longrightarrow>
      \<exists>b' v. rd b reg = (b', Some v) \<and> fifo b' = fifo b \<and> live b'"
    and write_ok: "live b \<Longrightarrow> \<exists>b'. wr b reg v = (b', True) \<and> fifo b' = fifo b \<and> live b'"
begin

text \<open>
  The drain loop neither loses, duplicates nor reorders a matrix event: what was in the
  FIFO is what it returned followed by what it left.
\<close>

lemma drain_conserves:
  assumes "live b"
  obtains b' new where "drain rd n room out b = (b', out @ new)"
    "List.map_filter decode (fifo b) = new @ List.map_filter decode (fifo b')"
    "length (out @ new) \<le> max (length out) room" "live b'"
  using assms
proof (induction n arbitrary: b out thesis)
  case 0
  show ?case by (rule "0.prems"(1)[of b "[]"]) (use "0.prems" in simp_all)
next
  case (Suc n)
  show ?case
  proof (cases "length out < room")
    case False
    then show ?thesis by (intro Suc.prems(1)[of b "[]"]) (use Suc.prems in simp_all)
  next
    case room: True
    obtain b1 where b1: "rd b TCA_KEY_EVENT_A =
        (b1, Some (case fifo b of [] \<Rightarrow> 0 | x # _ \<Rightarrow> x))" "fifo b1 = tl (fifo b)" "live b1"
      using read_event[OF Suc.prems(2)] by auto
    have d0: "decode 0 = None" by (simp add: decode_def)
    show ?thesis
    proof (cases "fifo b = [] \<or> hd (fifo b) = 0")
      case True
      then have "List.map_filter decode (fifo b) = List.map_filter decode (fifo b1)"
        using b1(2) d0 by (cases "fifo b") (auto simp: map_filter_simps)
      then show ?thesis
        using True room b1 by (intro Suc.prems(1)[of b1 "[]"]) (auto split: list.splits)
    next
      case False
      then obtain x xs where x: "fifo b = x # xs" "x \<noteq> 0" by (cases "fifo b") auto
      let ?new = "case decode x of Some ev \<Rightarrow> [ev] | None \<Rightarrow> []"
      obtain b2 new where r: "drain rd n room (out @ ?new) b1 = (b2, (out @ ?new) @ new)"
        "List.map_filter decode (fifo b1) = new @ List.map_filter decode (fifo b2)"
        "length ((out @ ?new) @ new) \<le> max (length (out @ ?new)) room" "live b2"
        using Suc.IH[OF _ b1(3), of "out @ ?new"] by blast
      have "drain rd (Suc n) room out b = (b2, out @ (?new @ new))"
        using room b1(1) x r(1) by (cases "decode x") simp_all
      moreover have "List.map_filter decode (fifo b) = (?new @ new) @ List.map_filter decode (fifo b2)"
        using b1(2) x r(2) by (simp add: map_filter_simps split: option.splits)
      moreover have "length (out @ (?new @ new)) \<le> max (length out) room"
        using r(3) room by (auto split: option.splits)
      ultimately show ?thesis using r(4) by (rule Suc.prems(1))
    qed
  qed
qed

text \<open>With room for every event and a count that covers the FIFO, the FIFO is emptied.\<close>

lemma drain_empties:
  assumes "live b" and "length (fifo b) \<le> n" and "length out + length (fifo b) \<le> room"
    and "0 \<notin> set (fifo b)"
  shows "fifo (fst (drain rd n room out b)) = []"
  using assms
proof (induction n arbitrary: b out)
  case 0
  then show ?case by simp
next
  case (Suc n)
  obtain b1 where b1: "rd b TCA_KEY_EVENT_A =
      (b1, Some (case fifo b of [] \<Rightarrow> 0 | x # _ \<Rightarrow> x))" "fifo b1 = tl (fifo b)" "live b1"
    using read_event[OF Suc.prems(1)] by auto
  show ?case
  proof (cases "fifo b")
    case Nil
    then show ?thesis using b1 by auto
  next
    case (Cons x xs)
    then have "fifo (fst (drain rd n room
        (case decode x of Some ev \<Rightarrow> out @ [ev] | None \<Rightarrow> out) b1)) = []"
      using Suc.prems b1 by (intro Suc.IH) (auto split: option.splits)
    then show ?thesis using Cons Suc.prems b1(1) by auto
  qed
qed

lemma write_fifo: "live b \<Longrightarrow> fifo (fst (wr b reg v)) = fifo b \<and> live (fst (wr b reg v))"
  using write_ok[of b reg v] by auto

text \<open>The same for a whole \<open>poll\<close>, whatever the status register says.\<close>

lemma poll_conserves:
  assumes "live b" and "poll rd wr (Some room) ovf b = (b', ovf', evs)"
  shows "List.map_filter decode (fifo b) = evs @ List.map_filter decode (fifo b')
    \<and> length evs \<le> room \<and> live b'"
proof (cases "room = 0")
  case True
  then show ?thesis using assms by (simp add: poll_def)
next
  case False
  obtain b1 stat where s: "rd b TCA_INT_STAT = (b1, Some stat)" "fifo b1 = fifo b" "live b1"
    using read_other[OF assms(1), of TCA_INT_STAT] by (auto simp: tca_regs)
  obtain b2 ec where e: "rd b1 TCA_KEY_LCK_EC = (b2, Some ec)" "fifo b2 = fifo b" "live b2"
    using read_other[OF s(3), of TCA_KEY_LCK_EC] s(2) by (auto simp: tca_regs)
  obtain b3 new where d: "drain rd (unat (ec AND 0x0F)) room [] b2 = (b3, [] @ new)"
    "List.map_filter decode (fifo b2) = new @ List.map_filter decode (fifo b3)"
    "length new \<le> room" "live b3"
    by (rule drain_conserves[OF e(3), where n = "unat (ec AND 0x0F)" and room = room and out = "[]"])
      (rule that; simp)
  show ?thesis
    using assms(2) s e d False write_fifo[OF s(3)] write_fifo[OF d(4)]
    by (auto simp: poll_def Let_def map_filter_simps split: if_splits)
qed

end

interpretation scripted: tca_bus fake_read fake_write
  "\<lambda>b. fb_reads b TCA_KEY_EVENT_A" "\<lambda>b. \<not> fail_all b"
  by unfold_locales (auto simp: fake_read_def fake_write_def split: list.splits)

section \<open>Configuration: exactly the rectangle\<close>

lemma bit_ucast_mask:
  "bit (ucast (2 ^ n - (1 :: u32)) :: u8) i \<longleftrightarrow> i < n \<and> i < 8" if "n \<le> 10"
proof -
  have "2 ^ n - (1 :: u32) = mask n"
    by (simp add: mask_eq_exp_minus_1)
  then show ?thesis
    using that by (auto simp: bit_ucast_iff bit_mask_iff)
qed

lemma bit_row_mask: "rows \<le> TCA_ROWS \<Longrightarrow> bit (row_mask rows) r \<longleftrightarrow> r < unat rows"
  by (auto simp: row_mask_def bit_ucast_mask tca_geometry word_le_nat_alt)

lemma bit_col_masks:
  assumes "cols \<le> TCA_COLS"
  shows "bit (col_mask1 cols) c \<longleftrightarrow> c < 8 \<and> c < unat cols"
    and "bit (col_mask2 cols) c \<longleftrightarrow> c + 8 < unat cols"
proof -
  have le: "unat cols \<le> 10"
    using assms by (simp add: tca_geometry word_le_nat_alt)
  have full: "bit (0xFF :: u8) c \<longleftrightarrow> c < 8"
    using bit_mask_iff[of 8 c, where ?'a = u8] by (simp add: mask_eq_exp_minus_1)
  show "bit (col_mask1 cols) c \<longleftrightarrow> c < 8 \<and> c < unat cols"
    using le full by (auto simp: col_mask1_def bit_ucast_mask word_le_nat_alt)
  have "unat (cols - 8) = unat cols - 8" if "8 < cols"
    using that by (simp add: unat_sub word_less_nat_alt word_le_nat_alt)
  then show "bit (col_mask2 cols) c \<longleftrightarrow> c + 8 < unat cols"
    using le by (auto simp: col_mask2_def bit_ucast_mask word_less_nat_alt)
qed

text \<open>The last value the test bus saw written to a register (\<open>FakeBus::wrote\<close>).\<close>

definition wrote :: "fake_bus \<Rightarrow> u8 \<Rightarrow> u8 option" where
  "wrote b reg = map_option snd (find (\<lambda>w. fst w = reg) (rev (fb_writes b)))"

lemma find_append: "find p (xs @ ys) = (case find p xs of Some x \<Rightarrow> Some x | None \<Rightarrow> find p ys)"
  by (induction xs) auto

section \<open>Properties\<close>

text \<open>C39: \<open>decode\<close> accepts exactly the 160 bytes that number a press or a release of a key of
  the 8 x 10 matrix, and gives back that key: it is the inverse of the chip's numbering
  (row times ten, plus column, plus one, with bit 7 the press). GPI events, the empty
  marker and numbers past the table are rejected.\<close>

theorem decode_iff_encode: "decode raw = Some ev \<longleftrightarrow> on_matrix ev \<and> encode_key ev = raw"
  using decode_encode[of ev] decode_on_matrix[of raw ev] by auto

text \<open>C19: draining the FIFO loses nothing. On a working bus, the matrix events in the FIFO
  before \<open>poll\<close> are, in order, the events it returned followed by those still in the FIFO;
  it never returns more than \<open>max\<close>, and an overflow the chip reports is never cleared.\<close>

theorem poll_loses_no_event:
  assumes "\<not> fail_all b"
  shows "let (b', ovf', evs) = poll fake_read fake_write (Some room) ovf b in
     List.map_filter decode (fb_reads b TCA_KEY_EVENT_A)
       = evs @ List.map_filter decode (fb_reads b' TCA_KEY_EVENT_A)
     \<and> length evs \<le> room
     \<and> (ovf' \<longleftrightarrow> ovf \<or> (0 < room
          \<and> (case fb_reads b TCA_INT_STAT of [] \<Rightarrow> False | st # _ \<Rightarrow> bit st 3)))"
proof -
  obtain b' ovf' evs where p: "poll fake_read fake_write (Some room) ovf b = (b', ovf', evs)"
    by (cases "poll fake_read fake_write (Some room) ovf b") auto
  have bit3: "(st AND TCA_INT_OVR_FLOW \<noteq> 0) = bit st 3" for st :: u8
    using and_exp_eq_0_iff_not_bit[of st 3] by (simp add: TCA_INT_OVR_FLOW_def)
  have "ovf' \<longleftrightarrow> ovf \<or> (0 < room
      \<and> (case fb_reads b TCA_INT_STAT of [] \<Rightarrow> False | st # _ \<Rightarrow> bit st 3))"
    using p assms
    by (auto simp: poll_def Let_def fake_read_def bit3 split: if_splits list.splits prod.splits
        option.splits)
  then show ?thesis
    using scripted.poll_conserves[OF assms p] p by simp
qed

definition two_keys :: fake_bus where
  "two_keys = \<lparr>fb_reads = (\<lambda>_. [])(TCA_INT_STAT := [0x09], TCA_KEY_LCK_EC := [0x02],
     TCA_KEY_EVENT_A := [0x81, 0x17]), fb_writes = [], fail_all = False\<rparr>"

theorem poll_loses_no_event_witness:
  "let (b', ovf', evs) = poll fake_read fake_write (Some 1) False two_keys in
     List.map_filter decode (fb_reads two_keys TCA_KEY_EVENT_A)
       = evs @ List.map_filter decode (fb_reads b' TCA_KEY_EVENT_A)
     \<and> length evs \<le> 1
     \<and> (ovf' \<longleftrightarrow> False \<or> ((0::nat) < 1
          \<and> (case fb_reads two_keys TCA_INT_STAT of [] \<Rightarrow> False | st # _ \<Rightarrow> bit st 3)))"
  by (rule poll_loses_no_event) (simp add: two_keys_def)

text \<open>When the chip asserts the key interrupt with a count that covers its FIFO and the
  caller has room, one \<open>poll\<close> returns every matrix event, leaves the FIFO empty and
  acknowledges the status bits it read.\<close>

theorem poll_drains_fifo:
  assumes "\<not> fail_all b" and "fb_reads b TCA_INT_STAT = st # sts" and "bit st 0"
    and "fb_reads b TCA_KEY_LCK_EC = ec # ecs"
    and "length (fb_reads b TCA_KEY_EVENT_A) \<le> unat (ec AND 0x0F)"
    and "0 \<notin> set (fb_reads b TCA_KEY_EVENT_A)"
    and "length (fb_reads b TCA_KEY_EVENT_A) \<le> room" and "0 < room"
  shows "let (b', _, evs) = poll fake_read fake_write (Some room) ovf b in
     evs = List.map_filter decode (fb_reads b TCA_KEY_EVENT_A)
     \<and> fb_reads b' TCA_KEY_EVENT_A = [] \<and> wrote b' TCA_INT_STAT = Some st"
proof -
  let ?b1 = "b\<lparr>fb_reads := (fb_reads b)(TCA_INT_STAT := sts)\<rparr>"
  let ?b2 = "?b1\<lparr>fb_reads := (fb_reads ?b1)(TCA_KEY_LCK_EC := ecs)\<rparr>"
  obtain b3 new where d: "drain fake_read (unat (ec AND 0x0F)) room [] ?b2 = (b3, new)"
    by (cases "drain fake_read (unat (ec AND 0x0F)) room [] ?b2") auto
  obtain b' ovf' evs where p: "poll fake_read fake_write (Some room) ovf b = (b', ovf', evs)"
    by (cases "poll fake_read fake_write (Some room) ovf b") auto
  have live2: "\<not> fail_all ?b2" and ev2: "fb_reads ?b2 TCA_KEY_EVENT_A = fb_reads b TCA_KEY_EVENT_A"
    using assms(1) by (simp_all add: tca_regs)
  have empty: "fb_reads b3 TCA_KEY_EVENT_A = []"
    using scripted.drain_empties[OF live2, where n = "unat (ec AND 0x0F)" and out = "[]"
        and room = room] assms(5,6,7) ev2 d
    by simp
  have live3: "\<not> fail_all b3"
    by (rule scripted.drain_conserves[OF live2, where n = "unat (ec AND 0x0F)" and room = room
          and out = "[]"]) (use d in simp)
  have k: "st AND TCA_INT_K \<noteq> 0" "st \<noteq> 0"
    using assms(3) and_exp_eq_0_iff_not_bit[of st 0] by (auto simp: TCA_INT_K_def)
  have b': "b' = fst (fake_write b3 TCA_INT_STAT st)"
    using p k d assms(1,2,4,8)
    by (simp add: poll_def Let_def fake_read_def tca_regs)
  then have "fb_reads b' TCA_KEY_EVENT_A = []" "wrote b' TCA_INT_STAT = Some st"
    using empty live3 by (simp_all add: fake_write_def wrote_def)
  then show ?thesis
    using scripted.poll_conserves[OF assms(1) p] p by (simp add: map_filter_simps)
qed

theorem poll_drains_fifo_witness:
  "let (b', _, evs) = poll fake_read fake_write (Some 10) False two_keys in
     evs = List.map_filter decode (fb_reads two_keys TCA_KEY_EVENT_A)
     \<and> fb_reads b' TCA_KEY_EVENT_A = [] \<and> wrote b' TCA_INT_STAT = Some 0x09"
  by (rule poll_drains_fifo[where sts = "[]" and ec = "0x02" and ecs = "[]"])
    (simp_all add: two_keys_def tca_regs)

text \<open>C7: \<open>begin\<close> on a working bus succeeds exactly for a rectangle that fits the part, and
  then it has claimed for the matrix exactly the row pins below \<open>rows\<close> and the column pins
  below \<open>cols\<close>, and enabled overflow reporting with both bits the errata asks for.\<close>

theorem begin_claims_the_rectangle:
  assumes "\<not> fail_all b"
  shows "let (b', ok) = tca_begin fake_read fake_write rows cols b in
    (ok \<longleftrightarrow> 0 < rows \<and> rows \<le> TCA_ROWS \<and> 0 < cols \<and> cols \<le> TCA_COLS)
    \<and> (\<not> ok \<or> (\<exists>m r1 r2. wrote b' TCA_KP_GPIO1 = Some m \<and> wrote b' TCA_KP_GPIO2 = Some r1
         \<and> wrote b' TCA_KP_GPIO3 = Some r2 \<and> wrote b' TCA_CFG = Some 0x29
         \<and> (\<forall>r. bit m r \<longleftrightarrow> r < unat rows)
         \<and> (\<forall>c. (if c < 8 then bit r1 c else bit r2 (c - 8)) \<longleftrightarrow> c < unat cols)))"
proof (cases "rows = 0 \<or> TCA_ROWS < rows \<or> cols = 0 \<or> TCA_COLS < cols")
  case True
  then show ?thesis by (auto simp: tca_begin_def word_gt_0)
next
  case False
  let ?b' = "fst (tca_begin fake_read fake_write rows cols b)"
  have ok: "snd (tca_begin fake_read fake_write rows cols b)"
    and w: "wrote ?b' TCA_KP_GPIO1 = Some (row_mask rows)"
      "wrote ?b' TCA_KP_GPIO2 = Some (col_mask1 cols)"
      "wrote ?b' TCA_KP_GPIO3 = Some (col_mask2 cols)" "wrote ?b' TCA_CFG = Some 0x29"
    using False assms
    by (auto simp: tca_begin_def fake_write_def fake_read_def wrote_def tca_regs tca_bits
        split: list.splits)
  have "\<forall>r. bit (row_mask rows) r \<longleftrightarrow> r < unat rows"
    using False by (simp add: bit_row_mask not_less)
  moreover have "\<forall>c. (if c < 8 then bit (col_mask1 cols) c else bit (col_mask2 cols) (c - 8))
      \<longleftrightarrow> c < unat cols"
    using False by (simp add: bit_col_masks not_less) 
  ultimately show ?thesis
    using False ok w by (auto simp: case_prod_beta word_gt_0 not_less)
qed

theorem begin_claims_the_rectangle_witness:
  "let (b', ok) = tca_begin fake_read fake_write 5 9 two_keys in
    (ok \<longleftrightarrow> 0 < (5::u8) \<and> 5 \<le> TCA_ROWS \<and> 0 < (9::u8) \<and> 9 \<le> TCA_COLS)
    \<and> (\<not> ok \<or> (\<exists>m r1 r2. wrote b' TCA_KP_GPIO1 = Some m \<and> wrote b' TCA_KP_GPIO2 = Some r1
         \<and> wrote b' TCA_KP_GPIO3 = Some r2 \<and> wrote b' TCA_CFG = Some 0x29
         \<and> (\<forall>r. bit m r \<longleftrightarrow> r < unat (5::u8))
         \<and> (\<forall>c. (if c < 8 then bit r1 c else bit r2 (c - 8)) \<longleftrightarrow> c < unat (9::u8))))"
  by (rule begin_claims_the_rectangle) (simp add: two_keys_def)

end
