(* ===== verification/TableSearch.thy ===== *)
theory TableSearch
  imports Prelude
begin

text \<open>
  The binary search over a codepoint-sorted glyph table, which \<open>SharpLcd.cpp\<close> writes out once
  per table (\<open>glyph_for\<close> twice, \<open>big_glyph\<close>, three times in \<open>bold_glyph\<close>), over a table and the
  key of an entry. The locale states the one law the tables promise and proves that the
  search is exact under it; it is interpreted on the shipped tables in \<open>Glyphs\<close>.
\<close>

section \<open>The loop\<close>

lemma search_mid:
  fixes lo hi :: u16
  assumes "unat lo < unat hi"
  defines "mid \<equiv> (of_nat ((unat lo + unat hi) div 2) :: u16)"
  shows "unat mid = (unat lo + unat hi) div 2" "unat lo \<le> unat mid" "unat mid < unat hi"
    "unat (mid + 1) = unat mid + 1"
proof -
  have lt: "(unat lo + unat hi) div 2 < unat hi" using assms(1) by linarith
  then have "(unat lo + unat hi) div 2 < 65536" using unat_u16_lt[of hi] by linarith
  then show m: "unat mid = (unat lo + unat hi) div 2"
    unfolding mid_def by (rule unat_of_nat_u16)
  show "unat lo \<le> unat mid" "unat mid < unat hi" using m lt assms(1) by linarith+
  then have "unat mid + 1 < 65536"
    using unat_u16_lt[of hi] by linarith
  then show "unat (mid + 1) = unat mid + 1"
    using unat_add_small[of mid 1] by (simp only: of_nat_1)
qed

function search_loop :: "('e \<Rightarrow> nat) \<Rightarrow> 'e list \<Rightarrow> nat \<Rightarrow> u16 \<Rightarrow> u16 \<Rightarrow> 'e option" where
  "search_loop key table cp lo hi =
     (if unat lo < unat hi
      then (let mid = of_nat ((unat lo + unat hi) div 2) in
            if key (table ! unat mid) = cp then Some (table ! unat mid)
            else if key (table ! unat mid) < cp then search_loop key table cp (mid + 1) hi
            else search_loop key table cp lo mid)
      else None)"
  by pat_completeness auto

termination
  by (relation "measure (\<lambda>(key, table, cp, lo, hi). unat hi - unat lo)")
    (use search_mid in \<open>auto simp: Let_def simp del: of_nat_add\<close>)

declare search_loop.simps [simp del]

definition search_table :: "('e \<Rightarrow> nat) \<Rightarrow> 'e list \<Rightarrow> nat \<Rightarrow> nat \<Rightarrow> 'e option" where
  "search_table key table count cp = search_loop key table cp 0 (of_nat count)"

section \<open>Exactness over a sorted table\<close>

locale sorted_table =
  fixes key :: "'e \<Rightarrow> nat" and table :: "'e list"
  assumes keys_ascend: "sorted_wrt (<) (map key table)"
    and fits_u16: "length table < 65536"
begin

lemma key_mono: "i < j \<Longrightarrow> j < length table \<Longrightarrow> key (table ! i) < key (table ! j)"
  using keys_ascend by (simp add: sorted_wrt_iff_nth_less)

lemma key_inj: "i < length table \<Longrightarrow> j < length table \<Longrightarrow> key (table ! i) = key (table ! j) \<Longrightarrow> i = j"
  using key_mono[of i j] key_mono[of j i] by (cases i j rule: linorder_cases) auto

lemma search_loop_Some:
  "search_loop key table cp lo hi = Some e \<Longrightarrow> unat hi \<le> length table \<Longrightarrow>
     e \<in> set table \<and> key e = cp"
proof (induction "unat hi - unat lo" arbitrary: lo hi rule: less_induct)
  case less
  let ?mid = "of_nat ((unat lo + unat hi) div 2) :: u16"
  show ?case
  proof (cases "unat lo < unat hi")
    case True
    note m = search_mid[OF True]
    have mem: "table ! unat ?mid \<in> set table"
      using m less.prems by (intro nth_mem) linarith
    have step: "Some e = (if key (table ! unat ?mid) = cp then Some (table ! unat ?mid)
       else if key (table ! unat ?mid) < cp then search_loop key table cp (?mid + 1) hi
       else search_loop key table cp lo ?mid)"
      using less.prems(1) True by (subst (asm) search_loop.simps) (simp add: Let_def)
    show ?thesis
    proof (cases "key (table ! unat ?mid)" cp rule: linorder_cases)
      case less': less
      then have "search_loop key table cp (?mid + 1) hi = Some e" using step by simp
      then show ?thesis
        using less.prems(2) m True by (intro less.hyps[of hi "?mid + 1"]) linarith+
    next
      case equal
      then show ?thesis using step mem by auto
    next
      case greater
      then have "search_loop key table cp lo ?mid = Some e" using step by simp
      then show ?thesis
        using less.prems(2) m True by (intro less.hyps[of ?mid lo]) linarith+
    qed
  next
    case False
    then show ?thesis using less.prems(1) by (subst (asm) search_loop.simps) simp
  qed
qed

lemma search_loop_finds:
  "k < length table \<Longrightarrow> unat lo \<le> k \<Longrightarrow> k < unat hi \<Longrightarrow> unat hi \<le> length table \<Longrightarrow>
     search_loop key table (key (table ! k)) lo hi = Some (table ! k)"
proof (induction "unat hi - unat lo" arbitrary: lo hi rule: less_induct)
  case less
  let ?mid = "of_nat ((unat lo + unat hi) div 2) :: u16"
  have lt: "unat lo < unat hi" using less.prems by linarith
  note m = search_mid[OF lt]
  have step: "search_loop key table (key (table ! k)) lo hi =
      (if key (table ! unat ?mid) = key (table ! k) then Some (table ! unat ?mid)
       else if key (table ! unat ?mid) < key (table ! k)
         then search_loop key table (key (table ! k)) (?mid + 1) hi
       else search_loop key table (key (table ! k)) lo ?mid)"
    using lt by (subst search_loop.simps) (simp add: Let_def)
  show ?case
  proof (cases "unat ?mid" k rule: linorder_cases)
    case equal
    then show ?thesis using step by simp
  next
    case less': less
    then have "key (table ! unat ?mid) < key (table ! k)"
      using less.prems by (intro key_mono)
    moreover have "search_loop key table (key (table ! k)) (?mid + 1) hi = Some (table ! k)"
      using less.prems less' m by (intro less.hyps) linarith+
    ultimately show ?thesis using step by simp
  next
    case greater
    then have "key (table ! k) < key (table ! unat ?mid)"
      using m less.prems by (intro key_mono) linarith+
    moreover have "search_loop key table (key (table ! k)) lo ?mid = Some (table ! k)"
      using less.prems greater m by (intro less.hyps) linarith+
    ultimately show ?thesis using step by simp
  qed
qed

lemma search_iff:
  "search_table key table (length table) cp = Some e \<longleftrightarrow> e \<in> set table \<and> key e = cp"
proof
  have hi: "unat (of_nat (length table) :: u16) = length table"
    by (rule unat_of_nat_u16) (rule fits_u16)
  show "e \<in> set table \<and> key e = cp" if "search_table key table (length table) cp = Some e"
    using that hi by (auto simp: search_table_def dest: search_loop_Some)
  show "search_table key table (length table) cp = Some e" if e: "e \<in> set table \<and> key e = cp"
  proof -
    obtain k where "k < length table" "table ! k = e"
      using e unfolding in_set_conv_nth by blast
    then show ?thesis
      using search_loop_finds[of k 0 "of_nat (length table)"] e hi
      by (simp add: search_table_def)
  qed
qed

lemma search_None:
  "search_table key table (length table) cp = None \<longleftrightarrow> cp \<notin> key ` set table"
proof (cases "search_table key table (length table) cp")
  case None
  then have "\<not> (e \<in> set table \<and> key e = cp)" for e using search_iff[of cp e] by simp
  then show ?thesis using None by auto
next
  case (Some e)
  then show ?thesis using search_iff[of cp e] by auto
qed

end

end
