(* ===== verification/SharpLcd.thy ===== *)
theory SharpLcd
  imports Prelude
begin

text \<open>
  The memory-LCD driver, \<open>lib/SharpLcd/src/SharpLcd.h\<close> and \<open>SharpLcd.cpp\<close>, without its
  text: the framebuffer and its dirty-line bitmap, the pixel and area primitives, and the
  wire transactions of \<open>flush\<close>, \<open>toggle_vcom\<close> and \<open>clear\<close>.

  The framebuffer and the dirty bitmap are memory supplied from outside: functions from a
  byte offset to a byte. \<open>fb_write_in_bounds\<close> shows that every byte the driver changes
  lies in the 12000 bytes the caller must provide.

  The three area loops with a \<open>uint16_t\<close> counter and an \<open>int\<close> bound do not stop when the
  bound exceeds 65535; they are partial functions, and \<open>None\<close> is a call that does not
  return.
\<close>

section \<open>Geometry and state\<close>

definition LCD_WIDTH :: nat where "LCD_WIDTH = 400"
definition LCD_HEIGHT :: nat where "LCD_HEIGHT = 240"
definition LCD_LINE_BYTES :: nat where "LCD_LINE_BYTES = LCD_WIDTH div 8"
definition LCD_FB_BYTES :: nat where "LCD_FB_BYTES = LCD_LINE_BYTES * LCD_HEIGHT"

definition LCD_M0_WRITE :: u8 where "LCD_M0_WRITE = 0x80"
definition LCD_M1_VCOM :: u8 where "LCD_M1_VCOM = 0x40"
definition LCD_M2_CLEAR :: u8 where "LCD_M2_CLEAR = 0x20"

lemmas lcd_geometry = LCD_WIDTH_def LCD_HEIGHT_def LCD_LINE_BYTES_def LCD_FB_BYTES_def
lemmas lcd_modes = LCD_M0_WRITE_def LCD_M1_VCOM_def LCD_M2_CLEAR_def

record sharp_lcd =
  lcd_fb :: "nat \<Rightarrow> u8"
  lcd_dirty :: "nat \<Rightarrow> u8"
  lcd_vcom :: bool

text \<open>The constructor: the caller's memory, no line dirty, VCOM low.\<close>

definition new_lcd :: "(nat \<Rightarrow> u8) \<Rightarrow> sharp_lcd" where
  "new_lcd mem = \<lparr>lcd_fb = mem, lcd_dirty = (\<lambda>_. 0), lcd_vcom = False\<rparr>"

text \<open>What the driver asks of its \<open>SharpLcdBus\<close>: chip select and bytes.\<close>

datatype bus_op = Select bool | Write bytes

section \<open>Pixels\<close>

definition reverse_bits :: "u8 \<Rightarrow> u8" where
  "reverse_bits v0 =
     (let v1 = drop_bit 4 (v0 AND 0xF0) OR push_bit 4 (v0 AND 0x0F);
          v2 = drop_bit 2 (v1 AND 0xCC) OR push_bit 2 (v1 AND 0x33);
          v3 = drop_bit 1 (v2 AND 0xAA) OR push_bit 1 (v2 AND 0x55)
      in v3)"

definition line_address :: "u16 \<Rightarrow> u8" where
  "line_address line_1based = reverse_bits (ucast line_1based)"

definition mark_dirty :: "u16 \<Rightarrow> sharp_lcd \<Rightarrow> sharp_lcd" where
  "mark_dirty y l =
     (let i = unat y div 8 in
      l\<lparr>lcd_dirty := (lcd_dirty l)(i := lcd_dirty l i OR push_bit (unat y mod 8) 1)\<rparr>)"

definition is_dirty :: "sharp_lcd \<Rightarrow> nat \<Rightarrow> bool" where
  "is_dirty l y = bit (lcd_dirty l (y div 8)) (y mod 8)"

definition dirty_lines :: "sharp_lcd \<Rightarrow> nat" where
  "dirty_lines l = length (filter (is_dirty l) [0..<LCD_HEIGHT])"

definition fill_white :: "sharp_lcd \<Rightarrow> sharp_lcd" where
  "fill_white l = l\<lparr>lcd_fb := (\<lambda>i. if i < LCD_FB_BYTES then 0xFF else lcd_fb l i),
                    lcd_dirty := (\<lambda>_. 0xFF)\<rparr>"

definition pixel_mask :: "u16 \<Rightarrow> u8" where
  "pixel_mask x = drop_bit (unat x mod 8) 0x80"

definition fb_index :: "u16 \<Rightarrow> u16 \<Rightarrow> nat" where
  "fb_index x y = unat y * LCD_LINE_BYTES + unat x div 8"

definition set_pixel :: "u16 \<Rightarrow> u16 \<Rightarrow> bool \<Rightarrow> sharp_lcd \<Rightarrow> sharp_lcd" where
  "set_pixel x y black l =
     (if LCD_WIDTH \<le> unat x \<or> LCD_HEIGHT \<le> unat y then l
      else
        (let i = fb_index x y; mask = pixel_mask x; before = lcd_fb l i;
             after = (if black then before AND NOT mask else before OR mask);
             l1 = l\<lparr>lcd_fb := (lcd_fb l)(i := after)\<rparr>
         in if after \<noteq> before then mark_dirty y l1 else l1))"

definition get_pixel :: "sharp_lcd \<Rightarrow> u16 \<Rightarrow> u16 \<Rightarrow> bool" where
  "get_pixel l x y =
     (if LCD_WIDTH \<le> unat x \<or> LCD_HEIGHT \<le> unat y then False
      else lcd_fb l (fb_index x y) AND pixel_mask x = 0)"

section \<open>Areas\<close>

partial_function (option) hline_loop ::
  "u16 \<Rightarrow> nat \<Rightarrow> u16 \<Rightarrow> bool \<Rightarrow> sharp_lcd \<Rightarrow> sharp_lcd option" where
  "hline_loop xx lim y black l =
     (if unat xx < lim then hline_loop (xx + 1) lim y black (set_pixel xx y black l) else Some l)"

definition draw_hline :: "u16 \<Rightarrow> u16 \<Rightarrow> u16 \<Rightarrow> bool \<Rightarrow> sharp_lcd \<Rightarrow> sharp_lcd option" where
  "draw_hline x y w black l = hline_loop x (unat x + unat w) y black l"

partial_function (option) rect_loop ::
  "u16 \<Rightarrow> nat \<Rightarrow> u16 \<times> u16 \<Rightarrow> bool \<Rightarrow> sharp_lcd \<Rightarrow> sharp_lcd option" where
  "rect_loop yy lim xw black l =
     (if unat yy < lim
      then (case hline_loop (fst xw) (unat (fst xw) + unat (snd xw)) yy black l of
              None \<Rightarrow> None
            | Some l1 \<Rightarrow> rect_loop (yy + 1) lim xw black l1)
      else Some l)"

definition fill_rect :: "u16 \<Rightarrow> u16 \<Rightarrow> u16 \<Rightarrow> u16 \<Rightarrow> bool \<Rightarrow> sharp_lcd \<Rightarrow> sharp_lcd option" where
  "fill_rect x y w h black l = rect_loop y (unat y + unat h) (x, w) black l"

definition BAYER4 :: "u8 list" where
  "BAYER4 = [8, 136, 40, 168, 200, 72, 232, 104, 56, 184, 24, 152, 248, 120, 216, 88]"

definition dither_on :: "u16 \<Rightarrow> u16 \<Rightarrow> u8 \<Rightarrow> bool" where
  "dither_on x y level \<longleftrightarrow> level \<le> BAYER4 ! (unat (y AND 3) * 4 + unat (x AND 3))"

text \<open>Both loops are bounded by the panel, so their counters cannot wrap.\<close>

definition fill_dither :: "u16 \<Rightarrow> u16 \<Rightarrow> u16 \<Rightarrow> u16 \<Rightarrow> u8 \<Rightarrow> sharp_lcd \<Rightarrow> sharp_lcd" where
  "fill_dither x y w h level l =
     (if 249 \<le> level then l
      else
        fold (\<lambda>yy. fold (\<lambda>xx l.
            if dither_on (of_nat xx) (of_nat yy) level
            then set_pixel (of_nat xx) (of_nat yy) True l else l)
          [unat x..<min (unat x + unat w) LCD_WIDTH])
        [unat y..<min (unat y + unat h) LCD_HEIGHT] l)"

section \<open>Wire transactions\<close>

definition fb_line :: "sharp_lcd \<Rightarrow> nat \<Rightarrow> bytes" where
  "fb_line l y = map (\<lambda>i. lcd_fb l (y * LCD_LINE_BYTES + i)) [0..<LCD_LINE_BYTES]"

definition line_ops :: "sharp_lcd \<Rightarrow> nat \<Rightarrow> bus_op list" where
  "line_ops l y = [Write [line_address (of_nat (y + 1))], Write (fb_line l y), Write [0]]"

definition flush_lcd :: "sharp_lcd \<Rightarrow> nat \<times> bus_op list \<times> sharp_lcd" where
  "flush_lcd l =
     (let n = dirty_lines l in
      if n = 0 then (0, [], l)
      else (n,
            [Select True, Write [if lcd_vcom l then LCD_M0_WRITE OR LCD_M1_VCOM else LCD_M0_WRITE]]
            @ concat (map (line_ops l) (filter (is_dirty l) [0..<LCD_HEIGHT]))
            @ [Write [0], Select False],
            l\<lparr>lcd_dirty := (\<lambda>_. 0)\<rparr>))"

definition toggle_vcom :: "sharp_lcd \<Rightarrow> bus_op list \<times> sharp_lcd" where
  "toggle_vcom l =
     (let v = \<not> lcd_vcom l in
      ([Select True, Write [if v then LCD_M1_VCOM else 0, 0], Select False], l\<lparr>lcd_vcom := v\<rparr>))"

definition clear_lcd :: "sharp_lcd \<Rightarrow> bus_op list \<times> sharp_lcd" where
  "clear_lcd l =
     ([Select True, Write [LCD_M2_CLEAR OR (if lcd_vcom l then LCD_M1_VCOM else 0), 0], Select False],
      l\<lparr>lcd_fb := (\<lambda>i. if i < LCD_FB_BYTES then 0xFF else lcd_fb l i), lcd_dirty := (\<lambda>_. 0)\<rparr>)"

section \<open>Lemmas: pixels\<close>

lemma fb_index_inj:
  assumes "unat x < LCD_WIDTH" "unat x' < LCD_WIDTH"
    and "fb_index x y = fb_index x' y'" and "unat x mod 8 = unat x' mod 8"
  shows "x = x' \<and> y = y'"
proof -
  have b: "unat x div 8 < 50" "unat x' div 8 < 50"
    using assms(1,2) by (auto simp: LCD_WIDTH_def)
  have e: "unat y * 50 + unat x div 8 = unat y' * 50 + unat x' div 8"
    using assms(3) by (simp add: fb_index_def lcd_geometry)
  have "unat y = (unat y * 50 + unat x div 8) div 50" "unat y' = (unat y' * 50 + unat x' div 8) div 50"
    using b by simp_all
  then have y: "unat y = unat y'" by (simp only: e)
  then have "unat x div 8 = unat x' div 8" using e by simp
  then have "unat x = unat x'"
    using assms(4) by (metis div_mult_mod_eq)
  then show ?thesis using y by (simp add: word_unat_eq_iff)
qed

lemma fb_index_bound: "unat x < LCD_WIDTH \<Longrightarrow> unat y < LCD_HEIGHT \<Longrightarrow> fb_index x y < LCD_FB_BYTES"
  by (simp add: fb_index_def lcd_geometry)

lemma pixel_mask_exp: "pixel_mask x = push_bit (7 - unat x mod 8) 1"
proof -
  have "unat x mod 8 < 8" by simp
  then have "unat x mod 8 \<in> {0,1,2,3,4,5,6,7}" by auto
  then show ?thesis by (auto simp: pixel_mask_def)
qed

lemma bit_pixel_mask: "bit (pixel_mask x) n \<longleftrightarrow> n = 7 - unat x mod 8"
  unfolding pixel_mask_exp by (auto simp: bit_simps)

lemma and_pixel_mask: "(b AND pixel_mask x = 0) \<longleftrightarrow> \<not> bit b (7 - unat x mod 8)"
  using and_exp_eq_0_iff_not_bit[of b "7 - unat x mod 8"]
  by (simp add: pixel_mask_exp push_bit_eq_mult)

lemma get_pixel_bit:
  "unat x < LCD_WIDTH \<Longrightarrow> unat y < LCD_HEIGHT \<Longrightarrow>
     get_pixel l x y \<longleftrightarrow> \<not> bit (lcd_fb l (fb_index x y)) (7 - unat x mod 8)"
  by (simp add: get_pixel_def and_pixel_mask not_le)

lemma set_pixel_fb:
  "lcd_fb (set_pixel x y black l) =
     (if LCD_WIDTH \<le> unat x \<or> LCD_HEIGHT \<le> unat y then lcd_fb l
      else (lcd_fb l)(fb_index x y := (if black then lcd_fb l (fb_index x y) AND NOT (pixel_mask x)
                                       else lcd_fb l (fb_index x y) OR pixel_mask x)))"
  by (simp add: set_pixel_def Let_def mark_dirty_def)

lemma get_set_pixel:
  assumes "unat x < LCD_WIDTH" "unat y < LCD_HEIGHT"
  shows "get_pixel (set_pixel x y black l) x' y' = (if x' = x \<and> y' = y then black else get_pixel l x' y')"
proof (cases "unat x' < LCD_WIDTH \<and> unat y' < LCD_HEIGHT")
  case False
  then show ?thesis using assms by (auto simp: get_pixel_def)
next
  case True
  show ?thesis
  proof (cases "fb_index x' y' = fb_index x y \<and> unat x' mod 8 = unat x mod 8")
    case eq: True
    then have "x' = x \<and> y' = y" using fb_index_inj True assms by blast
    then show ?thesis
      using assms True by (auto simp: get_pixel_bit set_pixel_fb bit_simps bit_pixel_mask)
  next
    case False
    then have "\<not> (x' = x \<and> y' = y)" by auto
    moreover have "bit (lcd_fb (set_pixel x y black l) (fb_index x' y')) (7 - unat x' mod 8)
        = bit (lcd_fb l (fb_index x' y')) (7 - unat x' mod 8)"
    proof (cases "fb_index x' y' = fb_index x y")
      case True
      then have "unat x' mod 8 \<noteq> unat x mod 8" using False by simp
      moreover have "unat x' mod 8 < 8" "unat x mod 8 < 8" by simp_all
      ultimately have "7 - unat x' mod 8 \<noteq> 7 - unat x mod 8" by linarith
      then show ?thesis
        using True assms by (auto simp: set_pixel_fb bit_simps bit_pixel_mask)
    qed (use assms in \<open>simp add: set_pixel_fb\<close>)
    ultimately show ?thesis using True by (auto simp: get_pixel_bit)
  qed
qed

lemma set_pixel_off_panel [simp]: "LCD_WIDTH \<le> unat x \<or> LCD_HEIGHT \<le> unat y \<Longrightarrow> set_pixel x y b l = l"
  by (simp add: set_pixel_def)

section \<open>Lemmas: dirty lines\<close>

lemma is_dirty_mark: "is_dirty (mark_dirty y l) y' \<longleftrightarrow> y' = unat y \<or> is_dirty l y'"
proof -
  have "y' mod 8 < 8" by simp
  moreover have "y' = unat y" if "y' div 8 = unat y div 8" "y' mod 8 = unat y mod 8"
    using that by (metis div_mult_mod_eq)
  ultimately show ?thesis
    by (auto simp: is_dirty_def mark_dirty_def Let_def bit_simps)
qed

lemma mark_dirty_frame [simp]: "lcd_fb (mark_dirty y l) = lcd_fb l" "lcd_vcom (mark_dirty y l) = lcd_vcom l"
  by (simp_all add: mark_dirty_def Let_def)

text \<open>
  What every drawing operation guarantees, whatever it draws: a line once dirty stays
  dirty until a flush, a changed byte lies inside the framebuffer and its line is dirty,
  and VCOM is left alone.
\<close>

definition tracks :: "sharp_lcd \<Rightarrow> sharp_lcd \<Rightarrow> bool" where
  "tracks l l' \<longleftrightarrow> (\<forall>y. is_dirty l y \<longrightarrow> is_dirty l' y)
     \<and> (\<forall>i. lcd_fb l' i \<noteq> lcd_fb l i \<longrightarrow> i < LCD_FB_BYTES \<and> is_dirty l' (i div LCD_LINE_BYTES))
     \<and> lcd_vcom l' = lcd_vcom l"

lemma tracks_refl [simp, intro]: "tracks l l"
  by (simp add: tracks_def)

lemma tracks_trans [trans]: "tracks l l' \<Longrightarrow> tracks l' l'' \<Longrightarrow> tracks l l''"
  unfolding tracks_def by metis

lemma tracks_fold: "(\<And>x l. tracks l (f x l)) \<Longrightarrow> tracks l (fold f xs l)"
proof (induction xs arbitrary: l)
  case Nil
  then show ?case by simp
next
  case (Cons x xs)
  have "tracks l (f x l)" by (rule Cons.prems)
  also have "tracks (f x l) (fold f xs (f x l))" by (rule Cons.IH) (rule Cons.prems)
  finally show ?case by simp
qed

lemma tracks_set_pixel [inv_rules]: "tracks l (set_pixel x y b l)"
proof (cases "LCD_WIDTH \<le> unat x \<or> LCD_HEIGHT \<le> unat y")
  case False
  then have xy: "unat x < LCD_WIDTH" "unat y < LCD_HEIGHT" by auto
  have i: "fb_index x y < LCD_FB_BYTES" by (rule fb_index_bound[OF xy])
  have line: "fb_index x y div LCD_LINE_BYTES = unat y"
    using xy by (simp add: fb_index_def lcd_geometry)
  show ?thesis
    using xy i line by (auto simp: tracks_def set_pixel_def Let_def is_dirty_mark)
      (auto simp: is_dirty_def)
qed simp

section \<open>Lemmas: the area loops\<close>

lemma of_nat_unat_u16: "of_nat (unat (x :: u16)) = x"
  by simp

lemma hline_loop_fold:
  "lim \<le> 65535 \<Longrightarrow> hline_loop xx lim y b l =
     Some (fold (\<lambda>i. set_pixel (of_nat i) y b) [unat xx..<lim] l)"
proof (induction "lim - unat xx" arbitrary: xx l)
  case 0
  then show ?case by (simp add: hline_loop.simps)
next
  case (Suc n)
  then have lt: "unat xx < lim" by linarith
  then have nx: "unat (xx + 1) = Suc (unat xx)"
    using unat_add_small[of xx 1] Suc.prems by simp
  have "hline_loop xx lim y b l = hline_loop (xx + 1) lim y b (set_pixel xx y b l)"
    using lt by (simp add: hline_loop.simps)
  also have "\<dots> = Some (fold (\<lambda>i. set_pixel (of_nat i) y b) [Suc (unat xx)..<lim] (set_pixel xx y b l))"
    using Suc nx by (subst Suc.hyps(1)) auto
  finally show ?case using lt by (simp add: upt_conv_Cons)
qed

lemma hline_loop_returns: "hline_loop xx lim y b l = Some l' \<Longrightarrow> lim \<le> 65535"
proof (rule hline_loop.raw_induct[where P = "\<lambda>xx lim y b l r. lim \<le> 65535"])
  fix f :: "u16 \<Rightarrow> nat \<Rightarrow> u16 \<Rightarrow> bool \<Rightarrow> sharp_lcd \<Rightarrow> sharp_lcd option"
    and xx lim y b l r
  assume IH: "\<And>xx lim y b l r. f xx lim y b l = Some r \<Longrightarrow> lim \<le> 65535"
    and eq: "(if unat xx < lim then f (xx + 1) lim y b (set_pixel xx y b l) else Some l) = Some r"
  show "lim \<le> 65535"
  proof (cases "unat xx < lim")
    case True
    then show ?thesis using eq IH by auto
  next
    case False
    then show ?thesis using unat_u16_le[of xx] by linarith
  qed
qed

lemma draw_hline_eq:
  "draw_hline x y w b l =
     (if unat x + unat w \<le> 65535
      then Some (fold (\<lambda>i. set_pixel (of_nat i) y b) [unat x..<unat x + unat w] l) else None)"
proof (cases "unat x + unat w \<le> 65535")
  case True
  then show ?thesis by (simp add: draw_hline_def hline_loop_fold)
next
  case False
  then show ?thesis
    using hline_loop_returns[of x "unat x + unat w" y b l] unfolding draw_hline_def
    by (cases "hline_loop x (unat x + unat w) y b l") auto
qed

definition paint_rows :: "nat list \<Rightarrow> nat list \<Rightarrow> bool \<Rightarrow> sharp_lcd \<Rightarrow> sharp_lcd" where
  "paint_rows ys xs b = fold (\<lambda>j. fold (\<lambda>i. set_pixel (of_nat i) (of_nat j) b) xs) ys"

lemma rect_loop_fold:
  assumes "unat x + unat w \<le> 65535"
  shows "lim \<le> 65535 \<Longrightarrow> rect_loop yy lim (x, w) b l =
     Some (paint_rows [unat yy..<lim] [unat x..<unat x + unat w] b l)"
proof (induction "lim - unat yy" arbitrary: yy l)
  case 0
  then show ?case by (simp add: rect_loop.simps paint_rows_def)
next
  case (Suc n)
  then have lt: "unat yy < lim" by linarith
  then have ny: "unat (yy + 1) = Suc (unat yy)"
    using unat_add_small[of yy 1] Suc.prems by simp
  let ?row = "fold (\<lambda>i. set_pixel (of_nat i) yy b) [unat x..<unat x + unat w] l"
  have "rect_loop yy lim (x, w) b l = rect_loop (yy + 1) lim (x, w) b ?row"
    using lt by (subst rect_loop.simps) (simp add: hline_loop_fold[OF assms])
  also have "\<dots> = Some (paint_rows [Suc (unat yy)..<lim] [unat x..<unat x + unat w] b ?row)"
    using Suc ny by (subst Suc.hyps(1)) auto
  finally show ?case using lt by (simp add: paint_rows_def upt_conv_Cons)
qed

lemma rect_loop_returns:
  "rect_loop yy lim xw b l = Some l' \<Longrightarrow>
     lim \<le> 65535 \<and> (lim \<le> unat yy \<or> unat (fst xw) + unat (snd xw) \<le> 65535)"
proof (rule rect_loop.raw_induct[where P = "\<lambda>yy lim xw b l r.
    lim \<le> 65535 \<and> (lim \<le> unat yy \<or> unat (fst xw) + unat (snd xw) \<le> 65535)"])
  fix f :: "u16 \<Rightarrow> nat \<Rightarrow> u16 \<times> u16 \<Rightarrow> bool \<Rightarrow> sharp_lcd \<Rightarrow> sharp_lcd option"
    and yy lim b l r and xw :: "u16 \<times> u16"
  let ?row = "hline_loop (fst xw) (unat (fst xw) + unat (snd xw)) yy b l"
  assume IH: "\<And>yy lim xw b l r. f yy lim xw b l = Some r \<Longrightarrow>
      lim \<le> 65535 \<and> (lim \<le> unat yy \<or> unat (fst xw) + unat (snd xw) \<le> 65535)"
    and eq: "(if unat yy < lim
       then (case ?row of None \<Rightarrow> None | Some l1 \<Rightarrow> f (yy + 1) lim xw b l1) else Some l) = Some r"
  show "lim \<le> 65535 \<and> (lim \<le> unat yy \<or> unat (fst xw) + unat (snd xw) \<le> 65535)"
  proof (cases "unat yy < lim")
    case True
    then obtain l1 where "?row = Some l1" "f (yy + 1) lim xw b l1 = Some r"
      using eq by (auto split: option.splits)
    then show ?thesis using IH hline_loop_returns by blast
  next
    case False
    then show ?thesis using unat_u16_le[of yy] by linarith
  qed
qed

lemma fill_rect_eq:
  assumes "0 < unat h"
  shows "fill_rect x y w h b l =
     (if unat y + unat h \<le> 65535 \<and> unat x + unat w \<le> 65535
      then Some (paint_rows [unat y..<unat y + unat h] [unat x..<unat x + unat w] b l) else None)"
proof (cases "unat y + unat h \<le> 65535 \<and> unat x + unat w \<le> 65535")
  case True
  then show ?thesis by (simp add: fill_rect_def rect_loop_fold)
next
  case False
  then show ?thesis
    using rect_loop_returns[of y "unat y + unat h" "(x, w)" b l] assms unfolding fill_rect_def
    by (cases "rect_loop y (unat y + unat h) (x, w) b l") auto
qed

lemma tracks_draw_hline [inv_rules]: "draw_hline x y w b l = Some l' \<Longrightarrow> tracks l l'"
  by (auto simp: draw_hline_eq intro!: tracks_fold inv_rules split: if_splits)

lemma tracks_paint_rows: "tracks l (paint_rows ys xs b l)"
  unfolding paint_rows_def by (intro tracks_fold inv_rules)

lemma tracks_fill_rect [inv_rules]: "fill_rect x y w h b l = Some l' \<Longrightarrow> tracks l l'"
proof (cases "0 < unat h")
  case True
  then show "fill_rect x y w h b l = Some l' \<Longrightarrow> tracks l l'"
    by (auto simp: fill_rect_eq tracks_paint_rows split: if_splits)
next
  case False
  then show "fill_rect x y w h b l = Some l' \<Longrightarrow> tracks l l'"
    by (simp add: fill_rect_def rect_loop.simps)
qed

lemma tracks_fill_dither [inv_rules]: "tracks l (fill_dither x y w h level l)"
  unfolding fill_dither_def by (auto intro!: tracks_fold tracks_set_pixel)

section \<open>Lemmas: what the area operations paint\<close>

lemma get_pixel_fold_row:
  assumes "unat px < LCD_WIDTH" "unat py < LCD_HEIGHT" "n \<le> 65536"
  shows "get_pixel (fold (\<lambda>i. set_pixel (of_nat i) y b) [a..<n] l) px py =
    (if py = y \<and> a \<le> unat px \<and> unat px < n then b else get_pixel l px py)"
  using assms(3)
proof (induction "n" arbitrary: l)
  case 0
  then show ?case by simp
next
  case (Suc n)
  let ?l = "fold (\<lambda>i. set_pixel (of_nat i) y b) [a..<n] l"
  have un: "unat (of_nat n :: u16) = n" by (rule unat_of_nat_u16) (use Suc.prems in simp)
  have eq: "(px = of_nat n) = (unat px = n)" using un by (auto simp: word_unat_eq_iff)
  have IH: "get_pixel ?l px py = (if py = y \<and> a \<le> unat px \<and> unat px < n then b else get_pixel l px py)"
    by (rule Suc.IH) (use Suc.prems in simp)
  show ?case
  proof (cases "a \<le> n")
    case False
    then show ?thesis by auto
  next
    case True
    show ?thesis
    proof (cases "n < LCD_WIDTH \<and> unat y < LCD_HEIGHT")
      case on: True
      then have "get_pixel (set_pixel (of_nat n) y b ?l) px py
          = (if px = of_nat n \<and> py = y then b else get_pixel ?l px py)"
        using get_set_pixel[of "of_nat n" y b ?l px py] un by simp
      then show ?thesis
        using True IH eq by (auto simp: less_Suc_eq)
    next
      case off: False
      then have "set_pixel (of_nat n) y b ?l = ?l" using un by auto
      moreover have "\<not> (py = y \<and> unat px = n)" using off assms by auto
      ultimately show ?thesis using True IH by (auto simp: less_Suc_eq)
    qed
  qed
qed

lemma get_pixel_paint_rows:
  assumes "unat px < LCD_WIDTH" "unat py < LCD_HEIGHT" "n \<le> 65536" "m \<le> 65536"
  shows "get_pixel (paint_rows [c..<m] [a..<n] b l) px py =
    (if c \<le> unat py \<and> unat py < m \<and> a \<le> unat px \<and> unat px < n then b else get_pixel l px py)"
  using assms(4)
proof (induction m arbitrary: l)
  case 0
  then show ?case by (simp add: paint_rows_def)
next
  case (Suc m)
  have un: "(py = of_nat m) = (unat py = m)"
    using Suc.prems by (auto simp: word_unat_eq_iff unat_of_nat_u16)
  show ?case
  proof (cases "c \<le> m")
    case False
    then show ?thesis by (auto simp: paint_rows_def)
  next
    case True
    then have "paint_rows [c..<Suc m] [a..<n] b l
        = fold (\<lambda>i. set_pixel (of_nat i) (of_nat m) b) [a..<n] (paint_rows [c..<m] [a..<n] b l)"
      by (simp add: paint_rows_def)
    then show ?thesis
      using Suc True un by (auto simp: get_pixel_fold_row[OF assms(1-3)] less_Suc_eq)
  qed
qed

text \<open>
  A drawing operation paints a set of points: on the panel, those take the colour and every
  other pixel keeps its own.
\<close>

definition on_panel :: "u16 \<Rightarrow> u16 \<Rightarrow> bool" where
  "on_panel x y \<longleftrightarrow> unat x < LCD_WIDTH \<and> unat y < LCD_HEIGHT"

definition paints :: "(u16 \<times> u16) set \<Rightarrow> bool \<Rightarrow> (sharp_lcd \<Rightarrow> sharp_lcd) \<Rightarrow> bool" where
  "paints P b f \<longleftrightarrow> (\<forall>l px py. get_pixel (f l) px py =
     (if on_panel px py \<and> (px, py) \<in> P then b else get_pixel l px py))"

lemma get_pixel_off_panel: "\<not> on_panel x y \<Longrightarrow> \<not> get_pixel l x y"
  by (auto simp: on_panel_def get_pixel_def)

lemma paints_set_pixel: "paints {(x, y)} b (set_pixel x y b)"
proof (cases "on_panel x y")
  case True
  then show ?thesis
    by (auto simp: paints_def get_set_pixel on_panel_def)
next
  case False
  then show ?thesis by (auto simp: paints_def on_panel_def)
qed

lemma paints_id: "paints {} b id" "paints {} b (\<lambda>l. l)"
  by (simp_all add: paints_def)

lemma paints_if: "(C \<Longrightarrow> paints P b f) \<Longrightarrow> paints {p. C \<and> p \<in> P} b (if C then f else id)"
  by (simp add: paints_def)

lemma paints_if_not: "(\<not> C \<Longrightarrow> paints P b f) \<Longrightarrow> paints {p. \<not> C \<and> p \<in> P} b (if C then id else f)"
  by (simp add: paints_def)

lemma paints_comp: "paints P b f \<Longrightarrow> paints Q b g \<Longrightarrow> paints (P \<union> Q) b (\<lambda>l. g (f l))"
  by (auto simp: paints_def)

lemma paints_fold:
  "(\<And>x. x \<in> set xs \<Longrightarrow> paints (P x) b (f x)) \<Longrightarrow> paints (\<Union>x \<in> set xs. P x) b (fold f xs)"
proof (induction xs)
  case Nil
  then show ?case by (simp add: paints_id)
next
  case (Cons x xs)
  have "paints (P x \<union> (\<Union>x \<in> set xs. P x)) b (\<lambda>l. fold f xs (f x l))"
    by (rule paints_comp) (use Cons in auto)
  then show ?case by (simp add: o_def)
qed

lemma paintsD: "paints P b f \<Longrightarrow>
     get_pixel (f l) px py = (if on_panel px py \<and> (px, py) \<in> P then b else get_pixel l px py)"
  by (simp add: paints_def)

lemma paints_optionD: "(\<And>g. paints (P g) b (f g)) \<Longrightarrow>
     get_pixel (case r of None \<Rightarrow> l | Some g \<Rightarrow> f g l) px py =
       (if on_panel px py \<and> (px, py) \<in> (case r of None \<Rightarrow> {} | Some g \<Rightarrow> P g) then b else get_pixel l px py)"
  by (cases r) (simp_all add: paints_def)

lemma paints_cong: "paints P b f \<Longrightarrow> P = Q \<Longrightarrow> paints Q b f"
  by simp

lemma get_pixel_fill_white:
  "get_pixel (fill_white l) x y = False"
proof (cases "unat x < LCD_WIDTH \<and> unat y < LCD_HEIGHT")
  case True
  then show ?thesis
    using fb_index_bound[of x y] bit_FF[of "7 - unat x mod 8"]
    by (simp only: get_pixel_bit fill_white_def) simp
qed (auto simp: get_pixel_def)

lemma is_dirty_fill_white: "is_dirty (fill_white l) y"
  using bit_FF[of "y mod 8"] by (simp add: is_dirty_def fill_white_def)

lemma bit_swap_nibbles:
  "n < 8 \<Longrightarrow> bit (drop_bit 4 (v AND 0xF0) OR push_bit 4 (v AND 0x0F) :: u8) n
     \<longleftrightarrow> bit v (if n < 4 then n + 4 else n - 4)"
proof -
  assume "n < 8"
  then have "n \<in> {0, 1, 2, 3, 4, 5, 6, 7}" by auto
  then show ?thesis by (elim insertE emptyE) (simp_all add: bit_simps)
qed

lemma bit_swap_pairs:
  "n < 8 \<Longrightarrow> bit (drop_bit 2 (v AND 0xCC) OR push_bit 2 (v AND 0x33) :: u8) n
     \<longleftrightarrow> bit v (if n mod 4 < 2 then n + 2 else n - 2)"
proof -
  assume "n < 8"
  then have "n \<in> {0, 1, 2, 3, 4, 5, 6, 7}" by auto
  then show ?thesis by (elim insertE emptyE) (simp_all add: bit_simps, (simp only: numeral_2_eq_2 numeral_3_eq_3)+)
qed

lemma bit_swap_neighbours:
  "n < 8 \<Longrightarrow> bit (drop_bit 1 (v AND 0xAA) OR push_bit 1 (v AND 0x55) :: u8) n
     \<longleftrightarrow> bit v (if even n then n + 1 else n - 1)"
proof -
  assume "n < 8"
  then have "n \<in> {0, 1, 2, 3, 4, 5, 6, 7}" by auto
  moreover have "bit (push_bit 1 (v AND 0x55)) n \<longleftrightarrow> n < 8 \<and> 0 < n \<and> bit v (n - 1) \<and> bit (0x55 :: u8) (n - 1)" for n
    by (auto simp only: bit_simps) auto
  moreover have "bit (drop_bit 1 (v AND 0xAA)) n \<longleftrightarrow> bit v (n + 1) \<and> bit (0xAA :: u8) (n + 1)" for n
    by (simp only: bit_simps o_apply add.commute[of 1])
  ultimately show ?thesis by (simp only: bit_or_iff) (elim insertE emptyE; simp)
qed

lemma bit_reverse_bits: "bit (reverse_bits v) n \<longleftrightarrow> n < 8 \<and> bit v (7 - n)"
proof (cases "n < 8")
  case True
  then have "n \<in> {0, 1, 2, 3, 4, 5, 6, 7}" by auto
  then show ?thesis
    unfolding reverse_bits_def Let_def
    by (elim insertE emptyE; hypsubst; subst bit_swap_neighbours, simp;
        subst bit_swap_pairs, simp; subst bit_swap_nibbles, simp; simp)
qed (use bit_imp_le_length[of "reverse_bits v" n] in auto)

lemma reverse_bits_involution: "reverse_bits (reverse_bits v) = v"
  by (rule bit_word_eqI) (auto simp: bit_reverse_bits)

section \<open>The panel behind the bus\<close>

text \<open>
  What the driver relies on from whatever listens on its bus: an image that a write window
  changes on exactly the addressed lines, that an all-clear makes white and that a bare mode
  byte leaves alone. \<open>VirtualPanel\<close> provides it.
\<close>

definition write_window :: "u8 \<Rightarrow> sharp_lcd \<Rightarrow> nat list \<Rightarrow> bus_op list" where
  "write_window mode l ys =
     [Select True, Write [mode]] @ concat (map (line_ops l) ys) @ [Write [0], Select False]"

definition mode_window :: "u8 \<Rightarrow> bus_op list" where
  "mode_window mode = [Select True, Write [mode, 0], Select False]"

locale lcd_panel =
  fixes put :: "bus_op list \<Rightarrow> 'p \<Rightarrow> 'p"
    and image :: "'p \<Rightarrow> nat \<Rightarrow> u8"
  assumes put_append: "put (a @ b) p = put b (put a p)"
    and put_idle: "put [] p = p"
    and put_lines: "mode = LCD_M0_WRITE \<or> mode = LCD_M0_WRITE OR LCD_M1_VCOM \<Longrightarrow>
      (\<forall>y \<in> set ys. y < LCD_HEIGHT) \<Longrightarrow> length ys \<le> LCD_HEIGHT \<Longrightarrow>
      image (put (write_window mode l ys) p) i
        = (if i div LCD_LINE_BYTES \<in> set ys then lcd_fb l i else image p i)"
    and put_clear: "mode = LCD_M2_CLEAR \<or> mode = LCD_M2_CLEAR OR LCD_M1_VCOM \<Longrightarrow>
      i < LCD_FB_BYTES \<Longrightarrow> image (put (mode_window mode) p) i = 0xFF"
    and put_mode: "mode = 0 \<or> mode = LCD_M1_VCOM \<Longrightarrow> image (put (mode_window mode) p) i = image p i"
begin

text \<open>The image agrees with the framebuffer on every line that is not marked dirty.\<close>

definition in_sync :: "sharp_lcd \<Rightarrow> 'p \<Rightarrow> bool" where
  "in_sync l p \<longleftrightarrow>
     (\<forall>i < LCD_FB_BYTES. \<not> is_dirty l (i div LCD_LINE_BYTES) \<longrightarrow> image p i = lcd_fb l i)"

lemma in_sync_draw: "in_sync l p \<Longrightarrow> tracks l l' \<Longrightarrow> in_sync l' p"
  unfolding in_sync_def tracks_def by metis

lemma in_sync_fill_white: "in_sync (fill_white l) p"
  by (simp add: in_sync_def is_dirty_fill_white)

lemma flush_lines:
  "flush_lcd l = (n, ops, l') \<Longrightarrow> 0 < n \<Longrightarrow> \<exists>mode.
     (mode = LCD_M0_WRITE \<or> mode = LCD_M0_WRITE OR LCD_M1_VCOM)
     \<and> ops = write_window mode l (filter (is_dirty l) [0..<LCD_HEIGHT])"
  by (auto simp: flush_lcd_def write_window_def Let_def split: if_splits)

lemma flush_image:
  assumes "in_sync l p" and flush: "flush_lcd l = (n, ops, l')" and i: "i < LCD_FB_BYTES"
  shows "image (put ops p) i = lcd_fb l i"
proof -
  let ?ys = "filter (is_dirty l) [0..<LCD_HEIGHT]"
  have line: "i div LCD_LINE_BYTES < LCD_HEIGHT"
    using i by (simp add: lcd_geometry)
  show ?thesis
  proof (cases "0 < n")
    case True
    then obtain mode where mode: "mode = LCD_M0_WRITE \<or> mode = LCD_M0_WRITE OR LCD_M1_VCOM"
      and ops: "ops = write_window mode l ?ys"
      using flush_lines[OF flush] by blast
    have "length ?ys \<le> LCD_HEIGHT"
      by (rule le_trans[OF length_filter_le]) simp
    then have "image (put ops p) i
        = (if i div LCD_LINE_BYTES \<in> set ?ys then lcd_fb l i else image p i)"
      unfolding ops by (intro put_lines[OF mode]) auto
    then show ?thesis using assms(1) i line by (auto simp: in_sync_def)
  next
    case False
    then have "ops = []" "dirty_lines l = 0"
      using flush by (auto simp: flush_lcd_def Let_def split: if_splits)
    then have "\<not> is_dirty l (i div LCD_LINE_BYTES)"
      using line by (auto simp: dirty_lines_def filter_empty_conv)
    then show ?thesis using assms(1) i \<open>ops = []\<close> by (simp add: in_sync_def put_idle)
  qed
qed

lemma flush_frame: "flush_lcd l = (n, ops, l') \<Longrightarrow> lcd_fb l' = lcd_fb l"
  by (auto simp: flush_lcd_def Let_def split: if_splits)

lemma in_sync_flush:
  "in_sync l p \<Longrightarrow> flush_lcd l = (n, ops, l') \<Longrightarrow> in_sync l' (put ops p)"
  using flush_image[of l p n ops l'] flush_frame[of l n ops l'] by (simp add: in_sync_def)

lemma in_sync_toggle:
  "in_sync l p \<Longrightarrow> toggle_vcom l = (ops, l') \<Longrightarrow> in_sync l' (put ops p)"
  using put_mode[of "if \<not> lcd_vcom l then LCD_M1_VCOM else 0"]
  by (auto simp: in_sync_def toggle_vcom_def mode_window_def Let_def is_dirty_def)

lemma in_sync_clear:
  "clear_lcd l = (ops, l') \<Longrightarrow> in_sync l' (put ops p)"
  using put_clear[of "LCD_M2_CLEAR OR (if lcd_vcom l then LCD_M1_VCOM else 0)"]
  by (auto simp: in_sync_def clear_lcd_def mode_window_def split: if_splits)

end

section \<open>Properties\<close>

text \<open>C27: the rectangle fill. The call returns exactly when the far corner stays within 16 bits (or
  there is no row to draw); then the pixels of the rectangle on the panel have the colour and
  no other pixel has changed. Beyond that bound the 16-bit counter never reaches the limit and
  the call does not return.\<close>

theorem fill_rect_spec:
  "case fill_rect x y w h b l of
     None \<Rightarrow> h \<noteq> 0 \<and> (65535 < unat x + unat w \<or> 65535 < unat y + unat h)
   | Some l' \<Rightarrow> (h = 0 \<or> unat x + unat w \<le> 65535 \<and> unat y + unat h \<le> 65535)
       \<and> (\<forall>px py. get_pixel l' px py =
           (if on_panel px py \<and> unat x \<le> unat px \<and> unat px < unat x + unat w
               \<and> unat y \<le> unat py \<and> unat py < unat y + unat h
            then b else get_pixel l px py))"
proof (cases "h = 0")
  case True
  then have "fill_rect x y w h b l = Some l" by (simp add: fill_rect_def rect_loop.simps)
  then show ?thesis using True by auto
next
  case False
  then have h: "0 < unat h" by (simp add: unat_gt_0)
  show ?thesis
  proof (cases "unat y + unat h \<le> 65535 \<and> unat x + unat w \<le> 65535")
    case True
    have px: "get_pixel (paint_rows [unat y..<unat y + unat h] [unat x..<unat x + unat w] b l) px py =
           (if on_panel px py \<and> unat x \<le> unat px \<and> unat px < unat x + unat w
               \<and> unat y \<le> unat py \<and> unat py < unat y + unat h
            then b else get_pixel l px py)" for px py
    proof (cases "on_panel px py")
      case on: True
      then show ?thesis
        using True get_pixel_paint_rows[of px py "unat x + unat w" "unat y + unat h"]
        by (auto simp: on_panel_def)
    next
      case False
      then show ?thesis by (simp add: get_pixel_off_panel)
    qed
    then show ?thesis using True by (simp add: fill_rect_eq[OF h])
  next
    case False
    then show ?thesis using \<open>h \<noteq> 0\<close> by (auto simp: fill_rect_eq[OF h])
  qed
qed

text \<open>C28: the ordered dither. It paints black exactly the points of the clipped rectangle where the
  pattern, placed in panel coordinates, is on, and leaves every other pixel as it was.\<close>

theorem fill_dither_spec:
  "get_pixel (fill_dither x y w h level l) px py =
     (if on_panel px py \<and> unat x \<le> unat px \<and> unat px < unat x + unat w
         \<and> unat y \<le> unat py \<and> unat py < unat y + unat h \<and> dither_on px py level
      then True else get_pixel l px py)"
proof (cases "249 \<le> level")
  case True
  have "\<not> dither_on px py level"
  proof -
    have "unat (z AND 3) \<le> 3" for z :: u16
      using word_and_le1[of z 3] by (simp add: word_le_nat_alt)
    from this[of py] this[of px] have "unat (py AND 3) < 4" "unat (px AND 3) < 4" by simp_all
    then have "unat (py AND 3) * 4 + unat (px AND 3) < 16" by linarith
    then have "BAYER4 ! (unat (py AND 3) * 4 + unat (px AND 3)) \<in> set BAYER4"
      by (intro nth_mem) (simp add: BAYER4_def)
    then have "BAYER4 ! (unat (py AND 3) * 4 + unat (px AND 3)) < 249"
      by (auto simp: BAYER4_def)
    then show ?thesis using True by (simp add: dither_on_def not_le order.strict_trans2)
  qed
  then show ?thesis using True by (simp add: fill_dither_def)
next
  case False
  let ?X = "[unat x..<min (unat x + unat w) LCD_WIDTH]"
  let ?Y = "[unat y..<min (unat y + unat h) LCD_HEIGHT]"
  let ?on = "\<lambda>i j. dither_on (of_nat i) (of_nat j) level"
  let ?P = "\<Union>j \<in> set ?Y. \<Union>i \<in> set ?X. {p. ?on i j \<and> p \<in> {(of_nat i, of_nat j)}}"
  have "paints ?P True (fold (\<lambda>j. fold (\<lambda>i. if ?on i j then set_pixel (of_nat i) (of_nat j) True else id) ?X) ?Y)"
    by (intro paints_fold paints_if paints_set_pixel)
  moreover have "(fold (\<lambda>i. if ?on i j then set_pixel (of_nat i) (of_nat j) True else id) ?X)
      = (fold (\<lambda>i l. if ?on i j then set_pixel (of_nat i) (of_nat j) True l else l) ?X)" for j
    by (intro arg_cong2[of _ _ _ _ fold] ext) auto
  ultimately have eq: "get_pixel (fill_dither x y w h level l) px py
      = (if on_panel px py \<and> (px, py) \<in> ?P then True else get_pixel l px py)"
    using False by (simp add: fill_dither_def paints_def)
  have "on_panel px py \<Longrightarrow> (px, py) \<in> ?P \<longleftrightarrow> unat x \<le> unat px \<and> unat px < unat x + unat w
         \<and> unat y \<le> unat py \<and> unat py < unat y + unat h \<and> dither_on px py level"
  proof
    assume on: "on_panel px py" and "(px, py) \<in> ?P"
    then obtain i j where ij: "i \<in> set ?X" "j \<in> set ?Y" "?on i j" "px = of_nat i" "py = of_nat j"
      by blast
    then have "unat px = i" "unat py = j"
      by (auto simp: unat_of_nat_u16 lcd_geometry)
    then show "unat x \<le> unat px \<and> unat px < unat x + unat w
         \<and> unat y \<le> unat py \<and> unat py < unat y + unat h \<and> dither_on px py level"
      using ij by auto
  next
    assume "on_panel px py" and "unat x \<le> unat px \<and> unat px < unat x + unat w
         \<and> unat y \<le> unat py \<and> unat py < unat y + unat h \<and> dither_on px py level"
    then show "(px, py) \<in> ?P"
      by (intro UN_I[of "unat py"] UN_I[of "unat px"]) (auto simp: on_panel_def)
  qed
  then show ?thesis unfolding eq by auto
qed

end
