(* ===== verification/FontCozette.thy ===== *)
theory FontCozette
  imports Prelude
begin

text \<open>
  The body face and the emoji it lacks: the tables of \<open>lib/SharpLcd/src/CozetteFont.h\<close> and
  \<open>EmojiGlyphs.h\<close>, entry by entry. A keyed table is a list of (codepoint, rows) pairs in the
  order of the C array; long tables are cut into parts and joined. The lemmas are the two
  facts the drawing code relies on: ascending keys and full rows.
\<close>

definition FONT_W :: nat where "FONT_W = 6"
definition FONT_INK_W :: nat where "FONT_INK_W = 7"
definition FONT_H :: nat where "FONT_H = 13"
definition FONT_FIRST :: nat where "FONT_FIRST = 32"
definition FONT_LAST :: nat where "FONT_LAST = 126"
definition FONT_EXTRA_COUNT :: nat where "FONT_EXTRA_COUNT = 487"
definition EMOJI_COUNT :: nat where "EMOJI_COUNT = 8"

definition FONT :: "u8 list list" where
  "FONT = [
    [0x0, 0x0, 0x0, 0x0, 0x0, 0x0, 0x0, 0x0, 0x0, 0x0, 0x0, 0x0, 0x0],
    [0x0, 0x0, 0x10, 0x10, 0x10, 0x10, 0x10, 0x10, 0x0, 0x10, 0x0, 0x0, 0x0],
    [0x0, 0x28, 0x28, 0x28, 0x0, 0x0, 0x0, 0x0, 0x0, 0x0, 0x0, 0x0, 0x0],
    [0x0, 0x0, 0x28, 0x28, 0x7C, 0x28, 0x28, 0x7C, 0x28, 0x28, 0x0, 0x0, 0x0],
    [0x0, 0x10, 0x38, 0x54, 0x50, 0x38, 0x14, 0x14, 0x54, 0x38, 0x10, 0x0, 0x0],
    [0x0, 0x20, 0x50, 0x24, 0x8, 0x10, 0x20, 0x48, 0x14, 0x8, 0x0, 0x0, 0x0],
    [0x0, 0x10, 0x28, 0x28, 0x10, 0x34, 0x48, 0x48, 0x48, 0x34, 0x0, 0x0, 0x0],
    [0x0, 0x10, 0x10, 0x10, 0x0, 0x0, 0x0, 0x0, 0x0, 0x0, 0x0, 0x0, 0x0],
    [0x0, 0x8, 0x10, 0x10, 0x20, 0x20, 0x20, 0x20, 0x20, 0x10, 0x10, 0x8, 0x0],
    [0x0, 0x20, 0x10, 0x10, 0x8, 0x8, 0x8, 0x8, 0x8, 0x10, 0x10, 0x20, 0x0],
    [0x0, 0x0, 0x0, 0x0, 0x28, 0x10, 0x7C, 0x10, 0x28, 0x0, 0x0, 0x0, 0x0],
    [0x0, 0x0, 0x0, 0x0, 0x10, 0x10, 0x7C, 0x10, 0x10, 0x0, 0x0, 0x0, 0x0],
    [0x0, 0x0, 0x0, 0x0, 0x0, 0x0, 0x0, 0x0, 0x30, 0x30, 0x10, 0x20, 0x0],
    [0x0, 0x0, 0x0, 0x0, 0x0, 0x0, 0x7C, 0x0, 0x0, 0x0, 0x0, 0x0, 0x0],
    [0x0, 0x0, 0x0, 0x0, 0x0, 0x0, 0x0, 0x0, 0x30, 0x30, 0x0, 0x0, 0x0],
    [0x0, 0x4, 0x4, 0x8, 0x8, 0x10, 0x10, 0x20, 0x20, 0x40, 0x40, 0x0, 0x0],
    [0x0, 0x0, 0x38, 0x44, 0x44, 0x54, 0x54, 0x44, 0x44, 0x38, 0x0, 0x0, 0x0],
    [0x0, 0x0, 0x10, 0x30, 0x50, 0x10, 0x10, 0x10, 0x10, 0x7C, 0x0, 0x0, 0x0],
    [0x0, 0x0, 0x38, 0x44, 0x4, 0x8, 0x10, 0x20, 0x40, 0x7C, 0x0, 0x0, 0x0],
    [0x0, 0x0, 0x38, 0x44, 0x4, 0x18, 0x4, 0x4, 0x44, 0x38, 0x0, 0x0, 0x0],
    [0x0, 0x0, 0x4, 0xC, 0x14, 0x24, 0x44, 0x7E, 0x4, 0x4, 0x0, 0x0, 0x0],
    [0x0, 0x0, 0x7C, 0x40, 0x40, 0x78, 0x4, 0x4, 0x44, 0x38, 0x0, 0x0, 0x0],
    [0x0, 0x0, 0x18, 0x20, 0x40, 0x78, 0x44, 0x44, 0x44, 0x38, 0x0, 0x0, 0x0],
    [0x0, 0x0, 0x7C, 0x4, 0x8, 0x8, 0x10, 0x10, 0x20, 0x20, 0x0, 0x0, 0x0],
    [0x0, 0x0, 0x38, 0x44, 0x44, 0x38, 0x44, 0x44, 0x44, 0x38, 0x0, 0x0, 0x0],
    [0x0, 0x0, 0x38, 0x44, 0x44, 0x44, 0x3C, 0x4, 0x8, 0x30, 0x0, 0x0, 0x0],
    [0x0, 0x0, 0x0, 0x0, 0x30, 0x30, 0x0, 0x0, 0x30, 0x30, 0x0, 0x0, 0x0],
    [0x0, 0x0, 0x0, 0x0, 0x30, 0x30, 0x0, 0x0, 0x30, 0x30, 0x10, 0x20, 0x0],
    [0x0, 0x0, 0x0, 0x4, 0x8, 0x10, 0x20, 0x10, 0x8, 0x4, 0x0, 0x0, 0x0],
    [0x0, 0x0, 0x0, 0x0, 0x0, 0x7C, 0x0, 0x7C, 0x0, 0x0, 0x0, 0x0, 0x0],
    [0x0, 0x0, 0x0, 0x40, 0x20, 0x10, 0x8, 0x10, 0x20, 0x40, 0x0, 0x0, 0x0],
    [0x0, 0x0, 0x38, 0x44, 0x4, 0x8, 0x10, 0x10, 0x0, 0x10, 0x0, 0x0, 0x0],
    [0x0, 0x0, 0x38, 0x44, 0x44, 0x5C, 0x54, 0x5C, 0x40, 0x3C, 0x0, 0x0, 0x0],
    [0x0, 0x0, 0x38, 0x44, 0x44, 0x44, 0x7C, 0x44, 0x44, 0x44, 0x0, 0x0, 0x0],
    [0x0, 0x0, 0x78, 0x44, 0x44, 0x78, 0x44, 0x44, 0x44, 0x78, 0x0, 0x0, 0x0],
    [0x0, 0x0, 0x38, 0x44, 0x40, 0x40, 0x40, 0x40, 0x44, 0x38, 0x0, 0x0, 0x0],
    [0x0, 0x0, 0x70, 0x48, 0x44, 0x44, 0x44, 0x44, 0x48, 0x70, 0x0, 0x0, 0x0],
    [0x0, 0x0, 0x7C, 0x40, 0x40, 0x78, 0x40, 0x40, 0x40, 0x7C, 0x0, 0x0, 0x0],
    [0x0, 0x0, 0x7C, 0x40, 0x40, 0x78, 0x40, 0x40, 0x40, 0x40, 0x0, 0x0, 0x0],
    [0x0, 0x0, 0x38, 0x44, 0x40, 0x40, 0x4C, 0x44, 0x44, 0x38, 0x0, 0x0, 0x0],
    [0x0, 0x0, 0x44, 0x44, 0x44, 0x7C, 0x44, 0x44, 0x44, 0x44, 0x0, 0x0, 0x0],
    [0x0, 0x0, 0x38, 0x10, 0x10, 0x10, 0x10, 0x10, 0x10, 0x38, 0x0, 0x0, 0x0],
    [0x0, 0x0, 0x1C, 0x4, 0x4, 0x4, 0x4, 0x44, 0x44, 0x38, 0x0, 0x0, 0x0],
    [0x0, 0x0, 0x44, 0x48, 0x50, 0x70, 0x48, 0x48, 0x44, 0x44, 0x0, 0x0, 0x0],
    [0x0, 0x0, 0x40, 0x40, 0x40, 0x40, 0x40, 0x40, 0x40, 0x7C, 0x0, 0x0, 0x0],
    [0x0, 0x0, 0x44, 0x6C, 0x54, 0x54, 0x44, 0x44, 0x44, 0x44, 0x0, 0x0, 0x0],
    [0x0, 0x0, 0x44, 0x64, 0x64, 0x54, 0x54, 0x4C, 0x4C, 0x44, 0x0, 0x0, 0x0],
    [0x0, 0x0, 0x38, 0x44, 0x44, 0x44, 0x44, 0x44, 0x44, 0x38, 0x0, 0x0, 0x0],
    [0x0, 0x0, 0x78, 0x44, 0x44, 0x44, 0x78, 0x40, 0x40, 0x40, 0x0, 0x0, 0x0],
    [0x0, 0x0, 0x38, 0x44, 0x44, 0x44, 0x44, 0x44, 0x48, 0x34, 0x4, 0x0, 0x0],
    [0x0, 0x0, 0x78, 0x44, 0x44, 0x78, 0x48, 0x44, 0x44, 0x44, 0x0, 0x0, 0x0],
    [0x0, 0x0, 0x38, 0x44, 0x40, 0x38, 0x4, 0x4, 0x44, 0x38, 0x0, 0x0, 0x0],
    [0x0, 0x0, 0x7C, 0x10, 0x10, 0x10, 0x10, 0x10, 0x10, 0x10, 0x0, 0x0, 0x0],
    [0x0, 0x0, 0x44, 0x44, 0x44, 0x44, 0x44, 0x44, 0x44, 0x38, 0x0, 0x0, 0x0],
    [0x0, 0x0, 0x44, 0x44, 0x44, 0x28, 0x28, 0x28, 0x10, 0x10, 0x0, 0x0, 0x0],
    [0x0, 0x0, 0x44, 0x44, 0x44, 0x54, 0x54, 0x38, 0x28, 0x28, 0x0, 0x0, 0x0],
    [0x0, 0x0, 0x44, 0x44, 0x28, 0x10, 0x10, 0x28, 0x44, 0x44, 0x0, 0x0, 0x0],
    [0x0, 0x0, 0x44, 0x44, 0x44, 0x28, 0x10, 0x10, 0x10, 0x10, 0x0, 0x0, 0x0],
    [0x0, 0x0, 0x7C, 0x8, 0x10, 0x10, 0x20, 0x20, 0x40, 0x7C, 0x0, 0x0, 0x0],
    [0x0, 0x38, 0x20, 0x20, 0x20, 0x20, 0x20, 0x20, 0x20, 0x20, 0x20, 0x38, 0x0],
    [0x0, 0x40, 0x40, 0x20, 0x20, 0x10, 0x10, 0x8, 0x8, 0x4, 0x4, 0x0, 0x0],
    [0x0, 0x38, 0x8, 0x8, 0x8, 0x8, 0x8, 0x8, 0x8, 0x8, 0x8, 0x38, 0x0],
    [0x10, 0x28, 0x44, 0x0, 0x0, 0x0, 0x0, 0x0, 0x0, 0x0, 0x0, 0x0, 0x0],
    [0x0, 0x0, 0x0, 0x0, 0x0, 0x0, 0x0, 0x0, 0x0, 0x0, 0x7C, 0x0, 0x0],
    [0x0, 0x20, 0x10, 0x0, 0x0, 0x0, 0x0, 0x0, 0x0, 0x0, 0x0, 0x0, 0x0],
    [0x0, 0x0, 0x0, 0x0, 0x3C, 0x44, 0x44, 0x44, 0x4C, 0x34, 0x0, 0x0, 0x0],
    [0x0, 0x40, 0x40, 0x40, 0x78, 0x44, 0x44, 0x44, 0x44, 0x78, 0x0, 0x0, 0x0],
    [0x0, 0x0, 0x0, 0x0, 0x38, 0x44, 0x40, 0x40, 0x44, 0x38, 0x0, 0x0, 0x0],
    [0x0, 0x4, 0x4, 0x4, 0x3C, 0x44, 0x44, 0x44, 0x44, 0x3C, 0x0, 0x0, 0x0],
    [0x0, 0x0, 0x0, 0x0, 0x38, 0x44, 0x7C, 0x40, 0x44, 0x38, 0x0, 0x0, 0x0],
    [0x0, 0x1C, 0x20, 0x20, 0x78, 0x20, 0x20, 0x20, 0x20, 0x20, 0x0, 0x0, 0x0],
    [0x0, 0x0, 0x0, 0x0, 0x3C, 0x44, 0x44, 0x44, 0x44, 0x3C, 0x4, 0x4, 0x38],
    [0x0, 0x40, 0x40, 0x40, 0x78, 0x44, 0x44, 0x44, 0x44, 0x44, 0x0, 0x0, 0x0],
    [0x0, 0x0, 0x10, 0x0, 0x30, 0x10, 0x10, 0x10, 0x10, 0xC, 0x0, 0x0, 0x0],
    [0x0, 0x0, 0x8, 0x0, 0x18, 0x8, 0x8, 0x8, 0x8, 0x8, 0x28, 0x10, 0x0],
    [0x0, 0x40, 0x40, 0x40, 0x44, 0x48, 0x50, 0x70, 0x48, 0x44, 0x0, 0x0, 0x0],
    [0x0, 0x30, 0x10, 0x10, 0x10, 0x10, 0x10, 0x10, 0x10, 0x18, 0x0, 0x0, 0x0],
    [0x0, 0x0, 0x0, 0x0, 0x68, 0x54, 0x54, 0x54, 0x54, 0x54, 0x0, 0x0, 0x0],
    [0x0, 0x0, 0x0, 0x0, 0x78, 0x44, 0x44, 0x44, 0x44, 0x44, 0x0, 0x0, 0x0],
    [0x0, 0x0, 0x0, 0x0, 0x38, 0x44, 0x44, 0x44, 0x44, 0x38, 0x0, 0x0, 0x0],
    [0x0, 0x0, 0x0, 0x0, 0x78, 0x44, 0x44, 0x44, 0x44, 0x78, 0x40, 0x40, 0x40],
    [0x0, 0x0, 0x0, 0x0, 0x3C, 0x44, 0x44, 0x44, 0x44, 0x3C, 0x4, 0x4, 0x6],
    [0x0, 0x0, 0x0, 0x0, 0x78, 0x44, 0x40, 0x40, 0x40, 0x40, 0x0, 0x0, 0x0],
    [0x0, 0x0, 0x0, 0x0, 0x3C, 0x40, 0x38, 0x4, 0x4, 0x78, 0x0, 0x0, 0x0],
    [0x0, 0x0, 0x20, 0x20, 0x78, 0x20, 0x20, 0x20, 0x20, 0x1C, 0x0, 0x0, 0x0],
    [0x0, 0x0, 0x0, 0x0, 0x44, 0x44, 0x44, 0x44, 0x44, 0x3C, 0x0, 0x0, 0x0],
    [0x0, 0x0, 0x0, 0x0, 0x44, 0x44, 0x28, 0x28, 0x10, 0x10, 0x0, 0x0, 0x0],
    [0x0, 0x0, 0x0, 0x0, 0x44, 0x44, 0x54, 0x54, 0x28, 0x28, 0x0, 0x0, 0x0],
    [0x0, 0x0, 0x0, 0x0, 0x44, 0x28, 0x10, 0x10, 0x28, 0x44, 0x0, 0x0, 0x0],
    [0x0, 0x0, 0x0, 0x0, 0x44, 0x44, 0x44, 0x44, 0x44, 0x3C, 0x4, 0x4, 0x38],
    [0x0, 0x0, 0x0, 0x0, 0x7C, 0x8, 0x10, 0x20, 0x40, 0x7C, 0x0, 0x0, 0x0],
    [0x0, 0xC, 0x10, 0x10, 0x10, 0x10, 0x60, 0x10, 0x10, 0x10, 0x10, 0xC, 0x0],
    [0x0, 0x10, 0x10, 0x10, 0x10, 0x10, 0x10, 0x10, 0x10, 0x10, 0x10, 0x10, 0x0],
    [0x0, 0x60, 0x10, 0x10, 0x10, 0x10, 0xC, 0x10, 0x10, 0x10, 0x10, 0x60, 0x0],
    [0x0, 0x0, 0x0, 0x0, 0x0, 0x24, 0x54, 0x48, 0x0, 0x0, 0x0, 0x0, 0x0]]"

definition FONT_EXTRA_0 :: "(u16 \<times> u8 list) list" where
  "FONT_EXTRA_0 = [
    (0xA0, [0x0, 0x0, 0x0, 0x0, 0x0, 0x0, 0x0, 0x0, 0x0, 0x0, 0x0, 0x0, 0x0]),
    (0xA1, [0x0, 0x0, 0x0, 0x0, 0x10, 0x0, 0x10, 0x10, 0x10, 0x10, 0x10, 0x10, 0x0]),
    (0xA2, [0x0, 0x0, 0x0, 0x10, 0x38, 0x54, 0x50, 0x50, 0x54, 0x38, 0x10, 0x0, 0x0]),
    (0xA3, [0x0, 0x0, 0x18, 0x20, 0x20, 0x78, 0x20, 0x20, 0x20, 0x5C, 0x0, 0x0, 0x0]),
    (0xA4, [0x0, 0x0, 0x0, 0x0, 0x44, 0x38, 0x28, 0x28, 0x38, 0x44, 0x0, 0x0, 0x0]),
    (0xA5, [0x0, 0x44, 0x44, 0x44, 0x28, 0x10, 0x7C, 0x10, 0x7C, 0x10, 0x0, 0x0, 0x0]),
    (0xA6, [0x0, 0x10, 0x10, 0x10, 0x10, 0x0, 0x0, 0x0, 0x10, 0x10, 0x10, 0x10, 0x0]),
    (0xA7, [0x0, 0x38, 0x44, 0x40, 0x30, 0x28, 0x28, 0x18, 0x4, 0x44, 0x38, 0x0, 0x0]),
    (0xA8, [0x0, 0x28, 0x0, 0x0, 0x0, 0x0, 0x0, 0x0, 0x0, 0x0, 0x0, 0x0, 0x0]),
    (0xA9, [0x0, 0x0, 0x0, 0x38, 0x44, 0xBA, 0xA2, 0xBA, 0x44, 0x38, 0x0, 0x0, 0x0]),
    (0xAA, [0x0, 0x0, 0x18, 0x4, 0x1C, 0x24, 0x1C, 0x0, 0x0, 0x0, 0x0, 0x0, 0x0]),
    (0xAB, [0x0, 0x0, 0x0, 0x0, 0x14, 0x28, 0x50, 0x28, 0x14, 0x0, 0x0, 0x0, 0x0]),
    (0xAC, [0x0, 0x0, 0x0, 0x0, 0x0, 0x0, 0x78, 0x8, 0x8, 0x8, 0x0, 0x0, 0x0]),
    (0xAD, [0x0, 0x0, 0x0, 0x0, 0x0, 0x0, 0x38, 0x0, 0x0, 0x0, 0x0, 0x0, 0x0]),
    (0xAE, [0x0, 0x0, 0x0, 0x38, 0x44, 0xBA, 0xA2, 0xA2, 0x44, 0x38, 0x0, 0x0, 0x0]),
    (0xAF, [0xFE, 0x0, 0x0, 0x0, 0x0, 0x0, 0x0, 0x0, 0x0, 0x0, 0x0, 0x0, 0x0]),
    (0xB0, [0x0, 0x0, 0x30, 0x48, 0x48, 0x30, 0x0, 0x0, 0x0, 0x0, 0x0, 0x0, 0x0]),
    (0xB1, [0x0, 0x0, 0x0, 0x10, 0x10, 0x7C, 0x10, 0x10, 0x0, 0x7C, 0x0, 0x0, 0x0]),
    (0xB2, [0x0, 0x30, 0x48, 0x10, 0x20, 0x78, 0x0, 0x0, 0x0, 0x0, 0x0, 0x0, 0x0]),
    (0xB3, [0x0, 0x70, 0x8, 0x30, 0x8, 0x70, 0x0, 0x0, 0x0, 0x0, 0x0, 0x0, 0x0]),
    (0xB4, [0x0, 0x8, 0x10, 0x0, 0x0, 0x0, 0x0, 0x0, 0x0, 0x0, 0x0, 0x0, 0x0]),
    (0xB5, [0x0, 0x0, 0x0, 0x0, 0x24, 0x24, 0x24, 0x24, 0x34, 0x28, 0x20, 0x40, 0x0]),
    (0xB6, [0x0, 0x0, 0x3C, 0x74, 0x74, 0x34, 0x14, 0x14, 0x14, 0x14, 0x14, 0x0, 0x0]),
    (0xB7, [0x0, 0x0, 0x0, 0x0, 0x0, 0x10, 0x38, 0x10, 0x0, 0x0, 0x0, 0x0, 0x0]),
    (0xB8, [0x0, 0x0, 0x0, 0x0, 0x0, 0x0, 0x0, 0x0, 0x0, 0x10, 0x8, 0x30, 0x0]),
    (0xB9, [0x0, 0x20, 0x60, 0x20, 0x20, 0x70, 0x0, 0x0, 0x0, 0x0, 0x0, 0x0, 0x0]),
    (0xBA, [0x0, 0x0, 0x8, 0x14, 0x8, 0x0, 0x1C, 0x0, 0x0, 0x0, 0x0, 0x0, 0x0]),
    (0xBB, [0x0, 0x0, 0x0, 0x0, 0x50, 0x28, 0x14, 0x28, 0x50, 0x0, 0x0, 0x0, 0x0]),
    (0xBC, [0x0, 0x44, 0x48, 0x48, 0x50, 0x10, 0x24, 0x2C, 0x5C, 0x44, 0x0, 0x0, 0x0]),
    (0xBD, [0x0, 0x44, 0x48, 0x48, 0x50, 0x10, 0x28, 0x24, 0x48, 0x4C, 0x0, 0x0, 0x0]),
    (0xBE, [0x0, 0x64, 0x28, 0x48, 0x30, 0x70, 0x24, 0x2C, 0x5C, 0x44, 0x0, 0x0, 0x0]),
    (0xBF, [0x0, 0x0, 0x0, 0x0, 0x10, 0x0, 0x10, 0x10, 0x20, 0x40, 0x44, 0x38, 0x0]),
    (0xC0, [0x20, 0x10, 0x0, 0x38, 0x44, 0x44, 0x7C, 0x44, 0x44, 0x44, 0x0, 0x0, 0x0]),
    (0xC1, [0x8, 0x10, 0x0, 0x38, 0x44, 0x44, 0x7C, 0x44, 0x44, 0x44, 0x0, 0x0, 0x0]),
    (0xC2, [0x10, 0x28, 0x0, 0x38, 0x44, 0x44, 0x7C, 0x44, 0x44, 0x44, 0x0, 0x0, 0x0]),
    (0xC3, [0x34, 0x58, 0x0, 0x38, 0x44, 0x44, 0x7C, 0x44, 0x44, 0x44, 0x0, 0x0, 0x0]),
    (0xC4, [0x28, 0x0, 0x38, 0x44, 0x44, 0x44, 0x7C, 0x44, 0x44, 0x44, 0x0, 0x0, 0x0]),
    (0xC5, [0x10, 0x28, 0x10, 0x0, 0x38, 0x44, 0x44, 0x7C, 0x44, 0x44, 0x0, 0x0, 0x0]),
    (0xC6, [0x0, 0x0, 0x3C, 0x50, 0x50, 0x5C, 0x70, 0x50, 0x50, 0x5C, 0x0, 0x0, 0x0]),
    (0xC7, [0x0, 0x0, 0x38, 0x44, 0x40, 0x40, 0x40, 0x40, 0x44, 0x38, 0x10, 0x10, 0x20]),
    (0xC8, [0x20, 0x10, 0x0, 0x7C, 0x40, 0x40, 0x78, 0x40, 0x40, 0x7C, 0x0, 0x0, 0x0]),
    (0xC9, [0x8, 0x10, 0x0, 0x7C, 0x40, 0x40, 0x78, 0x40, 0x40, 0x7C, 0x0, 0x0, 0x0]),
    (0xCA, [0x10, 0x28, 0x0, 0x7C, 0x40, 0x40, 0x78, 0x40, 0x40, 0x7C, 0x0, 0x0, 0x0]),
    (0xCB, [0x28, 0x0, 0x7C, 0x40, 0x40, 0x78, 0x40, 0x40, 0x40, 0x7C, 0x0, 0x0, 0x0]),
    (0xCC, [0x20, 0x10, 0x0, 0x38, 0x10, 0x10, 0x10, 0x10, 0x10, 0x38, 0x0, 0x0, 0x0]),
    (0xCD, [0x8, 0x10, 0x0, 0x38, 0x10, 0x10, 0x10, 0x10, 0x10, 0x38, 0x0, 0x0, 0x0]),
    (0xCE, [0x10, 0x28, 0x0, 0x38, 0x10, 0x10, 0x10, 0x10, 0x10, 0x38, 0x0, 0x0, 0x0]),
    (0xCF, [0x28, 0x0, 0x38, 0x10, 0x10, 0x10, 0x10, 0x10, 0x10, 0x38, 0x0, 0x0, 0x0]),
    (0xD0, [0x0, 0x0, 0x0, 0x38, 0x24, 0x24, 0x74, 0x24, 0x24, 0x38, 0x0, 0x0, 0x0]),
    (0xD1, [0x34, 0x58, 0x0, 0x44, 0x64, 0x64, 0x54, 0x4C, 0x4C, 0x44, 0x0, 0x0, 0x0]),
    (0xD2, [0x20, 0x10, 0x0, 0x38, 0x44, 0x44, 0x44, 0x44, 0x44, 0x38, 0x0, 0x0, 0x0]),
    (0xD3, [0x8, 0x10, 0x0, 0x38, 0x44, 0x44, 0x44, 0x44, 0x44, 0x38, 0x0, 0x0, 0x0]),
    (0xD4, [0x10, 0x28, 0x0, 0x38, 0x44, 0x44, 0x44, 0x44, 0x44, 0x38, 0x0, 0x0, 0x0]),
    (0xD5, [0x34, 0x58, 0x0, 0x38, 0x44, 0x44, 0x44, 0x44, 0x44, 0x38, 0x0, 0x0, 0x0]),
    (0xD6, [0x28, 0x0, 0x38, 0x44, 0x44, 0x44, 0x44, 0x44, 0x44, 0x38, 0x0, 0x0, 0x0]),
    (0xD7, [0x0, 0x0, 0x0, 0x0, 0x44, 0x28, 0x10, 0x28, 0x44, 0x0, 0x0, 0x0, 0x0]),
    (0xD8, [0x0, 0x4, 0x38, 0x4C, 0x4C, 0x54, 0x54, 0x64, 0x64, 0x38, 0x40, 0x0, 0x0]),
    (0xD9, [0x20, 0x10, 0x0, 0x44, 0x44, 0x44, 0x44, 0x44, 0x44, 0x38, 0x0, 0x0, 0x0]),
    (0xDA, [0x8, 0x10, 0x0, 0x44, 0x44, 0x44, 0x44, 0x44, 0x44, 0x38, 0x0, 0x0, 0x0]),
    (0xDB, [0x10, 0x28, 0x0, 0x44, 0x44, 0x44, 0x44, 0x44, 0x44, 0x38, 0x0, 0x0, 0x0]),
    (0xDC, [0x28, 0x0, 0x44, 0x44, 0x44, 0x44, 0x44, 0x44, 0x44, 0x38, 0x0, 0x0, 0x0]),
    (0xDD, [0x8, 0x10, 0x0, 0x44, 0x44, 0x44, 0x28, 0x10, 0x10, 0x10, 0x0, 0x0, 0x0]),
    (0xDE, [0x0, 0x0, 0x40, 0x40, 0x78, 0x44, 0x44, 0x78, 0x40, 0x40, 0x0, 0x0, 0x0]),
    (0xDF, [0x0, 0x0, 0x30, 0x48, 0x48, 0x50, 0x48, 0x44, 0x44, 0x58, 0x0, 0x0, 0x0]),
    (0xE0, [0x0, 0x20, 0x10, 0x0, 0x3C, 0x44, 0x44, 0x44, 0x4C, 0x34, 0x0, 0x0, 0x0]),
    (0xE1, [0x0, 0x8, 0x10, 0x0, 0x3C, 0x44, 0x44, 0x44, 0x4C, 0x34, 0x0, 0x0, 0x0]),
    (0xE2, [0x0, 0x10, 0x28, 0x0, 0x3C, 0x44, 0x44, 0x44, 0x4C, 0x34, 0x0, 0x0, 0x0]),
    (0xE3, [0x0, 0x34, 0x58, 0x0, 0x3C, 0x44, 0x44, 0x44, 0x4C, 0x34, 0x0, 0x0, 0x0]),
    (0xE4, [0x0, 0x0, 0x28, 0x0, 0x3C, 0x44, 0x44, 0x44, 0x4C, 0x34, 0x0, 0x0, 0x0]),
    (0xE5, [0x10, 0x28, 0x10, 0x0, 0x3C, 0x44, 0x44, 0x44, 0x4C, 0x34, 0x0, 0x0, 0x0]),
    (0xE6, [0x0, 0x0, 0x0, 0x0, 0x38, 0x54, 0x5C, 0x50, 0x54, 0x28, 0x0, 0x0, 0x0]),
    (0xE7, [0x0, 0x0, 0x0, 0x0, 0x38, 0x44, 0x40, 0x40, 0x44, 0x38, 0x10, 0x8, 0x30]),
    (0xE8, [0x0, 0x20, 0x10, 0x0, 0x38, 0x44, 0x7C, 0x40, 0x44, 0x38, 0x0, 0x0, 0x0]),
    (0xE9, [0x0, 0x8, 0x10, 0x0, 0x38, 0x44, 0x7C, 0x40, 0x44, 0x38, 0x0, 0x0, 0x0]),
    (0xEA, [0x0, 0x10, 0x28, 0x0, 0x38, 0x44, 0x7C, 0x40, 0x44, 0x38, 0x0, 0x0, 0x0]),
    (0xEB, [0x0, 0x0, 0x28, 0x0, 0x38, 0x44, 0x7C, 0x40, 0x44, 0x38, 0x0, 0x0, 0x0]),
    (0xEC, [0x0, 0x20, 0x10, 0x0, 0x30, 0x10, 0x10, 0x10, 0x10, 0xC, 0x0, 0x0, 0x0]),
    (0xED, [0x0, 0x8, 0x10, 0x0, 0x30, 0x10, 0x10, 0x10, 0x10, 0xC, 0x0, 0x0, 0x0]),
    (0xEE, [0x0, 0x10, 0x28, 0x0, 0x30, 0x10, 0x10, 0x10, 0x10, 0xC, 0x0, 0x0, 0x0]),
    (0xEF, [0x0, 0x0, 0x28, 0x0, 0x30, 0x10, 0x10, 0x10, 0x10, 0xC, 0x0, 0x0, 0x0]),
    (0xF0, [0x0, 0x34, 0x8, 0x14, 0x4, 0x3C, 0x44, 0x44, 0x44, 0x38, 0x0, 0x0, 0x0]),
    (0xF1, [0x0, 0x34, 0x58, 0x0, 0x78, 0x44, 0x44, 0x44, 0x44, 0x44, 0x0, 0x0, 0x0]),
    (0xF2, [0x0, 0x20, 0x10, 0x0, 0x38, 0x44, 0x44, 0x44, 0x44, 0x38, 0x0, 0x0, 0x0]),
    (0xF3, [0x0, 0x8, 0x10, 0x0, 0x38, 0x44, 0x44, 0x44, 0x44, 0x38, 0x0, 0x0, 0x0]),
    (0xF4, [0x0, 0x10, 0x28, 0x0, 0x38, 0x44, 0x44, 0x44, 0x44, 0x38, 0x0, 0x0, 0x0]),
    (0xF5, [0x0, 0x34, 0x58, 0x0, 0x38, 0x44, 0x44, 0x44, 0x44, 0x38, 0x0, 0x0, 0x0]),
    (0xF6, [0x0, 0x0, 0x28, 0x0, 0x38, 0x44, 0x44, 0x44, 0x44, 0x38, 0x0, 0x0, 0x0]),
    (0xF7, [0x0, 0x0, 0x0, 0x0, 0x10, 0x0, 0x7C, 0x0, 0x10, 0x0, 0x0, 0x0, 0x0]),
    (0xF8, [0x0, 0x0, 0x0, 0x4, 0x38, 0x4C, 0x54, 0x54, 0x64, 0x38, 0x40, 0x0, 0x0]),
    (0xF9, [0x0, 0x20, 0x10, 0x0, 0x44, 0x44, 0x44, 0x44, 0x44, 0x3C, 0x0, 0x0, 0x0]),
    (0xFA, [0x0, 0x8, 0x10, 0x0, 0x44, 0x44, 0x44, 0x44, 0x44, 0x3C, 0x0, 0x0, 0x0]),
    (0xFB, [0x0, 0x10, 0x28, 0x0, 0x44, 0x44, 0x44, 0x44, 0x44, 0x3C, 0x0, 0x0, 0x0]),
    (0xFC, [0x0, 0x0, 0x28, 0x0, 0x44, 0x44, 0x44, 0x44, 0x44, 0x3C, 0x0, 0x0, 0x0]),
    (0xFD, [0x0, 0x8, 0x10, 0x0, 0x44, 0x44, 0x44, 0x44, 0x44, 0x3C, 0x4, 0x4, 0x38]),
    (0xFE, [0x0, 0x0, 0x40, 0x40, 0x78, 0x44, 0x44, 0x44, 0x44, 0x78, 0x40, 0x40, 0x0]),
    (0xFF, [0x0, 0x0, 0x28, 0x0, 0x44, 0x44, 0x44, 0x44, 0x44, 0x3C, 0x4, 0x4, 0x38]),
    (0x100, [0x0, 0x38, 0x0, 0x38, 0x44, 0x44, 0x7C, 0x44, 0x44, 0x44, 0x0, 0x0, 0x0]),
    (0x101, [0x0, 0x0, 0x38, 0x0, 0x3C, 0x44, 0x44, 0x44, 0x4C, 0x34, 0x0, 0x0, 0x0]),
    (0x102, [0x28, 0x38, 0x0, 0x38, 0x44, 0x44, 0x7C, 0x44, 0x44, 0x44, 0x0, 0x0, 0x0]),
    (0x103, [0x0, 0x28, 0x38, 0x0, 0x3C, 0x44, 0x44, 0x44, 0x4C, 0x34, 0x0, 0x0, 0x0]),
    (0x104, [0x0, 0x0, 0x38, 0x44, 0x44, 0x44, 0x7C, 0x44, 0x44, 0x44, 0x8, 0xC, 0x0]),
    (0x105, [0x0, 0x0, 0x0, 0x0, 0x38, 0x44, 0x44, 0x44, 0x4C, 0x34, 0x8, 0xC, 0x0]),
    (0x106, [0x8, 0x10, 0x0, 0x38, 0x44, 0x40, 0x40, 0x40, 0x44, 0x38, 0x0, 0x0, 0x0]),
    (0x107, [0x0, 0x8, 0x10, 0x0, 0x38, 0x44, 0x40, 0x40, 0x44, 0x38, 0x0, 0x0, 0x0]),
    (0x108, [0x10, 0x28, 0x0, 0x38, 0x44, 0x40, 0x40, 0x40, 0x44, 0x38, 0x0, 0x0, 0x0]),
    (0x109, [0x0, 0x10, 0x28, 0x0, 0x38, 0x44, 0x40, 0x40, 0x44, 0x38, 0x0, 0x0, 0x0]),
    (0x10A, [0x10, 0x0, 0x38, 0x44, 0x40, 0x40, 0x40, 0x40, 0x44, 0x38, 0x0, 0x0, 0x0]),
    (0x10B, [0x0, 0x0, 0x10, 0x0, 0x38, 0x44, 0x40, 0x40, 0x44, 0x38, 0x0, 0x0, 0x0]),
    (0x10C, [0x28, 0x10, 0x0, 0x38, 0x44, 0x40, 0x40, 0x40, 0x44, 0x38, 0x0, 0x0, 0x0]),
    (0x10D, [0x0, 0x28, 0x10, 0x0, 0x38, 0x44, 0x40, 0x40, 0x44, 0x38, 0x0, 0x0, 0x0]),
    (0x10E, [0x28, 0x10, 0x0, 0x70, 0x48, 0x44, 0x44, 0x44, 0x48, 0x70, 0x0, 0x0, 0x0]),
    (0x10F, [0x0, 0xA, 0xC, 0x8, 0x38, 0x48, 0x48, 0x48, 0x48, 0x38, 0x0, 0x0, 0x0]),
    (0x110, [0x0, 0x0, 0x30, 0x28, 0x24, 0x24, 0x74, 0x24, 0x28, 0x30, 0x0, 0x0, 0x0]),
    (0x111, [0x0, 0x8, 0x3C, 0x8, 0x38, 0x48, 0x48, 0x48, 0x48, 0x38, 0x0, 0x0, 0x0]),
    (0x112, [0x38, 0x0, 0x7C, 0x40, 0x40, 0x78, 0x40, 0x40, 0x40, 0x7C, 0x0, 0x0, 0x0]),
    (0x113, [0x0, 0x0, 0x38, 0x0, 0x38, 0x44, 0x7C, 0x40, 0x44, 0x38, 0x0, 0x0, 0x0]),
    (0x114, [0x28, 0x38, 0x0, 0x7C, 0x40, 0x40, 0x78, 0x40, 0x40, 0x7C, 0x0, 0x0, 0x0]),
    (0x115, [0x0, 0x28, 0x38, 0x0, 0x38, 0x44, 0x7C, 0x40, 0x44, 0x38, 0x0, 0x0, 0x0]),
    (0x116, [0x10, 0x0, 0x7C, 0x40, 0x40, 0x78, 0x40, 0x40, 0x40, 0x7C, 0x0, 0x0, 0x0]),
    (0x117, [0x0, 0x0, 0x10, 0x0, 0x38, 0x44, 0x7C, 0x40, 0x44, 0x38, 0x0, 0x0, 0x0]),
    (0x118, [0x0, 0x0, 0x7C, 0x40, 0x40, 0x78, 0x40, 0x40, 0x40, 0x7C, 0x8, 0xC, 0x0]),
    (0x119, [0x0, 0x0, 0x0, 0x0, 0x38, 0x44, 0x7C, 0x40, 0x44, 0x38, 0x8, 0xC, 0x0]),
    (0x11A, [0x28, 0x10, 0x0, 0x7C, 0x40, 0x40, 0x78, 0x40, 0x40, 0x7C, 0x0, 0x0, 0x0]),
    (0x11B, [0x0, 0x28, 0x10, 0x0, 0x38, 0x44, 0x7C, 0x40, 0x44, 0x38, 0x0, 0x0, 0x0]),
    (0x11C, [0x10, 0x28, 0x0, 0x38, 0x44, 0x40, 0x4C, 0x44, 0x44, 0x38, 0x0, 0x0, 0x0]),
    (0x11D, [0x0, 0x10, 0x28, 0x0, 0x3C, 0x44, 0x44, 0x44, 0x44, 0x3C, 0x4, 0x4, 0x38]),
    (0x11E, [0x28, 0x38, 0x0, 0x38, 0x44, 0x40, 0x4C, 0x44, 0x44, 0x38, 0x0, 0x0, 0x0]),
    (0x11F, [0x0, 0x28, 0x38, 0x0, 0x3C, 0x44, 0x44, 0x44, 0x44, 0x3C, 0x4, 0x4, 0x38]),
    (0x120, [0x10, 0x0, 0x38, 0x44, 0x40, 0x40, 0x4C, 0x44, 0x44, 0x38, 0x0, 0x0, 0x0]),
    (0x121, [0x0, 0x0, 0x10, 0x0, 0x3C, 0x44, 0x44, 0x44, 0x44, 0x3C, 0x4, 0x4, 0x38]),
    (0x122, [0x0, 0x0, 0x38, 0x44, 0x40, 0x40, 0x4C, 0x44, 0x44, 0x38, 0x0, 0x10, 0x20]),
    (0x123, [0x0, 0x8, 0x10, 0x0, 0x3C, 0x44, 0x44, 0x44, 0x44, 0x3C, 0x4, 0x4, 0x38]),
    (0x124, [0x10, 0x28, 0x0, 0x44, 0x44, 0x44, 0x7C, 0x44, 0x44, 0x44, 0x0, 0x0, 0x0]),
    (0x125, [0x10, 0x28, 0x0, 0x20, 0x20, 0x38, 0x24, 0x24, 0x24, 0x24, 0x0, 0x0, 0x0]),
    (0x126, [0x0, 0x0, 0x44, 0xFE, 0x44, 0x7C, 0x44, 0x44, 0x44, 0x44, 0x0, 0x0, 0x0]),
    (0x127, [0x0, 0x20, 0x70, 0x20, 0x38, 0x24, 0x24, 0x24, 0x24, 0x24, 0x0, 0x0, 0x0]),
    (0x128, [0x34, 0x58, 0x0, 0x38, 0x10, 0x10, 0x10, 0x10, 0x10, 0x38, 0x0, 0x0, 0x0]),
    (0x129, [0x0, 0x34, 0x58, 0x0, 0x30, 0x10, 0x10, 0x10, 0x10, 0xC, 0x0, 0x0, 0x0]),
    (0x12A, [0x38, 0x0, 0x38, 0x10, 0x10, 0x10, 0x10, 0x10, 0x10, 0x38, 0x0, 0x0, 0x0]),
    (0x12B, [0x0, 0x0, 0x38, 0x0, 0x30, 0x10, 0x10, 0x10, 0x10, 0xC, 0x0, 0x0, 0x0]),
    (0x12C, [0x28, 0x38, 0x0, 0x38, 0x10, 0x10, 0x10, 0x10, 0x10, 0x38, 0x0, 0x0, 0x0]),
    (0x12D, [0x0, 0x28, 0x38, 0x0, 0x30, 0x10, 0x10, 0x10, 0x10, 0xC, 0x0, 0x0, 0x0]),
    (0x12E, [0x0, 0x0, 0x38, 0x10, 0x10, 0x10, 0x10, 0x10, 0x10, 0x38, 0x10, 0x18, 0x0]),
    (0x12F, [0x0, 0x0, 0x10, 0x0, 0x30, 0x10, 0x10, 0x10, 0x10, 0xC, 0x8, 0xC, 0x0]),
    (0x130, [0x10, 0x0, 0x38, 0x10, 0x10, 0x10, 0x10, 0x10, 0x10, 0x38, 0x0, 0x0, 0x0]),
    (0x131, [0x0, 0x0, 0x0, 0x0, 0x30, 0x10, 0x10, 0x10, 0x10, 0xC, 0x0, 0x0, 0x0]),
    (0x132, [0x0, 0x7C, 0x24, 0x24, 0x24, 0x24, 0x24, 0x24, 0x24, 0x74, 0x4, 0x8, 0x0]),
    (0x133, [0x0, 0x0, 0x24, 0x0, 0x6C, 0x24, 0x24, 0x24, 0x24, 0x14, 0x4, 0x8, 0x0]),
    (0x134, [0x8, 0x14, 0x0, 0x1C, 0x4, 0x4, 0x4, 0x44, 0x44, 0x38, 0x0, 0x0, 0x0]),
    (0x135, [0x0, 0x8, 0x14, 0x0, 0x18, 0x8, 0x8, 0x8, 0x8, 0x8, 0x8, 0x70, 0x0])]"

definition FONT_EXTRA_1 :: "(u16 \<times> u8 list) list" where
  "FONT_EXTRA_1 = [
    (0x136, [0x0, 0x0, 0x44, 0x48, 0x50, 0x70, 0x48, 0x48, 0x44, 0x44, 0x10, 0x20, 0x0]),
    (0x137, [0x0, 0x40, 0x40, 0x40, 0x44, 0x48, 0x50, 0x70, 0x48, 0x44, 0x10, 0x20, 0x0]),
    (0x138, [0x0, 0x0, 0x0, 0x0, 0x44, 0x48, 0x50, 0x70, 0x48, 0x44, 0x0, 0x0, 0x0]),
    (0x139, [0x20, 0x40, 0x0, 0x40, 0x40, 0x40, 0x40, 0x40, 0x40, 0x7C, 0x0, 0x0, 0x0]),
    (0x13A, [0x8, 0x10, 0x0, 0x30, 0x10, 0x10, 0x10, 0x10, 0x10, 0x18, 0x0, 0x0, 0x0]),
    (0x13B, [0x0, 0x0, 0x40, 0x40, 0x40, 0x40, 0x40, 0x40, 0x40, 0x7C, 0x0, 0x10, 0x20]),
    (0x13C, [0x0, 0x30, 0x10, 0x10, 0x10, 0x10, 0x10, 0x10, 0x10, 0x18, 0x0, 0x10, 0x20]),
    (0x13D, [0x0, 0x10, 0x50, 0x40, 0x40, 0x40, 0x40, 0x40, 0x40, 0x7C, 0x0, 0x0, 0x0]),
    (0x13E, [0x4, 0x34, 0x10, 0x10, 0x10, 0x10, 0x10, 0x10, 0x10, 0x18, 0x0, 0x0, 0x0]),
    (0x13F, [0x0, 0x0, 0x40, 0x40, 0x40, 0x50, 0x40, 0x40, 0x40, 0x7C, 0x0, 0x0, 0x0]),
    (0x140, [0x0, 0x30, 0x10, 0x10, 0x10, 0x14, 0x10, 0x10, 0x10, 0x18, 0x0, 0x0, 0x0]),
    (0x141, [0x0, 0x0, 0x20, 0x20, 0x28, 0x30, 0x20, 0x60, 0x20, 0x3C, 0x0, 0x0, 0x0]),
    (0x142, [0x0, 0x30, 0x10, 0x10, 0x18, 0x30, 0x10, 0x10, 0x10, 0x18, 0x0, 0x0, 0x0]),
    (0x143, [0x8, 0x10, 0x0, 0x44, 0x64, 0x64, 0x54, 0x4C, 0x4C, 0x44, 0x0, 0x0, 0x0]),
    (0x144, [0x0, 0x8, 0x10, 0x0, 0x78, 0x44, 0x44, 0x44, 0x44, 0x44, 0x0, 0x0, 0x0]),
    (0x145, [0x0, 0x0, 0x44, 0x64, 0x64, 0x54, 0x54, 0x4C, 0x4C, 0x44, 0x0, 0x10, 0x20]),
    (0x146, [0x0, 0x0, 0x0, 0x0, 0x78, 0x44, 0x44, 0x44, 0x44, 0x44, 0x10, 0x20, 0x0]),
    (0x147, [0x28, 0x10, 0x44, 0x64, 0x64, 0x54, 0x54, 0x4C, 0x4C, 0x44, 0x0, 0x0, 0x0]),
    (0x148, [0x0, 0x28, 0x10, 0x0, 0x78, 0x44, 0x44, 0x44, 0x44, 0x44, 0x0, 0x0, 0x0]),
    (0x149, [0xC0, 0x40, 0x80, 0x0, 0x78, 0x44, 0x44, 0x44, 0x44, 0x44, 0x0, 0x0, 0x0]),
    (0x14A, [0x0, 0x0, 0x58, 0x64, 0x44, 0x44, 0x44, 0x44, 0x44, 0x44, 0x4, 0x8, 0x0]),
    (0x14B, [0x0, 0x0, 0x0, 0x0, 0x58, 0x64, 0x44, 0x44, 0x44, 0x44, 0x4, 0x8, 0x0]),
    (0x14C, [0x38, 0x0, 0x38, 0x44, 0x44, 0x44, 0x44, 0x44, 0x44, 0x38, 0x0, 0x0, 0x0]),
    (0x14D, [0x0, 0x0, 0x38, 0x0, 0x38, 0x44, 0x44, 0x44, 0x44, 0x38, 0x0, 0x0, 0x0]),
    (0x14E, [0x28, 0x38, 0x0, 0x38, 0x44, 0x44, 0x44, 0x44, 0x44, 0x38, 0x0, 0x0, 0x0]),
    (0x14F, [0x0, 0x28, 0x38, 0x0, 0x38, 0x44, 0x44, 0x44, 0x44, 0x38, 0x0, 0x0, 0x0]),
    (0x150, [0x24, 0x48, 0x0, 0x38, 0x44, 0x44, 0x44, 0x44, 0x44, 0x38, 0x0, 0x0, 0x0]),
    (0x151, [0x0, 0x24, 0x48, 0x0, 0x38, 0x44, 0x44, 0x44, 0x44, 0x38, 0x0, 0x0, 0x0]),
    (0x152, [0x0, 0x0, 0x3C, 0x50, 0x50, 0x58, 0x50, 0x50, 0x50, 0x3C, 0x0, 0x0, 0x0]),
    (0x153, [0x0, 0x0, 0x0, 0x0, 0x28, 0x54, 0x5C, 0x50, 0x54, 0x28, 0x0, 0x0, 0x0]),
    (0x154, [0x8, 0x10, 0x0, 0x78, 0x44, 0x44, 0x78, 0x48, 0x44, 0x44, 0x0, 0x0, 0x0]),
    (0x155, [0x0, 0x8, 0x10, 0x0, 0x78, 0x44, 0x40, 0x40, 0x40, 0x40, 0x0, 0x0, 0x0]),
    (0x156, [0x0, 0x0, 0x78, 0x44, 0x44, 0x78, 0x48, 0x44, 0x44, 0x44, 0x10, 0x20, 0x0]),
    (0x157, [0x0, 0x0, 0x0, 0x0, 0x78, 0x44, 0x40, 0x40, 0x40, 0x40, 0x0, 0x40, 0x80]),
    (0x158, [0x28, 0x10, 0x0, 0x78, 0x44, 0x44, 0x78, 0x48, 0x44, 0x44, 0x0, 0x0, 0x0]),
    (0x159, [0x0, 0x28, 0x10, 0x0, 0x78, 0x44, 0x40, 0x40, 0x40, 0x40, 0x0, 0x0, 0x0]),
    (0x15A, [0x8, 0x10, 0x0, 0x38, 0x44, 0x40, 0x38, 0x4, 0x44, 0x38, 0x0, 0x0, 0x0]),
    (0x15B, [0x0, 0x8, 0x10, 0x0, 0x3C, 0x40, 0x38, 0x4, 0x4, 0x78, 0x0, 0x0, 0x0]),
    (0x15C, [0x10, 0x28, 0x0, 0x38, 0x44, 0x40, 0x38, 0x4, 0x44, 0x38, 0x0, 0x0, 0x0]),
    (0x15D, [0x0, 0x10, 0x28, 0x0, 0x3C, 0x40, 0x38, 0x4, 0x4, 0x78, 0x0, 0x0, 0x0]),
    (0x15E, [0x0, 0x0, 0x38, 0x44, 0x40, 0x38, 0x4, 0x4, 0x44, 0x38, 0x10, 0x8, 0x30]),
    (0x15F, [0x0, 0x0, 0x0, 0x0, 0x3C, 0x40, 0x38, 0x4, 0x4, 0x78, 0x10, 0x8, 0x30]),
    (0x160, [0x28, 0x10, 0x0, 0x38, 0x44, 0x40, 0x38, 0x4, 0x44, 0x38, 0x0, 0x0, 0x0]),
    (0x161, [0x0, 0x28, 0x10, 0x0, 0x3C, 0x40, 0x38, 0x4, 0x4, 0x78, 0x0, 0x0, 0x0]),
    (0x162, [0x0, 0x0, 0x7C, 0x10, 0x10, 0x10, 0x10, 0x10, 0x10, 0x10, 0x8, 0x30, 0x0]),
    (0x163, [0x0, 0x0, 0x20, 0x20, 0x78, 0x20, 0x20, 0x20, 0x20, 0x1C, 0x10, 0x8, 0x30]),
    (0x164, [0x28, 0x10, 0x0, 0x7C, 0x10, 0x10, 0x10, 0x10, 0x10, 0x10, 0x0, 0x0, 0x0]),
    (0x165, [0x0, 0x8, 0x28, 0x20, 0x78, 0x20, 0x20, 0x20, 0x20, 0x1C, 0x0, 0x0, 0x0]),
    (0x166, [0x0, 0x0, 0x7C, 0x10, 0x10, 0x38, 0x10, 0x10, 0x10, 0x10, 0x0, 0x0, 0x0]),
    (0x167, [0x0, 0x0, 0x20, 0x20, 0x78, 0x20, 0x78, 0x20, 0x20, 0x1C, 0x0, 0x0, 0x0]),
    (0x168, [0x34, 0x58, 0x0, 0x44, 0x44, 0x44, 0x44, 0x44, 0x44, 0x38, 0x0, 0x0, 0x0]),
    (0x169, [0x0, 0x34, 0x58, 0x0, 0x44, 0x44, 0x44, 0x44, 0x44, 0x3C, 0x0, 0x0, 0x0]),
    (0x16A, [0x38, 0x0, 0x44, 0x44, 0x44, 0x44, 0x44, 0x44, 0x44, 0x38, 0x0, 0x0, 0x0]),
    (0x16B, [0x0, 0x0, 0x38, 0x0, 0x44, 0x44, 0x44, 0x44, 0x44, 0x3C, 0x0, 0x0, 0x0]),
    (0x16C, [0x28, 0x38, 0x0, 0x44, 0x44, 0x44, 0x44, 0x44, 0x44, 0x38, 0x0, 0x0, 0x0]),
    (0x16D, [0x0, 0x28, 0x38, 0x0, 0x44, 0x44, 0x44, 0x44, 0x44, 0x3C, 0x0, 0x0, 0x0]),
    (0x16E, [0x10, 0x28, 0x10, 0x44, 0x44, 0x44, 0x44, 0x44, 0x44, 0x38, 0x0, 0x0, 0x0]),
    (0x16F, [0x10, 0x28, 0x10, 0x0, 0x44, 0x44, 0x44, 0x44, 0x44, 0x3C, 0x0, 0x0, 0x0]),
    (0x170, [0x24, 0x48, 0x0, 0x44, 0x44, 0x44, 0x44, 0x44, 0x44, 0x38, 0x0, 0x0, 0x0]),
    (0x171, [0x0, 0x24, 0x48, 0x0, 0x44, 0x44, 0x44, 0x44, 0x44, 0x3C, 0x0, 0x0, 0x0]),
    (0x172, [0x0, 0x0, 0x44, 0x44, 0x44, 0x44, 0x44, 0x44, 0x44, 0x38, 0x10, 0x18, 0x0]),
    (0x173, [0x0, 0x0, 0x0, 0x0, 0x44, 0x44, 0x44, 0x44, 0x44, 0x3C, 0x8, 0xC, 0x0]),
    (0x174, [0x10, 0x28, 0x0, 0x44, 0x44, 0x54, 0x54, 0x38, 0x28, 0x28, 0x0, 0x0, 0x0]),
    (0x175, [0x0, 0x10, 0x28, 0x0, 0x44, 0x44, 0x54, 0x54, 0x28, 0x28, 0x0, 0x0, 0x0]),
    (0x176, [0x10, 0x28, 0x0, 0x44, 0x44, 0x44, 0x28, 0x10, 0x10, 0x10, 0x0, 0x0, 0x0]),
    (0x177, [0x0, 0x10, 0x28, 0x0, 0x44, 0x44, 0x44, 0x44, 0x44, 0x3C, 0x4, 0x4, 0x38]),
    (0x178, [0x0, 0x28, 0x0, 0x44, 0x44, 0x44, 0x28, 0x10, 0x10, 0x10, 0x0, 0x0, 0x0]),
    (0x179, [0x8, 0x10, 0x0, 0x7C, 0x4, 0x8, 0x10, 0x20, 0x40, 0x7C, 0x0, 0x0, 0x0]),
    (0x17A, [0x0, 0x8, 0x10, 0x0, 0x7C, 0x8, 0x10, 0x20, 0x40, 0x7C, 0x0, 0x0, 0x0]),
    (0x17B, [0x10, 0x0, 0x7C, 0x8, 0x10, 0x10, 0x20, 0x20, 0x40, 0x7C, 0x0, 0x0, 0x0]),
    (0x17C, [0x0, 0x0, 0x10, 0x0, 0x7C, 0x8, 0x10, 0x20, 0x40, 0x7C, 0x0, 0x0, 0x0]),
    (0x17D, [0x28, 0x10, 0x0, 0x7C, 0x4, 0x8, 0x10, 0x20, 0x40, 0x7C, 0x0, 0x0, 0x0]),
    (0x17E, [0x0, 0x28, 0x10, 0x0, 0x7C, 0x8, 0x10, 0x20, 0x40, 0x7C, 0x0, 0x0, 0x0]),
    (0x17F, [0x0, 0x0, 0xC, 0x10, 0x30, 0x10, 0x10, 0x10, 0x10, 0x10, 0x0, 0x0, 0x0]),
    (0x2022, [0x0, 0x0, 0x0, 0x0, 0x38, 0x7C, 0x7C, 0x7C, 0x38, 0x0, 0x0, 0x0, 0x0]),
    (0x2026, [0x0, 0x0, 0x0, 0x0, 0x0, 0x0, 0x0, 0x0, 0x0, 0x54, 0x0, 0x0, 0x0]),
    (0x2190, [0x0, 0x0, 0x0, 0x0, 0x10, 0x20, 0x7C, 0x20, 0x10, 0x0, 0x0, 0x0, 0x0]),
    (0x2191, [0x0, 0x0, 0x0, 0x10, 0x38, 0x54, 0x10, 0x10, 0x10, 0x10, 0x0, 0x0, 0x0]),
    (0x2192, [0x0, 0x0, 0x0, 0x0, 0x10, 0x8, 0x7C, 0x8, 0x10, 0x0, 0x0, 0x0, 0x0]),
    (0x2193, [0x0, 0x0, 0x0, 0x10, 0x10, 0x10, 0x10, 0x54, 0x38, 0x10, 0x0, 0x0, 0x0]),
    (0x2500, [0x0, 0x0, 0x0, 0x0, 0x0, 0x0, 0xFE, 0x0, 0x0, 0x0, 0x0, 0x0, 0x0]),
    (0x2501, [0x0, 0x0, 0x0, 0x0, 0x0, 0xFE, 0xFE, 0x0, 0x0, 0x0, 0x0, 0x0, 0x0]),
    (0x2502, [0x10, 0x10, 0x10, 0x10, 0x10, 0x10, 0x10, 0x10, 0x10, 0x10, 0x10, 0x10, 0x10]),
    (0x2503, [0x18, 0x18, 0x18, 0x18, 0x18, 0x18, 0x18, 0x18, 0x18, 0x18, 0x18, 0x18, 0x18]),
    (0x2504, [0x0, 0x0, 0x0, 0x0, 0x0, 0x0, 0xB4, 0x0, 0x0, 0x0, 0x0, 0x0, 0x0]),
    (0x2505, [0x0, 0x0, 0x0, 0x0, 0x0, 0xB4, 0xB4, 0x0, 0x0, 0x0, 0x0, 0x0, 0x0]),
    (0x2506, [0x0, 0x10, 0x10, 0x10, 0x0, 0x10, 0x10, 0x10, 0x10, 0x0, 0x10, 0x10, 0x10]),
    (0x2507, [0x0, 0x18, 0x18, 0x18, 0x0, 0x18, 0x18, 0x18, 0x18, 0x0, 0x18, 0x18, 0x18]),
    (0x2508, [0x0, 0x0, 0x0, 0x0, 0x0, 0x0, 0xAA, 0x0, 0x0, 0x0, 0x0, 0x0, 0x0]),
    (0x2509, [0x0, 0x0, 0x0, 0x0, 0x0, 0xAA, 0xAA, 0x0, 0x0, 0x0, 0x0, 0x0, 0x0]),
    (0x250A, [0x0, 0x10, 0x10, 0x0, 0x10, 0x10, 0x0, 0x10, 0x10, 0x10, 0x0, 0x10, 0x10]),
    (0x250B, [0x0, 0x18, 0x18, 0x0, 0x18, 0x18, 0x0, 0x18, 0x18, 0x18, 0x0, 0x18, 0x18]),
    (0x250C, [0x0, 0x0, 0x0, 0x0, 0x0, 0x0, 0x1E, 0x10, 0x10, 0x10, 0x10, 0x10, 0x10]),
    (0x250D, [0x0, 0x0, 0x0, 0x0, 0x0, 0x1E, 0x1E, 0x10, 0x10, 0x10, 0x10, 0x10, 0x10]),
    (0x250E, [0x0, 0x0, 0x0, 0x0, 0x0, 0x0, 0x1E, 0x18, 0x18, 0x18, 0x18, 0x18, 0x18]),
    (0x250F, [0x0, 0x0, 0x0, 0x0, 0x0, 0x1E, 0x1E, 0x18, 0x18, 0x18, 0x18, 0x18, 0x18]),
    (0x2510, [0x0, 0x0, 0x0, 0x0, 0x0, 0x0, 0xF0, 0x10, 0x10, 0x10, 0x10, 0x10, 0x10]),
    (0x2511, [0x0, 0x0, 0x0, 0x0, 0x0, 0xF0, 0xF0, 0x10, 0x10, 0x10, 0x10, 0x10, 0x10]),
    (0x2512, [0x0, 0x0, 0x0, 0x0, 0x0, 0x0, 0xF8, 0x18, 0x18, 0x18, 0x18, 0x18, 0x18]),
    (0x2513, [0x0, 0x0, 0x0, 0x0, 0x0, 0xF8, 0xF8, 0x18, 0x18, 0x18, 0x18, 0x18, 0x18]),
    (0x2514, [0x10, 0x10, 0x10, 0x10, 0x10, 0x10, 0x1E, 0x0, 0x0, 0x0, 0x0, 0x0, 0x0]),
    (0x2515, [0x10, 0x10, 0x10, 0x10, 0x10, 0x1E, 0x1E, 0x0, 0x0, 0x0, 0x0, 0x0, 0x0]),
    (0x2516, [0x18, 0x18, 0x18, 0x18, 0x18, 0x18, 0x1E, 0x0, 0x0, 0x0, 0x0, 0x0, 0x0]),
    (0x2517, [0x18, 0x18, 0x18, 0x18, 0x18, 0x1E, 0x1E, 0x0, 0x0, 0x0, 0x0, 0x0, 0x0]),
    (0x2518, [0x10, 0x10, 0x10, 0x10, 0x10, 0x10, 0xF0, 0x0, 0x0, 0x0, 0x0, 0x0, 0x0]),
    (0x2519, [0x10, 0x10, 0x10, 0x10, 0x10, 0xF0, 0xF0, 0x0, 0x0, 0x0, 0x0, 0x0, 0x0]),
    (0x251A, [0x18, 0x18, 0x18, 0x18, 0x18, 0x18, 0xF8, 0x0, 0x0, 0x0, 0x0, 0x0, 0x0]),
    (0x251B, [0x18, 0x18, 0x18, 0x18, 0x18, 0xF8, 0xF8, 0x0, 0x0, 0x0, 0x0, 0x0, 0x0]),
    (0x251C, [0x10, 0x10, 0x10, 0x10, 0x10, 0x10, 0x1E, 0x10, 0x10, 0x10, 0x10, 0x10, 0x10]),
    (0x251D, [0x10, 0x10, 0x10, 0x10, 0x10, 0x1E, 0x1E, 0x10, 0x10, 0x10, 0x10, 0x10, 0x10]),
    (0x251E, [0x18, 0x18, 0x18, 0x18, 0x18, 0x18, 0x1E, 0x10, 0x10, 0x10, 0x10, 0x10, 0x10]),
    (0x251F, [0x10, 0x10, 0x10, 0x10, 0x10, 0x10, 0x1E, 0x18, 0x18, 0x18, 0x18, 0x18, 0x18]),
    (0x2520, [0x18, 0x18, 0x18, 0x18, 0x18, 0x18, 0x1E, 0x18, 0x18, 0x18, 0x18, 0x18, 0x18]),
    (0x2521, [0x18, 0x18, 0x18, 0x18, 0x18, 0x1E, 0x1E, 0x10, 0x10, 0x10, 0x10, 0x10, 0x10]),
    (0x2522, [0x10, 0x10, 0x10, 0x10, 0x10, 0x1E, 0x1E, 0x18, 0x18, 0x18, 0x18, 0x18, 0x18]),
    (0x2523, [0x18, 0x18, 0x18, 0x18, 0x18, 0x1E, 0x1E, 0x18, 0x18, 0x18, 0x18, 0x18, 0x18]),
    (0x2524, [0x10, 0x10, 0x10, 0x10, 0x10, 0x10, 0xF0, 0x10, 0x10, 0x10, 0x10, 0x10, 0x10]),
    (0x2525, [0x10, 0x10, 0x10, 0x10, 0x10, 0xF0, 0xF0, 0x10, 0x10, 0x10, 0x10, 0x10, 0x10]),
    (0x2526, [0x18, 0x18, 0x18, 0x18, 0x18, 0x18, 0xF8, 0x10, 0x10, 0x10, 0x10, 0x10, 0x10]),
    (0x2527, [0x10, 0x10, 0x10, 0x10, 0x10, 0x10, 0xF8, 0x18, 0x18, 0x18, 0x18, 0x18, 0x18]),
    (0x2528, [0x18, 0x18, 0x18, 0x18, 0x18, 0x18, 0xF8, 0x18, 0x18, 0x18, 0x18, 0x18, 0x18]),
    (0x2529, [0x18, 0x18, 0x18, 0x18, 0x18, 0xF8, 0xF8, 0x10, 0x10, 0x10, 0x10, 0x10, 0x10]),
    (0x252A, [0x10, 0x10, 0x10, 0x10, 0x10, 0xF8, 0xF8, 0x18, 0x18, 0x18, 0x18, 0x18, 0x18]),
    (0x252B, [0x18, 0x18, 0x18, 0x18, 0x18, 0xF8, 0xF8, 0x18, 0x18, 0x18, 0x18, 0x18, 0x18]),
    (0x252C, [0x0, 0x0, 0x0, 0x0, 0x0, 0x0, 0xFE, 0x10, 0x10, 0x10, 0x10, 0x10, 0x10]),
    (0x252D, [0x0, 0x0, 0x0, 0x0, 0x0, 0xF0, 0xFE, 0x10, 0x10, 0x10, 0x10, 0x10, 0x10]),
    (0x252E, [0x0, 0x0, 0x0, 0x0, 0x0, 0x1E, 0xFE, 0x10, 0x10, 0x10, 0x10, 0x10, 0x10]),
    (0x252F, [0x0, 0x0, 0x0, 0x0, 0x0, 0xFE, 0xFE, 0x10, 0x10, 0x10, 0x10, 0x10, 0x10]),
    (0x2530, [0x0, 0x0, 0x0, 0x0, 0x0, 0x0, 0xFE, 0x18, 0x18, 0x18, 0x18, 0x18, 0x18]),
    (0x2531, [0x0, 0x0, 0x0, 0x0, 0x0, 0xF8, 0xFE, 0x18, 0x18, 0x18, 0x18, 0x18, 0x18]),
    (0x2532, [0x0, 0x0, 0x0, 0x0, 0x0, 0x1E, 0xFE, 0x18, 0x18, 0x18, 0x18, 0x18, 0x18]),
    (0x2533, [0x0, 0x0, 0x0, 0x0, 0x0, 0xFE, 0xFE, 0x18, 0x18, 0x18, 0x18, 0x18, 0x18]),
    (0x2534, [0x10, 0x10, 0x10, 0x10, 0x10, 0x10, 0xFE, 0x0, 0x0, 0x0, 0x0, 0x0, 0x0]),
    (0x2535, [0x10, 0x10, 0x10, 0x10, 0x10, 0xF0, 0xFE, 0x0, 0x0, 0x0, 0x0, 0x0, 0x0]),
    (0x2536, [0x10, 0x10, 0x10, 0x10, 0x10, 0x1E, 0xFE, 0x0, 0x0, 0x0, 0x0, 0x0, 0x0]),
    (0x2537, [0x10, 0x10, 0x10, 0x10, 0x10, 0xFE, 0xFE, 0x0, 0x0, 0x0, 0x0, 0x0, 0x0]),
    (0x2538, [0x18, 0x18, 0x18, 0x18, 0x18, 0x18, 0xFE, 0x0, 0x0, 0x0, 0x0, 0x0, 0x0]),
    (0x2539, [0x18, 0x18, 0x18, 0x18, 0x18, 0xF8, 0xFE, 0x0, 0x0, 0x0, 0x0, 0x0, 0x0]),
    (0x253A, [0x18, 0x18, 0x18, 0x18, 0x18, 0x1E, 0xFE, 0x0, 0x0, 0x0, 0x0, 0x0, 0x0]),
    (0x253B, [0x18, 0x18, 0x18, 0x18, 0x18, 0xFE, 0xFE, 0x0, 0x0, 0x0, 0x0, 0x0, 0x0]),
    (0x253C, [0x10, 0x10, 0x10, 0x10, 0x10, 0x10, 0xFE, 0x10, 0x10, 0x10, 0x10, 0x10, 0x10]),
    (0x253D, [0x10, 0x10, 0x10, 0x10, 0x10, 0xF0, 0xFE, 0x10, 0x10, 0x10, 0x10, 0x10, 0x10]),
    (0x253E, [0x10, 0x10, 0x10, 0x10, 0x10, 0x1E, 0xFE, 0x10, 0x10, 0x10, 0x10, 0x10, 0x10]),
    (0x253F, [0x10, 0x10, 0x10, 0x10, 0x10, 0xFE, 0xFE, 0x10, 0x10, 0x10, 0x10, 0x10, 0x10]),
    (0x2540, [0x18, 0x18, 0x18, 0x18, 0x18, 0x18, 0xFE, 0x10, 0x10, 0x10, 0x10, 0x10, 0x10]),
    (0x2541, [0x10, 0x10, 0x10, 0x10, 0x10, 0x10, 0xFE, 0x18, 0x18, 0x18, 0x18, 0x18, 0x18]),
    (0x2542, [0x18, 0x18, 0x18, 0x18, 0x18, 0x18, 0xFE, 0x18, 0x18, 0x18, 0x18, 0x18, 0x18]),
    (0x2543, [0x18, 0x18, 0x18, 0x18, 0x18, 0xF8, 0xFE, 0x10, 0x10, 0x10, 0x10, 0x10, 0x10]),
    (0x2544, [0x18, 0x18, 0x18, 0x18, 0x18, 0x1E, 0xFE, 0x10, 0x10, 0x10, 0x10, 0x10, 0x10]),
    (0x2545, [0x10, 0x10, 0x10, 0x10, 0x10, 0xF8, 0xFE, 0x18, 0x18, 0x18, 0x18, 0x18, 0x18])]"

definition FONT_EXTRA_2 :: "(u16 \<times> u8 list) list" where
  "FONT_EXTRA_2 = [
    (0x2546, [0x10, 0x10, 0x10, 0x10, 0x10, 0x1E, 0xFE, 0x18, 0x18, 0x18, 0x18, 0x18, 0x18]),
    (0x2547, [0x18, 0x18, 0x18, 0x18, 0x18, 0xFE, 0xFE, 0x10, 0x10, 0x10, 0x10, 0x10, 0x10]),
    (0x2548, [0x10, 0x10, 0x10, 0x10, 0x10, 0xFE, 0xFE, 0x18, 0x18, 0x18, 0x18, 0x18, 0x18]),
    (0x2549, [0x18, 0x18, 0x18, 0x18, 0x18, 0xF8, 0xFE, 0x18, 0x18, 0x18, 0x18, 0x18, 0x18]),
    (0x254A, [0x18, 0x18, 0x18, 0x18, 0x18, 0x1E, 0xFE, 0x18, 0x18, 0x18, 0x18, 0x18, 0x18]),
    (0x254B, [0x18, 0x18, 0x18, 0x18, 0x18, 0xFE, 0xFE, 0x18, 0x18, 0x18, 0x18, 0x18, 0x18]),
    (0x254C, [0x0, 0x0, 0x0, 0x0, 0x0, 0x0, 0xDC, 0x0, 0x0, 0x0, 0x0, 0x0, 0x0]),
    (0x254D, [0x0, 0x0, 0x0, 0x0, 0x0, 0xDC, 0xDC, 0x0, 0x0, 0x0, 0x0, 0x0, 0x0]),
    (0x254E, [0x0, 0x0, 0x10, 0x10, 0x10, 0x10, 0x10, 0x0, 0x10, 0x10, 0x10, 0x10, 0x10]),
    (0x254F, [0x0, 0x0, 0x18, 0x18, 0x18, 0x18, 0x18, 0x0, 0x18, 0x18, 0x18, 0x18, 0x18]),
    (0x2550, [0x0, 0x0, 0x0, 0x0, 0x0, 0xFE, 0x0, 0xFE, 0x0, 0x0, 0x0, 0x0, 0x0]),
    (0x2551, [0x28, 0x28, 0x28, 0x28, 0x28, 0x28, 0x28, 0x28, 0x28, 0x28, 0x28, 0x28, 0x28]),
    (0x2552, [0x0, 0x0, 0x0, 0x0, 0x0, 0x1E, 0x10, 0x1E, 0x10, 0x10, 0x10, 0x10, 0x10]),
    (0x2553, [0x0, 0x0, 0x0, 0x0, 0x0, 0x0, 0x3E, 0x28, 0x28, 0x28, 0x28, 0x28, 0x28]),
    (0x2554, [0x0, 0x0, 0x0, 0x0, 0x0, 0x3E, 0x20, 0x2E, 0x28, 0x28, 0x28, 0x28, 0x28]),
    (0x2555, [0x0, 0x0, 0x0, 0x0, 0x0, 0xF0, 0x10, 0xF0, 0x10, 0x10, 0x10, 0x10, 0x10]),
    (0x2556, [0x0, 0x0, 0x0, 0x0, 0x0, 0x0, 0xF8, 0x28, 0x28, 0x28, 0x28, 0x28, 0x28]),
    (0x2557, [0x0, 0x0, 0x0, 0x0, 0x0, 0xF8, 0x8, 0xE8, 0x28, 0x28, 0x28, 0x28, 0x28]),
    (0x2558, [0x10, 0x10, 0x10, 0x10, 0x10, 0x1E, 0x10, 0x1E, 0x0, 0x0, 0x0, 0x0, 0x0]),
    (0x2559, [0x28, 0x28, 0x28, 0x28, 0x28, 0x28, 0x3E, 0x0, 0x0, 0x0, 0x0, 0x0, 0x0]),
    (0x255A, [0x28, 0x28, 0x28, 0x28, 0x28, 0x2E, 0x20, 0x3E, 0x0, 0x0, 0x0, 0x0, 0x0]),
    (0x255B, [0x10, 0x10, 0x10, 0x10, 0x10, 0xF0, 0x10, 0xF0, 0x0, 0x0, 0x0, 0x0, 0x0]),
    (0x255C, [0x28, 0x28, 0x28, 0x28, 0x28, 0x28, 0xF8, 0x0, 0x0, 0x0, 0x0, 0x0, 0x0]),
    (0x255D, [0x28, 0x28, 0x28, 0x28, 0x28, 0xE8, 0x8, 0xF8, 0x0, 0x0, 0x0, 0x0, 0x0]),
    (0x255E, [0x10, 0x10, 0x10, 0x10, 0x10, 0x1E, 0x10, 0x1E, 0x10, 0x10, 0x10, 0x10, 0x10]),
    (0x255F, [0x28, 0x28, 0x28, 0x28, 0x28, 0x28, 0x2E, 0x28, 0x28, 0x28, 0x28, 0x28, 0x28]),
    (0x2560, [0x28, 0x28, 0x28, 0x28, 0x28, 0x2E, 0x20, 0x2E, 0x28, 0x28, 0x28, 0x28, 0x28]),
    (0x2561, [0x10, 0x10, 0x10, 0x10, 0x10, 0xF0, 0x10, 0xF0, 0x10, 0x10, 0x10, 0x10, 0x10]),
    (0x2562, [0x28, 0x28, 0x28, 0x28, 0x28, 0x28, 0xE8, 0x28, 0x28, 0x28, 0x28, 0x28, 0x28]),
    (0x2563, [0x28, 0x28, 0x28, 0x28, 0x28, 0xE8, 0x8, 0xE8, 0x28, 0x28, 0x28, 0x28, 0x28]),
    (0x2564, [0x0, 0x0, 0x0, 0x0, 0x0, 0xFE, 0x0, 0xFE, 0x10, 0x10, 0x10, 0x10, 0x10]),
    (0x2565, [0x0, 0x0, 0x0, 0x0, 0x0, 0x0, 0xFE, 0x28, 0x28, 0x28, 0x28, 0x28, 0x28]),
    (0x2566, [0x0, 0x0, 0x0, 0x0, 0x0, 0xFE, 0x0, 0xEE, 0x28, 0x28, 0x28, 0x28, 0x28]),
    (0x2567, [0x10, 0x10, 0x10, 0x10, 0x10, 0xFE, 0x0, 0xFE, 0x0, 0x0, 0x0, 0x0, 0x0]),
    (0x2568, [0x28, 0x28, 0x28, 0x28, 0x28, 0x28, 0xFE, 0x0, 0x0, 0x0, 0x0, 0x0, 0x0]),
    (0x2569, [0x28, 0x28, 0x28, 0x28, 0x28, 0xEE, 0x0, 0xFE, 0x0, 0x0, 0x0, 0x0, 0x0]),
    (0x256A, [0x10, 0x10, 0x10, 0x10, 0x10, 0xFE, 0x10, 0xFE, 0x10, 0x10, 0x10, 0x10, 0x10]),
    (0x256B, [0x28, 0x28, 0x28, 0x28, 0x28, 0x28, 0xFE, 0x28, 0x28, 0x28, 0x28, 0x28, 0x28]),
    (0x256C, [0x28, 0x28, 0x28, 0x28, 0x28, 0xEE, 0x0, 0xEE, 0x28, 0x28, 0x28, 0x28, 0x28]),
    (0x256D, [0x0, 0x0, 0x0, 0x0, 0x0, 0x0, 0xE, 0x10, 0x10, 0x10, 0x10, 0x10, 0x10]),
    (0x256E, [0x0, 0x0, 0x0, 0x0, 0x0, 0x0, 0xE0, 0x10, 0x10, 0x10, 0x10, 0x10, 0x10]),
    (0x256F, [0x10, 0x10, 0x10, 0x10, 0x10, 0x10, 0xE0, 0x0, 0x0, 0x0, 0x0, 0x0, 0x0]),
    (0x2570, [0x10, 0x10, 0x10, 0x10, 0x10, 0x10, 0xE, 0x0, 0x0, 0x0, 0x0, 0x0, 0x0]),
    (0x2571, [0x2, 0x2, 0x4, 0x4, 0x8, 0x8, 0x10, 0x20, 0x20, 0x40, 0x40, 0x80, 0x80]),
    (0x2572, [0x80, 0x80, 0x40, 0x40, 0x20, 0x20, 0x10, 0x8, 0x8, 0x4, 0x4, 0x2, 0x2]),
    (0x2573, [0x82, 0x82, 0x44, 0x44, 0x28, 0x28, 0x10, 0x28, 0x28, 0x44, 0x44, 0x82, 0x82]),
    (0x2574, [0x0, 0x0, 0x0, 0x0, 0x0, 0x0, 0xF0, 0x0, 0x0, 0x0, 0x0, 0x0, 0x0]),
    (0x2575, [0x10, 0x10, 0x10, 0x10, 0x10, 0x10, 0x10, 0x0, 0x0, 0x0, 0x0, 0x0, 0x0]),
    (0x2576, [0x0, 0x0, 0x0, 0x0, 0x0, 0x0, 0x1E, 0x0, 0x0, 0x0, 0x0, 0x0, 0x0]),
    (0x2577, [0x0, 0x0, 0x0, 0x0, 0x0, 0x0, 0x10, 0x10, 0x10, 0x10, 0x10, 0x10, 0x10]),
    (0x2578, [0x0, 0x0, 0x0, 0x0, 0x0, 0xF0, 0xF0, 0x0, 0x0, 0x0, 0x0, 0x0, 0x0]),
    (0x2579, [0x18, 0x18, 0x18, 0x18, 0x18, 0x18, 0x18, 0x0, 0x0, 0x0, 0x0, 0x0, 0x0]),
    (0x257A, [0x0, 0x0, 0x0, 0x0, 0x0, 0x1E, 0x1E, 0x0, 0x0, 0x0, 0x0, 0x0, 0x0]),
    (0x257B, [0x0, 0x0, 0x0, 0x0, 0x0, 0x0, 0x18, 0x18, 0x18, 0x18, 0x18, 0x18, 0x18]),
    (0x257C, [0x0, 0x0, 0x0, 0x0, 0x0, 0x1E, 0xFE, 0x0, 0x0, 0x0, 0x0, 0x0, 0x0]),
    (0x257D, [0x10, 0x10, 0x10, 0x10, 0x10, 0x10, 0x18, 0x18, 0x18, 0x18, 0x18, 0x18, 0x18]),
    (0x257E, [0x0, 0x0, 0x0, 0x0, 0x0, 0xF0, 0xFE, 0x0, 0x0, 0x0, 0x0, 0x0, 0x0]),
    (0x257F, [0x18, 0x18, 0x18, 0x18, 0x18, 0x18, 0x18, 0x10, 0x10, 0x10, 0x10, 0x10, 0x10]),
    (0x2580, [0xFE, 0xFE, 0xFE, 0xFE, 0xFE, 0xFE, 0xFE, 0x0, 0x0, 0x0, 0x0, 0x0, 0x0]),
    (0x2581, [0x0, 0x0, 0x0, 0x0, 0x0, 0x0, 0x0, 0x0, 0x0, 0x0, 0x0, 0xFE, 0xFE]),
    (0x2582, [0x0, 0x0, 0x0, 0x0, 0x0, 0x0, 0x0, 0x0, 0x0, 0xFE, 0xFE, 0xFE, 0xFE]),
    (0x2583, [0x0, 0x0, 0x0, 0x0, 0x0, 0x0, 0x0, 0x0, 0xFE, 0xFE, 0xFE, 0xFE, 0xFE]),
    (0x2584, [0x0, 0x0, 0x0, 0x0, 0x0, 0x0, 0xFE, 0xFE, 0xFE, 0xFE, 0xFE, 0xFE, 0xFE]),
    (0x2585, [0x0, 0x0, 0x0, 0x0, 0xFE, 0xFE, 0xFE, 0xFE, 0xFE, 0xFE, 0xFE, 0xFE, 0xFE]),
    (0x2586, [0x0, 0x0, 0xFE, 0xFE, 0xFE, 0xFE, 0xFE, 0xFE, 0xFE, 0xFE, 0xFE, 0xFE, 0xFE]),
    (0x2587, [0x0, 0xFE, 0xFE, 0xFE, 0xFE, 0xFE, 0xFE, 0xFE, 0xFE, 0xFE, 0xFE, 0xFE, 0xFE]),
    (0x2588, [0xFE, 0xFE, 0xFE, 0xFE, 0xFE, 0xFE, 0xFE, 0xFE, 0xFE, 0xFE, 0xFE, 0xFE, 0xFE]),
    (0x2589, [0xFC, 0xFC, 0xFC, 0xFC, 0xFC, 0xFC, 0xFC, 0xFC, 0xFC, 0xFC, 0xFC, 0xFC, 0xFC]),
    (0x258A, [0xF8, 0xF8, 0xF8, 0xF8, 0xF8, 0xF8, 0xF8, 0xF8, 0xF8, 0xF8, 0xF8, 0xF8, 0xF8]),
    (0x258B, [0xF0, 0xF0, 0xF0, 0xF0, 0xF0, 0xF0, 0xF0, 0xF0, 0xF0, 0xF0, 0xF0, 0xF0, 0xF0]),
    (0x258C, [0xF0, 0xF0, 0xF0, 0xF0, 0xF0, 0xF0, 0xF0, 0xF0, 0xF0, 0xF0, 0xF0, 0xF0, 0xF0]),
    (0x258D, [0xE0, 0xE0, 0xE0, 0xE0, 0xE0, 0xE0, 0xE0, 0xE0, 0xE0, 0xE0, 0xE0, 0xE0, 0xE0]),
    (0x258E, [0xC0, 0xC0, 0xC0, 0xC0, 0xC0, 0xC0, 0xC0, 0xC0, 0xC0, 0xC0, 0xC0, 0xC0, 0xC0]),
    (0x258F, [0x80, 0x80, 0x80, 0x80, 0x80, 0x80, 0x80, 0x80, 0x80, 0x80, 0x80, 0x80, 0x80]),
    (0x2590, [0x1E, 0x1E, 0x1E, 0x1E, 0x1E, 0x1E, 0x1E, 0x1E, 0x1E, 0x1E, 0x1E, 0x1E, 0x1E]),
    (0x2591, [0x88, 0x22, 0x88, 0x22, 0x88, 0x22, 0x88, 0x22, 0x88, 0x22, 0x88, 0x22, 0x88]),
    (0x2592, [0xAA, 0x54, 0xAA, 0x54, 0xAA, 0x54, 0xAA, 0x54, 0xAA, 0x54, 0xAA, 0x54, 0xAA]),
    (0x2593, [0xBA, 0xEE, 0xBA, 0xEE, 0xBA, 0xEE, 0xBA, 0xEE, 0xBA, 0xEE, 0xBA, 0xEE, 0xBA]),
    (0x2594, [0xFE, 0xFE, 0x0, 0x0, 0x0, 0x0, 0x0, 0x0, 0x0, 0x0, 0x0, 0x0, 0x0]),
    (0x2595, [0x2, 0x2, 0x2, 0x2, 0x2, 0x2, 0x2, 0x2, 0x2, 0x2, 0x2, 0x2, 0x2]),
    (0x2596, [0x0, 0x0, 0x0, 0x0, 0x0, 0x0, 0x0, 0xE0, 0xE0, 0xE0, 0xE0, 0xE0, 0xE0]),
    (0x2597, [0x0, 0x0, 0x0, 0x0, 0x0, 0x0, 0x0, 0x1C, 0x1C, 0x1C, 0x1C, 0x1C, 0x1C]),
    (0x2598, [0xE0, 0xE0, 0xE0, 0xE0, 0xE0, 0xE0, 0xE0, 0x0, 0x0, 0x0, 0x0, 0x0, 0x0]),
    (0x2599, [0xE0, 0xE0, 0xE0, 0xE0, 0xE0, 0xE0, 0xE0, 0xFC, 0xFC, 0xFC, 0xFC, 0xFC, 0xFC]),
    (0x259A, [0xE0, 0xE0, 0xE0, 0xE0, 0xE0, 0xE0, 0xE0, 0x1C, 0x1C, 0x1C, 0x1C, 0x1C, 0x1C]),
    (0x259B, [0xFC, 0xFC, 0xFC, 0xFC, 0xFC, 0xFC, 0xFC, 0xE0, 0xE0, 0xE0, 0xE0, 0xE0, 0xE0]),
    (0x259C, [0xFC, 0xFC, 0xFC, 0xFC, 0xFC, 0xFC, 0xFC, 0x1C, 0x1C, 0x1C, 0x1C, 0x1C, 0x1C]),
    (0x259D, [0x1C, 0x1C, 0x1C, 0x1C, 0x1C, 0x1C, 0x1C, 0x0, 0x0, 0x0, 0x0, 0x0, 0x0]),
    (0x259E, [0x1C, 0x1C, 0x1C, 0x1C, 0x1C, 0x1C, 0x1C, 0xE0, 0xE0, 0xE0, 0xE0, 0xE0, 0xE0]),
    (0x259F, [0x1C, 0x1C, 0x1C, 0x1C, 0x1C, 0x1C, 0x1C, 0xFC, 0xFC, 0xFC, 0xFC, 0xFC, 0xFC]),
    (0x25A0, [0x0, 0x0, 0x0, 0xFE, 0xFE, 0xFE, 0xFE, 0xFE, 0xFE, 0xFE, 0x0, 0x0, 0x0]),
    (0x25A1, [0x0, 0x0, 0x0, 0xFE, 0x82, 0x82, 0x82, 0x82, 0x82, 0xFE, 0x0, 0x0, 0x0]),
    (0x25A2, [0x0, 0x0, 0x0, 0x7C, 0x82, 0x82, 0x82, 0x82, 0x82, 0x7C, 0x0, 0x0, 0x0]),
    (0x25A3, [0x0, 0x0, 0x0, 0xFE, 0x82, 0xBA, 0xBA, 0xBA, 0x82, 0xFE, 0x0, 0x0, 0x0]),
    (0x25A4, [0x0, 0x0, 0x0, 0xFE, 0x82, 0xFE, 0x82, 0xFE, 0x82, 0xFE, 0x0, 0x0, 0x0]),
    (0x25A5, [0x0, 0x0, 0x0, 0xFE, 0xAA, 0xAA, 0xAA, 0xAA, 0xAA, 0xFE, 0x0, 0x0, 0x0]),
    (0x25A6, [0x0, 0x0, 0x0, 0xFE, 0xAA, 0xFE, 0xAA, 0xFE, 0xAA, 0xFE, 0x0, 0x0, 0x0]),
    (0x25A7, [0x0, 0x0, 0x0, 0xFE, 0x92, 0xCA, 0xA6, 0x92, 0xCA, 0xFE, 0x0, 0x0, 0x0]),
    (0x25A8, [0x0, 0x0, 0x0, 0xFE, 0x92, 0xA6, 0xCA, 0x92, 0xA6, 0xFE, 0x0, 0x0, 0x0]),
    (0x25A9, [0x0, 0x0, 0x0, 0xFE, 0xAA, 0xD6, 0xAA, 0xD6, 0xAA, 0xFE, 0x0, 0x0, 0x0]),
    (0x25AA, [0x0, 0x0, 0x0, 0x0, 0x7C, 0x7C, 0x7C, 0x7C, 0x7C, 0x0, 0x0, 0x0, 0x0]),
    (0x25AB, [0x0, 0x0, 0x0, 0x0, 0x7C, 0x44, 0x44, 0x44, 0x7C, 0x0, 0x0, 0x0, 0x0]),
    (0x25AC, [0x0, 0x0, 0x0, 0x0, 0x0, 0x0, 0xFC, 0xFC, 0xFC, 0xFC, 0x0, 0x0, 0x0]),
    (0x25AD, [0x0, 0x0, 0x0, 0x0, 0x0, 0x0, 0xFC, 0x84, 0x84, 0xFC, 0x0, 0x0, 0x0]),
    (0x25AE, [0x0, 0x0, 0x78, 0x78, 0x78, 0x78, 0x78, 0x78, 0x78, 0x78, 0x0, 0x0, 0x0]),
    (0x25AF, [0x0, 0x0, 0x78, 0x48, 0x48, 0x48, 0x48, 0x48, 0x48, 0x78, 0x0, 0x0, 0x0]),
    (0x25B0, [0x0, 0x0, 0x0, 0x0, 0x0, 0x0, 0x7C, 0x7C, 0xF8, 0xF8, 0x0, 0x0, 0x0]),
    (0x25B1, [0x0, 0x0, 0x0, 0x0, 0x0, 0x0, 0x7C, 0x44, 0x88, 0xF8, 0x0, 0x0, 0x0]),
    (0x25B2, [0x0, 0x0, 0x0, 0x10, 0x38, 0x38, 0x7C, 0x7C, 0xFE, 0xFE, 0x0, 0x0, 0x0]),
    (0x25B3, [0x0, 0x0, 0x0, 0x10, 0x28, 0x28, 0x44, 0x44, 0x82, 0xFE, 0x0, 0x0, 0x0]),
    (0x25B4, [0x0, 0x0, 0x0, 0x0, 0x10, 0x38, 0x38, 0x7C, 0x7C, 0x0, 0x0, 0x0, 0x0]),
    (0x25B5, [0x0, 0x0, 0x0, 0x0, 0x10, 0x28, 0x28, 0x44, 0x7C, 0x0, 0x0, 0x0, 0x0]),
    (0x25B6, [0x0, 0x0, 0x40, 0x60, 0x70, 0x78, 0x7C, 0x78, 0x70, 0x60, 0x40, 0x0, 0x0]),
    (0x25B7, [0x0, 0x0, 0x40, 0x60, 0x50, 0x48, 0x44, 0x48, 0x50, 0x60, 0x40, 0x0, 0x0]),
    (0x25B8, [0x0, 0x0, 0x0, 0x0, 0x20, 0x30, 0x38, 0x30, 0x20, 0x0, 0x0, 0x0, 0x0]),
    (0x25B9, [0x0, 0x0, 0x0, 0x0, 0x20, 0x30, 0x28, 0x30, 0x20, 0x0, 0x0, 0x0, 0x0]),
    (0x25BA, [0x0, 0x0, 0x0, 0x0, 0x40, 0x70, 0x7C, 0x70, 0x40, 0x0, 0x0, 0x0, 0x0]),
    (0x25BB, [0x0, 0x0, 0x0, 0x0, 0x40, 0x70, 0x5C, 0x70, 0x40, 0x0, 0x0, 0x0, 0x0]),
    (0x25BC, [0x0, 0x0, 0x0, 0xFE, 0xFE, 0x7C, 0x7C, 0x38, 0x38, 0x10, 0x0, 0x0, 0x0]),
    (0x25BD, [0x0, 0x0, 0x0, 0xFE, 0x82, 0x44, 0x44, 0x28, 0x28, 0x10, 0x0, 0x0, 0x0]),
    (0x25BE, [0x0, 0x0, 0x0, 0x0, 0x7C, 0x7C, 0x38, 0x38, 0x10, 0x0, 0x0, 0x0, 0x0]),
    (0x25BF, [0x0, 0x0, 0x0, 0x0, 0x7C, 0x44, 0x28, 0x28, 0x10, 0x0, 0x0, 0x0, 0x0]),
    (0x25C0, [0x0, 0x0, 0x4, 0xC, 0x1C, 0x3C, 0x7C, 0x3C, 0x1C, 0xC, 0x4, 0x0, 0x0]),
    (0x25C1, [0x0, 0x0, 0x4, 0xC, 0x14, 0x24, 0x44, 0x24, 0x14, 0xC, 0x4, 0x0, 0x0]),
    (0x25C2, [0x0, 0x0, 0x0, 0x0, 0x8, 0x18, 0x38, 0x18, 0x8, 0x0, 0x0, 0x0, 0x0]),
    (0x25C3, [0x0, 0x0, 0x0, 0x0, 0x8, 0x18, 0x28, 0x18, 0x8, 0x0, 0x0, 0x0, 0x0]),
    (0x25C4, [0x0, 0x0, 0x0, 0x0, 0x4, 0x1C, 0x7C, 0x1C, 0x4, 0x0, 0x0, 0x0, 0x0]),
    (0x25C5, [0x0, 0x0, 0x0, 0x0, 0x4, 0x1C, 0x74, 0x1C, 0x4, 0x0, 0x0, 0x0, 0x0]),
    (0x25C6, [0x0, 0x0, 0x0, 0x10, 0x38, 0x7C, 0xFE, 0x7C, 0x38, 0x10, 0x0, 0x0, 0x0]),
    (0x25C7, [0x0, 0x0, 0x0, 0x10, 0x28, 0x44, 0x82, 0x44, 0x28, 0x10, 0x0, 0x0, 0x0]),
    (0x25C8, [0x0, 0x0, 0x0, 0x10, 0x28, 0x54, 0xBA, 0x54, 0x28, 0x10, 0x0, 0x0, 0x0]),
    (0x25C9, [0x0, 0x0, 0x0, 0x38, 0x44, 0xBA, 0xBA, 0xBA, 0x44, 0x38, 0x0, 0x0, 0x0]),
    (0x25CA, [0x0, 0x0, 0x10, 0x10, 0x28, 0x28, 0x44, 0x28, 0x28, 0x10, 0x10, 0x0, 0x0]),
    (0x25CB, [0x0, 0x0, 0x0, 0x38, 0x44, 0x82, 0x82, 0x82, 0x44, 0x38, 0x0, 0x0, 0x0]),
    (0x25CC, [0x0, 0x0, 0x0, 0x10, 0x44, 0x0, 0x82, 0x0, 0x44, 0x10, 0x0, 0x0, 0x0]),
    (0x25CD, [0x0, 0x0, 0x0, 0x38, 0x6C, 0xAA, 0xAA, 0xAA, 0x6C, 0x38, 0x0, 0x0, 0x0]),
    (0x25CE, [0x0, 0x0, 0x0, 0x38, 0x44, 0x92, 0xAA, 0x92, 0x44, 0x38, 0x0, 0x0, 0x0]),
    (0x25CF, [0x0, 0x0, 0x0, 0x0, 0x38, 0x7C, 0x7C, 0x7C, 0x38, 0x0, 0x0, 0x0, 0x0]),
    (0x25D0, [0x0, 0x0, 0x0, 0x38, 0x74, 0xF2, 0xF2, 0xF2, 0x74, 0x38, 0x0, 0x0, 0x0]),
    (0x25D1, [0x0, 0x0, 0x0, 0x38, 0x5C, 0x9E, 0x9E, 0x9E, 0x5C, 0x38, 0x0, 0x0, 0x0]),
    (0x25D2, [0x0, 0x0, 0x0, 0x38, 0x44, 0x82, 0xFE, 0xFE, 0x7C, 0x38, 0x0, 0x0, 0x0]),
    (0x25D3, [0x0, 0x0, 0x0, 0x38, 0x7C, 0xFE, 0xFE, 0x82, 0x44, 0x38, 0x0, 0x0, 0x0]),
    (0x25D4, [0x0, 0x0, 0x0, 0x38, 0x5C, 0x9E, 0x9E, 0x82, 0x44, 0x38, 0x0, 0x0, 0x0]),
    (0x25D5, [0x0, 0x0, 0x0, 0x38, 0x4C, 0x8E, 0x8E, 0xFE, 0x7C, 0x38, 0x0, 0x0, 0x0]),
    (0x25D6, [0x0, 0x0, 0x0, 0x30, 0x70, 0xF0, 0xF0, 0xF0, 0x70, 0x30, 0x0, 0x0, 0x0]),
    (0x25D7, [0x0, 0x0, 0x0, 0x18, 0x1C, 0x1E, 0x1E, 0x1E, 0x1C, 0x18, 0x0, 0x0, 0x0]),
    (0x25D8, [0xFE, 0xFE, 0xFE, 0xFE, 0xC6, 0x82, 0x82, 0x82, 0xC6, 0xFE, 0xFE, 0xFE, 0xFE]),
    (0x25D9, [0xFE, 0xFE, 0xFE, 0xFE, 0xC6, 0xBA, 0xBA, 0xBA, 0xC6, 0xFE, 0xFE, 0xFE, 0xFE]),
    (0x25DA, [0xFE, 0xFE, 0xFE, 0xFE, 0xC6, 0xBA, 0xBA, 0x0, 0x0, 0x0, 0x0, 0x0, 0x0]),
    (0x25DB, [0x0, 0x0, 0x0, 0x0, 0x0, 0x0, 0xBA, 0xBA, 0xC6, 0xFE, 0xFE, 0xFE, 0xFE])]"

definition FONT_EXTRA_3 :: "(u16 \<times> u8 list) list" where
  "FONT_EXTRA_3 = [
    (0x25DC, [0x0, 0x0, 0x0, 0x30, 0x40, 0x80, 0x80, 0x0, 0x0, 0x0, 0x0, 0x0, 0x0]),
    (0x25DD, [0x0, 0x0, 0x0, 0x18, 0x4, 0x2, 0x2, 0x0, 0x0, 0x0, 0x0, 0x0, 0x0]),
    (0x25DE, [0x0, 0x0, 0x0, 0x0, 0x0, 0x0, 0x2, 0x2, 0x4, 0x18, 0x0, 0x0, 0x0]),
    (0x25DF, [0x0, 0x0, 0x0, 0x0, 0x0, 0x0, 0x80, 0x80, 0x40, 0x30, 0x0, 0x0, 0x0]),
    (0x25E0, [0x0, 0x0, 0x0, 0x38, 0x44, 0x82, 0x82, 0x0, 0x0, 0x0, 0x0, 0x0, 0x0]),
    (0x25E1, [0x0, 0x0, 0x0, 0x0, 0x0, 0x0, 0x82, 0x82, 0x44, 0x38, 0x0, 0x0, 0x0]),
    (0x25E2, [0x0, 0x4, 0x4, 0xC, 0xC, 0x1C, 0x1C, 0x1C, 0x3C, 0x3C, 0x7C, 0x7C, 0xFC]),
    (0x25E3, [0x0, 0x80, 0x80, 0xC0, 0xC0, 0xE0, 0xE0, 0xE0, 0xF0, 0xF0, 0xF8, 0xF8, 0xFC]),
    (0x25E4, [0xFC, 0xF8, 0xF8, 0xF0, 0xF0, 0xE0, 0xE0, 0xE0, 0xC0, 0xC0, 0x80, 0x80, 0x0]),
    (0x25E5, [0xFC, 0x7C, 0x7C, 0x3C, 0x3C, 0x1C, 0x1C, 0x1C, 0xC, 0xC, 0x4, 0x4, 0x0]),
    (0x25E6, [0x0, 0x0, 0x0, 0x0, 0x38, 0x44, 0x44, 0x44, 0x38, 0x0, 0x0, 0x0, 0x0]),
    (0x25E7, [0x0, 0x0, 0x0, 0xFE, 0xF2, 0xF2, 0xF2, 0xF2, 0xF2, 0xFE, 0x0, 0x0, 0x0]),
    (0x25E8, [0x0, 0x0, 0x0, 0xFE, 0x9E, 0x9E, 0x9E, 0x9E, 0x9E, 0xFE, 0x0, 0x0, 0x0]),
    (0x25E9, [0x0, 0x0, 0x0, 0xFE, 0xFE, 0xFA, 0xF2, 0xE2, 0xC2, 0xFE, 0x0, 0x0, 0x0]),
    (0x25EA, [0x0, 0x0, 0x0, 0xFE, 0x86, 0x8E, 0x9E, 0xBE, 0xFE, 0xFE, 0x0, 0x0, 0x0]),
    (0x25EB, [0x0, 0x0, 0x0, 0xFE, 0x92, 0x92, 0x92, 0x92, 0x92, 0xFE, 0x0, 0x0, 0x0]),
    (0x25EC, [0x0, 0x0, 0x0, 0x10, 0x28, 0x28, 0x44, 0x54, 0x82, 0xFE, 0x0, 0x0, 0x0]),
    (0x25ED, [0x0, 0x0, 0x0, 0x10, 0x38, 0x38, 0x74, 0x74, 0xF2, 0xFE, 0x0, 0x0, 0x0]),
    (0x25EE, [0x0, 0x0, 0x0, 0x10, 0x38, 0x38, 0x5C, 0x5C, 0x9E, 0xFE, 0x0, 0x0, 0x0]),
    (0x25F0, [0x0, 0x0, 0x0, 0xFE, 0x92, 0x92, 0xF2, 0x82, 0x82, 0xFE, 0x0, 0x0, 0x0]),
    (0x25F1, [0x0, 0x0, 0x0, 0xFE, 0x82, 0x82, 0xF2, 0x92, 0x92, 0xFE, 0x0, 0x0, 0x0]),
    (0x25F2, [0x0, 0x0, 0x0, 0xFE, 0x82, 0x82, 0x9E, 0x92, 0x92, 0xFE, 0x0, 0x0, 0x0]),
    (0x25F3, [0x0, 0x0, 0x0, 0xFE, 0x92, 0x92, 0x9E, 0x82, 0x82, 0xFE, 0x0, 0x0, 0x0]),
    (0x25F4, [0x0, 0x0, 0x0, 0x38, 0x54, 0x92, 0xF2, 0x82, 0x44, 0x38, 0x0, 0x0, 0x0]),
    (0x25F5, [0x0, 0x0, 0x0, 0x38, 0x44, 0x82, 0xF2, 0x92, 0x54, 0x38, 0x0, 0x0, 0x0]),
    (0x25F6, [0x0, 0x0, 0x0, 0x38, 0x44, 0x82, 0x9E, 0x92, 0x54, 0x38, 0x0, 0x0, 0x0]),
    (0x25F7, [0x0, 0x0, 0x0, 0x38, 0x54, 0x92, 0x9E, 0x82, 0x44, 0x38, 0x0, 0x0, 0x0]),
    (0x25F8, [0x0, 0x0, 0x0, 0xFE, 0x84, 0x88, 0x90, 0xA0, 0xC0, 0x80, 0x0, 0x0, 0x0]),
    (0x25F9, [0x0, 0x0, 0x0, 0xFE, 0x42, 0x22, 0x12, 0xA, 0x6, 0x2, 0x0, 0x0, 0x0]),
    (0x25FA, [0x0, 0x0, 0x0, 0x80, 0xC0, 0xA0, 0x90, 0x88, 0x84, 0xFE, 0x0, 0x0, 0x0]),
    (0x25FB, [0x0, 0x0, 0x0, 0x0, 0x7C, 0x44, 0x44, 0x44, 0x7C, 0x0, 0x0, 0x0, 0x0]),
    (0x25FC, [0x0, 0x0, 0x0, 0x0, 0x7C, 0x7C, 0x7C, 0x7C, 0x7C, 0x0, 0x0, 0x0, 0x0]),
    (0x25FF, [0x0, 0x0, 0x0, 0x2, 0x6, 0xA, 0x12, 0x22, 0x42, 0xFE, 0x0, 0x0, 0x0]),
    (0x2661, [0x0, 0x0, 0x0, 0x6C, 0x92, 0x82, 0x82, 0x44, 0x28, 0x10, 0x0, 0x0, 0x0]),
    (0x2665, [0x0, 0x0, 0x0, 0x6C, 0xFE, 0xFE, 0xFE, 0x7C, 0x38, 0x10, 0x0, 0x0, 0x0]),
    (0x2713, [0x0, 0x0, 0x0, 0x0, 0x4, 0x4, 0x8, 0x48, 0x30, 0x10, 0x0, 0x0, 0x0]),
    (0x2717, [0x0, 0x0, 0x0, 0x24, 0x28, 0x38, 0x10, 0x38, 0x28, 0x44, 0x40, 0x0, 0x0])]"

definition FONT_EXTRA :: "(u16 \<times> u8 list) list" where
  "FONT_EXTRA = FONT_EXTRA_0 @ FONT_EXTRA_1 @ FONT_EXTRA_2 @ FONT_EXTRA_3"

definition EMOJI :: "(u32 \<times> u8 list) list" where
  "EMOJI = [
    (0x1F310, [0x0, 0x0, 0x30, 0x48, 0x94, 0x94, 0xFC, 0x94, 0x94, 0x48, 0x30, 0x0, 0x0]),
    (0x1F3E0, [0x0, 0x0, 0x30, 0x78, 0xFC, 0x78, 0x78, 0x78, 0x78, 0x68, 0x68, 0x0, 0x0]),
    (0x1F4AC, [0x0, 0x78, 0xFC, 0xFC, 0xFC, 0x78, 0x60, 0x40, 0x0, 0x0, 0x0, 0x0, 0x0]),
    (0x1F4CA, [0x0, 0x0, 0x0, 0x8, 0x8, 0x28, 0x28, 0xA8, 0xA8, 0xA8, 0xFC, 0x0, 0x0]),
    (0x1F4E9, [0x0, 0x0, 0xFC, 0x84, 0xCC, 0xB4, 0x84, 0x84, 0xFC, 0x0, 0x0, 0x0, 0x0]),
    (0x1F514, [0x0, 0x0, 0x30, 0x30, 0x78, 0x78, 0xFC, 0xFC, 0xFC, 0x30, 0x0, 0x0, 0x0]),
    (0x1F525, [0x0, 0x0, 0x10, 0x30, 0x30, 0x70, 0x78, 0xFC, 0xFC, 0x78, 0x30, 0x0, 0x0]),
    (0x1F642, [0x0, 0x0, 0x30, 0x48, 0x84, 0xCC, 0x84, 0xCC, 0x78, 0x30, 0x0, 0x0, 0x0])]"

section \<open>What the lookups rely on\<close>

lemma FONT_length: "length FONT = 95"
  by code_simp

lemma FONT_rows: "list_all (\<lambda>g. length g = 13) FONT"
  by code_simp

lemma FONT_EXTRA_length: "length FONT_EXTRA = FONT_EXTRA_COUNT"
  by code_simp

lemma FONT_EXTRA_ascending: "ascending (map fst FONT_EXTRA)"
  by code_simp

lemma FONT_EXTRA_rows: "list_all (\<lambda>g. length (snd g) = 13) FONT_EXTRA"
  by code_simp

lemma EMOJI_length: "length EMOJI = EMOJI_COUNT"
  by code_simp

lemma EMOJI_ascending: "ascending (map fst EMOJI)"
  by code_simp

lemma EMOJI_rows: "list_all (\<lambda>g. length (snd g) = 13) EMOJI"
  by code_simp

end
