(* ===== verification/FontBig.thy ===== *)
theory FontBig
  imports Prelude
begin

text \<open>The double-size face, \<open>lib/SharpLcd/src/CozetteBig.h\<close>, entry by entry.\<close>

definition BIGFONT_W :: nat where "BIGFONT_W = 12"
definition BIGFONT_INK_W :: nat where "BIGFONT_INK_W = 14"
definition BIGFONT_H :: nat where "BIGFONT_H = 26"
definition BIGFONT_COUNT :: nat where "BIGFONT_COUNT = 191"

definition BIGFONT_0 :: "(u16 \<times> u16 list) list" where
  "BIGFONT_0 = [
    (0x20, [0x0, 0x0, 0x0, 0x0, 0x0, 0x0, 0x0, 0x0, 0x0, 0x0, 0x0, 0x0, 0x0, 0x0, 0x0, 0x0, 0x0, 0x0, 0x0, 0x0, 0x0, 0x0, 0x0, 0x0, 0x0, 0x0]),
    (0x21, [0x0, 0x0, 0x0, 0x0, 0x300, 0x300, 0x300, 0x300, 0x300, 0x300, 0x300, 0x300, 0x300, 0x300, 0x300, 0x300, 0x0, 0x0, 0x300, 0x300, 0x0, 0x0, 0x0, 0x0, 0x0, 0x0]),
    (0x22, [0x0, 0x0, 0xCC0, 0xCC0, 0xCC0, 0xCC0, 0xCC0, 0xCC0, 0x0, 0x0, 0x0, 0x0, 0x0, 0x0, 0x0, 0x0, 0x0, 0x0, 0x0, 0x0, 0x0, 0x0, 0x0, 0x0, 0x0, 0x0]),
    (0x23, [0x0, 0x0, 0x0, 0x0, 0xCC0, 0xCC0, 0xCC0, 0xCC0, 0x3FF0, 0x3FF0, 0xCC0, 0xCC0, 0xCC0, 0xCC0, 0x3FF0, 0x3FF0, 0xCC0, 0xCC0, 0xCC0, 0xCC0, 0x0, 0x0, 0x0, 0x0, 0x0, 0x0]),
    (0x24, [0x0, 0x0, 0x300, 0x300, 0xFC0, 0xFC0, 0x3330, 0x3330, 0x3300, 0x3300, 0xFC0, 0xFC0, 0x330, 0x330, 0x330, 0x330, 0x3330, 0x3330, 0xFC0, 0xFC0, 0x300, 0x300, 0x0, 0x0, 0x0, 0x0]),
    (0x25, [0x0, 0x0, 0xC00, 0xC00, 0x3300, 0x3300, 0xC30, 0xC30, 0xC0, 0xC0, 0x300, 0x300, 0xC00, 0xC00, 0x30C0, 0x30C0, 0x330, 0x330, 0xC0, 0xC0, 0x0, 0x0, 0x0, 0x0, 0x0, 0x0]),
    (0x26, [0x0, 0x0, 0x300, 0x300, 0xCC0, 0xCC0, 0xCC0, 0xCC0, 0x300, 0x300, 0xF30, 0xF30, 0x30C0, 0x30C0, 0x30C0, 0x30C0, 0x30C0, 0x30C0, 0xF30, 0xF30, 0x0, 0x0, 0x0, 0x0, 0x0, 0x0]),
    (0x27, [0x0, 0x0, 0x300, 0x300, 0x300, 0x300, 0x300, 0x300, 0x0, 0x0, 0x0, 0x0, 0x0, 0x0, 0x0, 0x0, 0x0, 0x0, 0x0, 0x0, 0x0, 0x0, 0x0, 0x0, 0x0, 0x0]),
    (0x28, [0x0, 0x0, 0xC0, 0xC0, 0x300, 0x300, 0x300, 0x300, 0xC00, 0xC00, 0xC00, 0xC00, 0xC00, 0xC00, 0xC00, 0xC00, 0xC00, 0xC00, 0x300, 0x300, 0x300, 0x300, 0xC0, 0xC0, 0x0, 0x0]),
    (0x29, [0x0, 0x0, 0xC00, 0xC00, 0x300, 0x300, 0x300, 0x300, 0xC0, 0xC0, 0xC0, 0xC0, 0xC0, 0xC0, 0xC0, 0xC0, 0xC0, 0xC0, 0x300, 0x300, 0x300, 0x300, 0xC00, 0xC00, 0x0, 0x0]),
    (0x2A, [0x0, 0x0, 0x0, 0x0, 0x0, 0x0, 0x0, 0x0, 0xCC0, 0xCC0, 0x300, 0x300, 0x3FF0, 0x3FF0, 0x300, 0x300, 0xCC0, 0xCC0, 0x0, 0x0, 0x0, 0x0, 0x0, 0x0, 0x0, 0x0]),
    (0x2B, [0x0, 0x0, 0x0, 0x0, 0x0, 0x0, 0x0, 0x0, 0x300, 0x300, 0x300, 0x300, 0x3FF0, 0x3FF0, 0x300, 0x300, 0x300, 0x300, 0x0, 0x0, 0x0, 0x0, 0x0, 0x0, 0x0, 0x0]),
    (0x2C, [0x0, 0x0, 0x0, 0x0, 0x0, 0x0, 0x0, 0x0, 0x0, 0x0, 0x0, 0x0, 0x0, 0x0, 0x0, 0x0, 0xF00, 0xF00, 0xF00, 0xF00, 0x300, 0x300, 0xC00, 0xC00, 0x0, 0x0]),
    (0x2D, [0x0, 0x0, 0x0, 0x0, 0x0, 0x0, 0x0, 0x0, 0x0, 0x0, 0x0, 0x0, 0x3FF0, 0x3FF0, 0x0, 0x0, 0x0, 0x0, 0x0, 0x0, 0x0, 0x0, 0x0, 0x0, 0x0, 0x0]),
    (0x2E, [0x0, 0x0, 0x0, 0x0, 0x0, 0x0, 0x0, 0x0, 0x0, 0x0, 0x0, 0x0, 0x0, 0x0, 0x0, 0x0, 0xF00, 0xF00, 0xF00, 0xF00, 0x0, 0x0, 0x0, 0x0, 0x0, 0x0]),
    (0x2F, [0x0, 0x0, 0x30, 0x30, 0x30, 0x30, 0xC0, 0xC0, 0xC0, 0xC0, 0x300, 0x300, 0x300, 0x300, 0xC00, 0xC00, 0xC00, 0xC00, 0x3000, 0x3000, 0x3000, 0x3000, 0x0, 0x0, 0x0, 0x0]),
    (0x30, [0x0, 0x0, 0x0, 0x0, 0xFC0, 0xFC0, 0x3030, 0x3030, 0x3030, 0x3030, 0x3330, 0x3330, 0x3330, 0x3330, 0x3030, 0x3030, 0x3030, 0x3030, 0xFC0, 0xFC0, 0x0, 0x0, 0x0, 0x0, 0x0, 0x0]),
    (0x31, [0x0, 0x0, 0x0, 0x0, 0x300, 0x300, 0xF00, 0xF00, 0x3300, 0x3300, 0x300, 0x300, 0x300, 0x300, 0x300, 0x300, 0x300, 0x300, 0x3FF0, 0x3FF0, 0x0, 0x0, 0x0, 0x0, 0x0, 0x0]),
    (0x32, [0x0, 0x0, 0x0, 0x0, 0xFC0, 0xFC0, 0x3030, 0x3030, 0x30, 0x30, 0xC0, 0xC0, 0x300, 0x300, 0xC00, 0xC00, 0x3000, 0x3000, 0x3FF0, 0x3FF0, 0x0, 0x0, 0x0, 0x0, 0x0, 0x0]),
    (0x33, [0x0, 0x0, 0x0, 0x0, 0xFC0, 0xFC0, 0x3030, 0x3030, 0x30, 0x30, 0x3C0, 0x3C0, 0x30, 0x30, 0x30, 0x30, 0x3030, 0x3030, 0xFC0, 0xFC0, 0x0, 0x0, 0x0, 0x0, 0x0, 0x0]),
    (0x34, [0x0, 0x0, 0x0, 0x0, 0x30, 0x30, 0xF0, 0xF0, 0x330, 0x330, 0xC30, 0xC30, 0x3030, 0x3030, 0x3FFC, 0x3FFC, 0x30, 0x30, 0x30, 0x30, 0x0, 0x0, 0x0, 0x0, 0x0, 0x0]),
    (0x35, [0x0, 0x0, 0x0, 0x0, 0x3FF0, 0x3FF0, 0x3000, 0x3000, 0x3000, 0x3000, 0x3FC0, 0x3FC0, 0x30, 0x30, 0x30, 0x30, 0x3030, 0x3030, 0xFC0, 0xFC0, 0x0, 0x0, 0x0, 0x0, 0x0, 0x0]),
    (0x36, [0x0, 0x0, 0x0, 0x0, 0x3C0, 0x3C0, 0xC00, 0xC00, 0x3000, 0x3000, 0x3FC0, 0x3FC0, 0x3030, 0x3030, 0x3030, 0x3030, 0x3030, 0x3030, 0xFC0, 0xFC0, 0x0, 0x0, 0x0, 0x0, 0x0, 0x0]),
    (0x37, [0x0, 0x0, 0x0, 0x0, 0x3FF0, 0x3FF0, 0x30, 0x30, 0xC0, 0xC0, 0xC0, 0xC0, 0x300, 0x300, 0x300, 0x300, 0xC00, 0xC00, 0xC00, 0xC00, 0x0, 0x0, 0x0, 0x0, 0x0, 0x0]),
    (0x38, [0x0, 0x0, 0x0, 0x0, 0xFC0, 0xFC0, 0x3030, 0x3030, 0x3030, 0x3030, 0xFC0, 0xFC0, 0x3030, 0x3030, 0x3030, 0x3030, 0x3030, 0x3030, 0xFC0, 0xFC0, 0x0, 0x0, 0x0, 0x0, 0x0, 0x0]),
    (0x39, [0x0, 0x0, 0x0, 0x0, 0xFC0, 0xFC0, 0x3030, 0x3030, 0x3030, 0x3030, 0x3030, 0x3030, 0xFF0, 0xFF0, 0x30, 0x30, 0xC0, 0xC0, 0xF00, 0xF00, 0x0, 0x0, 0x0, 0x0, 0x0, 0x0]),
    (0x3A, [0x0, 0x0, 0x0, 0x0, 0x0, 0x0, 0x0, 0x0, 0xF00, 0xF00, 0xF00, 0xF00, 0x0, 0x0, 0x0, 0x0, 0xF00, 0xF00, 0xF00, 0xF00, 0x0, 0x0, 0x0, 0x0, 0x0, 0x0]),
    (0x3B, [0x0, 0x0, 0x0, 0x0, 0x0, 0x0, 0x0, 0x0, 0xF00, 0xF00, 0xF00, 0xF00, 0x0, 0x0, 0x0, 0x0, 0xF00, 0xF00, 0xF00, 0xF00, 0x300, 0x300, 0xC00, 0xC00, 0x0, 0x0]),
    (0x3C, [0x0, 0x0, 0x0, 0x0, 0x0, 0x0, 0x30, 0x30, 0xC0, 0xC0, 0x300, 0x300, 0xC00, 0xC00, 0x300, 0x300, 0xC0, 0xC0, 0x30, 0x30, 0x0, 0x0, 0x0, 0x0, 0x0, 0x0]),
    (0x3D, [0x0, 0x0, 0x0, 0x0, 0x0, 0x0, 0x0, 0x0, 0x0, 0x0, 0x3FF0, 0x3FF0, 0x0, 0x0, 0x3FF0, 0x3FF0, 0x0, 0x0, 0x0, 0x0, 0x0, 0x0, 0x0, 0x0, 0x0, 0x0]),
    (0x3E, [0x0, 0x0, 0x0, 0x0, 0x0, 0x0, 0x3000, 0x3000, 0xC00, 0xC00, 0x300, 0x300, 0xC0, 0xC0, 0x300, 0x300, 0xC00, 0xC00, 0x3000, 0x3000, 0x0, 0x0, 0x0, 0x0, 0x0, 0x0]),
    (0x3F, [0x0, 0x0, 0x0, 0x0, 0xFC0, 0xFC0, 0x3030, 0x3030, 0x30, 0x30, 0xC0, 0xC0, 0x300, 0x300, 0x300, 0x300, 0x0, 0x0, 0x300, 0x300, 0x0, 0x0, 0x0, 0x0, 0x0, 0x0]),
    (0x40, [0x0, 0x0, 0x0, 0x0, 0xFC0, 0xFC0, 0x3030, 0x3030, 0x3030, 0x3030, 0x33F0, 0x33F0, 0x3330, 0x3330, 0x33F0, 0x33F0, 0x3000, 0x3000, 0xFF0, 0xFF0, 0x0, 0x0, 0x0, 0x0, 0x0, 0x0]),
    (0x41, [0x0, 0x0, 0x0, 0x0, 0xFC0, 0xFC0, 0x3030, 0x3030, 0x3030, 0x3030, 0x3030, 0x3030, 0x3FF0, 0x3FF0, 0x3030, 0x3030, 0x3030, 0x3030, 0x3030, 0x3030, 0x0, 0x0, 0x0, 0x0, 0x0, 0x0]),
    (0x42, [0x0, 0x0, 0x0, 0x0, 0x3FC0, 0x3FC0, 0x3030, 0x3030, 0x3030, 0x3030, 0x3FC0, 0x3FC0, 0x3030, 0x3030, 0x3030, 0x3030, 0x3030, 0x3030, 0x3FC0, 0x3FC0, 0x0, 0x0, 0x0, 0x0, 0x0, 0x0]),
    (0x43, [0x0, 0x0, 0x0, 0x0, 0xFC0, 0xFC0, 0x3030, 0x3030, 0x3000, 0x3000, 0x3000, 0x3000, 0x3000, 0x3000, 0x3000, 0x3000, 0x3030, 0x3030, 0xFC0, 0xFC0, 0x0, 0x0, 0x0, 0x0, 0x0, 0x0]),
    (0x44, [0x0, 0x0, 0x0, 0x0, 0x3F00, 0x3F00, 0x30C0, 0x30C0, 0x3030, 0x3030, 0x3030, 0x3030, 0x3030, 0x3030, 0x3030, 0x3030, 0x30C0, 0x30C0, 0x3F00, 0x3F00, 0x0, 0x0, 0x0, 0x0, 0x0, 0x0]),
    (0x45, [0x0, 0x0, 0x0, 0x0, 0x3FF0, 0x3FF0, 0x3000, 0x3000, 0x3000, 0x3000, 0x3FC0, 0x3FC0, 0x3000, 0x3000, 0x3000, 0x3000, 0x3000, 0x3000, 0x3FF0, 0x3FF0, 0x0, 0x0, 0x0, 0x0, 0x0, 0x0]),
    (0x46, [0x0, 0x0, 0x0, 0x0, 0x3FF0, 0x3FF0, 0x3000, 0x3000, 0x3000, 0x3000, 0x3FC0, 0x3FC0, 0x3000, 0x3000, 0x3000, 0x3000, 0x3000, 0x3000, 0x3000, 0x3000, 0x0, 0x0, 0x0, 0x0, 0x0, 0x0]),
    (0x47, [0x0, 0x0, 0x0, 0x0, 0xFC0, 0xFC0, 0x3030, 0x3030, 0x3000, 0x3000, 0x3000, 0x3000, 0x30F0, 0x30F0, 0x3030, 0x3030, 0x3030, 0x3030, 0xFC0, 0xFC0, 0x0, 0x0, 0x0, 0x0, 0x0, 0x0]),
    (0x48, [0x0, 0x0, 0x0, 0x0, 0x3030, 0x3030, 0x3030, 0x3030, 0x3030, 0x3030, 0x3FF0, 0x3FF0, 0x3030, 0x3030, 0x3030, 0x3030, 0x3030, 0x3030, 0x3030, 0x3030, 0x0, 0x0, 0x0, 0x0, 0x0, 0x0]),
    (0x49, [0x0, 0x0, 0x0, 0x0, 0xFC0, 0xFC0, 0x300, 0x300, 0x300, 0x300, 0x300, 0x300, 0x300, 0x300, 0x300, 0x300, 0x300, 0x300, 0xFC0, 0xFC0, 0x0, 0x0, 0x0, 0x0, 0x0, 0x0]),
    (0x4A, [0x0, 0x0, 0x0, 0x0, 0x3F0, 0x3F0, 0x30, 0x30, 0x30, 0x30, 0x30, 0x30, 0x30, 0x30, 0x3030, 0x3030, 0x3030, 0x3030, 0xFC0, 0xFC0, 0x0, 0x0, 0x0, 0x0, 0x0, 0x0]),
    (0x4B, [0x0, 0x0, 0x0, 0x0, 0x3030, 0x3030, 0x30C0, 0x30C0, 0x3300, 0x3300, 0x3F00, 0x3F00, 0x30C0, 0x30C0, 0x30C0, 0x30C0, 0x3030, 0x3030, 0x3030, 0x3030, 0x0, 0x0, 0x0, 0x0, 0x0, 0x0]),
    (0x4C, [0x0, 0x0, 0x0, 0x0, 0x3000, 0x3000, 0x3000, 0x3000, 0x3000, 0x3000, 0x3000, 0x3000, 0x3000, 0x3000, 0x3000, 0x3000, 0x3000, 0x3000, 0x3FF0, 0x3FF0, 0x0, 0x0, 0x0, 0x0, 0x0, 0x0]),
    (0x4D, [0x0, 0x0, 0x0, 0x0, 0x3030, 0x3030, 0x3CF0, 0x3CF0, 0x3330, 0x3330, 0x3330, 0x3330, 0x3030, 0x3030, 0x3030, 0x3030, 0x3030, 0x3030, 0x3030, 0x3030, 0x0, 0x0, 0x0, 0x0, 0x0, 0x0]),
    (0x4E, [0x0, 0x0, 0x0, 0x0, 0x3030, 0x3030, 0x3C30, 0x3C30, 0x3C30, 0x3C30, 0x3330, 0x3330, 0x3330, 0x3330, 0x30F0, 0x30F0, 0x30F0, 0x30F0, 0x3030, 0x3030, 0x0, 0x0, 0x0, 0x0, 0x0, 0x0]),
    (0x4F, [0x0, 0x0, 0x0, 0x0, 0xFC0, 0xFC0, 0x3030, 0x3030, 0x3030, 0x3030, 0x3030, 0x3030, 0x3030, 0x3030, 0x3030, 0x3030, 0x3030, 0x3030, 0xFC0, 0xFC0, 0x0, 0x0, 0x0, 0x0, 0x0, 0x0]),
    (0x50, [0x0, 0x0, 0x0, 0x0, 0x3FC0, 0x3FC0, 0x3030, 0x3030, 0x3030, 0x3030, 0x3030, 0x3030, 0x3FC0, 0x3FC0, 0x3000, 0x3000, 0x3000, 0x3000, 0x3000, 0x3000, 0x0, 0x0, 0x0, 0x0, 0x0, 0x0]),
    (0x51, [0x0, 0x0, 0x0, 0x0, 0xFC0, 0xFC0, 0x3030, 0x3030, 0x3030, 0x3030, 0x3030, 0x3030, 0x3030, 0x3030, 0x3030, 0x3030, 0x30C0, 0x30C0, 0xF30, 0xF30, 0x30, 0x30, 0x0, 0x0, 0x0, 0x0]),
    (0x52, [0x0, 0x0, 0x0, 0x0, 0x3FC0, 0x3FC0, 0x3030, 0x3030, 0x3030, 0x3030, 0x3FC0, 0x3FC0, 0x30C0, 0x30C0, 0x3030, 0x3030, 0x3030, 0x3030, 0x3030, 0x3030, 0x0, 0x0, 0x0, 0x0, 0x0, 0x0]),
    (0x53, [0x0, 0x0, 0x0, 0x0, 0xFC0, 0xFC0, 0x3030, 0x3030, 0x3000, 0x3000, 0xFC0, 0xFC0, 0x30, 0x30, 0x30, 0x30, 0x3030, 0x3030, 0xFC0, 0xFC0, 0x0, 0x0, 0x0, 0x0, 0x0, 0x0]),
    (0x54, [0x0, 0x0, 0x0, 0x0, 0x3FF0, 0x3FF0, 0x300, 0x300, 0x300, 0x300, 0x300, 0x300, 0x300, 0x300, 0x300, 0x300, 0x300, 0x300, 0x300, 0x300, 0x0, 0x0, 0x0, 0x0, 0x0, 0x0]),
    (0x55, [0x0, 0x0, 0x0, 0x0, 0x3030, 0x3030, 0x3030, 0x3030, 0x3030, 0x3030, 0x3030, 0x3030, 0x3030, 0x3030, 0x3030, 0x3030, 0x3030, 0x3030, 0xFC0, 0xFC0, 0x0, 0x0, 0x0, 0x0, 0x0, 0x0]),
    (0x56, [0x0, 0x0, 0x0, 0x0, 0x3030, 0x3030, 0x3030, 0x3030, 0x3030, 0x3030, 0xCC0, 0xCC0, 0xCC0, 0xCC0, 0xCC0, 0xCC0, 0x300, 0x300, 0x300, 0x300, 0x0, 0x0, 0x0, 0x0, 0x0, 0x0]),
    (0x57, [0x0, 0x0, 0x0, 0x0, 0x3030, 0x3030, 0x3030, 0x3030, 0x3030, 0x3030, 0x3330, 0x3330, 0x3330, 0x3330, 0xFC0, 0xFC0, 0xCC0, 0xCC0, 0xCC0, 0xCC0, 0x0, 0x0, 0x0, 0x0, 0x0, 0x0]),
    (0x58, [0x0, 0x0, 0x0, 0x0, 0x3030, 0x3030, 0x3030, 0x3030, 0xCC0, 0xCC0, 0x300, 0x300, 0x300, 0x300, 0xCC0, 0xCC0, 0x3030, 0x3030, 0x3030, 0x3030, 0x0, 0x0, 0x0, 0x0, 0x0, 0x0]),
    (0x59, [0x0, 0x0, 0x0, 0x0, 0x3030, 0x3030, 0x3030, 0x3030, 0x3030, 0x3030, 0xCC0, 0xCC0, 0x300, 0x300, 0x300, 0x300, 0x300, 0x300, 0x300, 0x300, 0x0, 0x0, 0x0, 0x0, 0x0, 0x0]),
    (0x5A, [0x0, 0x0, 0x0, 0x0, 0x3FF0, 0x3FF0, 0xC0, 0xC0, 0x300, 0x300, 0x300, 0x300, 0xC00, 0xC00, 0xC00, 0xC00, 0x3000, 0x3000, 0x3FF0, 0x3FF0, 0x0, 0x0, 0x0, 0x0, 0x0, 0x0]),
    (0x5B, [0x0, 0x0, 0xFC0, 0xFC0, 0xC00, 0xC00, 0xC00, 0xC00, 0xC00, 0xC00, 0xC00, 0xC00, 0xC00, 0xC00, 0xC00, 0xC00, 0xC00, 0xC00, 0xC00, 0xC00, 0xC00, 0xC00, 0xFC0, 0xFC0, 0x0, 0x0]),
    (0x5C, [0x0, 0x0, 0x3000, 0x3000, 0x3000, 0x3000, 0xC00, 0xC00, 0xC00, 0xC00, 0x300, 0x300, 0x300, 0x300, 0xC0, 0xC0, 0xC0, 0xC0, 0x30, 0x30, 0x30, 0x30, 0x0, 0x0, 0x0, 0x0]),
    (0x5D, [0x0, 0x0, 0xFC0, 0xFC0, 0xC0, 0xC0, 0xC0, 0xC0, 0xC0, 0xC0, 0xC0, 0xC0, 0xC0, 0xC0, 0xC0, 0xC0, 0xC0, 0xC0, 0xC0, 0xC0, 0xC0, 0xC0, 0xFC0, 0xFC0, 0x0, 0x0]),
    (0x5E, [0x300, 0x300, 0xCC0, 0xCC0, 0x3030, 0x3030, 0x0, 0x0, 0x0, 0x0, 0x0, 0x0, 0x0, 0x0, 0x0, 0x0, 0x0, 0x0, 0x0, 0x0, 0x0, 0x0, 0x0, 0x0, 0x0, 0x0]),
    (0x5F, [0x0, 0x0, 0x0, 0x0, 0x0, 0x0, 0x0, 0x0, 0x0, 0x0, 0x0, 0x0, 0x0, 0x0, 0x0, 0x0, 0x0, 0x0, 0x0, 0x0, 0x3FF0, 0x3FF0, 0x0, 0x0, 0x0, 0x0]),
    (0x60, [0x0, 0x0, 0xC00, 0xC00, 0x300, 0x300, 0x0, 0x0, 0x0, 0x0, 0x0, 0x0, 0x0, 0x0, 0x0, 0x0, 0x0, 0x0, 0x0, 0x0, 0x0, 0x0, 0x0, 0x0, 0x0, 0x0]),
    (0x61, [0x0, 0x0, 0x0, 0x0, 0x0, 0x0, 0x0, 0x0, 0xFF0, 0xFF0, 0x3030, 0x3030, 0x3030, 0x3030, 0x3030, 0x3030, 0x30F0, 0x30F0, 0xF30, 0xF30, 0x0, 0x0, 0x0, 0x0, 0x0, 0x0]),
    (0x62, [0x0, 0x0, 0x3000, 0x3000, 0x3000, 0x3000, 0x3000, 0x3000, 0x3FC0, 0x3FC0, 0x3030, 0x3030, 0x3030, 0x3030, 0x3030, 0x3030, 0x3030, 0x3030, 0x3FC0, 0x3FC0, 0x0, 0x0, 0x0, 0x0, 0x0, 0x0]),
    (0x63, [0x0, 0x0, 0x0, 0x0, 0x0, 0x0, 0x0, 0x0, 0xFC0, 0xFC0, 0x3030, 0x3030, 0x3000, 0x3000, 0x3000, 0x3000, 0x3030, 0x3030, 0xFC0, 0xFC0, 0x0, 0x0, 0x0, 0x0, 0x0, 0x0]),
    (0x64, [0x0, 0x0, 0x30, 0x30, 0x30, 0x30, 0x30, 0x30, 0xFF0, 0xFF0, 0x3030, 0x3030, 0x3030, 0x3030, 0x3030, 0x3030, 0x3030, 0x3030, 0xFF0, 0xFF0, 0x0, 0x0, 0x0, 0x0, 0x0, 0x0]),
    (0x65, [0x0, 0x0, 0x0, 0x0, 0x0, 0x0, 0x0, 0x0, 0xFC0, 0xFC0, 0x3030, 0x3030, 0x3FF0, 0x3FF0, 0x3000, 0x3000, 0x3030, 0x3030, 0xFC0, 0xFC0, 0x0, 0x0, 0x0, 0x0, 0x0, 0x0]),
    (0x66, [0x0, 0x0, 0x3F0, 0x3F0, 0xC00, 0xC00, 0xC00, 0xC00, 0x3FC0, 0x3FC0, 0xC00, 0xC00, 0xC00, 0xC00, 0xC00, 0xC00, 0xC00, 0xC00, 0xC00, 0xC00, 0x0, 0x0, 0x0, 0x0, 0x0, 0x0]),
    (0x67, [0x0, 0x0, 0x0, 0x0, 0x0, 0x0, 0x0, 0x0, 0xFF0, 0xFF0, 0x3030, 0x3030, 0x3030, 0x3030, 0x3030, 0x3030, 0x3030, 0x3030, 0xFF0, 0xFF0, 0x30, 0x30, 0x30, 0x30, 0xFC0, 0xFC0]),
    (0x68, [0x0, 0x0, 0x3000, 0x3000, 0x3000, 0x3000, 0x3000, 0x3000, 0x3FC0, 0x3FC0, 0x3030, 0x3030, 0x3030, 0x3030, 0x3030, 0x3030, 0x3030, 0x3030, 0x3030, 0x3030, 0x0, 0x0, 0x0, 0x0, 0x0, 0x0]),
    (0x69, [0x0, 0x0, 0x0, 0x0, 0x300, 0x300, 0x0, 0x0, 0xF00, 0xF00, 0x300, 0x300, 0x300, 0x300, 0x300, 0x300, 0x300, 0x300, 0xF0, 0xF0, 0x0, 0x0, 0x0, 0x0, 0x0, 0x0]),
    (0x6A, [0x0, 0x0, 0x0, 0x0, 0xC0, 0xC0, 0x0, 0x0, 0x3C0, 0x3C0, 0xC0, 0xC0, 0xC0, 0xC0, 0xC0, 0xC0, 0xC0, 0xC0, 0xC0, 0xC0, 0xCC0, 0xCC0, 0x300, 0x300, 0x0, 0x0]),
    (0x6B, [0x0, 0x0, 0x3000, 0x3000, 0x3000, 0x3000, 0x3000, 0x3000, 0x3030, 0x3030, 0x30C0, 0x30C0, 0x3300, 0x3300, 0x3F00, 0x3F00, 0x30C0, 0x30C0, 0x3030, 0x3030, 0x0, 0x0, 0x0, 0x0, 0x0, 0x0]),
    (0x6C, [0x0, 0x0, 0xF00, 0xF00, 0x300, 0x300, 0x300, 0x300, 0x300, 0x300, 0x300, 0x300, 0x300, 0x300, 0x300, 0x300, 0x300, 0x300, 0x3C0, 0x3C0, 0x0, 0x0, 0x0, 0x0, 0x0, 0x0]),
    (0x6D, [0x0, 0x0, 0x0, 0x0, 0x0, 0x0, 0x0, 0x0, 0x3CC0, 0x3CC0, 0x3330, 0x3330, 0x3330, 0x3330, 0x3330, 0x3330, 0x3330, 0x3330, 0x3330, 0x3330, 0x0, 0x0, 0x0, 0x0, 0x0, 0x0]),
    (0x6E, [0x0, 0x0, 0x0, 0x0, 0x0, 0x0, 0x0, 0x0, 0x3FC0, 0x3FC0, 0x3030, 0x3030, 0x3030, 0x3030, 0x3030, 0x3030, 0x3030, 0x3030, 0x3030, 0x3030, 0x0, 0x0, 0x0, 0x0, 0x0, 0x0]),
    (0x6F, [0x0, 0x0, 0x0, 0x0, 0x0, 0x0, 0x0, 0x0, 0xFC0, 0xFC0, 0x3030, 0x3030, 0x3030, 0x3030, 0x3030, 0x3030, 0x3030, 0x3030, 0xFC0, 0xFC0, 0x0, 0x0, 0x0, 0x0, 0x0, 0x0]),
    (0x70, [0x0, 0x0, 0x0, 0x0, 0x0, 0x0, 0x0, 0x0, 0x3FC0, 0x3FC0, 0x3030, 0x3030, 0x3030, 0x3030, 0x3030, 0x3030, 0x3030, 0x3030, 0x3FC0, 0x3FC0, 0x3000, 0x3000, 0x3000, 0x3000, 0x3000, 0x3000]),
    (0x71, [0x0, 0x0, 0x0, 0x0, 0x0, 0x0, 0x0, 0x0, 0xFF0, 0xFF0, 0x3030, 0x3030, 0x3030, 0x3030, 0x3030, 0x3030, 0x3030, 0x3030, 0xFF0, 0xFF0, 0x30, 0x30, 0x30, 0x30, 0x3C, 0x3C]),
    (0x72, [0x0, 0x0, 0x0, 0x0, 0x0, 0x0, 0x0, 0x0, 0x3FC0, 0x3FC0, 0x3030, 0x3030, 0x3000, 0x3000, 0x3000, 0x3000, 0x3000, 0x3000, 0x3000, 0x3000, 0x0, 0x0, 0x0, 0x0, 0x0, 0x0]),
    (0x73, [0x0, 0x0, 0x0, 0x0, 0x0, 0x0, 0x0, 0x0, 0xFF0, 0xFF0, 0x3000, 0x3000, 0xFC0, 0xFC0, 0x30, 0x30, 0x30, 0x30, 0x3FC0, 0x3FC0, 0x0, 0x0, 0x0, 0x0, 0x0, 0x0]),
    (0x74, [0x0, 0x0, 0x0, 0x0, 0xC00, 0xC00, 0xC00, 0xC00, 0x3FC0, 0x3FC0, 0xC00, 0xC00, 0xC00, 0xC00, 0xC00, 0xC00, 0xC00, 0xC00, 0x3F0, 0x3F0, 0x0, 0x0, 0x0, 0x0, 0x0, 0x0]),
    (0x75, [0x0, 0x0, 0x0, 0x0, 0x0, 0x0, 0x0, 0x0, 0x3030, 0x3030, 0x3030, 0x3030, 0x3030, 0x3030, 0x3030, 0x3030, 0x3030, 0x3030, 0xFF0, 0xFF0, 0x0, 0x0, 0x0, 0x0, 0x0, 0x0]),
    (0x76, [0x0, 0x0, 0x0, 0x0, 0x0, 0x0, 0x0, 0x0, 0x3030, 0x3030, 0x3030, 0x3030, 0xCC0, 0xCC0, 0xCC0, 0xCC0, 0x300, 0x300, 0x300, 0x300, 0x0, 0x0, 0x0, 0x0, 0x0, 0x0]),
    (0x77, [0x0, 0x0, 0x0, 0x0, 0x0, 0x0, 0x0, 0x0, 0x3030, 0x3030, 0x3030, 0x3030, 0x3330, 0x3330, 0x3330, 0x3330, 0xCC0, 0xCC0, 0xCC0, 0xCC0, 0x0, 0x0, 0x0, 0x0, 0x0, 0x0]),
    (0x78, [0x0, 0x0, 0x0, 0x0, 0x0, 0x0, 0x0, 0x0, 0x3030, 0x3030, 0xCC0, 0xCC0, 0x300, 0x300, 0x300, 0x300, 0xCC0, 0xCC0, 0x3030, 0x3030, 0x0, 0x0, 0x0, 0x0, 0x0, 0x0]),
    (0x79, [0x0, 0x0, 0x0, 0x0, 0x0, 0x0, 0x0, 0x0, 0x3030, 0x3030, 0x3030, 0x3030, 0x3030, 0x3030, 0x3030, 0x3030, 0x3030, 0x3030, 0xFF0, 0xFF0, 0x30, 0x30, 0x30, 0x30, 0xFC0, 0xFC0]),
    (0x7A, [0x0, 0x0, 0x0, 0x0, 0x0, 0x0, 0x0, 0x0, 0x3FF0, 0x3FF0, 0xC0, 0xC0, 0x300, 0x300, 0xC00, 0xC00, 0x3000, 0x3000, 0x3FF0, 0x3FF0, 0x0, 0x0, 0x0, 0x0, 0x0, 0x0]),
    (0x7B, [0x0, 0x0, 0xF0, 0xF0, 0x300, 0x300, 0x300, 0x300, 0x300, 0x300, 0x300, 0x300, 0x3C00, 0x3C00, 0x300, 0x300, 0x300, 0x300, 0x300, 0x300, 0x300, 0x300, 0xF0, 0xF0, 0x0, 0x0]),
    (0x7C, [0x0, 0x0, 0x300, 0x300, 0x300, 0x300, 0x300, 0x300, 0x300, 0x300, 0x300, 0x300, 0x300, 0x300, 0x300, 0x300, 0x300, 0x300, 0x300, 0x300, 0x300, 0x300, 0x300, 0x300, 0x0, 0x0]),
    (0x7D, [0x0, 0x0, 0x3C00, 0x3C00, 0x300, 0x300, 0x300, 0x300, 0x300, 0x300, 0x300, 0x300, 0xF0, 0xF0, 0x300, 0x300, 0x300, 0x300, 0x300, 0x300, 0x300, 0x300, 0x3C00, 0x3C00, 0x0, 0x0]),
    (0x7E, [0x0, 0x0, 0x0, 0x0, 0x0, 0x0, 0x0, 0x0, 0x0, 0x0, 0xC30, 0xC30, 0x3330, 0x3330, 0x30C0, 0x30C0, 0x0, 0x0, 0x0, 0x0, 0x0, 0x0, 0x0, 0x0, 0x0, 0x0]),
    (0xA0, [0x0, 0x0, 0x0, 0x0, 0x0, 0x0, 0x0, 0x0, 0x0, 0x0, 0x0, 0x0, 0x0, 0x0, 0x0, 0x0, 0x0, 0x0, 0x0, 0x0, 0x0, 0x0, 0x0, 0x0, 0x0, 0x0]),
    (0xA1, [0x0, 0x0, 0x0, 0x0, 0x0, 0x0, 0x0, 0x0, 0x300, 0x300, 0x0, 0x0, 0x300, 0x300, 0x300, 0x300, 0x300, 0x300, 0x300, 0x300, 0x300, 0x300, 0x300, 0x300, 0x0, 0x0]),
    (0xA2, [0x0, 0x0, 0x0, 0x0, 0x0, 0x0, 0x300, 0x300, 0xFC0, 0xFC0, 0x3330, 0x3330, 0x3300, 0x3300, 0x3300, 0x3300, 0x3330, 0x3330, 0xFC0, 0xFC0, 0x300, 0x300, 0x0, 0x0, 0x0, 0x0]),
    (0xA3, [0x0, 0x0, 0x0, 0x0, 0x3C0, 0x3C0, 0xC00, 0xC00, 0xC00, 0xC00, 0x3FC0, 0x3FC0, 0xC00, 0xC00, 0xC00, 0xC00, 0xC00, 0xC00, 0x33F0, 0x33F0, 0x0, 0x0, 0x0, 0x0, 0x0, 0x0]),
    (0xA4, [0x0, 0x0, 0x0, 0x0, 0x0, 0x0, 0x0, 0x0, 0x3030, 0x3030, 0xFC0, 0xFC0, 0xCC0, 0xCC0, 0xCC0, 0xCC0, 0xFC0, 0xFC0, 0x3030, 0x3030, 0x0, 0x0, 0x0, 0x0, 0x0, 0x0])]"

definition BIGFONT_1 :: "(u16 \<times> u16 list) list" where
  "BIGFONT_1 = [
    (0xA5, [0x0, 0x0, 0x3030, 0x3030, 0x3030, 0x3030, 0x3030, 0x3030, 0xCC0, 0xCC0, 0x300, 0x300, 0x3FF0, 0x3FF0, 0x300, 0x300, 0x3FF0, 0x3FF0, 0x300, 0x300, 0x0, 0x0, 0x0, 0x0, 0x0, 0x0]),
    (0xA6, [0x0, 0x0, 0x300, 0x300, 0x300, 0x300, 0x300, 0x300, 0x300, 0x300, 0x0, 0x0, 0x0, 0x0, 0x0, 0x0, 0x300, 0x300, 0x300, 0x300, 0x300, 0x300, 0x300, 0x300, 0x0, 0x0]),
    (0xA7, [0x0, 0x0, 0xFC0, 0xFC0, 0x3030, 0x3030, 0x3000, 0x3000, 0xF00, 0xF00, 0xCC0, 0xCC0, 0xCC0, 0xCC0, 0x3C0, 0x3C0, 0x30, 0x30, 0x3030, 0x3030, 0xFC0, 0xFC0, 0x0, 0x0, 0x0, 0x0]),
    (0xA8, [0x0, 0x0, 0xCC0, 0xCC0, 0x0, 0x0, 0x0, 0x0, 0x0, 0x0, 0x0, 0x0, 0x0, 0x0, 0x0, 0x0, 0x0, 0x0, 0x0, 0x0, 0x0, 0x0, 0x0, 0x0, 0x0, 0x0]),
    (0xA9, [0x0, 0x0, 0x0, 0x0, 0x0, 0x0, 0xFC0, 0xFC0, 0x3030, 0x3030, 0xCFCC, 0xCFCC, 0xCC0C, 0xCC0C, 0xCFCC, 0xCFCC, 0x3030, 0x3030, 0xFC0, 0xFC0, 0x0, 0x0, 0x0, 0x0, 0x0, 0x0]),
    (0xAA, [0x0, 0x0, 0x0, 0x0, 0x3C0, 0x3C0, 0x30, 0x30, 0x3F0, 0x3F0, 0xC30, 0xC30, 0x3F0, 0x3F0, 0x0, 0x0, 0x0, 0x0, 0x0, 0x0, 0x0, 0x0, 0x0, 0x0, 0x0, 0x0]),
    (0xAB, [0x0, 0x0, 0x0, 0x0, 0x0, 0x0, 0x0, 0x0, 0x330, 0x330, 0xCC0, 0xCC0, 0x3300, 0x3300, 0xCC0, 0xCC0, 0x330, 0x330, 0x0, 0x0, 0x0, 0x0, 0x0, 0x0, 0x0, 0x0]),
    (0xAC, [0x0, 0x0, 0x0, 0x0, 0x0, 0x0, 0x0, 0x0, 0x0, 0x0, 0x0, 0x0, 0x3FC0, 0x3FC0, 0xC0, 0xC0, 0xC0, 0xC0, 0xC0, 0xC0, 0x0, 0x0, 0x0, 0x0, 0x0, 0x0]),
    (0xAD, [0x0, 0x0, 0x0, 0x0, 0x0, 0x0, 0x0, 0x0, 0x0, 0x0, 0x0, 0x0, 0xFC0, 0xFC0, 0x0, 0x0, 0x0, 0x0, 0x0, 0x0, 0x0, 0x0, 0x0, 0x0, 0x0, 0x0]),
    (0xAE, [0x0, 0x0, 0x0, 0x0, 0x0, 0x0, 0xFC0, 0xFC0, 0x3030, 0x3030, 0xCFCC, 0xCFCC, 0xCC0C, 0xCC0C, 0xCC0C, 0xCC0C, 0x3030, 0x3030, 0xFC0, 0xFC0, 0x0, 0x0, 0x0, 0x0, 0x0, 0x0]),
    (0xAF, [0xFFFC, 0xFFFC, 0x0, 0x0, 0x0, 0x0, 0x0, 0x0, 0x0, 0x0, 0x0, 0x0, 0x0, 0x0, 0x0, 0x0, 0x0, 0x0, 0x0, 0x0, 0x0, 0x0, 0x0, 0x0, 0x0, 0x0]),
    (0xB0, [0x0, 0x0, 0x0, 0x0, 0xF00, 0xF00, 0x30C0, 0x30C0, 0x30C0, 0x30C0, 0xF00, 0xF00, 0x0, 0x0, 0x0, 0x0, 0x0, 0x0, 0x0, 0x0, 0x0, 0x0, 0x0, 0x0, 0x0, 0x0]),
    (0xB1, [0x0, 0x0, 0x0, 0x0, 0x0, 0x0, 0x300, 0x300, 0x300, 0x300, 0x3FF0, 0x3FF0, 0x300, 0x300, 0x300, 0x300, 0x0, 0x0, 0x3FF0, 0x3FF0, 0x0, 0x0, 0x0, 0x0, 0x0, 0x0]),
    (0xB2, [0x0, 0x0, 0xF00, 0xF00, 0x30C0, 0x30C0, 0x300, 0x300, 0xC00, 0xC00, 0x3FC0, 0x3FC0, 0x0, 0x0, 0x0, 0x0, 0x0, 0x0, 0x0, 0x0, 0x0, 0x0, 0x0, 0x0, 0x0, 0x0]),
    (0xB3, [0x0, 0x0, 0x3F00, 0x3F00, 0xC0, 0xC0, 0xF00, 0xF00, 0xC0, 0xC0, 0x3F00, 0x3F00, 0x0, 0x0, 0x0, 0x0, 0x0, 0x0, 0x0, 0x0, 0x0, 0x0, 0x0, 0x0, 0x0, 0x0]),
    (0xB4, [0x0, 0x0, 0xC0, 0xC0, 0x300, 0x300, 0x0, 0x0, 0x0, 0x0, 0x0, 0x0, 0x0, 0x0, 0x0, 0x0, 0x0, 0x0, 0x0, 0x0, 0x0, 0x0, 0x0, 0x0, 0x0, 0x0]),
    (0xB5, [0x0, 0x0, 0x0, 0x0, 0x0, 0x0, 0x0, 0x0, 0xC30, 0xC30, 0xC30, 0xC30, 0xC30, 0xC30, 0xC30, 0xC30, 0xF30, 0xF30, 0xCC0, 0xCC0, 0xC00, 0xC00, 0x3000, 0x3000, 0x0, 0x0]),
    (0xB6, [0x0, 0x0, 0x0, 0x0, 0xFF0, 0xFF0, 0x3F30, 0x3F30, 0x3F30, 0x3F30, 0xF30, 0xF30, 0x330, 0x330, 0x330, 0x330, 0x330, 0x330, 0x330, 0x330, 0x330, 0x330, 0x0, 0x0, 0x0, 0x0]),
    (0xB7, [0x0, 0x0, 0x0, 0x0, 0x0, 0x0, 0x0, 0x0, 0x0, 0x0, 0x300, 0x300, 0xFC0, 0xFC0, 0x300, 0x300, 0x0, 0x0, 0x0, 0x0, 0x0, 0x0, 0x0, 0x0, 0x0, 0x0]),
    (0xB8, [0x0, 0x0, 0x0, 0x0, 0x0, 0x0, 0x0, 0x0, 0x0, 0x0, 0x0, 0x0, 0x0, 0x0, 0x0, 0x0, 0x0, 0x0, 0x300, 0x300, 0xC0, 0xC0, 0xF00, 0xF00, 0x0, 0x0]),
    (0xB9, [0x0, 0x0, 0xC00, 0xC00, 0x3C00, 0x3C00, 0xC00, 0xC00, 0xC00, 0xC00, 0x3F00, 0x3F00, 0x0, 0x0, 0x0, 0x0, 0x0, 0x0, 0x0, 0x0, 0x0, 0x0, 0x0, 0x0, 0x0, 0x0]),
    (0xBA, [0x0, 0x0, 0x0, 0x0, 0xC0, 0xC0, 0x330, 0x330, 0xC0, 0xC0, 0x0, 0x0, 0x3F0, 0x3F0, 0x0, 0x0, 0x0, 0x0, 0x0, 0x0, 0x0, 0x0, 0x0, 0x0, 0x0, 0x0]),
    (0xBB, [0x0, 0x0, 0x0, 0x0, 0x0, 0x0, 0x0, 0x0, 0x3300, 0x3300, 0xCC0, 0xCC0, 0x330, 0x330, 0xCC0, 0xCC0, 0x3300, 0x3300, 0x0, 0x0, 0x0, 0x0, 0x0, 0x0, 0x0, 0x0]),
    (0xBC, [0x0, 0x0, 0x3030, 0x3030, 0x30C0, 0x30C0, 0x30C0, 0x30C0, 0x3300, 0x3300, 0x300, 0x300, 0xC30, 0xC30, 0xCF0, 0xCF0, 0x33F0, 0x33F0, 0x3030, 0x3030, 0x0, 0x0, 0x0, 0x0, 0x0, 0x0]),
    (0xBD, [0x0, 0x0, 0x3030, 0x3030, 0x30C0, 0x30C0, 0x30C0, 0x30C0, 0x3300, 0x3300, 0x300, 0x300, 0xCC0, 0xCC0, 0xC30, 0xC30, 0x30C0, 0x30C0, 0x30F0, 0x30F0, 0x0, 0x0, 0x0, 0x0, 0x0, 0x0]),
    (0xBE, [0x0, 0x0, 0x3C30, 0x3C30, 0xCC0, 0xCC0, 0x30C0, 0x30C0, 0xF00, 0xF00, 0x3F00, 0x3F00, 0xC30, 0xC30, 0xCF0, 0xCF0, 0x33F0, 0x33F0, 0x3030, 0x3030, 0x0, 0x0, 0x0, 0x0, 0x0, 0x0]),
    (0xBF, [0x0, 0x0, 0x0, 0x0, 0x0, 0x0, 0x0, 0x0, 0x300, 0x300, 0x0, 0x0, 0x300, 0x300, 0x300, 0x300, 0xC00, 0xC00, 0x3000, 0x3000, 0x3030, 0x3030, 0xFC0, 0xFC0, 0x0, 0x0]),
    (0xC0, [0xC00, 0xC00, 0x300, 0x300, 0x0, 0x0, 0xFC0, 0xFC0, 0x3030, 0x3030, 0x3030, 0x3030, 0x3FF0, 0x3FF0, 0x3030, 0x3030, 0x3030, 0x3030, 0x3030, 0x3030, 0x0, 0x0, 0x0, 0x0, 0x0, 0x0]),
    (0xC1, [0xC0, 0xC0, 0x300, 0x300, 0x0, 0x0, 0xFC0, 0xFC0, 0x3030, 0x3030, 0x3030, 0x3030, 0x3FF0, 0x3FF0, 0x3030, 0x3030, 0x3030, 0x3030, 0x3030, 0x3030, 0x0, 0x0, 0x0, 0x0, 0x0, 0x0]),
    (0xC2, [0x300, 0x300, 0xCC0, 0xCC0, 0x0, 0x0, 0xFC0, 0xFC0, 0x3030, 0x3030, 0x3030, 0x3030, 0x3FF0, 0x3FF0, 0x3030, 0x3030, 0x3030, 0x3030, 0x3030, 0x3030, 0x0, 0x0, 0x0, 0x0, 0x0, 0x0]),
    (0xC3, [0xF30, 0xF30, 0x33C0, 0x33C0, 0x0, 0x0, 0xFC0, 0xFC0, 0x3030, 0x3030, 0x3030, 0x3030, 0x3FF0, 0x3FF0, 0x3030, 0x3030, 0x3030, 0x3030, 0x3030, 0x3030, 0x0, 0x0, 0x0, 0x0, 0x0, 0x0]),
    (0xC4, [0xCC0, 0xCC0, 0x0, 0x0, 0xFC0, 0xFC0, 0x3030, 0x3030, 0x3030, 0x3030, 0x3030, 0x3030, 0x3FF0, 0x3FF0, 0x3030, 0x3030, 0x3030, 0x3030, 0x3030, 0x3030, 0x0, 0x0, 0x0, 0x0, 0x0, 0x0]),
    (0xC5, [0x300, 0x300, 0xCC0, 0xCC0, 0x300, 0x300, 0x0, 0x0, 0xFC0, 0xFC0, 0x3030, 0x3030, 0x3030, 0x3030, 0x3FF0, 0x3FF0, 0x3030, 0x3030, 0x3030, 0x3030, 0x0, 0x0, 0x0, 0x0, 0x0, 0x0]),
    (0xC6, [0x0, 0x0, 0x0, 0x0, 0xFF0, 0xFF0, 0x3300, 0x3300, 0x3300, 0x3300, 0x33F0, 0x33F0, 0x3F00, 0x3F00, 0x3300, 0x3300, 0x3300, 0x3300, 0x33F0, 0x33F0, 0x0, 0x0, 0x0, 0x0, 0x0, 0x0]),
    (0xC7, [0x0, 0x0, 0x0, 0x0, 0xFC0, 0xFC0, 0x3030, 0x3030, 0x3000, 0x3000, 0x3000, 0x3000, 0x3000, 0x3000, 0x3000, 0x3000, 0x3030, 0x3030, 0xFC0, 0xFC0, 0x300, 0x300, 0x300, 0x300, 0xC00, 0xC00]),
    (0xC8, [0xC00, 0xC00, 0x300, 0x300, 0x0, 0x0, 0x3FF0, 0x3FF0, 0x3000, 0x3000, 0x3000, 0x3000, 0x3FC0, 0x3FC0, 0x3000, 0x3000, 0x3000, 0x3000, 0x3FF0, 0x3FF0, 0x0, 0x0, 0x0, 0x0, 0x0, 0x0]),
    (0xC9, [0xC0, 0xC0, 0x300, 0x300, 0x0, 0x0, 0x3FF0, 0x3FF0, 0x3000, 0x3000, 0x3000, 0x3000, 0x3FC0, 0x3FC0, 0x3000, 0x3000, 0x3000, 0x3000, 0x3FF0, 0x3FF0, 0x0, 0x0, 0x0, 0x0, 0x0, 0x0]),
    (0xCA, [0x300, 0x300, 0xCC0, 0xCC0, 0x0, 0x0, 0x3FF0, 0x3FF0, 0x3000, 0x3000, 0x3000, 0x3000, 0x3FC0, 0x3FC0, 0x3000, 0x3000, 0x3000, 0x3000, 0x3FF0, 0x3FF0, 0x0, 0x0, 0x0, 0x0, 0x0, 0x0]),
    (0xCB, [0xCC0, 0xCC0, 0x0, 0x0, 0x3FF0, 0x3FF0, 0x3000, 0x3000, 0x3000, 0x3000, 0x3FC0, 0x3FC0, 0x3000, 0x3000, 0x3000, 0x3000, 0x3000, 0x3000, 0x3FF0, 0x3FF0, 0x0, 0x0, 0x0, 0x0, 0x0, 0x0]),
    (0xCC, [0xC00, 0xC00, 0x300, 0x300, 0x0, 0x0, 0xFC0, 0xFC0, 0x300, 0x300, 0x300, 0x300, 0x300, 0x300, 0x300, 0x300, 0x300, 0x300, 0xFC0, 0xFC0, 0x0, 0x0, 0x0, 0x0, 0x0, 0x0]),
    (0xCD, [0xC0, 0xC0, 0x300, 0x300, 0x0, 0x0, 0xFC0, 0xFC0, 0x300, 0x300, 0x300, 0x300, 0x300, 0x300, 0x300, 0x300, 0x300, 0x300, 0xFC0, 0xFC0, 0x0, 0x0, 0x0, 0x0, 0x0, 0x0]),
    (0xCE, [0x300, 0x300, 0xCC0, 0xCC0, 0x0, 0x0, 0xFC0, 0xFC0, 0x300, 0x300, 0x300, 0x300, 0x300, 0x300, 0x300, 0x300, 0x300, 0x300, 0xFC0, 0xFC0, 0x0, 0x0, 0x0, 0x0, 0x0, 0x0]),
    (0xCF, [0xCC0, 0xCC0, 0x0, 0x0, 0xFC0, 0xFC0, 0x300, 0x300, 0x300, 0x300, 0x300, 0x300, 0x300, 0x300, 0x300, 0x300, 0x300, 0x300, 0xFC0, 0xFC0, 0x0, 0x0, 0x0, 0x0, 0x0, 0x0]),
    (0xD0, [0x0, 0x0, 0x0, 0x0, 0x0, 0x0, 0xFC0, 0xFC0, 0xC30, 0xC30, 0xC30, 0xC30, 0x3F30, 0x3F30, 0xC30, 0xC30, 0xC30, 0xC30, 0xFC0, 0xFC0, 0x0, 0x0, 0x0, 0x0, 0x0, 0x0]),
    (0xD1, [0xF30, 0xF30, 0x33C0, 0x33C0, 0x0, 0x0, 0x3030, 0x3030, 0x3C30, 0x3C30, 0x3C30, 0x3C30, 0x3330, 0x3330, 0x30F0, 0x30F0, 0x30F0, 0x30F0, 0x3030, 0x3030, 0x0, 0x0, 0x0, 0x0, 0x0, 0x0]),
    (0xD2, [0xC00, 0xC00, 0x300, 0x300, 0x0, 0x0, 0xFC0, 0xFC0, 0x3030, 0x3030, 0x3030, 0x3030, 0x3030, 0x3030, 0x3030, 0x3030, 0x3030, 0x3030, 0xFC0, 0xFC0, 0x0, 0x0, 0x0, 0x0, 0x0, 0x0]),
    (0xD3, [0xC0, 0xC0, 0x300, 0x300, 0x0, 0x0, 0xFC0, 0xFC0, 0x3030, 0x3030, 0x3030, 0x3030, 0x3030, 0x3030, 0x3030, 0x3030, 0x3030, 0x3030, 0xFC0, 0xFC0, 0x0, 0x0, 0x0, 0x0, 0x0, 0x0]),
    (0xD4, [0x300, 0x300, 0xCC0, 0xCC0, 0x0, 0x0, 0xFC0, 0xFC0, 0x3030, 0x3030, 0x3030, 0x3030, 0x3030, 0x3030, 0x3030, 0x3030, 0x3030, 0x3030, 0xFC0, 0xFC0, 0x0, 0x0, 0x0, 0x0, 0x0, 0x0]),
    (0xD5, [0xF30, 0xF30, 0x33C0, 0x33C0, 0x0, 0x0, 0xFC0, 0xFC0, 0x3030, 0x3030, 0x3030, 0x3030, 0x3030, 0x3030, 0x3030, 0x3030, 0x3030, 0x3030, 0xFC0, 0xFC0, 0x0, 0x0, 0x0, 0x0, 0x0, 0x0]),
    (0xD6, [0xCC0, 0xCC0, 0x0, 0x0, 0xFC0, 0xFC0, 0x3030, 0x3030, 0x3030, 0x3030, 0x3030, 0x3030, 0x3030, 0x3030, 0x3030, 0x3030, 0x3030, 0x3030, 0xFC0, 0xFC0, 0x0, 0x0, 0x0, 0x0, 0x0, 0x0]),
    (0xD7, [0x0, 0x0, 0x0, 0x0, 0x0, 0x0, 0x0, 0x0, 0x3030, 0x3030, 0xCC0, 0xCC0, 0x300, 0x300, 0xCC0, 0xCC0, 0x3030, 0x3030, 0x0, 0x0, 0x0, 0x0, 0x0, 0x0, 0x0, 0x0]),
    (0xD8, [0x0, 0x0, 0x30, 0x30, 0xFC0, 0xFC0, 0x30F0, 0x30F0, 0x30F0, 0x30F0, 0x3330, 0x3330, 0x3330, 0x3330, 0x3C30, 0x3C30, 0x3C30, 0x3C30, 0xFC0, 0xFC0, 0x3000, 0x3000, 0x0, 0x0, 0x0, 0x0]),
    (0xD9, [0xC00, 0xC00, 0x300, 0x300, 0x0, 0x0, 0x3030, 0x3030, 0x3030, 0x3030, 0x3030, 0x3030, 0x3030, 0x3030, 0x3030, 0x3030, 0x3030, 0x3030, 0xFC0, 0xFC0, 0x0, 0x0, 0x0, 0x0, 0x0, 0x0]),
    (0xDA, [0xC0, 0xC0, 0x300, 0x300, 0x0, 0x0, 0x3030, 0x3030, 0x3030, 0x3030, 0x3030, 0x3030, 0x3030, 0x3030, 0x3030, 0x3030, 0x3030, 0x3030, 0xFC0, 0xFC0, 0x0, 0x0, 0x0, 0x0, 0x0, 0x0]),
    (0xDB, [0x300, 0x300, 0xCC0, 0xCC0, 0x0, 0x0, 0x3030, 0x3030, 0x3030, 0x3030, 0x3030, 0x3030, 0x3030, 0x3030, 0x3030, 0x3030, 0x3030, 0x3030, 0xFC0, 0xFC0, 0x0, 0x0, 0x0, 0x0, 0x0, 0x0]),
    (0xDC, [0xCC0, 0xCC0, 0x0, 0x0, 0x3030, 0x3030, 0x3030, 0x3030, 0x3030, 0x3030, 0x3030, 0x3030, 0x3030, 0x3030, 0x3030, 0x3030, 0x3030, 0x3030, 0xFC0, 0xFC0, 0x0, 0x0, 0x0, 0x0, 0x0, 0x0]),
    (0xDD, [0xC0, 0xC0, 0x300, 0x300, 0x0, 0x0, 0x3030, 0x3030, 0x3030, 0x3030, 0x3030, 0x3030, 0xCC0, 0xCC0, 0x300, 0x300, 0x300, 0x300, 0x300, 0x300, 0x0, 0x0, 0x0, 0x0, 0x0, 0x0]),
    (0xDE, [0x0, 0x0, 0x0, 0x0, 0x3000, 0x3000, 0x3000, 0x3000, 0x3FC0, 0x3FC0, 0x3030, 0x3030, 0x3030, 0x3030, 0x3FC0, 0x3FC0, 0x3000, 0x3000, 0x3000, 0x3000, 0x0, 0x0, 0x0, 0x0, 0x0, 0x0]),
    (0xDF, [0x0, 0x0, 0x0, 0x0, 0xF00, 0xF00, 0x30C0, 0x30C0, 0x30C0, 0x30C0, 0x3300, 0x3300, 0x30C0, 0x30C0, 0x3030, 0x3030, 0x3030, 0x3030, 0x33C0, 0x33C0, 0x0, 0x0, 0x0, 0x0, 0x0, 0x0]),
    (0xE0, [0x0, 0x0, 0xC00, 0xC00, 0x300, 0x300, 0x0, 0x0, 0xFF0, 0xFF0, 0x3030, 0x3030, 0x3030, 0x3030, 0x3030, 0x3030, 0x30F0, 0x30F0, 0xF30, 0xF30, 0x0, 0x0, 0x0, 0x0, 0x0, 0x0]),
    (0xE1, [0x0, 0x0, 0xC0, 0xC0, 0x300, 0x300, 0x0, 0x0, 0xFF0, 0xFF0, 0x3030, 0x3030, 0x3030, 0x3030, 0x3030, 0x3030, 0x30F0, 0x30F0, 0xF30, 0xF30, 0x0, 0x0, 0x0, 0x0, 0x0, 0x0]),
    (0xE2, [0x0, 0x0, 0x300, 0x300, 0xCC0, 0xCC0, 0x0, 0x0, 0xFF0, 0xFF0, 0x3030, 0x3030, 0x3030, 0x3030, 0x3030, 0x3030, 0x30F0, 0x30F0, 0xF30, 0xF30, 0x0, 0x0, 0x0, 0x0, 0x0, 0x0]),
    (0xE3, [0x0, 0x0, 0xF30, 0xF30, 0x33C0, 0x33C0, 0x0, 0x0, 0xFF0, 0xFF0, 0x3030, 0x3030, 0x3030, 0x3030, 0x3030, 0x3030, 0x30F0, 0x30F0, 0xF30, 0xF30, 0x0, 0x0, 0x0, 0x0, 0x0, 0x0]),
    (0xE4, [0x0, 0x0, 0x0, 0x0, 0xCC0, 0xCC0, 0x0, 0x0, 0xFF0, 0xFF0, 0x3030, 0x3030, 0x3030, 0x3030, 0x3030, 0x3030, 0x30F0, 0x30F0, 0xF30, 0xF30, 0x0, 0x0, 0x0, 0x0, 0x0, 0x0]),
    (0xE5, [0x300, 0x300, 0xCC0, 0xCC0, 0x300, 0x300, 0x0, 0x0, 0xFF0, 0xFF0, 0x3030, 0x3030, 0x3030, 0x3030, 0x3030, 0x3030, 0x30F0, 0x30F0, 0xF30, 0xF30, 0x0, 0x0, 0x0, 0x0, 0x0, 0x0]),
    (0xE6, [0x0, 0x0, 0x0, 0x0, 0x0, 0x0, 0x0, 0x0, 0xFC0, 0xFC0, 0x3330, 0x3330, 0x33F0, 0x33F0, 0x3300, 0x3300, 0x3330, 0x3330, 0xCC0, 0xCC0, 0x0, 0x0, 0x0, 0x0, 0x0, 0x0]),
    (0xE7, [0x0, 0x0, 0x0, 0x0, 0x0, 0x0, 0x0, 0x0, 0xFC0, 0xFC0, 0x3030, 0x3030, 0x3000, 0x3000, 0x3000, 0x3000, 0x3030, 0x3030, 0xFC0, 0xFC0, 0x300, 0x300, 0xC0, 0xC0, 0xF00, 0xF00]),
    (0xE8, [0x0, 0x0, 0xC00, 0xC00, 0x300, 0x300, 0x0, 0x0, 0xFC0, 0xFC0, 0x3030, 0x3030, 0x3FF0, 0x3FF0, 0x3000, 0x3000, 0x3030, 0x3030, 0xFC0, 0xFC0, 0x0, 0x0, 0x0, 0x0, 0x0, 0x0]),
    (0xE9, [0x0, 0x0, 0xC0, 0xC0, 0x300, 0x300, 0x0, 0x0, 0xFC0, 0xFC0, 0x3030, 0x3030, 0x3FF0, 0x3FF0, 0x3000, 0x3000, 0x3030, 0x3030, 0xFC0, 0xFC0, 0x0, 0x0, 0x0, 0x0, 0x0, 0x0]),
    (0xEA, [0x0, 0x0, 0x300, 0x300, 0xCC0, 0xCC0, 0x0, 0x0, 0xFC0, 0xFC0, 0x3030, 0x3030, 0x3FF0, 0x3FF0, 0x3000, 0x3000, 0x3030, 0x3030, 0xFC0, 0xFC0, 0x0, 0x0, 0x0, 0x0, 0x0, 0x0]),
    (0xEB, [0x0, 0x0, 0x0, 0x0, 0xCC0, 0xCC0, 0x0, 0x0, 0xFC0, 0xFC0, 0x3030, 0x3030, 0x3FF0, 0x3FF0, 0x3000, 0x3000, 0x3030, 0x3030, 0xFC0, 0xFC0, 0x0, 0x0, 0x0, 0x0, 0x0, 0x0]),
    (0xEC, [0x0, 0x0, 0xC00, 0xC00, 0x300, 0x300, 0x0, 0x0, 0xF00, 0xF00, 0x300, 0x300, 0x300, 0x300, 0x300, 0x300, 0x300, 0x300, 0xF0, 0xF0, 0x0, 0x0, 0x0, 0x0, 0x0, 0x0]),
    (0xED, [0x0, 0x0, 0xC0, 0xC0, 0x300, 0x300, 0x0, 0x0, 0xF00, 0xF00, 0x300, 0x300, 0x300, 0x300, 0x300, 0x300, 0x300, 0x300, 0xF0, 0xF0, 0x0, 0x0, 0x0, 0x0, 0x0, 0x0]),
    (0xEE, [0x0, 0x0, 0x300, 0x300, 0xCC0, 0xCC0, 0x0, 0x0, 0xF00, 0xF00, 0x300, 0x300, 0x300, 0x300, 0x300, 0x300, 0x300, 0x300, 0xF0, 0xF0, 0x0, 0x0, 0x0, 0x0, 0x0, 0x0]),
    (0xEF, [0x0, 0x0, 0x0, 0x0, 0xCC0, 0xCC0, 0x0, 0x0, 0xF00, 0xF00, 0x300, 0x300, 0x300, 0x300, 0x300, 0x300, 0x300, 0x300, 0xF0, 0xF0, 0x0, 0x0, 0x0, 0x0, 0x0, 0x0]),
    (0xF0, [0x0, 0x0, 0xF30, 0xF30, 0xC0, 0xC0, 0x330, 0x330, 0x30, 0x30, 0xFF0, 0xFF0, 0x3030, 0x3030, 0x3030, 0x3030, 0x3030, 0x3030, 0xFC0, 0xFC0, 0x0, 0x0, 0x0, 0x0, 0x0, 0x0]),
    (0xF1, [0x0, 0x0, 0xF30, 0xF30, 0x33C0, 0x33C0, 0x0, 0x0, 0x3FC0, 0x3FC0, 0x3030, 0x3030, 0x3030, 0x3030, 0x3030, 0x3030, 0x3030, 0x3030, 0x3030, 0x3030, 0x0, 0x0, 0x0, 0x0, 0x0, 0x0]),
    (0xF2, [0x0, 0x0, 0xC00, 0xC00, 0x300, 0x300, 0x0, 0x0, 0xFC0, 0xFC0, 0x3030, 0x3030, 0x3030, 0x3030, 0x3030, 0x3030, 0x3030, 0x3030, 0xFC0, 0xFC0, 0x0, 0x0, 0x0, 0x0, 0x0, 0x0]),
    (0xF3, [0x0, 0x0, 0xC0, 0xC0, 0x300, 0x300, 0x0, 0x0, 0xFC0, 0xFC0, 0x3030, 0x3030, 0x3030, 0x3030, 0x3030, 0x3030, 0x3030, 0x3030, 0xFC0, 0xFC0, 0x0, 0x0, 0x0, 0x0, 0x0, 0x0]),
    (0xF4, [0x0, 0x0, 0x300, 0x300, 0xCC0, 0xCC0, 0x0, 0x0, 0xFC0, 0xFC0, 0x3030, 0x3030, 0x3030, 0x3030, 0x3030, 0x3030, 0x3030, 0x3030, 0xFC0, 0xFC0, 0x0, 0x0, 0x0, 0x0, 0x0, 0x0]),
    (0xF5, [0x0, 0x0, 0xF30, 0xF30, 0x33C0, 0x33C0, 0x0, 0x0, 0xFC0, 0xFC0, 0x3030, 0x3030, 0x3030, 0x3030, 0x3030, 0x3030, 0x3030, 0x3030, 0xFC0, 0xFC0, 0x0, 0x0, 0x0, 0x0, 0x0, 0x0]),
    (0xF6, [0x0, 0x0, 0x0, 0x0, 0xCC0, 0xCC0, 0x0, 0x0, 0xFC0, 0xFC0, 0x3030, 0x3030, 0x3030, 0x3030, 0x3030, 0x3030, 0x3030, 0x3030, 0xFC0, 0xFC0, 0x0, 0x0, 0x0, 0x0, 0x0, 0x0]),
    (0xF7, [0x0, 0x0, 0x0, 0x0, 0x0, 0x0, 0x0, 0x0, 0x300, 0x300, 0x0, 0x0, 0x3FF0, 0x3FF0, 0x0, 0x0, 0x300, 0x300, 0x0, 0x0, 0x0, 0x0, 0x0, 0x0, 0x0, 0x0]),
    (0xF8, [0x0, 0x0, 0x0, 0x0, 0x0, 0x0, 0x30, 0x30, 0xFC0, 0xFC0, 0x30F0, 0x30F0, 0x3330, 0x3330, 0x3330, 0x3330, 0x3C30, 0x3C30, 0xFC0, 0xFC0, 0x3000, 0x3000, 0x0, 0x0, 0x0, 0x0]),
    (0xF9, [0x0, 0x0, 0xC00, 0xC00, 0x300, 0x300, 0x0, 0x0, 0x3030, 0x3030, 0x3030, 0x3030, 0x3030, 0x3030, 0x3030, 0x3030, 0x3030, 0x3030, 0xFF0, 0xFF0, 0x0, 0x0, 0x0, 0x0, 0x0, 0x0]),
    (0xFA, [0x0, 0x0, 0xC0, 0xC0, 0x300, 0x300, 0x0, 0x0, 0x3030, 0x3030, 0x3030, 0x3030, 0x3030, 0x3030, 0x3030, 0x3030, 0x3030, 0x3030, 0xFF0, 0xFF0, 0x0, 0x0, 0x0, 0x0, 0x0, 0x0]),
    (0xFB, [0x0, 0x0, 0x300, 0x300, 0xCC0, 0xCC0, 0x0, 0x0, 0x3030, 0x3030, 0x3030, 0x3030, 0x3030, 0x3030, 0x3030, 0x3030, 0x3030, 0x3030, 0xFF0, 0xFF0, 0x0, 0x0, 0x0, 0x0, 0x0, 0x0]),
    (0xFC, [0x0, 0x0, 0x0, 0x0, 0xCC0, 0xCC0, 0x0, 0x0, 0x3030, 0x3030, 0x3030, 0x3030, 0x3030, 0x3030, 0x3030, 0x3030, 0x3030, 0x3030, 0xFF0, 0xFF0, 0x0, 0x0, 0x0, 0x0, 0x0, 0x0]),
    (0xFD, [0x0, 0x0, 0xC0, 0xC0, 0x300, 0x300, 0x0, 0x0, 0x3030, 0x3030, 0x3030, 0x3030, 0x3030, 0x3030, 0x3030, 0x3030, 0x3030, 0x3030, 0xFF0, 0xFF0, 0x30, 0x30, 0x30, 0x30, 0xFC0, 0xFC0]),
    (0xFE, [0x0, 0x0, 0x0, 0x0, 0x3000, 0x3000, 0x3000, 0x3000, 0x3FC0, 0x3FC0, 0x3030, 0x3030, 0x3030, 0x3030, 0x3030, 0x3030, 0x3030, 0x3030, 0x3FC0, 0x3FC0, 0x3000, 0x3000, 0x3000, 0x3000, 0x0, 0x0]),
    (0xFF, [0x0, 0x0, 0x0, 0x0, 0xCC0, 0xCC0, 0x0, 0x0, 0x3030, 0x3030, 0x3030, 0x3030, 0x3030, 0x3030, 0x3030, 0x3030, 0x3030, 0x3030, 0xFF0, 0xFF0, 0x30, 0x30, 0x30, 0x30, 0xFC0, 0xFC0])]"

definition BIGFONT :: "(u16 \<times> u16 list) list" where
  "BIGFONT = BIGFONT_0 @ BIGFONT_1"

section \<open>What the lookups rely on\<close>

lemma BIGFONT_length: "length BIGFONT = BIGFONT_COUNT"
  by code_simp

lemma BIGFONT_ascending: "ascending (map fst BIGFONT)"
  by code_simp

lemma BIGFONT_rows: "list_all (\<lambda>g. length (snd g) = 26) BIGFONT"
  by code_simp

end
