(* ===== verification/FontTamzen.thy ===== *)
theory FontTamzen
  imports Prelude
begin

text \<open>The three bold faces, \<open>lib/SharpLcd/src/TamzenFont.h\<close>, entry by entry.\<close>

definition BOLD6_W :: nat where "BOLD6_W = 6"
definition BOLD6_H :: nat where "BOLD6_H = 12"
definition BOLD6_ASCENT :: nat where "BOLD6_ASCENT = 10"
definition BOLD6_COUNT :: nat where "BOLD6_COUNT = 175"

definition BOLD6_0 :: "(u16 \<times> u8 list) list" where
  "BOLD6_0 = [
    (0x20, [0x0, 0x0, 0x0, 0x0, 0x0, 0x0, 0x0, 0x0, 0x0, 0x0, 0x0, 0x0]),
    (0x21, [0x0, 0x60, 0xF0, 0xF0, 0x60, 0x60, 0x0, 0x0, 0x60, 0x0, 0x0, 0x0]),
    (0x22, [0x0, 0xD8, 0xD8, 0xD8, 0x0, 0x0, 0x0, 0x0, 0x0, 0x0, 0x0, 0x0]),
    (0x23, [0x0, 0x50, 0xF8, 0x50, 0x50, 0xF8, 0xF8, 0x50, 0x50, 0x0, 0x0, 0x0]),
    (0x24, [0x30, 0x30, 0x78, 0xC0, 0x60, 0x30, 0x18, 0xF0, 0x60, 0x60, 0x0, 0x0]),
    (0x25, [0x0, 0x60, 0xA0, 0xA8, 0xD0, 0x20, 0x58, 0xA8, 0x28, 0x30, 0x0, 0x0]),
    (0x26, [0x0, 0x60, 0xD0, 0xD0, 0x60, 0xFC, 0xD8, 0xD8, 0x7C, 0x0, 0x0, 0x0]),
    (0x27, [0x0, 0x60, 0x60, 0x60, 0x0, 0x0, 0x0, 0x0, 0x0, 0x0, 0x0, 0x0]),
    (0x28, [0x0, 0x18, 0x30, 0x30, 0x60, 0x60, 0x60, 0x60, 0x30, 0x30, 0x18, 0x0]),
    (0x29, [0x0, 0xC0, 0x60, 0x60, 0x30, 0x30, 0x30, 0x30, 0x60, 0x60, 0xC0, 0x0]),
    (0x2A, [0x0, 0x0, 0x0, 0x20, 0xF8, 0x70, 0xF8, 0x20, 0x0, 0x0, 0x0, 0x0]),
    (0x2B, [0x0, 0x0, 0x0, 0x30, 0x30, 0xFC, 0x30, 0x30, 0x0, 0x0, 0x0, 0x0]),
    (0x2C, [0x0, 0x0, 0x0, 0x0, 0x0, 0x0, 0x0, 0x70, 0x70, 0x30, 0x60, 0x0]),
    (0x2D, [0x0, 0x0, 0x0, 0x0, 0x0, 0xF8, 0x0, 0x0, 0x0, 0x0, 0x0, 0x0]),
    (0x2E, [0x0, 0x0, 0x0, 0x0, 0x0, 0x0, 0x0, 0x70, 0x70, 0x0, 0x0, 0x0]),
    (0x2F, [0x0, 0x0, 0x18, 0x18, 0x30, 0x30, 0x60, 0x60, 0xC0, 0xC0, 0x0, 0x0]),
    (0x30, [0x0, 0x0, 0x70, 0xC8, 0xD8, 0xE8, 0xC8, 0xF8, 0x70, 0x0, 0x0, 0x0]),
    (0x31, [0x0, 0x0, 0x30, 0x70, 0xF0, 0x30, 0x30, 0x30, 0xFC, 0x0, 0x0, 0x0]),
    (0x32, [0x0, 0x0, 0x70, 0x98, 0x18, 0x30, 0x60, 0xC0, 0xF8, 0x0, 0x0, 0x0]),
    (0x33, [0x0, 0x0, 0xF8, 0x18, 0x30, 0x70, 0x18, 0x18, 0xF0, 0x0, 0x0, 0x0]),
    (0x34, [0x0, 0x0, 0x18, 0x38, 0x58, 0x98, 0xFC, 0x18, 0x18, 0x0, 0x0, 0x0]),
    (0x35, [0x0, 0x0, 0xF8, 0xC0, 0xF0, 0x18, 0x18, 0x98, 0x70, 0x0, 0x0, 0x0]),
    (0x36, [0x0, 0x0, 0x70, 0xC0, 0xF0, 0xC8, 0xC8, 0xC8, 0x70, 0x0, 0x0, 0x0]),
    (0x37, [0x0, 0x0, 0xF8, 0x18, 0x30, 0x30, 0x60, 0x60, 0x60, 0x0, 0x0, 0x0]),
    (0x38, [0x0, 0x0, 0x70, 0xC8, 0xC8, 0x70, 0xC8, 0xC8, 0x70, 0x0, 0x0, 0x0]),
    (0x39, [0x0, 0x0, 0x70, 0xC8, 0xC8, 0xC8, 0x78, 0x18, 0x70, 0x0, 0x0, 0x0]),
    (0x3A, [0x0, 0x0, 0x0, 0x70, 0x70, 0x0, 0x0, 0x70, 0x70, 0x0, 0x0, 0x0]),
    (0x3B, [0x0, 0x0, 0x0, 0x70, 0x70, 0x0, 0x0, 0x70, 0x70, 0x30, 0x60, 0x0]),
    (0x3C, [0x0, 0x0, 0x18, 0x30, 0x60, 0xC0, 0x60, 0x30, 0x18, 0x0, 0x0, 0x0]),
    (0x3D, [0x0, 0x0, 0x0, 0x0, 0xF8, 0x0, 0xF8, 0x0, 0x0, 0x0, 0x0, 0x0]),
    (0x3E, [0x0, 0x0, 0xC0, 0x60, 0x30, 0x18, 0x30, 0x60, 0xC0, 0x0, 0x0, 0x0]),
    (0x3F, [0x0, 0x70, 0x98, 0x18, 0x30, 0x60, 0x0, 0x0, 0x60, 0x0, 0x0, 0x0]),
    (0x40, [0x0, 0x70, 0xC8, 0xC8, 0xD8, 0xD8, 0xD8, 0xC0, 0xC0, 0x78, 0x0, 0x0]),
    (0x41, [0x0, 0x0, 0x20, 0x70, 0xC8, 0xC8, 0xF8, 0xC8, 0xC8, 0x0, 0x0, 0x0]),
    (0x42, [0x0, 0x0, 0xF0, 0xC8, 0xC8, 0xF0, 0xC8, 0xC8, 0xF0, 0x0, 0x0, 0x0]),
    (0x43, [0x0, 0x0, 0x78, 0xC0, 0xC0, 0xC0, 0xC0, 0xC0, 0x78, 0x0, 0x0, 0x0]),
    (0x44, [0x0, 0x0, 0xF0, 0xC8, 0xC8, 0xC8, 0xC8, 0xF0, 0xE0, 0x0, 0x0, 0x0]),
    (0x45, [0x0, 0x0, 0xF8, 0xC0, 0xC0, 0xF0, 0xC0, 0xC0, 0xF8, 0x0, 0x0, 0x0]),
    (0x46, [0x0, 0x0, 0xF8, 0xC0, 0xC0, 0xF0, 0xC0, 0xC0, 0xC0, 0x0, 0x0, 0x0]),
    (0x47, [0x0, 0x0, 0x78, 0xC0, 0xC0, 0xD8, 0xC8, 0xC8, 0x78, 0x0, 0x0, 0x0]),
    (0x48, [0x0, 0x0, 0xC8, 0xC8, 0xC8, 0xF8, 0xC8, 0xC8, 0xC8, 0x0, 0x0, 0x0]),
    (0x49, [0x0, 0x0, 0x78, 0x30, 0x30, 0x30, 0x30, 0x30, 0x78, 0x0, 0x0, 0x0]),
    (0x4A, [0x0, 0x0, 0x18, 0x18, 0x18, 0x18, 0x98, 0x98, 0x70, 0x0, 0x0, 0x0]),
    (0x4B, [0x0, 0x0, 0xC8, 0xD8, 0xF0, 0xE0, 0xF0, 0xD8, 0xC8, 0x0, 0x0, 0x0]),
    (0x4C, [0x0, 0x0, 0xC0, 0xC0, 0xC0, 0xC0, 0xC0, 0xC0, 0xF8, 0x0, 0x0, 0x0]),
    (0x4D, [0x0, 0x0, 0x88, 0xD8, 0xF8, 0xF8, 0xA8, 0x88, 0x88, 0x0, 0x0, 0x0]),
    (0x4E, [0x0, 0x0, 0xC8, 0xC8, 0xE8, 0xF8, 0xD8, 0xC8, 0xC8, 0x0, 0x0, 0x0]),
    (0x4F, [0x0, 0x0, 0x70, 0xC8, 0xC8, 0xC8, 0xC8, 0xC8, 0x70, 0x0, 0x0, 0x0]),
    (0x50, [0x0, 0x0, 0xF0, 0xC8, 0xC8, 0xF0, 0xC0, 0xC0, 0xC0, 0x0, 0x0, 0x0]),
    (0x51, [0x0, 0x0, 0x70, 0xC8, 0xC8, 0xC8, 0xC8, 0xC8, 0x70, 0x10, 0x8, 0x0]),
    (0x52, [0x0, 0x0, 0xF0, 0xC8, 0xC8, 0xF0, 0xF0, 0xD8, 0xC8, 0x0, 0x0, 0x0]),
    (0x53, [0x0, 0x0, 0x78, 0xC0, 0xC0, 0x70, 0x18, 0x18, 0xF0, 0x0, 0x0, 0x0]),
    (0x54, [0x0, 0x0, 0xFC, 0x30, 0x30, 0x30, 0x30, 0x30, 0x30, 0x0, 0x0, 0x0]),
    (0x55, [0x0, 0x0, 0xC8, 0xC8, 0xC8, 0xC8, 0xC8, 0xC8, 0x70, 0x0, 0x0, 0x0]),
    (0x56, [0x0, 0x0, 0xC8, 0xC8, 0xC8, 0xC8, 0x70, 0x70, 0x20, 0x0, 0x0, 0x0]),
    (0x57, [0x0, 0x0, 0x88, 0xA8, 0xA8, 0xF8, 0xF8, 0xD8, 0xD8, 0x0, 0x0, 0x0]),
    (0x58, [0x0, 0x0, 0xC8, 0xC8, 0x70, 0x70, 0x70, 0xC8, 0xC8, 0x0, 0x0, 0x0]),
    (0x59, [0x0, 0x0, 0xC8, 0xC8, 0xC8, 0x70, 0x30, 0x30, 0x30, 0x0, 0x0, 0x0]),
    (0x5A, [0x0, 0x0, 0xF8, 0x30, 0x30, 0x60, 0x60, 0xC0, 0xF8, 0x0, 0x0, 0x0]),
    (0x5B, [0x0, 0x78, 0x60, 0x60, 0x60, 0x60, 0x60, 0x60, 0x60, 0x60, 0x78, 0x0]),
    (0x5C, [0x0, 0x0, 0xC0, 0xC0, 0x60, 0x60, 0x30, 0x30, 0x18, 0x18, 0x0, 0x0]),
    (0x5D, [0x0, 0xF0, 0x30, 0x30, 0x30, 0x30, 0x30, 0x30, 0x30, 0x30, 0xF0, 0x0]),
    (0x5E, [0x0, 0x0, 0x20, 0x70, 0xD8, 0x88, 0x0, 0x0, 0x0, 0x0, 0x0, 0x0]),
    (0x5F, [0x0, 0x0, 0x0, 0x0, 0x0, 0x0, 0x0, 0x0, 0x0, 0x0, 0xFC, 0x0]),
    (0x60, [0x0, 0x60, 0x30, 0x18, 0x0, 0x0, 0x0, 0x0, 0x0, 0x0, 0x0, 0x0]),
    (0x61, [0x0, 0x0, 0x0, 0x0, 0x70, 0x18, 0x78, 0x98, 0x78, 0x0, 0x0, 0x0]),
    (0x62, [0x0, 0x0, 0xC0, 0xC0, 0xF0, 0xC8, 0xC8, 0xC8, 0xF0, 0x0, 0x0, 0x0]),
    (0x63, [0x0, 0x0, 0x0, 0x0, 0x78, 0xC0, 0xC0, 0xC0, 0x78, 0x0, 0x0, 0x0]),
    (0x64, [0x0, 0x0, 0x18, 0x18, 0x78, 0x98, 0x98, 0x98, 0x78, 0x0, 0x0, 0x0]),
    (0x65, [0x0, 0x0, 0x0, 0x0, 0x70, 0xC8, 0xF8, 0xC0, 0x78, 0x0, 0x0, 0x0]),
    (0x66, [0x0, 0x0, 0x38, 0x60, 0xF8, 0x60, 0x60, 0x60, 0x60, 0x0, 0x0, 0x0]),
    (0x67, [0x0, 0x0, 0x0, 0x0, 0x78, 0x98, 0x98, 0x98, 0x78, 0x18, 0x70, 0x0]),
    (0x68, [0x0, 0x0, 0xC0, 0xC0, 0xF0, 0xC8, 0xC8, 0xC8, 0xC8, 0x0, 0x0, 0x0]),
    (0x69, [0x0, 0x0, 0x30, 0x0, 0x70, 0x30, 0x30, 0x30, 0x78, 0x0, 0x0, 0x0]),
    (0x6A, [0x0, 0x0, 0x30, 0x0, 0x70, 0x30, 0x30, 0x30, 0x30, 0x30, 0xE0, 0x0]),
    (0x6B, [0x0, 0x0, 0xC0, 0xC0, 0xD8, 0xF0, 0xF0, 0xD8, 0xC8, 0x0, 0x0, 0x0]),
    (0x6C, [0x0, 0x0, 0x70, 0x30, 0x30, 0x30, 0x30, 0x30, 0x78, 0x0, 0x0, 0x0]),
    (0x6D, [0x0, 0x0, 0x0, 0x0, 0xD8, 0xF8, 0xF8, 0xC8, 0xC8, 0x0, 0x0, 0x0]),
    (0x6E, [0x0, 0x0, 0x0, 0x0, 0xF0, 0xC8, 0xC8, 0xC8, 0xC8, 0x0, 0x0, 0x0]),
    (0x6F, [0x0, 0x0, 0x0, 0x0, 0x70, 0xC8, 0xC8, 0xC8, 0x70, 0x0, 0x0, 0x0]),
    (0x70, [0x0, 0x0, 0x0, 0x0, 0xF0, 0xC8, 0xC8, 0xC8, 0xF0, 0xC0, 0xC0, 0x0]),
    (0x71, [0x0, 0x0, 0x0, 0x0, 0x78, 0x98, 0x98, 0x98, 0x78, 0x18, 0x18, 0x0]),
    (0x72, [0x0, 0x0, 0x0, 0x0, 0xD8, 0xE0, 0xC0, 0xC0, 0xC0, 0x0, 0x0, 0x0]),
    (0x73, [0x0, 0x0, 0x0, 0x0, 0x78, 0xC0, 0x70, 0x18, 0xF0, 0x0, 0x0, 0x0]),
    (0x74, [0x0, 0x0, 0x0, 0x60, 0xF8, 0x60, 0x60, 0x60, 0x38, 0x0, 0x0, 0x0]),
    (0x75, [0x0, 0x0, 0x0, 0x0, 0xC8, 0xC8, 0xC8, 0xC8, 0x70, 0x0, 0x0, 0x0]),
    (0x76, [0x0, 0x0, 0x0, 0x0, 0xC8, 0xC8, 0x70, 0x70, 0x20, 0x0, 0x0, 0x0]),
    (0x77, [0x0, 0x0, 0x0, 0x0, 0x88, 0xA8, 0xA8, 0xF8, 0xF8, 0x0, 0x0, 0x0]),
    (0x78, [0x0, 0x0, 0x0, 0x0, 0xC8, 0x70, 0x70, 0x70, 0xC8, 0x0, 0x0, 0x0]),
    (0x79, [0x0, 0x0, 0x0, 0x0, 0xC8, 0xC8, 0xC8, 0x70, 0x30, 0x30, 0xE0, 0x0]),
    (0x7A, [0x0, 0x0, 0x0, 0x0, 0xF8, 0x30, 0x60, 0xC0, 0xF8, 0x0, 0x0, 0x0]),
    (0x7B, [0x1C, 0x30, 0x30, 0x30, 0x30, 0xE0, 0x30, 0x30, 0x30, 0x30, 0x1C, 0x0]),
    (0x7C, [0x0, 0x30, 0x30, 0x30, 0x30, 0x30, 0x30, 0x30, 0x30, 0x30, 0x0, 0x0]),
    (0x7D, [0xE0, 0x30, 0x30, 0x30, 0x30, 0x1C, 0x30, 0x30, 0x30, 0x30, 0xE0, 0x0]),
    (0x7E, [0x0, 0x0, 0x68, 0xF8, 0xB0, 0x0, 0x0, 0x0, 0x0, 0x0, 0x0, 0x0]),
    (0xA0, [0x0, 0x0, 0x0, 0x0, 0x0, 0x0, 0x0, 0x0, 0x0, 0x0, 0x0, 0x0]),
    (0xA1, [0x0, 0x0, 0x0, 0x60, 0x0, 0x0, 0x60, 0x60, 0xF0, 0xF0, 0x60, 0x0]),
    (0xA2, [0x0, 0x30, 0x30, 0x78, 0xC0, 0xC0, 0xC0, 0x78, 0x30, 0x30, 0x0, 0x0]),
    (0xA3, [0x0, 0x0, 0x38, 0x60, 0x60, 0xF8, 0x60, 0x60, 0xF8, 0x0, 0x0, 0x0]),
    (0xA4, [0x0, 0x0, 0xC8, 0x70, 0xC8, 0xC8, 0x70, 0xC8, 0x0, 0x0, 0x0, 0x0])]"

definition BOLD6_1 :: "(u16 \<times> u8 list) list" where
  "BOLD6_1 = [
    (0xA5, [0x0, 0x0, 0xC8, 0xC8, 0x70, 0xF8, 0x30, 0xF8, 0x30, 0x0, 0x0, 0x0]),
    (0xA6, [0x0, 0x30, 0x30, 0x30, 0x30, 0x0, 0x30, 0x30, 0x30, 0x30, 0x0, 0x0]),
    (0xA8, [0x0, 0xD8, 0xD8, 0x0, 0x0, 0x0, 0x0, 0x0, 0x0, 0x0, 0x0, 0x0]),
    (0xA9, [0x0, 0x0, 0x70, 0xD8, 0xA8, 0xB8, 0xA8, 0xD8, 0x70, 0x0, 0x0, 0x0]),
    (0xAB, [0x0, 0x0, 0x0, 0x0, 0x24, 0x6C, 0xD8, 0x6C, 0x24, 0x0, 0x0, 0x0]),
    (0xAD, [0x0, 0x0, 0x0, 0x0, 0x0, 0xF8, 0x0, 0x0, 0x0, 0x0, 0x0, 0x0]),
    (0xB0, [0x0, 0x0, 0x70, 0xC8, 0xC8, 0x70, 0x0, 0x0, 0x0, 0x0, 0x0, 0x0]),
    (0xB4, [0x0, 0x18, 0x30, 0x0, 0x0, 0x0, 0x0, 0x0, 0x0, 0x0, 0x0, 0x0]),
    (0xB8, [0x0, 0x0, 0x0, 0x0, 0x0, 0x0, 0x0, 0x0, 0x0, 0x30, 0xE0, 0x0]),
    (0xBB, [0x0, 0x0, 0x0, 0x0, 0x90, 0xD8, 0x6C, 0xD8, 0x90, 0x0, 0x0, 0x0]),
    (0xBF, [0x0, 0x0, 0x0, 0x30, 0x0, 0x0, 0x30, 0x60, 0xC0, 0xC8, 0x70, 0x0]),
    (0xC0, [0xC0, 0x60, 0x0, 0x20, 0x70, 0xC8, 0xF8, 0xC8, 0xC8, 0x0, 0x0, 0x0]),
    (0xC1, [0x18, 0x30, 0x0, 0x20, 0x70, 0xC8, 0xF8, 0xC8, 0xC8, 0x0, 0x0, 0x0]),
    (0xC2, [0x70, 0xD8, 0x0, 0x20, 0x70, 0xC8, 0xF8, 0xC8, 0xC8, 0x0, 0x0, 0x0]),
    (0xC3, [0x68, 0xB0, 0x0, 0x20, 0x70, 0xC8, 0xF8, 0xC8, 0xC8, 0x0, 0x0, 0x0]),
    (0xC4, [0xD8, 0xD8, 0x0, 0x20, 0x70, 0xC8, 0xF8, 0xC8, 0xC8, 0x0, 0x0, 0x0]),
    (0xC5, [0x70, 0xD8, 0x70, 0x20, 0x70, 0xC8, 0xF8, 0xC8, 0xC8, 0x0, 0x0, 0x0]),
    (0xC6, [0x0, 0x0, 0x38, 0x70, 0xD0, 0xD8, 0xF0, 0xD0, 0xD8, 0x0, 0x0, 0x0]),
    (0xC7, [0x0, 0x0, 0x78, 0xC0, 0xC0, 0xC0, 0xC0, 0xC0, 0x78, 0x30, 0xE0, 0x0]),
    (0xC8, [0xC0, 0x60, 0x0, 0xF8, 0xC0, 0xF0, 0xC0, 0xC0, 0xF8, 0x0, 0x0, 0x0]),
    (0xC9, [0x18, 0x30, 0x0, 0xF8, 0xC0, 0xF0, 0xC0, 0xC0, 0xF8, 0x0, 0x0, 0x0]),
    (0xCA, [0x70, 0xD8, 0x0, 0xF8, 0xC0, 0xF0, 0xC0, 0xC0, 0xF8, 0x0, 0x0, 0x0]),
    (0xCB, [0xD8, 0xD8, 0x0, 0xF8, 0xC0, 0xF0, 0xC0, 0xC0, 0xF8, 0x0, 0x0, 0x0]),
    (0xCC, [0x60, 0x30, 0x0, 0x78, 0x30, 0x30, 0x30, 0x30, 0x78, 0x0, 0x0, 0x0]),
    (0xCD, [0x18, 0x30, 0x0, 0x78, 0x30, 0x30, 0x30, 0x30, 0x78, 0x0, 0x0, 0x0]),
    (0xCE, [0x70, 0xD8, 0x0, 0x78, 0x30, 0x30, 0x30, 0x30, 0x78, 0x0, 0x0, 0x0]),
    (0xCF, [0xD8, 0xD8, 0x0, 0x78, 0x30, 0x30, 0x30, 0x30, 0x78, 0x0, 0x0, 0x0]),
    (0xD0, [0x0, 0x0, 0xF0, 0x68, 0x68, 0xE8, 0x68, 0x70, 0xE0, 0x0, 0x0, 0x0]),
    (0xD1, [0x68, 0xB0, 0x0, 0xC8, 0xE8, 0xF8, 0xD8, 0xC8, 0xC8, 0x0, 0x0, 0x0]),
    (0xD2, [0xC0, 0x60, 0x0, 0x70, 0xC8, 0xC8, 0xC8, 0xC8, 0x70, 0x0, 0x0, 0x0]),
    (0xD3, [0x18, 0x30, 0x0, 0x70, 0xC8, 0xC8, 0xC8, 0xC8, 0x70, 0x0, 0x0, 0x0]),
    (0xD4, [0x70, 0xD8, 0x0, 0x70, 0xC8, 0xC8, 0xC8, 0xC8, 0x70, 0x0, 0x0, 0x0]),
    (0xD5, [0x68, 0xB0, 0x0, 0x70, 0xC8, 0xC8, 0xC8, 0xC8, 0x70, 0x0, 0x0, 0x0]),
    (0xD6, [0xD8, 0xD8, 0x0, 0x70, 0xC8, 0xC8, 0xC8, 0xC8, 0x70, 0x0, 0x0, 0x0]),
    (0xD7, [0x0, 0x0, 0x0, 0x0, 0xC8, 0x70, 0x70, 0xC8, 0x0, 0x0, 0x0, 0x0]),
    (0xD8, [0x0, 0x10, 0x70, 0xC8, 0xD8, 0xE8, 0xC8, 0xC8, 0x70, 0x40, 0x0, 0x0]),
    (0xD9, [0xC0, 0x60, 0x0, 0xC8, 0xC8, 0xC8, 0xC8, 0xC8, 0x70, 0x0, 0x0, 0x0]),
    (0xDA, [0x18, 0x30, 0x0, 0xC8, 0xC8, 0xC8, 0xC8, 0xC8, 0x70, 0x0, 0x0, 0x0]),
    (0xDB, [0x70, 0xD8, 0x0, 0xC8, 0xC8, 0xC8, 0xC8, 0xC8, 0x70, 0x0, 0x0, 0x0]),
    (0xDC, [0xD8, 0xD8, 0x0, 0xC8, 0xC8, 0xC8, 0xC8, 0xC8, 0x70, 0x0, 0x0, 0x0]),
    (0xDD, [0x18, 0x30, 0x0, 0xC8, 0xC8, 0x70, 0x30, 0x30, 0x30, 0x0, 0x0, 0x0]),
    (0xDE, [0x0, 0x0, 0xC0, 0xF0, 0xC8, 0xC8, 0xC8, 0xF0, 0xC0, 0x0, 0x0, 0x0]),
    (0xDF, [0x0, 0x70, 0xC8, 0xC8, 0xD0, 0xC8, 0xC8, 0xC8, 0xD0, 0xC0, 0x0, 0x0]),
    (0xE0, [0x0, 0xC0, 0x60, 0x0, 0x70, 0x18, 0x78, 0x98, 0x78, 0x0, 0x0, 0x0]),
    (0xE1, [0x0, 0x18, 0x30, 0x0, 0x70, 0x18, 0x78, 0x98, 0x78, 0x0, 0x0, 0x0]),
    (0xE2, [0x0, 0x70, 0xD8, 0x0, 0x70, 0x18, 0x78, 0x98, 0x78, 0x0, 0x0, 0x0]),
    (0xE3, [0x0, 0x68, 0xB0, 0x0, 0x70, 0x18, 0x78, 0x98, 0x78, 0x0, 0x0, 0x0]),
    (0xE4, [0x0, 0xD8, 0xD8, 0x0, 0x70, 0x18, 0x78, 0x98, 0x78, 0x0, 0x0, 0x0]),
    (0xE5, [0x70, 0xD8, 0x70, 0x0, 0x70, 0x18, 0x78, 0x98, 0x78, 0x0, 0x0, 0x0]),
    (0xE6, [0x0, 0x0, 0x0, 0x0, 0xD8, 0x68, 0x78, 0xB0, 0xF8, 0x0, 0x0, 0x0]),
    (0xE7, [0x0, 0x0, 0x0, 0x0, 0x70, 0xC0, 0xC0, 0xC0, 0x70, 0x60, 0xC0, 0x0]),
    (0xE8, [0x0, 0xC0, 0x60, 0x0, 0x70, 0xC8, 0xF8, 0xC0, 0x78, 0x0, 0x0, 0x0]),
    (0xE9, [0x0, 0x18, 0x30, 0x0, 0x70, 0xC8, 0xF8, 0xC0, 0x78, 0x0, 0x0, 0x0]),
    (0xEA, [0x0, 0x70, 0xD8, 0x0, 0x70, 0xC8, 0xF8, 0xC0, 0x78, 0x0, 0x0, 0x0]),
    (0xEB, [0x0, 0xD8, 0xD8, 0x0, 0x70, 0xC8, 0xF8, 0xC0, 0x78, 0x0, 0x0, 0x0]),
    (0xEC, [0x0, 0x60, 0x30, 0x0, 0x70, 0x30, 0x30, 0x30, 0x78, 0x0, 0x0, 0x0]),
    (0xED, [0x0, 0x18, 0x30, 0x0, 0x70, 0x30, 0x30, 0x30, 0x78, 0x0, 0x0, 0x0]),
    (0xEE, [0x0, 0x70, 0xD8, 0x0, 0x70, 0x30, 0x30, 0x30, 0x78, 0x0, 0x0, 0x0]),
    (0xEF, [0x0, 0xD8, 0xD8, 0x0, 0x70, 0x30, 0x30, 0x30, 0x78, 0x0, 0x0, 0x0]),
    (0xF0, [0x20, 0x38, 0x70, 0x30, 0x78, 0x98, 0x98, 0x98, 0x70, 0x0, 0x0, 0x0]),
    (0xF1, [0x0, 0x68, 0xB0, 0x0, 0xF0, 0xC8, 0xC8, 0xC8, 0xC8, 0x0, 0x0, 0x0]),
    (0xF2, [0x0, 0xC0, 0x60, 0x0, 0x70, 0xC8, 0xC8, 0xC8, 0x70, 0x0, 0x0, 0x0]),
    (0xF3, [0x0, 0x18, 0x30, 0x0, 0x70, 0xC8, 0xC8, 0xC8, 0x70, 0x0, 0x0, 0x0]),
    (0xF4, [0x0, 0x70, 0xD8, 0x0, 0x70, 0xC8, 0xC8, 0xC8, 0x70, 0x0, 0x0, 0x0]),
    (0xF5, [0x0, 0x68, 0xB0, 0x0, 0x70, 0xC8, 0xC8, 0xC8, 0x70, 0x0, 0x0, 0x0]),
    (0xF6, [0x0, 0xD8, 0xD8, 0x0, 0x70, 0xC8, 0xC8, 0xC8, 0x70, 0x0, 0x0, 0x0]),
    (0xF7, [0x0, 0x0, 0x30, 0x30, 0x0, 0xFC, 0x0, 0x30, 0x30, 0x0, 0x0, 0x0]),
    (0xF8, [0x0, 0x0, 0x0, 0x10, 0x70, 0xD8, 0xE8, 0xC8, 0x70, 0x40, 0x0, 0x0]),
    (0xF9, [0x0, 0xC0, 0x60, 0x0, 0xC8, 0xC8, 0xC8, 0xC8, 0x70, 0x0, 0x0, 0x0]),
    (0xFA, [0x0, 0x18, 0x30, 0x0, 0xC8, 0xC8, 0xC8, 0xC8, 0x70, 0x0, 0x0, 0x0]),
    (0xFB, [0x0, 0x70, 0xD8, 0x0, 0xC8, 0xC8, 0xC8, 0xC8, 0x70, 0x0, 0x0, 0x0]),
    (0xFC, [0x0, 0xD8, 0xD8, 0x0, 0xC8, 0xC8, 0xC8, 0xC8, 0x70, 0x0, 0x0, 0x0]),
    (0xFD, [0x0, 0x18, 0x30, 0x0, 0xC8, 0xC8, 0xC8, 0xC8, 0x78, 0x18, 0x70, 0x0]),
    (0xFE, [0x0, 0x0, 0xC0, 0xC0, 0xF0, 0xC8, 0xC8, 0xC8, 0xF0, 0xC0, 0xC0, 0x0]),
    (0xFF, [0x0, 0xD8, 0xD8, 0x0, 0xC8, 0xC8, 0xC8, 0xC8, 0x78, 0x18, 0x70, 0x0])]"

definition BOLD6 :: "(u16 \<times> u8 list) list" where
  "BOLD6 = BOLD6_0 @ BOLD6_1"

definition BOLD7_W :: nat where "BOLD7_W = 7"
definition BOLD7_H :: nat where "BOLD7_H = 13"
definition BOLD7_ASCENT :: nat where "BOLD7_ASCENT = 11"
definition BOLD7_COUNT :: nat where "BOLD7_COUNT = 175"

definition BOLD7_0 :: "(u16 \<times> u8 list) list" where
  "BOLD7_0 = [
    (0x20, [0x0, 0x0, 0x0, 0x0, 0x0, 0x0, 0x0, 0x0, 0x0, 0x0, 0x0, 0x0, 0x0]),
    (0x21, [0x0, 0x0, 0x30, 0x78, 0x78, 0x30, 0x30, 0x0, 0x0, 0x30, 0x0, 0x0, 0x0]),
    (0x22, [0x0, 0x0, 0xD8, 0xD8, 0xD8, 0x0, 0x0, 0x0, 0x0, 0x0, 0x0, 0x0, 0x0]),
    (0x23, [0x0, 0x48, 0x48, 0xFC, 0xFC, 0x48, 0x48, 0xFC, 0xFC, 0x48, 0x48, 0x0, 0x0]),
    (0x24, [0x0, 0x18, 0x18, 0x3C, 0x60, 0x30, 0x18, 0xC, 0x78, 0x30, 0x30, 0x0, 0x0]),
    (0x25, [0x0, 0x0, 0x60, 0xD0, 0xDC, 0x78, 0x30, 0x78, 0xF4, 0x34, 0x18, 0x0, 0x0]),
    (0x26, [0x0, 0x0, 0x70, 0xD8, 0xD8, 0x70, 0xDE, 0xCC, 0xCC, 0x7E, 0x0, 0x0, 0x0]),
    (0x27, [0x0, 0x0, 0x30, 0x30, 0x30, 0x0, 0x0, 0x0, 0x0, 0x0, 0x0, 0x0, 0x0]),
    (0x28, [0x0, 0x0, 0x18, 0x30, 0x30, 0x60, 0x60, 0x60, 0x60, 0x30, 0x30, 0x18, 0x0]),
    (0x29, [0x0, 0x0, 0x60, 0x30, 0x30, 0x18, 0x18, 0x18, 0x18, 0x30, 0x30, 0x60, 0x0]),
    (0x2A, [0x0, 0x0, 0x0, 0x0, 0x6C, 0x38, 0xFE, 0x38, 0x6C, 0x0, 0x0, 0x0, 0x0]),
    (0x2B, [0x0, 0x0, 0x0, 0x0, 0x30, 0x30, 0xFC, 0x30, 0x30, 0x0, 0x0, 0x0, 0x0]),
    (0x2C, [0x0, 0x0, 0x0, 0x0, 0x0, 0x0, 0x0, 0x0, 0x70, 0x70, 0x30, 0x60, 0x0]),
    (0x2D, [0x0, 0x0, 0x0, 0x0, 0x0, 0x0, 0xFC, 0x0, 0x0, 0x0, 0x0, 0x0, 0x0]),
    (0x2E, [0x0, 0x0, 0x0, 0x0, 0x0, 0x0, 0x0, 0x0, 0x70, 0x70, 0x0, 0x0, 0x0]),
    (0x2F, [0x0, 0x0, 0x0, 0x18, 0x18, 0x30, 0x30, 0x60, 0x60, 0xC0, 0xC0, 0x0, 0x0]),
    (0x30, [0x0, 0x0, 0x0, 0x78, 0xCC, 0xDC, 0xEC, 0xEC, 0xCC, 0x78, 0x0, 0x0, 0x0]),
    (0x31, [0x0, 0x0, 0x0, 0x30, 0x70, 0xF0, 0x30, 0x30, 0x30, 0xFC, 0x0, 0x0, 0x0]),
    (0x32, [0x0, 0x0, 0x0, 0x78, 0xCC, 0xC, 0x18, 0x30, 0x60, 0xFC, 0x0, 0x0, 0x0]),
    (0x33, [0x0, 0x0, 0x0, 0xFC, 0xC, 0x18, 0x38, 0xC, 0xCC, 0x78, 0x0, 0x0, 0x0]),
    (0x34, [0x0, 0x0, 0x0, 0x18, 0x38, 0x78, 0xD8, 0xFC, 0x18, 0x18, 0x0, 0x0, 0x0]),
    (0x35, [0x0, 0x0, 0x0, 0xFC, 0xC0, 0xF8, 0xC, 0xC, 0xCC, 0x78, 0x0, 0x0, 0x0]),
    (0x36, [0x0, 0x0, 0x0, 0x38, 0x60, 0xC0, 0xF8, 0xCC, 0xCC, 0x78, 0x0, 0x0, 0x0]),
    (0x37, [0x0, 0x0, 0x0, 0xFC, 0xC, 0x18, 0x18, 0x30, 0x30, 0x30, 0x0, 0x0, 0x0]),
    (0x38, [0x0, 0x0, 0x0, 0x78, 0xCC, 0xCC, 0x78, 0xCC, 0xCC, 0x78, 0x0, 0x0, 0x0]),
    (0x39, [0x0, 0x0, 0x0, 0x78, 0xCC, 0xCC, 0x7C, 0xC, 0x18, 0x70, 0x0, 0x0, 0x0]),
    (0x3A, [0x0, 0x0, 0x0, 0x0, 0x70, 0x70, 0x0, 0x0, 0x70, 0x70, 0x0, 0x0, 0x0]),
    (0x3B, [0x0, 0x0, 0x0, 0x0, 0x70, 0x70, 0x0, 0x0, 0x70, 0x70, 0x30, 0x60, 0x0]),
    (0x3C, [0x0, 0x0, 0x0, 0xC, 0x18, 0x30, 0x60, 0x30, 0x18, 0xC, 0x0, 0x0, 0x0]),
    (0x3D, [0x0, 0x0, 0x0, 0x0, 0x0, 0xFC, 0x0, 0xFC, 0x0, 0x0, 0x0, 0x0, 0x0]),
    (0x3E, [0x0, 0x0, 0x0, 0xC0, 0x60, 0x30, 0x18, 0x30, 0x60, 0xC0, 0x0, 0x0, 0x0]),
    (0x3F, [0x0, 0x0, 0x78, 0xCC, 0xC, 0x18, 0x30, 0x0, 0x0, 0x30, 0x0, 0x0, 0x0]),
    (0x40, [0x0, 0x0, 0x78, 0xCC, 0xCC, 0xDC, 0xDC, 0xDC, 0xC0, 0xC0, 0x7C, 0x0, 0x0]),
    (0x41, [0x0, 0x0, 0x0, 0x30, 0x78, 0xCC, 0xCC, 0xFC, 0xCC, 0xCC, 0x0, 0x0, 0x0]),
    (0x42, [0x0, 0x0, 0x0, 0xF8, 0xCC, 0xCC, 0xF8, 0xCC, 0xCC, 0xF8, 0x0, 0x0, 0x0]),
    (0x43, [0x0, 0x0, 0x0, 0x3C, 0x60, 0xC0, 0xC0, 0xC0, 0x60, 0x3C, 0x0, 0x0, 0x0]),
    (0x44, [0x0, 0x0, 0x0, 0xF0, 0xD8, 0xCC, 0xCC, 0xCC, 0xD8, 0xF0, 0x0, 0x0, 0x0]),
    (0x45, [0x0, 0x0, 0x0, 0xFC, 0xC0, 0xC0, 0xF8, 0xC0, 0xC0, 0xFC, 0x0, 0x0, 0x0]),
    (0x46, [0x0, 0x0, 0x0, 0xFC, 0xC0, 0xC0, 0xF8, 0xC0, 0xC0, 0xC0, 0x0, 0x0, 0x0]),
    (0x47, [0x0, 0x0, 0x0, 0x3C, 0x60, 0xC0, 0xDC, 0xCC, 0x6C, 0x3C, 0x0, 0x0, 0x0]),
    (0x48, [0x0, 0x0, 0x0, 0xCC, 0xCC, 0xCC, 0xFC, 0xCC, 0xCC, 0xCC, 0x0, 0x0, 0x0]),
    (0x49, [0x0, 0x0, 0x0, 0xFC, 0x30, 0x30, 0x30, 0x30, 0x30, 0xFC, 0x0, 0x0, 0x0]),
    (0x4A, [0x0, 0x0, 0x0, 0xC, 0xC, 0xC, 0xC, 0xCC, 0xCC, 0x78, 0x0, 0x0, 0x0]),
    (0x4B, [0x0, 0x0, 0x0, 0xCC, 0xD8, 0xF0, 0xE0, 0xF0, 0xD8, 0xCC, 0x0, 0x0, 0x0]),
    (0x4C, [0x0, 0x0, 0x0, 0xC0, 0xC0, 0xC0, 0xC0, 0xC0, 0xC0, 0xFC, 0x0, 0x0, 0x0]),
    (0x4D, [0x0, 0x0, 0x0, 0xCC, 0xFC, 0xFC, 0xCC, 0xCC, 0xCC, 0xCC, 0x0, 0x0, 0x0]),
    (0x4E, [0x0, 0x0, 0x0, 0xCC, 0xEC, 0xFC, 0xDC, 0xCC, 0xCC, 0xCC, 0x0, 0x0, 0x0]),
    (0x4F, [0x0, 0x0, 0x0, 0x78, 0xCC, 0xCC, 0xCC, 0xCC, 0xCC, 0x78, 0x0, 0x0, 0x0]),
    (0x50, [0x0, 0x0, 0x0, 0xF8, 0xCC, 0xCC, 0xF8, 0xC0, 0xC0, 0xC0, 0x0, 0x0, 0x0]),
    (0x51, [0x0, 0x0, 0x0, 0x78, 0xCC, 0xCC, 0xCC, 0xCC, 0xCC, 0x78, 0x18, 0xC, 0x0]),
    (0x52, [0x0, 0x0, 0x0, 0xF8, 0xCC, 0xCC, 0xF8, 0xD8, 0xCC, 0xCC, 0x0, 0x0, 0x0]),
    (0x53, [0x0, 0x0, 0x0, 0x7C, 0xC0, 0xC0, 0x78, 0xC, 0xC, 0xF8, 0x0, 0x0, 0x0]),
    (0x54, [0x0, 0x0, 0x0, 0xFC, 0x30, 0x30, 0x30, 0x30, 0x30, 0x30, 0x0, 0x0, 0x0]),
    (0x55, [0x0, 0x0, 0x0, 0xCC, 0xCC, 0xCC, 0xCC, 0xCC, 0xCC, 0x78, 0x0, 0x0, 0x0]),
    (0x56, [0x0, 0x0, 0x0, 0xCC, 0xCC, 0xCC, 0xCC, 0xCC, 0x78, 0x30, 0x0, 0x0, 0x0]),
    (0x57, [0x0, 0x0, 0x0, 0xCC, 0xCC, 0xCC, 0xCC, 0xFC, 0xFC, 0xCC, 0x0, 0x0, 0x0]),
    (0x58, [0x0, 0x0, 0x0, 0xCC, 0xCC, 0x78, 0x30, 0x78, 0xCC, 0xCC, 0x0, 0x0, 0x0]),
    (0x59, [0x0, 0x0, 0x0, 0xCC, 0xCC, 0x78, 0x30, 0x30, 0x30, 0x30, 0x0, 0x0, 0x0]),
    (0x5A, [0x0, 0x0, 0x0, 0xFC, 0x18, 0x30, 0x30, 0x60, 0x60, 0xFC, 0x0, 0x0, 0x0]),
    (0x5B, [0x0, 0x0, 0x78, 0x60, 0x60, 0x60, 0x60, 0x60, 0x60, 0x60, 0x60, 0x78, 0x0]),
    (0x5C, [0x0, 0x0, 0x0, 0xC0, 0xC0, 0x60, 0x60, 0x30, 0x30, 0x18, 0x18, 0x0, 0x0]),
    (0x5D, [0x0, 0x0, 0x78, 0x18, 0x18, 0x18, 0x18, 0x18, 0x18, 0x18, 0x18, 0x78, 0x0]),
    (0x5E, [0x0, 0x0, 0x0, 0x30, 0x78, 0xCC, 0x0, 0x0, 0x0, 0x0, 0x0, 0x0, 0x0]),
    (0x5F, [0x0, 0x0, 0x0, 0x0, 0x0, 0x0, 0x0, 0x0, 0x0, 0x0, 0x0, 0xFE, 0x0]),
    (0x60, [0x0, 0x0, 0x60, 0x30, 0x18, 0x0, 0x0, 0x0, 0x0, 0x0, 0x0, 0x0, 0x0]),
    (0x61, [0x0, 0x0, 0x0, 0x0, 0x0, 0x78, 0xC, 0x7C, 0xCC, 0x7C, 0x0, 0x0, 0x0]),
    (0x62, [0x0, 0x0, 0x0, 0xC0, 0xC0, 0xF8, 0xCC, 0xCC, 0xCC, 0xF8, 0x0, 0x0, 0x0]),
    (0x63, [0x0, 0x0, 0x0, 0x0, 0x0, 0x7C, 0xC0, 0xC0, 0xC0, 0x7C, 0x0, 0x0, 0x0]),
    (0x64, [0x0, 0x0, 0x0, 0xC, 0xC, 0x7C, 0xCC, 0xCC, 0xCC, 0x7C, 0x0, 0x0, 0x0]),
    (0x65, [0x0, 0x0, 0x0, 0x0, 0x0, 0x78, 0xCC, 0xFC, 0xC0, 0x7C, 0x0, 0x0, 0x0]),
    (0x66, [0x0, 0x0, 0x0, 0x3C, 0x60, 0xFC, 0x60, 0x60, 0x60, 0x60, 0x0, 0x0, 0x0]),
    (0x67, [0x0, 0x0, 0x0, 0x0, 0x0, 0x7C, 0xCC, 0xCC, 0xCC, 0x7C, 0xC, 0x78, 0x0]),
    (0x68, [0x0, 0x0, 0x0, 0xC0, 0xC0, 0xF8, 0xCC, 0xCC, 0xCC, 0xCC, 0x0, 0x0, 0x0]),
    (0x69, [0x0, 0x0, 0x0, 0x30, 0x0, 0xF0, 0x30, 0x30, 0x30, 0xFC, 0x0, 0x0, 0x0]),
    (0x6A, [0x0, 0x0, 0x0, 0x18, 0x0, 0x78, 0x18, 0x18, 0x18, 0x18, 0x18, 0xF0, 0x0]),
    (0x6B, [0x0, 0x0, 0x0, 0xC0, 0xC0, 0xD8, 0xF0, 0xF0, 0xD8, 0xCC, 0x0, 0x0, 0x0]),
    (0x6C, [0x0, 0x0, 0x0, 0xF0, 0x30, 0x30, 0x30, 0x30, 0x30, 0xFC, 0x0, 0x0, 0x0]),
    (0x6D, [0x0, 0x0, 0x0, 0x0, 0x0, 0xFC, 0xD4, 0xD4, 0xD4, 0xD4, 0x0, 0x0, 0x0]),
    (0x6E, [0x0, 0x0, 0x0, 0x0, 0x0, 0xF8, 0xCC, 0xCC, 0xCC, 0xCC, 0x0, 0x0, 0x0]),
    (0x6F, [0x0, 0x0, 0x0, 0x0, 0x0, 0x78, 0xCC, 0xCC, 0xCC, 0x78, 0x0, 0x0, 0x0]),
    (0x70, [0x0, 0x0, 0x0, 0x0, 0x0, 0xF8, 0xCC, 0xCC, 0xCC, 0xF8, 0xC0, 0xC0, 0x0]),
    (0x71, [0x0, 0x0, 0x0, 0x0, 0x0, 0x7C, 0xCC, 0xCC, 0xCC, 0x7C, 0xC, 0xC, 0x0]),
    (0x72, [0x0, 0x0, 0x0, 0x0, 0x0, 0xDC, 0xE0, 0xC0, 0xC0, 0xC0, 0x0, 0x0, 0x0]),
    (0x73, [0x0, 0x0, 0x0, 0x0, 0x0, 0x7C, 0xC0, 0x78, 0xC, 0xF8, 0x0, 0x0, 0x0]),
    (0x74, [0x0, 0x0, 0x0, 0x0, 0x60, 0xFC, 0x60, 0x60, 0x60, 0x3C, 0x0, 0x0, 0x0]),
    (0x75, [0x0, 0x0, 0x0, 0x0, 0x0, 0xCC, 0xCC, 0xCC, 0xCC, 0x7C, 0x0, 0x0, 0x0]),
    (0x76, [0x0, 0x0, 0x0, 0x0, 0x0, 0xCC, 0xCC, 0xCC, 0x78, 0x30, 0x0, 0x0, 0x0]),
    (0x77, [0x0, 0x0, 0x0, 0x0, 0x0, 0xC4, 0xD4, 0xD4, 0xFC, 0xEC, 0x0, 0x0, 0x0]),
    (0x78, [0x0, 0x0, 0x0, 0x0, 0x0, 0xCC, 0x78, 0x30, 0x78, 0xCC, 0x0, 0x0, 0x0]),
    (0x79, [0x0, 0x0, 0x0, 0x0, 0x0, 0xCC, 0xCC, 0xCC, 0xCC, 0x7C, 0xC, 0x78, 0x0]),
    (0x7A, [0x0, 0x0, 0x0, 0x0, 0x0, 0xFC, 0x18, 0x30, 0x60, 0xFC, 0x0, 0x0, 0x0]),
    (0x7B, [0x0, 0x1C, 0x30, 0x30, 0x30, 0x30, 0xE0, 0x30, 0x30, 0x30, 0x30, 0x1C, 0x0]),
    (0x7C, [0x0, 0x0, 0x30, 0x30, 0x30, 0x30, 0x30, 0x30, 0x30, 0x30, 0x30, 0x0, 0x0]),
    (0x7D, [0x0, 0xE0, 0x30, 0x30, 0x30, 0x30, 0x1C, 0x30, 0x30, 0x30, 0x30, 0xE0, 0x0]),
    (0x7E, [0x0, 0x0, 0x0, 0x64, 0xFC, 0x98, 0x0, 0x0, 0x0, 0x0, 0x0, 0x0, 0x0]),
    (0xA0, [0x0, 0x0, 0x0, 0x0, 0x0, 0x0, 0x0, 0x0, 0x0, 0x0, 0x0, 0x0, 0x0]),
    (0xA1, [0x0, 0x0, 0x0, 0x0, 0x30, 0x0, 0x0, 0x30, 0x30, 0x30, 0x30, 0x30, 0x0]),
    (0xA2, [0x0, 0x0, 0x30, 0x30, 0x78, 0xC0, 0xC0, 0xC0, 0x78, 0x30, 0x30, 0x0, 0x0]),
    (0xA3, [0x0, 0x0, 0x0, 0x38, 0x60, 0x60, 0xF8, 0x60, 0x60, 0xFC, 0x0, 0x0, 0x0]),
    (0xA4, [0x0, 0x0, 0x0, 0x0, 0xCC, 0x78, 0x78, 0x78, 0xCC, 0x0, 0x0, 0x0, 0x0])]"

definition BOLD7_1 :: "(u16 \<times> u8 list) list" where
  "BOLD7_1 = [
    (0xA5, [0x0, 0x0, 0x0, 0xCC, 0x78, 0x30, 0xFC, 0x30, 0xFC, 0x30, 0x0, 0x0, 0x0]),
    (0xA6, [0x0, 0x0, 0x30, 0x30, 0x30, 0x30, 0x0, 0x30, 0x30, 0x30, 0x30, 0x0, 0x0]),
    (0xA8, [0x0, 0x0, 0x0, 0x78, 0x0, 0x0, 0x0, 0x0, 0x0, 0x0, 0x0, 0x0, 0x0]),
    (0xA9, [0x0, 0x0, 0x0, 0x78, 0x84, 0xB4, 0xA4, 0xB4, 0x84, 0x78, 0x0, 0x0, 0x0]),
    (0xAB, [0x0, 0x0, 0x0, 0x0, 0x0, 0x3C, 0x78, 0xF0, 0x78, 0x3C, 0x0, 0x0, 0x0]),
    (0xAD, [0x0, 0x0, 0x0, 0x0, 0x0, 0x0, 0xFC, 0x0, 0x0, 0x0, 0x0, 0x0, 0x0]),
    (0xB0, [0x0, 0x0, 0x0, 0x70, 0xD8, 0xD8, 0x70, 0x0, 0x0, 0x0, 0x0, 0x0, 0x0]),
    (0xB4, [0x0, 0x0, 0x18, 0x30, 0x0, 0x0, 0x0, 0x0, 0x0, 0x0, 0x0, 0x0, 0x0]),
    (0xB8, [0x0, 0x0, 0x0, 0x0, 0x0, 0x0, 0x0, 0x0, 0x0, 0x0, 0x18, 0x70, 0x0]),
    (0xBB, [0x0, 0x0, 0x0, 0x0, 0x0, 0xF0, 0x78, 0x3C, 0x78, 0xF0, 0x0, 0x0, 0x0]),
    (0xBF, [0x0, 0x0, 0x0, 0x0, 0x30, 0x0, 0x0, 0x30, 0x60, 0xC0, 0xC4, 0x78, 0x0]),
    (0xC0, [0x60, 0x30, 0x0, 0x30, 0x78, 0xCC, 0xCC, 0xFC, 0xCC, 0xCC, 0x0, 0x0, 0x0]),
    (0xC1, [0x18, 0x30, 0x0, 0x30, 0x78, 0xCC, 0xCC, 0xFC, 0xCC, 0xCC, 0x0, 0x0, 0x0]),
    (0xC2, [0x78, 0xCC, 0x0, 0x30, 0x78, 0xCC, 0xCC, 0xFC, 0xCC, 0xCC, 0x0, 0x0, 0x0]),
    (0xC3, [0x64, 0xFC, 0x98, 0x30, 0x78, 0xCC, 0xCC, 0xFC, 0xCC, 0xCC, 0x0, 0x0, 0x0]),
    (0xC4, [0xCC, 0xCC, 0x0, 0x30, 0x78, 0xCC, 0xCC, 0xFC, 0xCC, 0xCC, 0x0, 0x0, 0x0]),
    (0xC5, [0x78, 0xCC, 0x78, 0x30, 0x78, 0xCC, 0xCC, 0xFC, 0xCC, 0xCC, 0x0, 0x0, 0x0]),
    (0xC6, [0x0, 0x0, 0x0, 0x3C, 0x78, 0xD8, 0xDC, 0xF8, 0xD8, 0xDC, 0x0, 0x0, 0x0]),
    (0xC7, [0x0, 0x0, 0x0, 0x3C, 0x60, 0xC0, 0xC0, 0xC0, 0x60, 0x3C, 0x18, 0x70, 0x0]),
    (0xC8, [0x60, 0x30, 0x0, 0xFC, 0xC0, 0xC0, 0xF8, 0xC0, 0xC0, 0xFC, 0x0, 0x0, 0x0]),
    (0xC9, [0x18, 0x30, 0x0, 0xFC, 0xC0, 0xC0, 0xF8, 0xC0, 0xC0, 0xFC, 0x0, 0x0, 0x0]),
    (0xCA, [0x78, 0xCC, 0x0, 0xFC, 0xC0, 0xC0, 0xF8, 0xC0, 0xC0, 0xFC, 0x0, 0x0, 0x0]),
    (0xCB, [0xCC, 0xCC, 0x0, 0xFC, 0xC0, 0xC0, 0xF8, 0xC0, 0xC0, 0xFC, 0x0, 0x0, 0x0]),
    (0xCC, [0x60, 0x30, 0x0, 0x78, 0x30, 0x30, 0x30, 0x30, 0x30, 0x78, 0x0, 0x0, 0x0]),
    (0xCD, [0x18, 0x30, 0x0, 0x78, 0x30, 0x30, 0x30, 0x30, 0x30, 0x78, 0x0, 0x0, 0x0]),
    (0xCE, [0x78, 0xCC, 0x0, 0x78, 0x30, 0x30, 0x30, 0x30, 0x30, 0x78, 0x0, 0x0, 0x0]),
    (0xCF, [0xCC, 0xCC, 0x0, 0x78, 0x30, 0x30, 0x30, 0x30, 0x30, 0x78, 0x0, 0x0, 0x0]),
    (0xD0, [0x0, 0x0, 0x0, 0xF8, 0x6C, 0x6C, 0xFC, 0x6C, 0x78, 0xF0, 0x0, 0x0, 0x0]),
    (0xD1, [0x64, 0xFC, 0x98, 0x0, 0xCC, 0xEC, 0xFC, 0xDC, 0xCC, 0xCC, 0x0, 0x0, 0x0]),
    (0xD2, [0x60, 0x30, 0x0, 0x78, 0xCC, 0xCC, 0xCC, 0xCC, 0xCC, 0x78, 0x0, 0x0, 0x0]),
    (0xD3, [0x18, 0x30, 0x0, 0x78, 0xCC, 0xCC, 0xCC, 0xCC, 0xCC, 0x78, 0x0, 0x0, 0x0]),
    (0xD4, [0x78, 0xCC, 0x0, 0x78, 0xCC, 0xCC, 0xCC, 0xCC, 0xCC, 0x78, 0x0, 0x0, 0x0]),
    (0xD5, [0x64, 0xFC, 0x98, 0x0, 0x78, 0xCC, 0xCC, 0xCC, 0xCC, 0x78, 0x0, 0x0, 0x0]),
    (0xD6, [0xCC, 0xCC, 0x0, 0x78, 0xCC, 0xCC, 0xCC, 0xCC, 0xCC, 0x78, 0x0, 0x0, 0x0]),
    (0xD7, [0x0, 0x0, 0x0, 0x0, 0x0, 0x6C, 0x38, 0x38, 0x6C, 0x0, 0x0, 0x0, 0x0]),
    (0xD8, [0x0, 0x0, 0xC, 0x78, 0xCC, 0xD4, 0xD4, 0xE4, 0xE4, 0x78, 0xC0, 0x0, 0x0]),
    (0xD9, [0x60, 0x30, 0x0, 0xCC, 0xCC, 0xCC, 0xCC, 0xCC, 0xCC, 0x78, 0x0, 0x0, 0x0]),
    (0xDA, [0x18, 0x30, 0x0, 0xCC, 0xCC, 0xCC, 0xCC, 0xCC, 0xCC, 0x78, 0x0, 0x0, 0x0]),
    (0xDB, [0x78, 0xCC, 0x0, 0xCC, 0xCC, 0xCC, 0xCC, 0xCC, 0xCC, 0x78, 0x0, 0x0, 0x0]),
    (0xDC, [0xCC, 0xCC, 0x0, 0xCC, 0xCC, 0xCC, 0xCC, 0xCC, 0xCC, 0x78, 0x0, 0x0, 0x0]),
    (0xDD, [0x18, 0x30, 0x0, 0xCC, 0xCC, 0x78, 0x30, 0x30, 0x30, 0x30, 0x0, 0x0, 0x0]),
    (0xDE, [0x0, 0x0, 0x0, 0xC0, 0xF8, 0xCC, 0xCC, 0xCC, 0xF8, 0xC0, 0x0, 0x0, 0x0]),
    (0xDF, [0x0, 0x0, 0x0, 0x78, 0xCC, 0xD8, 0xCC, 0xCC, 0xCC, 0xD8, 0x0, 0x0, 0x0]),
    (0xE0, [0x0, 0x0, 0x60, 0x30, 0x0, 0x78, 0xC, 0x7C, 0xCC, 0x7C, 0x0, 0x0, 0x0]),
    (0xE1, [0x0, 0x0, 0x18, 0x30, 0x0, 0x78, 0xC, 0x7C, 0xCC, 0x7C, 0x0, 0x0, 0x0]),
    (0xE2, [0x0, 0x0, 0x78, 0xCC, 0x0, 0x78, 0xC, 0x7C, 0xCC, 0x7C, 0x0, 0x0, 0x0]),
    (0xE3, [0x0, 0x64, 0xFC, 0x98, 0x0, 0x78, 0xC, 0x7C, 0xCC, 0x7C, 0x0, 0x0, 0x0]),
    (0xE4, [0x0, 0x0, 0xCC, 0xCC, 0x0, 0x78, 0xC, 0x7C, 0xCC, 0x7C, 0x0, 0x0, 0x0]),
    (0xE5, [0x0, 0x38, 0x6C, 0x38, 0x0, 0x78, 0xC, 0x7C, 0xCC, 0x7C, 0x0, 0x0, 0x0]),
    (0xE6, [0x0, 0x0, 0x0, 0x0, 0x0, 0x6C, 0x34, 0x7C, 0xB0, 0xDC, 0x0, 0x0, 0x0]),
    (0xE7, [0x0, 0x0, 0x0, 0x0, 0x0, 0x7C, 0xC0, 0xC0, 0xC0, 0x7C, 0x18, 0x70, 0x0]),
    (0xE8, [0x0, 0x0, 0x60, 0x30, 0x0, 0x78, 0xCC, 0xFC, 0xC0, 0x7C, 0x0, 0x0, 0x0]),
    (0xE9, [0x0, 0x0, 0x18, 0x30, 0x0, 0x78, 0xCC, 0xFC, 0xC0, 0x7C, 0x0, 0x0, 0x0]),
    (0xEA, [0x0, 0x0, 0x78, 0xCC, 0x0, 0x78, 0xCC, 0xFC, 0xC0, 0x7C, 0x0, 0x0, 0x0]),
    (0xEB, [0x0, 0x0, 0xCC, 0xCC, 0x0, 0x78, 0xCC, 0xFC, 0xC0, 0x7C, 0x0, 0x0, 0x0]),
    (0xEC, [0x0, 0x0, 0x60, 0x30, 0x0, 0x70, 0x30, 0x30, 0x30, 0x78, 0x0, 0x0, 0x0]),
    (0xED, [0x0, 0x0, 0x18, 0x30, 0x0, 0x70, 0x30, 0x30, 0x30, 0x78, 0x0, 0x0, 0x0]),
    (0xEE, [0x0, 0x0, 0x78, 0xCC, 0x0, 0x70, 0x30, 0x30, 0x30, 0x78, 0x0, 0x0, 0x0]),
    (0xEF, [0x0, 0x0, 0xCC, 0xCC, 0x0, 0x70, 0x30, 0x30, 0x30, 0x78, 0x0, 0x0, 0x0]),
    (0xF0, [0x0, 0x34, 0x18, 0x78, 0xC, 0x7C, 0xCC, 0xCC, 0xCC, 0x78, 0x0, 0x0, 0x0]),
    (0xF1, [0x0, 0x64, 0xFC, 0x98, 0x0, 0xF8, 0xCC, 0xCC, 0xCC, 0xCC, 0x0, 0x0, 0x0]),
    (0xF2, [0x0, 0x0, 0x60, 0x30, 0x0, 0x78, 0xCC, 0xCC, 0xCC, 0x78, 0x0, 0x0, 0x0]),
    (0xF3, [0x0, 0x0, 0x18, 0x30, 0x0, 0x78, 0xCC, 0xCC, 0xCC, 0x78, 0x0, 0x0, 0x0]),
    (0xF4, [0x0, 0x0, 0x78, 0xCC, 0x0, 0x78, 0xCC, 0xCC, 0xCC, 0x78, 0x0, 0x0, 0x0]),
    (0xF5, [0x0, 0x64, 0xFC, 0x98, 0x0, 0x78, 0xCC, 0xCC, 0xCC, 0x78, 0x0, 0x0, 0x0]),
    (0xF6, [0x0, 0x0, 0xCC, 0xCC, 0x0, 0x78, 0xCC, 0xCC, 0xCC, 0x78, 0x0, 0x0, 0x0]),
    (0xF7, [0x0, 0x0, 0x0, 0x30, 0x0, 0x0, 0xFC, 0x0, 0x0, 0x30, 0x0, 0x0, 0x0]),
    (0xF8, [0x0, 0x0, 0x0, 0x0, 0xC, 0x78, 0xCC, 0xD4, 0xE4, 0x78, 0xC0, 0x0, 0x0]),
    (0xF9, [0x0, 0x0, 0x60, 0x30, 0x0, 0xCC, 0xCC, 0xCC, 0xCC, 0x7C, 0x0, 0x0, 0x0]),
    (0xFA, [0x0, 0x0, 0x18, 0x30, 0x0, 0xCC, 0xCC, 0xCC, 0xCC, 0x7C, 0x0, 0x0, 0x0]),
    (0xFB, [0x0, 0x0, 0x78, 0xCC, 0x0, 0xCC, 0xCC, 0xCC, 0xCC, 0x7C, 0x0, 0x0, 0x0]),
    (0xFC, [0x0, 0x0, 0xCC, 0xCC, 0x0, 0xCC, 0xCC, 0xCC, 0xCC, 0x7C, 0x0, 0x0, 0x0]),
    (0xFD, [0x0, 0x0, 0x18, 0x30, 0x0, 0xCC, 0xCC, 0xCC, 0xCC, 0x7C, 0xC, 0x78, 0x0]),
    (0xFE, [0x0, 0x0, 0x0, 0xC0, 0xC0, 0xF8, 0xCC, 0xCC, 0xCC, 0xF8, 0xC0, 0xC0, 0x0]),
    (0xFF, [0x0, 0x0, 0xCC, 0xCC, 0x0, 0xCC, 0xCC, 0xCC, 0xCC, 0x7C, 0xC, 0x78, 0x0])]"

definition BOLD7 :: "(u16 \<times> u8 list) list" where
  "BOLD7 = BOLD7_0 @ BOLD7_1"

definition BOLD8_W :: nat where "BOLD8_W = 8"
definition BOLD8_H :: nat where "BOLD8_H = 16"
definition BOLD8_ASCENT :: nat where "BOLD8_ASCENT = 12"
definition BOLD8_COUNT :: nat where "BOLD8_COUNT = 175"

definition BOLD8_0 :: "(u16 \<times> u8 list) list" where
  "BOLD8_0 = [
    (0x20, [0x0, 0x0, 0x0, 0x0, 0x0, 0x0, 0x0, 0x0, 0x0, 0x0, 0x0, 0x0, 0x0, 0x0, 0x0, 0x0]),
    (0x21, [0x0, 0x0, 0x18, 0x3C, 0x3C, 0x3C, 0x18, 0x18, 0x0, 0x0, 0x18, 0x18, 0x0, 0x0, 0x0, 0x0]),
    (0x22, [0x0, 0x6C, 0x6C, 0x6C, 0x6C, 0x0, 0x0, 0x0, 0x0, 0x0, 0x0, 0x0, 0x0, 0x0, 0x0, 0x0]),
    (0x23, [0x0, 0x0, 0x0, 0x36, 0x36, 0x7F, 0x36, 0x36, 0x36, 0x7F, 0x36, 0x36, 0x0, 0x0, 0x0, 0x0]),
    (0x24, [0x0, 0x0, 0x18, 0x18, 0x3E, 0x60, 0x60, 0x3C, 0x6, 0x6, 0x7C, 0x18, 0x18, 0x0, 0x0, 0x0]),
    (0x25, [0x0, 0x0, 0x0, 0x38, 0x6D, 0x6E, 0x3C, 0x8, 0x1E, 0x3B, 0x5B, 0xE, 0x0, 0x0, 0x0, 0x0]),
    (0x26, [0x0, 0x0, 0x38, 0x6C, 0x6C, 0x6C, 0x38, 0x39, 0x6D, 0x66, 0x66, 0x3B, 0x0, 0x0, 0x0, 0x0]),
    (0x27, [0x0, 0x18, 0x18, 0x18, 0x18, 0x0, 0x0, 0x0, 0x0, 0x0, 0x0, 0x0, 0x0, 0x0, 0x0, 0x0]),
    (0x28, [0x0, 0x0, 0xC, 0x18, 0x18, 0x30, 0x30, 0x30, 0x30, 0x30, 0x30, 0x18, 0x18, 0xC, 0x0, 0x0]),
    (0x29, [0x0, 0x0, 0x30, 0x18, 0x18, 0xC, 0xC, 0xC, 0xC, 0xC, 0xC, 0x18, 0x18, 0x30, 0x0, 0x0]),
    (0x2A, [0x0, 0x0, 0x0, 0x0, 0x0, 0x36, 0x1C, 0x7F, 0x1C, 0x36, 0x0, 0x0, 0x0, 0x0, 0x0, 0x0]),
    (0x2B, [0x0, 0x0, 0x0, 0x0, 0x18, 0x18, 0x18, 0xFF, 0x18, 0x18, 0x18, 0x0, 0x0, 0x0, 0x0, 0x0]),
    (0x2C, [0x0, 0x0, 0x0, 0x0, 0x0, 0x0, 0x0, 0x0, 0x0, 0x0, 0x1C, 0x1C, 0xC, 0xC, 0x18, 0x0]),
    (0x2D, [0x0, 0x0, 0x0, 0x0, 0x0, 0x0, 0x0, 0x7E, 0x0, 0x0, 0x0, 0x0, 0x0, 0x0, 0x0, 0x0]),
    (0x2E, [0x0, 0x0, 0x0, 0x0, 0x0, 0x0, 0x0, 0x0, 0x0, 0x0, 0x1C, 0x1C, 0x0, 0x0, 0x0, 0x0]),
    (0x2F, [0x0, 0x0, 0x3, 0x3, 0x6, 0x6, 0xC, 0xC, 0x18, 0x18, 0x30, 0x30, 0x60, 0x60, 0x0, 0x0]),
    (0x30, [0x0, 0x0, 0x0, 0x3C, 0x66, 0x6E, 0x6E, 0x66, 0x76, 0x76, 0x66, 0x3C, 0x0, 0x0, 0x0, 0x0]),
    (0x31, [0x0, 0x0, 0x0, 0x18, 0x38, 0x78, 0x18, 0x18, 0x18, 0x18, 0x18, 0x7E, 0x0, 0x0, 0x0, 0x0]),
    (0x32, [0x0, 0x0, 0x0, 0x3C, 0x66, 0x6, 0x6, 0xC, 0x18, 0x30, 0x60, 0x7E, 0x0, 0x0, 0x0, 0x0]),
    (0x33, [0x0, 0x0, 0x0, 0x7E, 0x6, 0xC, 0x1C, 0x6, 0x6, 0x6, 0x66, 0x3C, 0x0, 0x0, 0x0, 0x0]),
    (0x34, [0x0, 0x0, 0x0, 0x6, 0xE, 0x1E, 0x36, 0x66, 0x7F, 0x6, 0x6, 0x6, 0x0, 0x0, 0x0, 0x0]),
    (0x35, [0x0, 0x0, 0x0, 0x7E, 0x60, 0x60, 0x7C, 0x6, 0x6, 0x6, 0x66, 0x3C, 0x0, 0x0, 0x0, 0x0]),
    (0x36, [0x0, 0x0, 0x0, 0x18, 0x30, 0x60, 0x7C, 0x66, 0x66, 0x66, 0x66, 0x3C, 0x0, 0x0, 0x0, 0x0]),
    (0x37, [0x0, 0x0, 0x0, 0x7E, 0x6, 0xC, 0xC, 0x18, 0x18, 0x30, 0x30, 0x30, 0x0, 0x0, 0x0, 0x0]),
    (0x38, [0x0, 0x0, 0x0, 0x3C, 0x66, 0x66, 0x66, 0x3C, 0x66, 0x66, 0x66, 0x3C, 0x0, 0x0, 0x0, 0x0]),
    (0x39, [0x0, 0x0, 0x0, 0x3C, 0x66, 0x66, 0x66, 0x66, 0x3E, 0x6, 0xC, 0x18, 0x0, 0x0, 0x0, 0x0]),
    (0x3A, [0x0, 0x0, 0x0, 0x0, 0x0, 0x1C, 0x1C, 0x0, 0x0, 0x0, 0x1C, 0x1C, 0x0, 0x0, 0x0, 0x0]),
    (0x3B, [0x0, 0x0, 0x0, 0x0, 0x0, 0x1C, 0x1C, 0x0, 0x0, 0x0, 0x1C, 0x1C, 0xC, 0xC, 0x18, 0x0]),
    (0x3C, [0x0, 0x0, 0x0, 0x6, 0xC, 0x18, 0x30, 0x60, 0x30, 0x18, 0xC, 0x6, 0x0, 0x0, 0x0, 0x0]),
    (0x3D, [0x0, 0x0, 0x0, 0x0, 0x0, 0x0, 0x7E, 0x0, 0x0, 0x7E, 0x0, 0x0, 0x0, 0x0, 0x0, 0x0]),
    (0x3E, [0x0, 0x0, 0x0, 0x60, 0x30, 0x18, 0xC, 0x6, 0xC, 0x18, 0x30, 0x60, 0x0, 0x0, 0x0, 0x0]),
    (0x3F, [0x0, 0x0, 0x3C, 0x46, 0x6, 0x6, 0xC, 0x18, 0x0, 0x0, 0x18, 0x18, 0x0, 0x0, 0x0, 0x0]),
    (0x40, [0x0, 0x0, 0x3E, 0x63, 0x63, 0x6F, 0x6B, 0x6B, 0x6B, 0x6F, 0x6F, 0x60, 0x60, 0x3F, 0x0, 0x0]),
    (0x41, [0x0, 0x0, 0x0, 0x18, 0x3C, 0x66, 0x66, 0x66, 0x7E, 0x66, 0x66, 0x66, 0x0, 0x0, 0x0, 0x0]),
    (0x42, [0x0, 0x0, 0x0, 0x7C, 0x66, 0x66, 0x66, 0x7C, 0x66, 0x66, 0x66, 0x7C, 0x0, 0x0, 0x0, 0x0]),
    (0x43, [0x0, 0x0, 0x0, 0x1E, 0x30, 0x60, 0x60, 0x60, 0x60, 0x60, 0x30, 0x1E, 0x0, 0x0, 0x0, 0x0]),
    (0x44, [0x0, 0x0, 0x0, 0x78, 0x6C, 0x66, 0x66, 0x66, 0x66, 0x66, 0x6C, 0x78, 0x0, 0x0, 0x0, 0x0]),
    (0x45, [0x0, 0x0, 0x0, 0x7E, 0x60, 0x60, 0x60, 0x7C, 0x60, 0x60, 0x60, 0x7E, 0x0, 0x0, 0x0, 0x0]),
    (0x46, [0x0, 0x0, 0x0, 0x7E, 0x60, 0x60, 0x60, 0x7C, 0x60, 0x60, 0x60, 0x60, 0x0, 0x0, 0x0, 0x0]),
    (0x47, [0x0, 0x0, 0x0, 0x1E, 0x30, 0x60, 0x60, 0x60, 0x66, 0x66, 0x36, 0x1E, 0x0, 0x0, 0x0, 0x0]),
    (0x48, [0x0, 0x0, 0x0, 0x66, 0x66, 0x66, 0x66, 0x7E, 0x66, 0x66, 0x66, 0x66, 0x0, 0x0, 0x0, 0x0]),
    (0x49, [0x0, 0x0, 0x0, 0x7E, 0x18, 0x18, 0x18, 0x18, 0x18, 0x18, 0x18, 0x7E, 0x0, 0x0, 0x0, 0x0]),
    (0x4A, [0x0, 0x0, 0x0, 0x6, 0x6, 0x6, 0x6, 0x6, 0x6, 0x66, 0x66, 0x3C, 0x0, 0x0, 0x0, 0x0]),
    (0x4B, [0x0, 0x0, 0x0, 0x63, 0x66, 0x6C, 0x78, 0x70, 0x78, 0x6C, 0x66, 0x63, 0x0, 0x0, 0x0, 0x0]),
    (0x4C, [0x0, 0x0, 0x0, 0x60, 0x60, 0x60, 0x60, 0x60, 0x60, 0x60, 0x60, 0x7E, 0x0, 0x0, 0x0, 0x0]),
    (0x4D, [0x0, 0x0, 0x0, 0x63, 0x77, 0x7F, 0x6B, 0x63, 0x63, 0x63, 0x63, 0x63, 0x0, 0x0, 0x0, 0x0]),
    (0x4E, [0x0, 0x0, 0x0, 0x63, 0x73, 0x7B, 0x6F, 0x67, 0x63, 0x63, 0x63, 0x63, 0x0, 0x0, 0x0, 0x0]),
    (0x4F, [0x0, 0x0, 0x0, 0x3C, 0x66, 0x66, 0x66, 0x66, 0x66, 0x66, 0x66, 0x3C, 0x0, 0x0, 0x0, 0x0]),
    (0x50, [0x0, 0x0, 0x0, 0x7C, 0x66, 0x66, 0x66, 0x7C, 0x60, 0x60, 0x60, 0x60, 0x0, 0x0, 0x0, 0x0]),
    (0x51, [0x0, 0x0, 0x0, 0x3C, 0x66, 0x66, 0x66, 0x66, 0x66, 0x66, 0x66, 0x3C, 0xF, 0x0, 0x0, 0x0]),
    (0x52, [0x0, 0x0, 0x0, 0x7C, 0x66, 0x66, 0x66, 0x7C, 0x6C, 0x66, 0x66, 0x66, 0x0, 0x0, 0x0, 0x0]),
    (0x53, [0x0, 0x0, 0x0, 0x3E, 0x60, 0x60, 0x70, 0x3C, 0xE, 0x6, 0x6, 0x7C, 0x0, 0x0, 0x0, 0x0]),
    (0x54, [0x0, 0x0, 0x0, 0xFF, 0x18, 0x18, 0x18, 0x18, 0x18, 0x18, 0x18, 0x18, 0x0, 0x0, 0x0, 0x0]),
    (0x55, [0x0, 0x0, 0x0, 0x66, 0x66, 0x66, 0x66, 0x66, 0x66, 0x66, 0x66, 0x3C, 0x0, 0x0, 0x0, 0x0]),
    (0x56, [0x0, 0x0, 0x0, 0x66, 0x66, 0x66, 0x66, 0x66, 0x66, 0x66, 0x3C, 0x18, 0x0, 0x0, 0x0, 0x0]),
    (0x57, [0x0, 0x0, 0x0, 0x63, 0x63, 0x63, 0x63, 0x63, 0x6B, 0x7F, 0x77, 0x63, 0x0, 0x0, 0x0, 0x0]),
    (0x58, [0x0, 0x0, 0x0, 0x66, 0x66, 0x66, 0x3C, 0x18, 0x3C, 0x66, 0x66, 0x66, 0x0, 0x0, 0x0, 0x0]),
    (0x59, [0x0, 0x0, 0x0, 0x66, 0x66, 0x66, 0x3C, 0x18, 0x18, 0x18, 0x18, 0x18, 0x0, 0x0, 0x0, 0x0]),
    (0x5A, [0x0, 0x0, 0x0, 0x7E, 0xC, 0xC, 0x18, 0x18, 0x30, 0x30, 0x60, 0x7E, 0x0, 0x0, 0x0, 0x0]),
    (0x5B, [0x0, 0x0, 0x3E, 0x30, 0x30, 0x30, 0x30, 0x30, 0x30, 0x30, 0x30, 0x30, 0x30, 0x3E, 0x0, 0x0]),
    (0x5C, [0x0, 0x0, 0x60, 0x60, 0x30, 0x30, 0x18, 0x18, 0xC, 0xC, 0x6, 0x6, 0x3, 0x3, 0x0, 0x0]),
    (0x5D, [0x0, 0x0, 0x7C, 0xC, 0xC, 0xC, 0xC, 0xC, 0xC, 0xC, 0xC, 0xC, 0xC, 0x7C, 0x0, 0x0]),
    (0x5E, [0x0, 0x0, 0x18, 0x3C, 0x66, 0x0, 0x0, 0x0, 0x0, 0x0, 0x0, 0x0, 0x0, 0x0, 0x0, 0x0]),
    (0x5F, [0x0, 0x0, 0x0, 0x0, 0x0, 0x0, 0x0, 0x0, 0x0, 0x0, 0x0, 0x0, 0x0, 0xFF, 0x0, 0x0]),
    (0x60, [0x0, 0x30, 0x18, 0xC, 0x6, 0x0, 0x0, 0x0, 0x0, 0x0, 0x0, 0x0, 0x0, 0x0, 0x0, 0x0]),
    (0x61, [0x0, 0x0, 0x0, 0x0, 0x0, 0x3C, 0x6, 0x6, 0x3E, 0x66, 0x66, 0x3E, 0x0, 0x0, 0x0, 0x0]),
    (0x62, [0x0, 0x0, 0x60, 0x60, 0x60, 0x7C, 0x66, 0x66, 0x66, 0x66, 0x66, 0x7C, 0x0, 0x0, 0x0, 0x0]),
    (0x63, [0x0, 0x0, 0x0, 0x0, 0x0, 0x3E, 0x60, 0x60, 0x60, 0x60, 0x60, 0x3E, 0x0, 0x0, 0x0, 0x0]),
    (0x64, [0x0, 0x0, 0x6, 0x6, 0x6, 0x3E, 0x66, 0x66, 0x66, 0x66, 0x66, 0x3E, 0x0, 0x0, 0x0, 0x0]),
    (0x65, [0x0, 0x0, 0x0, 0x0, 0x0, 0x3C, 0x66, 0x66, 0x7E, 0x60, 0x60, 0x3E, 0x0, 0x0, 0x0, 0x0]),
    (0x66, [0x0, 0x0, 0x1E, 0x30, 0x30, 0x7E, 0x30, 0x30, 0x30, 0x30, 0x30, 0x30, 0x0, 0x0, 0x0, 0x0]),
    (0x67, [0x0, 0x0, 0x0, 0x0, 0x0, 0x3F, 0x66, 0x66, 0x66, 0x3C, 0x60, 0x3E, 0x63, 0x63, 0x3E, 0x0]),
    (0x68, [0x0, 0x0, 0x60, 0x60, 0x60, 0x7C, 0x66, 0x66, 0x66, 0x66, 0x66, 0x66, 0x0, 0x0, 0x0, 0x0]),
    (0x69, [0x0, 0x0, 0x18, 0x18, 0x0, 0x78, 0x18, 0x18, 0x18, 0x18, 0x18, 0x7E, 0x0, 0x0, 0x0, 0x0]),
    (0x6A, [0x0, 0x0, 0xC, 0xC, 0x0, 0x3C, 0xC, 0xC, 0xC, 0xC, 0xC, 0xC, 0xC, 0xC, 0x78, 0x0]),
    (0x6B, [0x0, 0x0, 0x60, 0x60, 0x60, 0x66, 0x6C, 0x78, 0x78, 0x6C, 0x66, 0x63, 0x0, 0x0, 0x0, 0x0]),
    (0x6C, [0x0, 0x0, 0x78, 0x18, 0x18, 0x18, 0x18, 0x18, 0x18, 0x18, 0x18, 0xE, 0x0, 0x0, 0x0, 0x0]),
    (0x6D, [0x0, 0x0, 0x0, 0x0, 0x0, 0x7E, 0x6B, 0x6B, 0x6B, 0x6B, 0x6B, 0x6B, 0x0, 0x0, 0x0, 0x0]),
    (0x6E, [0x0, 0x0, 0x0, 0x0, 0x0, 0x7C, 0x66, 0x66, 0x66, 0x66, 0x66, 0x66, 0x0, 0x0, 0x0, 0x0]),
    (0x6F, [0x0, 0x0, 0x0, 0x0, 0x0, 0x3C, 0x66, 0x66, 0x66, 0x66, 0x66, 0x3C, 0x0, 0x0, 0x0, 0x0]),
    (0x70, [0x0, 0x0, 0x0, 0x0, 0x0, 0x7C, 0x66, 0x66, 0x66, 0x66, 0x66, 0x7C, 0x60, 0x60, 0x60, 0x0]),
    (0x71, [0x0, 0x0, 0x0, 0x0, 0x0, 0x3E, 0x66, 0x66, 0x66, 0x66, 0x66, 0x3E, 0x6, 0x6, 0x6, 0x0]),
    (0x72, [0x0, 0x0, 0x0, 0x0, 0x0, 0x6E, 0x70, 0x60, 0x60, 0x60, 0x60, 0x60, 0x0, 0x0, 0x0, 0x0]),
    (0x73, [0x0, 0x0, 0x0, 0x0, 0x0, 0x3E, 0x60, 0x70, 0x3C, 0xE, 0x6, 0x7C, 0x0, 0x0, 0x0, 0x0]),
    (0x74, [0x0, 0x0, 0x0, 0x30, 0x30, 0x7E, 0x30, 0x30, 0x30, 0x30, 0x30, 0x1E, 0x0, 0x0, 0x0, 0x0]),
    (0x75, [0x0, 0x0, 0x0, 0x0, 0x0, 0x66, 0x66, 0x66, 0x66, 0x66, 0x66, 0x3E, 0x0, 0x0, 0x0, 0x0]),
    (0x76, [0x0, 0x0, 0x0, 0x0, 0x0, 0x66, 0x66, 0x66, 0x66, 0x66, 0x3C, 0x18, 0x0, 0x0, 0x0, 0x0]),
    (0x77, [0x0, 0x0, 0x0, 0x0, 0x0, 0x6B, 0x6B, 0x6B, 0x6B, 0x6B, 0x6B, 0x7E, 0x0, 0x0, 0x0, 0x0]),
    (0x78, [0x0, 0x0, 0x0, 0x0, 0x0, 0x66, 0x66, 0x3C, 0x18, 0x3C, 0x66, 0x66, 0x0, 0x0, 0x0, 0x0]),
    (0x79, [0x0, 0x0, 0x0, 0x0, 0x0, 0x66, 0x66, 0x66, 0x66, 0x66, 0x66, 0x3E, 0x6, 0x6, 0x3C, 0x0]),
    (0x7A, [0x0, 0x0, 0x0, 0x0, 0x0, 0x7E, 0x6, 0xC, 0x18, 0x30, 0x60, 0x7E, 0x0, 0x0, 0x0, 0x0]),
    (0x7B, [0x0, 0xE, 0x18, 0x18, 0x18, 0x18, 0x18, 0xF0, 0x18, 0x18, 0x18, 0x18, 0x18, 0xE, 0x0, 0x0]),
    (0x7C, [0x0, 0x18, 0x18, 0x18, 0x18, 0x18, 0x18, 0x18, 0x18, 0x18, 0x18, 0x18, 0x18, 0x18, 0x0, 0x0]),
    (0x7D, [0x0, 0x70, 0x18, 0x18, 0x18, 0x18, 0x18, 0xF, 0x18, 0x18, 0x18, 0x18, 0x18, 0x70, 0x0, 0x0]),
    (0x7E, [0x0, 0x0, 0x33, 0x7B, 0x6F, 0x66, 0x0, 0x0, 0x0, 0x0, 0x0, 0x0, 0x0, 0x0, 0x0, 0x0]),
    (0xA0, [0x0, 0x0, 0x0, 0x0, 0x0, 0x0, 0x0, 0x0, 0x0, 0x0, 0x0, 0x0, 0x0, 0x0, 0x0, 0x0]),
    (0xA1, [0x0, 0x0, 0x0, 0x0, 0x0, 0x18, 0x18, 0x0, 0x0, 0x18, 0x18, 0x3C, 0x3C, 0x3C, 0x18, 0x0]),
    (0xA2, [0x0, 0x0, 0x18, 0x18, 0x3C, 0x66, 0x60, 0x60, 0x60, 0x66, 0x3C, 0x18, 0x18, 0x0, 0x0, 0x0]),
    (0xA3, [0x0, 0x0, 0x0, 0x1C, 0x36, 0x30, 0x30, 0x7C, 0x30, 0x30, 0x30, 0x7E, 0x0, 0x0, 0x0, 0x0]),
    (0xA4, [0x0, 0x0, 0x0, 0x0, 0x63, 0x3E, 0x36, 0x63, 0x63, 0x36, 0x3E, 0x63, 0x0, 0x0, 0x0, 0x0])]"

definition BOLD8_1 :: "(u16 \<times> u8 list) list" where
  "BOLD8_1 = [
    (0xA5, [0x0, 0x0, 0x0, 0x66, 0x66, 0x3C, 0x18, 0x7E, 0x18, 0x7E, 0x18, 0x18, 0x0, 0x0, 0x0, 0x0]),
    (0xA6, [0x0, 0x0, 0x0, 0x18, 0x18, 0x18, 0x18, 0x0, 0x0, 0x0, 0x18, 0x18, 0x18, 0x18, 0x0, 0x0]),
    (0xA8, [0x0, 0x0, 0x66, 0x66, 0x0, 0x0, 0x0, 0x0, 0x0, 0x0, 0x0, 0x0, 0x0, 0x0, 0x0, 0x0]),
    (0xA9, [0x0, 0x0, 0x0, 0x1C, 0x22, 0x41, 0x4D, 0x51, 0x51, 0x4D, 0x41, 0x22, 0x1C, 0x0, 0x0, 0x0]),
    (0xAB, [0x0, 0x0, 0x0, 0x0, 0x0, 0x0, 0x0, 0x1B, 0x36, 0x6C, 0x36, 0x1B, 0x0, 0x0, 0x0, 0x0]),
    (0xAD, [0x0, 0x0, 0x0, 0x0, 0x0, 0x0, 0x0, 0x7E, 0x0, 0x0, 0x0, 0x0, 0x0, 0x0, 0x0, 0x0]),
    (0xB0, [0x0, 0x0, 0x0, 0x3C, 0x66, 0x66, 0x66, 0x3C, 0x0, 0x0, 0x0, 0x0, 0x0, 0x0, 0x0, 0x0]),
    (0xB4, [0x0, 0x0, 0xC, 0x18, 0x0, 0x0, 0x0, 0x0, 0x0, 0x0, 0x0, 0x0, 0x0, 0x0, 0x0, 0x0]),
    (0xB8, [0x0, 0x0, 0x0, 0x0, 0x0, 0x0, 0x0, 0x0, 0x0, 0x0, 0x0, 0x0, 0xC, 0xC, 0x38, 0x0]),
    (0xBB, [0x0, 0x0, 0x0, 0x0, 0x0, 0x0, 0x0, 0x6C, 0x36, 0x1B, 0x36, 0x6C, 0x0, 0x0, 0x0, 0x0]),
    (0xBF, [0x0, 0x0, 0x0, 0x0, 0x0, 0x18, 0x18, 0x0, 0x0, 0x18, 0x30, 0x60, 0x60, 0x62, 0x3C, 0x0]),
    (0xC0, [0x30, 0x18, 0x0, 0x18, 0x3C, 0x66, 0x66, 0x66, 0x7E, 0x66, 0x66, 0x66, 0x0, 0x0, 0x0, 0x0]),
    (0xC1, [0xC, 0x18, 0x0, 0x18, 0x3C, 0x66, 0x66, 0x66, 0x7E, 0x66, 0x66, 0x66, 0x0, 0x0, 0x0, 0x0]),
    (0xC2, [0x18, 0x3C, 0x66, 0x0, 0x18, 0x3C, 0x66, 0x66, 0x7E, 0x66, 0x66, 0x66, 0x0, 0x0, 0x0, 0x0]),
    (0xC3, [0x32, 0x7E, 0x4C, 0x0, 0x18, 0x3C, 0x66, 0x66, 0x7E, 0x66, 0x66, 0x66, 0x0, 0x0, 0x0, 0x0]),
    (0xC4, [0x66, 0x66, 0x0, 0x18, 0x3C, 0x66, 0x66, 0x66, 0x7E, 0x66, 0x66, 0x66, 0x0, 0x0, 0x0, 0x0]),
    (0xC5, [0x3C, 0x66, 0x66, 0x3C, 0x18, 0x3C, 0x66, 0x66, 0x7E, 0x66, 0x66, 0x66, 0x0, 0x0, 0x0, 0x0]),
    (0xC6, [0x0, 0x0, 0x0, 0x1F, 0x3C, 0x6C, 0x6C, 0x6F, 0x7C, 0x6C, 0x6C, 0x6E, 0x0, 0x0, 0x0, 0x0]),
    (0xC7, [0x0, 0x0, 0x0, 0x1E, 0x30, 0x60, 0x60, 0x60, 0x60, 0x60, 0x30, 0x1E, 0xC, 0xC, 0x38, 0x0]),
    (0xC8, [0x30, 0x18, 0x0, 0x7E, 0x60, 0x60, 0x60, 0x7C, 0x60, 0x60, 0x60, 0x7E, 0x0, 0x0, 0x0, 0x0]),
    (0xC9, [0xC, 0x18, 0x0, 0x7E, 0x60, 0x60, 0x60, 0x7C, 0x60, 0x60, 0x60, 0x7E, 0x0, 0x0, 0x0, 0x0]),
    (0xCA, [0x18, 0x3C, 0x66, 0x0, 0x7E, 0x60, 0x60, 0x7C, 0x60, 0x60, 0x60, 0x7E, 0x0, 0x0, 0x0, 0x0]),
    (0xCB, [0x66, 0x66, 0x0, 0x7E, 0x60, 0x60, 0x60, 0x7C, 0x60, 0x60, 0x60, 0x7E, 0x0, 0x0, 0x0, 0x0]),
    (0xCC, [0x30, 0x18, 0x0, 0x7E, 0x18, 0x18, 0x18, 0x18, 0x18, 0x18, 0x18, 0x7E, 0x0, 0x0, 0x0, 0x0]),
    (0xCD, [0xC, 0x18, 0x0, 0x7E, 0x18, 0x18, 0x18, 0x18, 0x18, 0x18, 0x18, 0x7E, 0x0, 0x0, 0x0, 0x0]),
    (0xCE, [0x18, 0x3C, 0x66, 0x0, 0x7E, 0x18, 0x18, 0x18, 0x18, 0x18, 0x18, 0x7E, 0x0, 0x0, 0x0, 0x0]),
    (0xCF, [0x66, 0x66, 0x0, 0x7E, 0x18, 0x18, 0x18, 0x18, 0x18, 0x18, 0x18, 0x7E, 0x0, 0x0, 0x0, 0x0]),
    (0xD0, [0x0, 0x0, 0x0, 0x3C, 0x36, 0x33, 0x33, 0x7B, 0x33, 0x33, 0x36, 0x3C, 0x0, 0x0, 0x0, 0x0]),
    (0xD1, [0x31, 0x7F, 0x46, 0x0, 0x63, 0x73, 0x7B, 0x6F, 0x67, 0x63, 0x63, 0x63, 0x0, 0x0, 0x0, 0x0]),
    (0xD2, [0x30, 0x18, 0x0, 0x3C, 0x66, 0x66, 0x66, 0x66, 0x66, 0x66, 0x66, 0x3C, 0x0, 0x0, 0x0, 0x0]),
    (0xD3, [0x6, 0xC, 0x0, 0x3C, 0x66, 0x66, 0x66, 0x66, 0x66, 0x66, 0x66, 0x3C, 0x0, 0x0, 0x0, 0x0]),
    (0xD4, [0x18, 0x3C, 0x66, 0x0, 0x3C, 0x66, 0x66, 0x66, 0x66, 0x66, 0x66, 0x3C, 0x0, 0x0, 0x0, 0x0]),
    (0xD5, [0x32, 0x7E, 0x4C, 0x0, 0x3C, 0x66, 0x66, 0x66, 0x66, 0x66, 0x66, 0x3C, 0x0, 0x0, 0x0, 0x0]),
    (0xD6, [0x66, 0x66, 0x0, 0x3C, 0x66, 0x66, 0x66, 0x66, 0x66, 0x66, 0x66, 0x3C, 0x0, 0x0, 0x0, 0x0]),
    (0xD7, [0x0, 0x0, 0x0, 0x0, 0x0, 0x0, 0x66, 0x3C, 0x18, 0x3C, 0x66, 0x0, 0x0, 0x0, 0x0, 0x0]),
    (0xD8, [0x0, 0x0, 0x6, 0x3C, 0x66, 0x66, 0x6E, 0x76, 0x66, 0x66, 0x66, 0x3C, 0x60, 0x0, 0x0, 0x0]),
    (0xD9, [0x30, 0x18, 0x0, 0x66, 0x66, 0x66, 0x66, 0x66, 0x66, 0x66, 0x66, 0x3C, 0x0, 0x0, 0x0, 0x0]),
    (0xDA, [0xC, 0x18, 0x0, 0x66, 0x66, 0x66, 0x66, 0x66, 0x66, 0x66, 0x66, 0x3C, 0x0, 0x0, 0x0, 0x0]),
    (0xDB, [0x18, 0x3C, 0x66, 0x0, 0x66, 0x66, 0x66, 0x66, 0x66, 0x66, 0x66, 0x3C, 0x0, 0x0, 0x0, 0x0]),
    (0xDC, [0x66, 0x66, 0x0, 0x66, 0x66, 0x66, 0x66, 0x66, 0x66, 0x66, 0x66, 0x3C, 0x0, 0x0, 0x0, 0x0]),
    (0xDD, [0xC, 0x18, 0x0, 0x66, 0x66, 0x66, 0x3C, 0x18, 0x18, 0x18, 0x18, 0x18, 0x0, 0x0, 0x0, 0x0]),
    (0xDE, [0x0, 0x0, 0x0, 0x60, 0x60, 0x7C, 0x66, 0x66, 0x66, 0x7C, 0x60, 0x60, 0x0, 0x0, 0x0, 0x0]),
    (0xDF, [0x0, 0x0, 0x0, 0x3C, 0x66, 0x66, 0x6C, 0x66, 0x66, 0x66, 0x66, 0x6C, 0x0, 0x0, 0x0, 0x0]),
    (0xE0, [0x0, 0x0, 0x30, 0x18, 0x0, 0x3C, 0x6, 0x3E, 0x66, 0x66, 0x66, 0x3E, 0x0, 0x0, 0x0, 0x0]),
    (0xE1, [0x0, 0x0, 0xC, 0x18, 0x0, 0x3C, 0x6, 0x3E, 0x66, 0x66, 0x66, 0x3E, 0x0, 0x0, 0x0, 0x0]),
    (0xE2, [0x0, 0x18, 0x3C, 0x66, 0x0, 0x3C, 0x6, 0x3E, 0x66, 0x66, 0x66, 0x3E, 0x0, 0x0, 0x0, 0x0]),
    (0xE3, [0x0, 0x32, 0x7E, 0x4C, 0x0, 0x3C, 0x6, 0x3E, 0x66, 0x66, 0x66, 0x3E, 0x0, 0x0, 0x0, 0x0]),
    (0xE4, [0x0, 0x0, 0x66, 0x66, 0x0, 0x3C, 0x6, 0x3E, 0x66, 0x66, 0x66, 0x3E, 0x0, 0x0, 0x0, 0x0]),
    (0xE5, [0x1C, 0x36, 0x36, 0x1C, 0x0, 0x3C, 0x6, 0x3E, 0x66, 0x66, 0x66, 0x3E, 0x0, 0x0, 0x0, 0x0]),
    (0xE6, [0x0, 0x0, 0x0, 0x0, 0x0, 0x76, 0x1B, 0x7B, 0xDF, 0xD8, 0xD8, 0x6F, 0x0, 0x0, 0x0, 0x0]),
    (0xE7, [0x0, 0x0, 0x0, 0x0, 0x0, 0x3E, 0x60, 0x60, 0x60, 0x60, 0x60, 0x3E, 0xC, 0xC, 0x38, 0x0]),
    (0xE8, [0x0, 0x0, 0x30, 0x18, 0x0, 0x3C, 0x66, 0x66, 0x7E, 0x60, 0x60, 0x3E, 0x0, 0x0, 0x0, 0x0]),
    (0xE9, [0x0, 0x0, 0xC, 0x18, 0x0, 0x3C, 0x66, 0x66, 0x7E, 0x60, 0x60, 0x3E, 0x0, 0x0, 0x0, 0x0]),
    (0xEA, [0x0, 0x18, 0x3C, 0x66, 0x0, 0x3C, 0x66, 0x66, 0x7E, 0x60, 0x60, 0x3E, 0x0, 0x0, 0x0, 0x0]),
    (0xEB, [0x0, 0x0, 0x66, 0x66, 0x0, 0x3C, 0x66, 0x66, 0x7E, 0x60, 0x60, 0x3E, 0x0, 0x0, 0x0, 0x0]),
    (0xEC, [0x0, 0x0, 0x30, 0x18, 0x0, 0x78, 0x18, 0x18, 0x18, 0x18, 0x18, 0x7E, 0x0, 0x0, 0x0, 0x0]),
    (0xED, [0x0, 0x0, 0xC, 0x18, 0x0, 0x78, 0x18, 0x18, 0x18, 0x18, 0x18, 0x7E, 0x0, 0x0, 0x0, 0x0]),
    (0xEE, [0x0, 0x18, 0x3C, 0x66, 0x0, 0x78, 0x18, 0x18, 0x18, 0x18, 0x18, 0x7E, 0x0, 0x0, 0x0, 0x0]),
    (0xEF, [0x0, 0x0, 0x66, 0x66, 0x0, 0x78, 0x18, 0x18, 0x18, 0x18, 0x18, 0x7E, 0x0, 0x0, 0x0, 0x0]),
    (0xF0, [0x0, 0x32, 0x1C, 0x78, 0xC, 0x3E, 0x66, 0x66, 0x66, 0x66, 0x66, 0x3C, 0x0, 0x0, 0x0, 0x0]),
    (0xF1, [0x0, 0x32, 0x7E, 0x4C, 0x0, 0x7C, 0x66, 0x66, 0x66, 0x66, 0x66, 0x66, 0x0, 0x0, 0x0, 0x0]),
    (0xF2, [0x0, 0x0, 0xC, 0x18, 0x0, 0x3C, 0x66, 0x66, 0x66, 0x66, 0x66, 0x3C, 0x0, 0x0, 0x0, 0x0]),
    (0xF3, [0x0, 0x0, 0xC, 0x18, 0x0, 0x3C, 0x66, 0x66, 0x66, 0x66, 0x66, 0x3C, 0x0, 0x0, 0x0, 0x0]),
    (0xF4, [0x0, 0x18, 0x3C, 0x66, 0x0, 0x3C, 0x66, 0x66, 0x66, 0x66, 0x66, 0x3C, 0x0, 0x0, 0x0, 0x0]),
    (0xF5, [0x0, 0x32, 0x7E, 0x4C, 0x0, 0x3C, 0x66, 0x66, 0x66, 0x66, 0x66, 0x3C, 0x0, 0x0, 0x0, 0x0]),
    (0xF6, [0x0, 0x0, 0x66, 0x66, 0x0, 0x3C, 0x66, 0x66, 0x66, 0x66, 0x66, 0x3C, 0x0, 0x0, 0x0, 0x0]),
    (0xF7, [0x0, 0x0, 0x0, 0x0, 0x18, 0x18, 0x0, 0x7E, 0x0, 0x18, 0x18, 0x0, 0x0, 0x0, 0x0, 0x0]),
    (0xF8, [0x0, 0x0, 0x0, 0x0, 0x6, 0x3C, 0x66, 0x6E, 0x76, 0x66, 0x66, 0x3C, 0x60, 0x0, 0x0, 0x0]),
    (0xF9, [0x0, 0x0, 0x30, 0x18, 0x0, 0x66, 0x66, 0x66, 0x66, 0x66, 0x66, 0x3E, 0x0, 0x0, 0x0, 0x0]),
    (0xFA, [0x0, 0x0, 0xC, 0x18, 0x0, 0x66, 0x66, 0x66, 0x66, 0x66, 0x66, 0x3E, 0x0, 0x0, 0x0, 0x0]),
    (0xFB, [0x0, 0x18, 0x3C, 0x66, 0x0, 0x66, 0x66, 0x66, 0x66, 0x66, 0x66, 0x3E, 0x0, 0x0, 0x0, 0x0]),
    (0xFC, [0x0, 0x0, 0x66, 0x66, 0x0, 0x66, 0x66, 0x66, 0x66, 0x66, 0x66, 0x3E, 0x0, 0x0, 0x0, 0x0]),
    (0xFD, [0x0, 0x0, 0xC, 0x18, 0x0, 0x66, 0x66, 0x66, 0x66, 0x66, 0x66, 0x3E, 0x6, 0x6, 0x3C, 0x0]),
    (0xFE, [0x0, 0x0, 0x60, 0x60, 0x60, 0x7C, 0x66, 0x66, 0x66, 0x66, 0x66, 0x7C, 0x60, 0x60, 0x60, 0x0]),
    (0xFF, [0x0, 0x0, 0x66, 0x66, 0x0, 0x66, 0x66, 0x66, 0x66, 0x66, 0x66, 0x3E, 0x6, 0x6, 0x3C, 0x0])]"

definition BOLD8 :: "(u16 \<times> u8 list) list" where
  "BOLD8 = BOLD8_0 @ BOLD8_1"

section \<open>What the lookups rely on\<close>

lemma BOLD6_length: "length BOLD6 = BOLD6_COUNT"
  by code_simp

lemma BOLD6_ascending: "ascending (map fst BOLD6)"
  by code_simp

lemma BOLD6_rows: "list_all (\<lambda>g. length (snd g) = 12) BOLD6"
  by code_simp

lemma BOLD7_length: "length BOLD7 = BOLD7_COUNT"
  by code_simp

lemma BOLD7_ascending: "ascending (map fst BOLD7)"
  by code_simp

lemma BOLD7_rows: "list_all (\<lambda>g. length (snd g) = 13) BOLD7"
  by code_simp

lemma BOLD8_length: "length BOLD8 = BOLD8_COUNT"
  by code_simp

lemma BOLD8_ascending: "ascending (map fst BOLD8)"
  by code_simp

lemma BOLD8_rows: "list_all (\<lambda>g. length (snd g) = 16) BOLD8"
  by code_simp

end
