(* ===== verification/Glyphs.thy ===== *)
theory Glyphs
  imports TableSearch SharpLcd FontCozette FontBig FontTamzen
begin

text \<open>
  The text half of \<open>lib/SharpLcd/src/SharpLcd.cpp\<close>: UTF-8 decoding, the lookup of a glyph in
  the tables, the braille cells computed on the fly, and the four text drawing routines.

  A \<open>const char*\<close> is the list of bytes from the pointer to the NUL that ends its buffer (a
  list that has run out reads as NUL); a NUL inside the list ends the string for the drawing
  routines as it does in C.
\<close>

section \<open>UTF-8\<close>

definition peek :: "bytes \<Rightarrow> u8" where
  "peek s = (case s of [] \<Rightarrow> 0 | c # _ \<Rightarrow> c)"

fun continuation :: "nat \<Rightarrow> u32 \<Rightarrow> bytes \<Rightarrow> u32 \<times> bytes" where
  "continuation 0 cp s = (cp, s)"
| "continuation (Suc extra) cp s =
     (if peek s AND 0xC0 \<noteq> 0x80 then (0xFFFD, s)
      else continuation extra (push_bit 6 cp OR ucast (peek s AND 0x3F)) (tl s))"

definition next_cp :: "bytes \<Rightarrow> u32 \<times> bytes" where
  "next_cp s0 =
     (let c = peek s0; s = tl s0 in
      if c < 0x80 then (ucast c, s)
      else if c AND 0xE0 = 0xC0 then continuation 1 (ucast (c AND 0x1F)) s
      else if c AND 0xF0 = 0xE0 then continuation 2 (ucast (c AND 0x0F)) s
      else if c AND 0xF8 = 0xF0 then continuation 3 (ucast (c AND 0x07)) s
      else (0xFFFD, s))"

section \<open>Glyph lookup\<close>

definition braille_for :: "u32 \<Rightarrow> bytes" where
  "braille_for cp =
     (let n = (ucast (cp - 0x2800) :: u8);
          lmask = [0x01, 0x02, 0x04, 0x40] :: u8 list;
          rmask = [0x08, 0x10, 0x20, 0x80] :: u8 list;
          ytop = [1, 4, 7, 10] :: nat list
      in fold (\<lambda>d rows.
           let bits = (if n AND lmask ! d \<noteq> 0 then 0xC0 else 0) OR (if n AND rmask ! d \<noteq> 0 then 0x18 else 0)
           in if bits = 0 then rows
              else let rows1 = rows[ytop ! d := bits]
                   in if ytop ! d + 1 < FONT_H then rows1[ytop ! d + 1 := bits] else rows1)
         [0..<4] (replicate FONT_H 0))"

definition zero_glyph :: bytes where
  "zero_glyph = replicate FONT_H 0"

definition glyph_for :: "u32 \<Rightarrow> bytes option" where
  "glyph_for cp =
     (if FONT_FIRST \<le> unat cp \<and> unat cp \<le> FONT_LAST then Some (FONT ! (unat cp - FONT_FIRST))
      else if 0x2800 \<le> cp \<and> cp \<le> 0x28FF then Some (braille_for cp)
      else if cp = 0x200D \<or> cp = 0xFE0E \<or> cp = 0xFE0F then Some zero_glyph
      else if cp \<le> 0xFFFF
        then map_option snd (search_table (unat \<circ> fst) FONT_EXTRA FONT_EXTRA_COUNT (unat cp))
      else map_option snd (search_table (unat \<circ> fst) EMOJI EMOJI_COUNT (unat cp)))"

definition big_glyph :: "u32 \<Rightarrow> u16 list option" where
  "big_glyph cp = map_option snd (search_table (unat \<circ> fst) BIGFONT BIGFONT_COUNT (unat cp))"

definition big_has :: "u32 \<Rightarrow> bool" where "big_has cp \<longleftrightarrow> big_glyph cp \<noteq> None"
definition has_glyph :: "u32 \<Rightarrow> bool" where "has_glyph cp \<longleftrightarrow> glyph_for cp \<noteq> None"

datatype bold_face = BOLD_INLINE | BOLD_H3 | BOLD_H2

fun bold_w :: "bold_face \<Rightarrow> nat" where
  "bold_w BOLD_INLINE = BOLD6_W" | "bold_w BOLD_H3 = BOLD7_W" | "bold_w BOLD_H2 = BOLD8_W"

fun bold_h :: "bold_face \<Rightarrow> nat" where
  "bold_h BOLD_INLINE = BOLD6_H" | "bold_h BOLD_H3 = BOLD7_H" | "bold_h BOLD_H2 = BOLD8_H"

fun bold_ascent :: "bold_face \<Rightarrow> nat" where
  "bold_ascent BOLD_INLINE = BOLD6_ASCENT" | "bold_ascent BOLD_H3 = BOLD7_ASCENT"
| "bold_ascent BOLD_H2 = BOLD8_ASCENT"

text \<open>The glyph, and the advance and cell height the C function sets through references.\<close>

fun bold_glyph :: "u32 \<Rightarrow> bold_face \<Rightarrow> bytes option \<times> nat \<times> nat" where
  "bold_glyph cp BOLD_INLINE =
     (map_option snd (search_table (unat \<circ> fst) BOLD6 BOLD6_COUNT (unat cp)), BOLD6_W, BOLD6_H)"
| "bold_glyph cp BOLD_H3 =
     (map_option snd (search_table (unat \<circ> fst) BOLD7 BOLD7_COUNT (unat cp)), BOLD7_W, BOLD7_H)"
| "bold_glyph cp BOLD_H2 =
     (map_option snd (search_table (unat \<circ> fst) BOLD8 BOLD8_COUNT (unat cp)), BOLD8_W, BOLD8_H)"

definition bold_has :: "u32 \<Rightarrow> bold_face \<Rightarrow> bool" where
  "bold_has cp face \<longleftrightarrow> fst (bold_glyph cp face) \<noteq> None"

section \<open>Drawing\<close>

definition MISSING_BOX :: bytes where
  "MISSING_BOX = [0x00, 0x00, 0x00, 0x00, 0x78, 0x48, 0x48, 0x48, 0x48, 0x48, 0x78, 0x00, 0x00]"

text \<open>
  The row and column loops shared by the routines: \<open>cell\<close> rows, \<open>ink\<close> columns, the leftmost
  column under the mask \<open>high\<close> (0x80 or 0x8000).
\<close>

definition blit :: "'a::len word \<Rightarrow> nat \<Rightarrow> nat \<Rightarrow> 'a word list \<Rightarrow> u16 \<Rightarrow> u16 \<Rightarrow> bool \<Rightarrow> sharp_lcd \<Rightarrow> sharp_lcd" where
  "blit high cell ink g x y black =
     fold (\<lambda>row. let bits = g ! row in
             if bits = 0 then id
             else fold (\<lambda>col. if bits AND drop_bit col high \<noteq> 0
                              then set_pixel (x + of_nat col) (y + of_nat row) black else id)
               [0..<ink])
       [0..<cell]"

lemma next_cp_shorter: "s \<noteq> [] \<Longrightarrow> length (snd (next_cp s)) < length s"
proof -
  have c: "length (snd (continuation n cp s)) \<le> length s" for n cp s
  proof (induction n cp s rule: continuation.induct)
    case (2 extra cp s)
    then show ?case by (auto intro: le_trans)
  qed simp
  assume "s \<noteq> []"
  then show ?thesis
    using c[of _ _ "tl s"] by (cases s) (auto simp: next_cp_def Let_def less_Suc_eq_le)
qed

function draw_text :: "u16 \<Rightarrow> u16 \<Rightarrow> bytes \<Rightarrow> bool \<Rightarrow> sharp_lcd \<Rightarrow> u16 \<times> sharp_lcd" where
  "draw_text x y s black l =
     (if peek s = 0 then (x, l)
      else
        (let cp = fst (next_cp s);
             g = (case glyph_for cp of None \<Rightarrow> MISSING_BOX | Some g \<Rightarrow> g)
         in draw_text (x + of_nat FONT_W) y (snd (next_cp s)) black
              (blit 0x80 FONT_H FONT_INK_W g x y black l)))"
  by pat_completeness auto
termination
proof (relation "measure (\<lambda>(x, y, s, black, l). length s)", goal_cases)
  case (2 x y s black l cp g)
  then have "s \<noteq> []" by (auto simp: peek_def)
  then show ?case by (simp add: next_cp_shorter)
qed simp

declare draw_text.simps [simp del]

definition blit_scaled :: "nat \<Rightarrow> bytes \<Rightarrow> u16 \<Rightarrow> u16 \<Rightarrow> bool \<Rightarrow> sharp_lcd \<Rightarrow> sharp_lcd" where
  "blit_scaled scale g x y black =
     fold (\<lambda>row. let bits = g ! row in
             if bits = 0 then id
             else fold (\<lambda>col. if bits AND drop_bit col 0x80 = 0 then id
                 else fold (\<lambda>sy. fold (\<lambda>sx.
                     set_pixel (x + of_nat (col * scale + sx)) (y + of_nat (row * scale + sy)) black)
                   [0..<scale]) [0..<scale])
               [0..<FONT_INK_W])
       [0..<FONT_H]"

function scaled_loop :: "u16 \<Rightarrow> u16 \<Rightarrow> bytes \<Rightarrow> bool \<Rightarrow> u8 \<Rightarrow> sharp_lcd \<Rightarrow> u16 \<times> sharp_lcd" where
  "scaled_loop x y s black scale l =
     (if peek s = 0 then (x, l)
      else scaled_loop (x + of_nat (FONT_W * unat scale)) y (snd (next_cp s)) black scale
             (case glyph_for (fst (next_cp s)) of
                None \<Rightarrow> l | Some g \<Rightarrow> blit_scaled (unat scale) g x y black l))"
  by pat_completeness auto
termination
proof (relation "measure (\<lambda>(x, y, s, black, scale, l). length s)", goal_cases)
  case (2 x y s black scale l)
  then have "s \<noteq> []" by (auto simp: peek_def)
  then show ?case by (simp add: next_cp_shorter)
qed simp

declare scaled_loop.simps [simp del]

definition draw_text_scaled :: "u16 \<Rightarrow> u16 \<Rightarrow> bytes \<Rightarrow> bool \<Rightarrow> u8 \<Rightarrow> sharp_lcd \<Rightarrow> u16 \<times> sharp_lcd" where
  "draw_text_scaled x y s black scale l =
     (if scale \<le> 1 then draw_text x y s black l else scaled_loop x y s black scale l)"

function draw_text_big :: "u16 \<Rightarrow> u16 \<Rightarrow> bytes \<Rightarrow> bool \<Rightarrow> sharp_lcd \<Rightarrow> u16 \<times> sharp_lcd" where
  "draw_text_big x y s black l =
     (if peek s = 0 then (x, l)
      else draw_text_big (x + of_nat BIGFONT_W) y (snd (next_cp s)) black
             (case big_glyph (fst (next_cp s)) of
                None \<Rightarrow> l | Some g \<Rightarrow> blit 0x8000 BIGFONT_H BIGFONT_INK_W g x y black l))"
  by pat_completeness auto
termination
proof (relation "measure (\<lambda>(x, y, s, black, l). length s)", goal_cases)
  case (2 x y s black l)
  then have "s \<noteq> []" by (auto simp: peek_def)
  then show ?case by (simp add: next_cp_shorter)
qed simp

declare draw_text_big.simps [simp del]

function draw_text_bold ::
  "u16 \<Rightarrow> u16 \<Rightarrow> bytes \<Rightarrow> bold_face \<Rightarrow> bool \<Rightarrow> sharp_lcd \<Rightarrow> u16 \<times> sharp_lcd" where
  "draw_text_bold x y s face black l =
     (if peek s = 0 then (x, l)
      else
        (let (g, adv, cell) = bold_glyph (fst (next_cp s)) face
         in draw_text_bold (x + of_nat adv) y (snd (next_cp s)) face black
              (case g of None \<Rightarrow> l | Some rows \<Rightarrow> blit 0x80 cell 8 rows x y black l)))"
  by pat_completeness auto
termination
  by (relation "measure (\<lambda>(x, y, s, face, black, l). length s)")
    (auto simp: peek_def intro!: next_cp_shorter)

declare draw_text_bold.simps [simp del]

section \<open>Lemmas: UTF-8\<close>

text \<open>The encoding the decoder inverts: the shortest form, up to four bytes.\<close>

definition utf8 :: "nat \<Rightarrow> bytes" where
  "utf8 cp =
     (if cp < 0x80 then [of_nat cp]
      else if cp < 0x800 then [of_nat (0xC0 + cp div 64), of_nat (0x80 + cp mod 64)]
      else if cp < 0x10000
        then [of_nat (0xE0 + cp div 4096), of_nat (0x80 + cp div 64 mod 64), of_nat (0x80 + cp mod 64)]
      else [of_nat (0xF0 + cp div 262144), of_nat (0x80 + cp div 4096 mod 64),
            of_nat (0x80 + cp div 64 mod 64), of_nat (0x80 + cp mod 64)])"

lemma continuation_byte:
  assumes "a < 64"
  shows "(of_nat (0x80 + a) :: u8) AND 0xC0 = 0x80"
    and "ucast ((of_nat (0x80 + a) :: u8) AND 0x3F) = (of_nat a :: u32)"
proof -
  have "list_all (\<lambda>a. (of_nat (0x80 + a) :: u8) AND 0xC0 = 0x80 \<and>
      ucast ((of_nat (0x80 + a) :: u8) AND 0x3F) = (of_nat a :: u32)) [0..<64]"
    by code_simp
  then show "(of_nat (0x80 + a) :: u8) AND 0xC0 = 0x80"
    "ucast ((of_nat (0x80 + a) :: u8) AND 0x3F) = (of_nat a :: u32)"
    using assms by (auto simp: list_all_iff simp del: of_nat_add)
qed

lemma lead_byte_2:
  assumes "a < 32"
  shows "\<not> (of_nat (0xC0 + a) :: u8) < 0x80 \<and> (of_nat (0xC0 + a) :: u8) AND 0xE0 = 0xC0 \<and>
    ucast ((of_nat (0xC0 + a) :: u8) AND 0x1F) = (of_nat a :: u32)"
proof -
  have "list_all (\<lambda>a. \<not> (of_nat (0xC0 + a) :: u8) < 0x80 \<and> (of_nat (0xC0 + a) :: u8) AND 0xE0 = 0xC0 \<and>
    ucast ((of_nat (0xC0 + a) :: u8) AND 0x1F) = (of_nat a :: u32)) [0..<32]"
    by code_simp
  then show ?thesis using assms by (simp add: list_all_iff del: of_nat_add)
qed

lemma lead_byte_3:
  assumes "a < 16"
  shows "\<not> (of_nat (0xE0 + a) :: u8) < 0x80 \<and> (of_nat (0xE0 + a) :: u8) AND 0xE0 \<noteq> 0xC0 \<and>
    (of_nat (0xE0 + a) :: u8) AND 0xF0 = 0xE0 \<and>
    ucast ((of_nat (0xE0 + a) :: u8) AND 0x0F) = (of_nat a :: u32)"
proof -
  have "list_all (\<lambda>a. \<not> (of_nat (0xE0 + a) :: u8) < 0x80 \<and> (of_nat (0xE0 + a) :: u8) AND 0xE0 \<noteq> 0xC0 \<and>
    (of_nat (0xE0 + a) :: u8) AND 0xF0 = 0xE0 \<and>
    ucast ((of_nat (0xE0 + a) :: u8) AND 0x0F) = (of_nat a :: u32)) [0..<16]"
    by code_simp
  then show ?thesis using assms by (simp add: list_all_iff del: of_nat_add)
qed

lemma lead_byte_4:
  assumes "a < 8"
  shows "\<not> (of_nat (0xF0 + a) :: u8) < 0x80 \<and> (of_nat (0xF0 + a) :: u8) AND 0xE0 \<noteq> 0xC0 \<and>
    (of_nat (0xF0 + a) :: u8) AND 0xF0 \<noteq> 0xE0 \<and> (of_nat (0xF0 + a) :: u8) AND 0xF8 = 0xF0 \<and>
    ucast ((of_nat (0xF0 + a) :: u8) AND 0x07) = (of_nat a :: u32)"
proof -
  have "list_all (\<lambda>a. \<not> (of_nat (0xF0 + a) :: u8) < 0x80 \<and> (of_nat (0xF0 + a) :: u8) AND 0xE0 \<noteq> 0xC0 \<and>
    (of_nat (0xF0 + a) :: u8) AND 0xF0 \<noteq> 0xE0 \<and> (of_nat (0xF0 + a) :: u8) AND 0xF8 = 0xF0 \<and>
    ucast ((of_nat (0xF0 + a) :: u8) AND 0x07) = (of_nat a :: u32)) [0..<8]"
    by code_simp
  then show ?thesis using assms by (simp add: list_all_iff del: of_nat_add)
qed

lemma shift_in:
  assumes "b < 64"
  shows "push_bit 6 (of_nat a :: u32) OR of_nat b = of_nat (64 * a + b)"
proof -
  have "push_bit 6 (of_nat a :: u32) OR of_nat b = push_bit 6 (of_nat a) + of_nat b"
  proof (rule disjunctive_add [symmetric])
    fix n :: nat
    have "\<not> bit b n" if "6 \<le> n"
    proof -
      have "b < 2 ^ n" using assms power_increasing[of 6 n "2::nat"] that by simp
      then show ?thesis by (simp add: bit_iff_odd)
    qed
    then show "\<not> bit (push_bit 6 (of_nat a :: u32)) n \<or> \<not> bit (of_nat b :: u32) n"
      by (auto simp: bit_simps not_le)
  qed
  then show ?thesis by (simp add: push_bit_eq_mult)
qed

lemma continuation_step:
  assumes "b < 64"
  shows "continuation (Suc extra) (of_nat a) (of_nat (0x80 + b) # s)
    = continuation extra (of_nat (64 * a + b)) s"
  using continuation_byte[OF assms] shift_in[OF assms, of a]
  by (simp add: peek_def del: of_nat_add of_nat_mult)

lemma continuation_1:
  "b < 64 \<Longrightarrow> continuation (Suc 0) (of_nat a) (of_nat (0x80 + b) # s) = (of_nat (64 * a + b), s)"
  using continuation_step[of b 0 a s] by (simp only: continuation.simps)

lemma continuation_2:
  "b < 64 \<Longrightarrow> c < 64 \<Longrightarrow>
     continuation 2 (of_nat a) (of_nat (0x80 + b) # of_nat (0x80 + c) # s)
       = (of_nat (64 * (64 * a + b) + c), s)"
  unfolding numeral_2_eq_2 by (subst continuation_step, assumption) (rule continuation_1)

lemma continuation_3:
  "b < 64 \<Longrightarrow> c < 64 \<Longrightarrow> d < 64 \<Longrightarrow>
     continuation 3 (of_nat a) (of_nat (0x80 + b) # of_nat (0x80 + c) # of_nat (0x80 + d) # s)
       = (of_nat (64 * (64 * (64 * a + b) + c) + d), s)"
  unfolding numeral_3_eq_3
  by (subst continuation_step, assumption) (rule continuation_2[unfolded numeral_2_eq_2])

lemma next_cp_utf8:
  assumes "cp < 0x200000"
  shows "next_cp (utf8 cp @ rest) = (of_nat cp, rest)"
proof -
  have one: "next_cp [of_nat cp] = (of_nat cp, []) \<and> next_cp (of_nat cp # rest) = (of_nat cp, rest)"
    if "cp < 0x80" for cp
  proof -
    have u: "unat (of_nat cp :: u8) = cp" by (rule unat_of_nat_u8) (use that in simp)
    then have "(of_nat cp :: u8) < 0x80" using that by (simp add: word_less_nat_alt)
    moreover have "(ucast (of_nat cp :: u8) :: u32) = of_nat cp"
      using u by (metis of_nat_unat)
    ultimately show ?thesis by (simp add: next_cp_def peek_def)
  qed
  have digits: "cp div 4096 = cp div 64 div 64" "cp div 262144 = cp div 64 div 64 div 64"
    by (simp_all flip: div_mult2_eq)
  consider "cp < 0x80" | "0x80 \<le> cp" "cp < 0x800" | "0x800 \<le> cp" "cp < 0x10000"
    | "0x10000 \<le> cp" "cp < 0x200000"
    using assms by linarith
  then show ?thesis
  proof cases
    case 1
    then show ?thesis using one by (simp add: utf8_def)
  next
    case 2
    have a: "cp div 64 < 32" using 2 by auto
    have "64 * (cp div 64) + cp mod 64 = cp" by simp
    then show ?thesis
      using 2 lead_byte_2[OF a]
      by (simp add: utf8_def next_cp_def peek_def continuation_1 del: continuation.simps(2) of_nat_add of_nat_mult)
  next
    case 3
    have a: "cp div 4096 < 16" using 3 by auto
    have "64 * (64 * (cp div 4096) + cp div 64 mod 64) + cp mod 64 = cp"
      using div_mult_mod_eq[of "cp div 64" 64] by (simp add: div_mult2_eq[of cp 64 64, simplified] mult.commute)
    then show ?thesis
      using 3 lead_byte_3[OF a]
      by (simp add: utf8_def next_cp_def peek_def continuation_2 del: continuation.simps(2) of_nat_add of_nat_mult)
  next
    case 4
    have a: "cp div 262144 < 8" using 4 by auto
    have "64 * (64 * (64 * (cp div 262144) + cp div 4096 mod 64) + cp div 64 mod 64) + cp mod 64 = cp"
      using digits by (simp only: mult_div_mod_eq)
    then show ?thesis
      using 4 lead_byte_4[OF a]
      by (simp add: utf8_def next_cp_def peek_def continuation_3 del: continuation.simps(2) of_nat_add of_nat_mult)
  qed
qed

text \<open>One call of the decoder takes exactly one encoded codepoint off the string, whatever
  follows it, and returns that codepoint.\<close>

theorem next_cp_decodes:
  assumes "cp < 0x200000"
  shows "next_cp (utf8 cp @ rest) = (of_nat cp, rest)"
  using assms by (rule next_cp_utf8)

section \<open>Lemmas: the tables\<close>

lemma sorted_keys: "ascending (map fst t) \<Longrightarrow> sorted_wrt (<) (map (unat \<circ> (fst :: 'a::len word \<times> 'b \<Rightarrow> _)) t)"
  by (simp add: ascending_sorted sorted_wrt_map word_less_nat_alt)

interpretation extra: sorted_table "unat \<circ> fst" FONT_EXTRA
  by unfold_locales
    (use sorted_keys[OF FONT_EXTRA_ascending] FONT_EXTRA_length in \<open>simp_all add: FONT_EXTRA_COUNT_def\<close>)

interpretation emoji: sorted_table "unat \<circ> fst" EMOJI
  by unfold_locales
    (use sorted_keys[OF EMOJI_ascending] EMOJI_length in \<open>simp_all add: EMOJI_COUNT_def\<close>)

interpretation bigfont: sorted_table "unat \<circ> fst" BIGFONT
  by unfold_locales
    (use sorted_keys[OF BIGFONT_ascending] BIGFONT_length in \<open>simp_all add: BIGFONT_COUNT_def\<close>)

interpretation bold6: sorted_table "unat \<circ> fst" BOLD6
  by unfold_locales
    (use sorted_keys[OF BOLD6_ascending] BOLD6_length in \<open>simp_all add: BOLD6_COUNT_def\<close>)

interpretation bold7: sorted_table "unat \<circ> fst" BOLD7
  by unfold_locales
    (use sorted_keys[OF BOLD7_ascending] BOLD7_length in \<open>simp_all add: BOLD7_COUNT_def\<close>)

interpretation bold8: sorted_table "unat \<circ> fst" BOLD8
  by unfold_locales
    (use sorted_keys[OF BOLD8_ascending] BOLD8_length in \<open>simp_all add: BOLD8_COUNT_def\<close>)

lemmas table_search_iff =
  extra.search_iff[unfolded FONT_EXTRA_length] emoji.search_iff[unfolded EMOJI_length]
  bigfont.search_iff[unfolded BIGFONT_length] bold6.search_iff[unfolded BOLD6_length]
  bold7.search_iff[unfolded BOLD7_length] bold8.search_iff[unfolded BOLD8_length]

lemma map_snd_Some_iff: "map_option snd r = Some g \<longleftrightarrow> (\<exists>k. r = Some (k, g))"
  by auto

lemma emoji_keys: "(k, g) \<in> set EMOJI \<Longrightarrow> 0xFFFF < k"
  by (auto simp: EMOJI_def)

lemma big_glyph_iff: "big_glyph cp = Some g \<longleftrightarrow> (\<exists>k. (k, g) \<in> set BIGFONT \<and> unat k = unat cp)"
  by (auto simp: big_glyph_def map_snd_Some_iff table_search_iff)

definition bold_table :: "bold_face \<Rightarrow> (u16 \<times> bytes) list" where
  "bold_table face = (case face of BOLD_INLINE \<Rightarrow> BOLD6 | BOLD_H3 \<Rightarrow> BOLD7 | BOLD_H2 \<Rightarrow> BOLD8)"

lemma bold_glyph_iff:
  "fst (bold_glyph cp face) = Some g \<longleftrightarrow> (\<exists>k. (k, g) \<in> set (bold_table face) \<and> unat k = unat cp)"
  by (cases face) (auto simp: bold_table_def map_snd_Some_iff table_search_iff)

lemma bold_glyph_metrics: "snd (bold_glyph cp face) = (bold_w face, bold_h face)"
  by (cases face) auto

text \<open>C29: the body face's lookup. ASCII comes from the array, braille is computed, the three
  joiners are blank cells, and any other codepoint has a glyph exactly when one of the two
  sorted tables lists it; then it is that entry's.\<close>

theorem glyph_for_exact:
  "glyph_for cp = Some g \<longleftrightarrow>
     (if 32 \<le> cp \<and> cp \<le> 126 then g = FONT ! (unat cp - 32)
      else if 0x2800 \<le> cp \<and> cp \<le> 0x28FF then g = braille_for cp
      else if cp \<in> {0x200D, 0xFE0E, 0xFE0F} then g = zero_glyph
      else (\<exists>k. (k, g) \<in> set FONT_EXTRA \<and> unat k = unat cp) \<or> (cp, g) \<in> set EMOJI)"
proof -
  have em: "(\<exists>k. (k, g) \<in> set EMOJI \<and> unat k = unat cp) \<longleftrightarrow> (cp, g) \<in> set EMOJI"
    by (simp flip: word_unat_eq_iff)
  have small: "unat k \<noteq> unat cp" if "\<not> cp \<le> 0xFFFF" for k :: u16
    using that unat_u16_le[of k] by (simp add: word_le_nat_alt not_le del: unat_u16_le)
  have e: "(cp, g) \<notin> set EMOJI" if "cp \<le> 0xFFFF"
    using that emoji_keys[of cp g] by auto
  show ?thesis
    using small e em
    by (auto simp: glyph_for_def map_snd_Some_iff table_search_iff FONT_FIRST_def FONT_LAST_def
        word_le_nat_alt)
qed

theorem next_cp_decodes_witness:
  "next_cp (utf8 0x1F642 @ utf8 0x20AC) = (0x1F642, [0xE2, 0x82, 0xAC])"
  using next_cp_decodes[of "0x1F642" "utf8 0x20AC"] by (simp add: utf8_def)

section \<open>Lemmas: braille cells\<close>

text \<open>The rows of a braille cell: four pairs of rows, the dots of column 1 to 3 and 7 at the
  left, of 4 to 6 and 8 at the right.\<close>

definition dot_row :: "bool \<Rightarrow> bool \<Rightarrow> u8" where
  "dot_row left right = (if left then 0xC0 else 0) OR (if right then 0x18 else 0)"

lemma dot_row_simps [simp]:
  "dot_row False False = 0" "dot_row True False = 0xC0" "dot_row False True = 0x18"
  "dot_row True True = 0xD8"
  by (simp_all add: dot_row_def)

lemma braille_rows:
  fixes cp :: u32
  defines "n \<equiv> (ucast (cp - 0x2800) :: u8)"
  shows "braille_for cp =
    (let a = dot_row (n AND 0x01 \<noteq> 0) (n AND 0x08 \<noteq> 0);
         b = dot_row (n AND 0x02 \<noteq> 0) (n AND 0x10 \<noteq> 0);
         c = dot_row (n AND 0x04 \<noteq> 0) (n AND 0x20 \<noteq> 0);
         d = dot_row (n AND 0x40 \<noteq> 0) (n AND 0x80 \<noteq> 0)
     in [0, a, a, 0, b, b, 0, c, c, 0, d, d, 0])"
proof -
  have fold: "fold (\<lambda>d rows.
           let bits = w d
           in if bits = (0 :: u8) then rows
              else let rows1 = rows[[1, 4, 7, 10] ! d := bits]
                   in if [1, 4, 7, 10] ! d + 1 < FONT_H then rows1[[1, 4, 7, 10] ! d + 1 := bits] else rows1)
         [0..<4] (replicate FONT_H 0)
     = [0, w 0, w 0, 0, w 1, w 1, 0, w 2, w 2, 0, w 3, w 3, 0]" for w
    by (cases "w 0 = 0"; cases "w 1 = 0"; cases "w 2 = 0"; cases "w 3 = 0")
      (simp_all add: FONT_H_def upt_rec numeral_eq_Suc Let_def)
  show ?thesis
    using fold[of "\<lambda>d. (if n AND [0x01, 0x02, 0x04, 0x40] ! d \<noteq> 0 then 0xC0 else 0)
      OR (if n AND [0x08, 0x10, 0x20, 0x80] ! d \<noteq> 0 then 0x18 else 0)"]
  by (simp add: braille_for_def Let_def dot_row_def n_def del: One_nat_def split del: if_split)
qed

lemma length_glyph: "glyph_for cp = Some g \<Longrightarrow> length g = FONT_H"
proof -
  assume "glyph_for cp = Some g"
  then consider "32 \<le> cp" "cp \<le> 126" "g = FONT ! (unat cp - 32)" | "g = braille_for cp"
    | "g = zero_glyph" | k where "(k, g) \<in> set FONT_EXTRA" | "(cp, g) \<in> set EMOJI"
    by (auto simp: glyph_for_exact split: if_splits)
  then show ?thesis
  proof cases
    case 1
    then have "FONT ! (unat cp - 32) \<in> set FONT"
      by (intro nth_mem) (auto simp: FONT_length word_le_nat_alt)
    then show ?thesis using 1 FONT_rows by (auto simp: list_all_iff FONT_H_def)
  next
    case 2
    then show ?thesis by (simp add: braille_rows Let_def FONT_H_def)
  next
    case 3
    then show ?thesis by (simp add: zero_glyph_def)
  next
    case (4 k)
    then show ?thesis using FONT_EXTRA_rows by (force simp: list_all_iff FONT_H_def)
  next
    case 5
    then show ?thesis using EMOJI_rows by (force simp: list_all_iff FONT_H_def)
  qed
qed

section \<open>Lemmas: what the text routines paint\<close>

text \<open>The codepoints of a string, as the drawing loops walk it.\<close>

function codepoints :: "bytes \<Rightarrow> u32 list" where
  "codepoints s = (if peek s = 0 then [] else fst (next_cp s) # codepoints (snd (next_cp s)))"
  by pat_completeness auto
termination
  by (relation "measure length") (auto simp: peek_def intro!: next_cp_shorter)

declare codepoints.simps [simp del]

text \<open>The points of one glyph at a cell, and of a run of cells.\<close>

definition glyph_ink :: "'a::len word \<Rightarrow> nat \<Rightarrow> nat \<Rightarrow> 'a word list \<Rightarrow> u16 \<Rightarrow> u16 \<Rightarrow> (u16 \<times> u16) set" where
  "glyph_ink high cell ink g x y =
     {(x + of_nat c, y + of_nat r) | r c. r < cell \<and> c < ink \<and> g ! r AND drop_bit c high \<noteq> 0}"

primrec run_ink :: "(u32 \<Rightarrow> u16 \<Rightarrow> (u16 \<times> u16) set) \<Rightarrow> u16 \<Rightarrow> u16 \<Rightarrow> u32 list \<Rightarrow> (u16 \<times> u16) set" where
  "run_ink ink adv x [] = {}"
| "run_ink ink adv x (cp # cps) = ink cp x \<union> run_ink ink adv (x + adv) cps"

lemma paints_blit: "paints (glyph_ink high cell ink g x y) b (blit high cell ink g x y b)"
proof -
  let ?row = "\<lambda>r. {p. g ! r \<noteq> 0 \<and> p \<in> (\<Union>c \<in> set [0..<ink].
      {p. g ! r AND drop_bit c high \<noteq> 0 \<and> p \<in> {(x + of_nat c, y + of_nat r)}})}"
  have "paints (\<Union>r \<in> set [0..<cell]. ?row r) b (blit high cell ink g x y b)"
    unfolding blit_def Let_def
    by (intro paints_fold paints_if_not paints_if paints_set_pixel)
  then show ?thesis
  proof (rule paints_cong)
    have nz: "g ! r AND m \<noteq> 0 \<Longrightarrow> g ! r \<noteq> 0" for r m by auto
    have up: "set [0..<n] = {i. i < n}" for n by auto
    show "(\<Union>r \<in> set [0..<cell]. ?row r) = glyph_ink high cell ink g x y"
      unfolding glyph_ink_def up using nz by blast
  qed
qed

lemma paints_blit_scaled:
  "paints {(x + of_nat (c * k + i), y + of_nat (r * k + j)) | r c i j.
       r < FONT_H \<and> c < FONT_INK_W \<and> i < k \<and> j < k \<and> g ! r AND drop_bit c 0x80 \<noteq> 0} b
     (blit_scaled k g x y b)"
proof -
  let ?pt = "\<lambda>r c j i. (x + of_nat (c * k + i), y + of_nat (r * k + j))"
  let ?row = "\<lambda>r. {p. g ! r \<noteq> 0 \<and> p \<in> (\<Union>c \<in> set [0..<FONT_INK_W].
      {p. g ! r AND drop_bit c 0x80 \<noteq> 0 \<and> p \<in> (\<Union>j \<in> set [0..<k]. \<Union>i \<in> set [0..<k]. {?pt r c j i})})}"
  have "paints (\<Union>r \<in> set [0..<FONT_H]. ?row r) b (blit_scaled k g x y b)"
    unfolding blit_scaled_def Let_def
    by (intro paints_fold paints_if_not paints_set_pixel)
  then show ?thesis
  proof (rule paints_cong)
    have nz: "g ! r AND m \<noteq> 0 \<Longrightarrow> g ! r \<noteq> 0" for r m by auto
    have up: "set [0..<n] = {i. i < n}" for n by auto
    show "(\<Union>r \<in> set [0..<FONT_H]. ?row r) = {?pt r c j i | r c i j.
       r < FONT_H \<and> c < FONT_INK_W \<and> i < k \<and> j < k \<and> g ! r AND drop_bit c 0x80 \<noteq> 0}"
      unfolding up using nz by blast
  qed
qed

definition text_ink :: "u16 \<Rightarrow> u32 \<Rightarrow> u16 \<Rightarrow> (u16 \<times> u16) set" where
  "text_ink y cp x = glyph_ink 0x80 FONT_H FONT_INK_W
     (case glyph_for cp of None \<Rightarrow> MISSING_BOX | Some g \<Rightarrow> g) x y"

definition big_ink :: "u16 \<Rightarrow> u32 \<Rightarrow> u16 \<Rightarrow> (u16 \<times> u16) set" where
  "big_ink y cp x = (case big_glyph cp of None \<Rightarrow> {} | Some g \<Rightarrow> glyph_ink 0x8000 BIGFONT_H BIGFONT_INK_W g x y)"

definition bold_ink :: "bold_face \<Rightarrow> u16 \<Rightarrow> u32 \<Rightarrow> u16 \<Rightarrow> (u16 \<times> u16) set" where
  "bold_ink face y cp x =
     (case fst (bold_glyph cp face) of None \<Rightarrow> {} | Some g \<Rightarrow> glyph_ink 0x80 (bold_h face) 8 g x y)"

lemma draw_text_run:
  "fst (draw_text x y s b l) = x + of_nat (FONT_W * length (codepoints s))
   \<and> get_pixel (snd (draw_text x y s b l)) px py
     = (if on_panel px py \<and> (px, py) \<in> run_ink (text_ink y) (of_nat FONT_W) x (codepoints s)
        then b else get_pixel l px py)"
proof (induction x y s b l rule: draw_text.induct)
  case (1 x y s b l)
  show ?case
  proof (cases "peek s = 0")
    case True
    then show ?thesis by (simp add: draw_text.simps[of x] codepoints.simps[of s])
  next
    case False
    let ?g = "case glyph_for (fst (next_cp s)) of None \<Rightarrow> MISSING_BOX | Some g \<Rightarrow> g"
    have g: "get_pixel (blit 0x80 FONT_H FONT_INK_W ?g x y b l) px py
        = (if on_panel px py \<and> (px, py) \<in> text_ink y (fst (next_cp s)) x then b else get_pixel l px py)"
      unfolding text_ink_def by (rule paintsD[OF paints_blit])
    have cps: "codepoints s = fst (next_cp s) # codepoints (snd (next_cp s))"
      using False by (simp add: codepoints.simps[of s])
    have dt: "draw_text x y s b l = draw_text (x + of_nat FONT_W) y (snd (next_cp s)) b
        (blit 0x80 FONT_H FONT_INK_W ?g x y b l)"
      using False by (simp add: draw_text.simps[of x] Let_def)
    show ?thesis
      using 1[OF False refl refl] unfolding dt cps by (auto simp: g algebra_simps)
  qed
qed

lemma draw_text_big_run:
  "fst (draw_text_big x y s b l) = x + of_nat (BIGFONT_W * length (codepoints s))
   \<and> get_pixel (snd (draw_text_big x y s b l)) px py
     = (if on_panel px py \<and> (px, py) \<in> run_ink (big_ink y) (of_nat BIGFONT_W) x (codepoints s)
        then b else get_pixel l px py)"
proof (induction x y s b l rule: draw_text_big.induct)
  case (1 x y s b l)
  show ?case
  proof (cases "peek s = 0")
    case True
    then show ?thesis by (simp add: draw_text_big.simps[of x] codepoints.simps[of s])
  next
    case False
    let ?l = "case big_glyph (fst (next_cp s)) of None \<Rightarrow> l
        | Some g \<Rightarrow> blit 0x8000 BIGFONT_H BIGFONT_INK_W g x y b l"
    have g: "get_pixel ?l px py
        = (if on_panel px py \<and> (px, py) \<in> big_ink y (fst (next_cp s)) x then b else get_pixel l px py)"
      unfolding big_ink_def by (rule paints_optionD[OF paints_blit])
    have cps: "codepoints s = fst (next_cp s) # codepoints (snd (next_cp s))"
      using False by (simp add: codepoints.simps[of s])
    have dt: "draw_text_big x y s b l
        = draw_text_big (x + of_nat BIGFONT_W) y (snd (next_cp s)) b ?l"
      using False by (simp add: draw_text_big.simps[of x])
    show ?thesis
      using 1[OF False] unfolding dt cps by (auto simp: g algebra_simps)
  qed
qed

lemma draw_text_bold_run:
  "fst (draw_text_bold x y s face b l) = x + of_nat (bold_w face * length (codepoints s))
   \<and> get_pixel (snd (draw_text_bold x y s face b l)) px py
     = (if on_panel px py \<and> (px, py) \<in> run_ink (bold_ink face y) (of_nat (bold_w face)) x (codepoints s)
        then b else get_pixel l px py)"
proof (induction x y s face b l rule: draw_text_bold.induct)
  case (1 x y s face b l)
  show ?case
  proof (cases "peek s = 0")
    case True
    then show ?thesis by (simp add: draw_text_bold.simps[of x] codepoints.simps[of s])
  next
    case False
    let ?l = "case fst (bold_glyph (fst (next_cp s)) face) of None \<Rightarrow> l
        | Some g \<Rightarrow> blit 0x80 (bold_h face) 8 g x y b l"
    obtain r where r: "bold_glyph (fst (next_cp s)) face = (r, bold_w face, bold_h face)"
      using bold_glyph_metrics[of "fst (next_cp s)" face] by (metis prod.collapse)
    have g: "get_pixel ?l px py
        = (if on_panel px py \<and> (px, py) \<in> bold_ink face y (fst (next_cp s)) x then b else get_pixel l px py)"
      unfolding bold_ink_def by (rule paints_optionD[OF paints_blit])
    have cps: "codepoints s = fst (next_cp s) # codepoints (snd (next_cp s))"
      using False by (simp add: codepoints.simps[of s])
    have dt: "draw_text_bold x y s face b l
        = draw_text_bold (x + of_nat (bold_w face)) y (snd (next_cp s)) face b ?l"
      using False r by (subst draw_text_bold.simps) simp
    have IH: "fst (draw_text_bold (x + of_nat (bold_w face)) y (snd (next_cp s)) face b ?l)
          = x + of_nat (bold_w face) + of_nat (bold_w face * length (codepoints (snd (next_cp s))))
       \<and> get_pixel (snd (draw_text_bold (x + of_nat (bold_w face)) y (snd (next_cp s)) face b ?l)) px py
          = (if on_panel px py \<and> (px, py) \<in> run_ink (bold_ink face y) (of_nat (bold_w face))
                (x + of_nat (bold_w face)) (codepoints (snd (next_cp s)))
             then b else get_pixel ?l px py)"
      using 1[OF False] r by simp
    show ?thesis
      using IH unfolding dt cps by (auto simp: g algebra_simps)
  qed
qed

section \<open>Lemmas: the text routines keep the dirty-line bookkeeping\<close>

lemma tracks_blit [inv_rules]: "tracks l (blit high cell ink g x y b l)"
  unfolding blit_def Let_def by (rule tracks_fold) (auto intro!: tracks_fold tracks_set_pixel)

lemma tracks_blit_scaled [inv_rules]: "tracks l (blit_scaled k g x y b l)"
  unfolding blit_scaled_def Let_def by (rule tracks_fold) (auto intro!: tracks_fold tracks_set_pixel)

lemma tracks_draw_text [inv_rules]: "tracks l (snd (draw_text x y s b l))"
proof (induction x y s b l rule: draw_text.induct)
  case (1 x y s b l)
  show ?case
    by (subst draw_text.simps) (auto simp: Let_def intro: tracks_trans[OF tracks_blit 1[OF _ refl refl]])
qed

lemma tracks_scaled_loop: "tracks l (snd (scaled_loop x y s b k l))"
proof (induction x y s b k l rule: scaled_loop.induct)
  case (1 x y s b k l)
  show ?case
    by (subst scaled_loop.simps)
      (use 1 in \<open>auto split: option.splits intro: tracks_trans[OF tracks_blit_scaled]\<close>)
qed

lemma tracks_draw_text_scaled [inv_rules]: "tracks l (snd (draw_text_scaled x y s b k l))"
  by (simp add: draw_text_scaled_def tracks_draw_text tracks_scaled_loop)

lemma tracks_draw_text_big [inv_rules]: "tracks l (snd (draw_text_big x y s b l))"
proof (induction x y s b l rule: draw_text_big.induct)
  case (1 x y s b l)
  show ?case
    by (subst draw_text_big.simps)
      (use 1 in \<open>auto split: option.splits intro: tracks_trans[OF tracks_blit]\<close>)
qed

lemma tracks_draw_text_bold [inv_rules]: "tracks l (snd (draw_text_bold x y s face b l))"
proof (induction x y s face b l rule: draw_text_bold.induct)
  case (1 x y s face b l)
  show ?case
    by (subst draw_text_bold.simps)
      (use 1 in \<open>fastforce split: option.splits prod.splits intro: tracks_trans[OF tracks_blit]\<close>)
qed

section \<open>Properties\<close>

text \<open>C26: body text, for any string. The cursor moves by one advance per decoded codepoint, with
  a glyph or without, and the pixels that change are exactly the ink of the cells: the glyph,
  or the box where no table carries one.\<close>

theorem draw_text_paints_the_run:
  "let (x', l') = draw_text x y s b l in
     x' = x + of_nat (FONT_W * length (codepoints s))
     \<and> (\<forall>px py. get_pixel l' px py
       = (if on_panel px py \<and> (px, py) \<in> run_ink (text_ink y) (of_nat FONT_W) x (codepoints s)
          then b else get_pixel l px py))"
  using draw_text_run[of x y s b l] by (simp add: case_prod_beta Let_def)

text \<open>The double-size face has no box and no fallback. A string of codepoints it does not carry
  is drawn as blank cells and the cursor moves on; the routine never returns 0 for it.\<close>

theorem draw_text_big_skips_missing:
  assumes "\<forall>cp \<in> set (codepoints s). \<not> big_has cp"
  shows "fst (draw_text_big x y s b l) = x + of_nat (BIGFONT_W * length (codepoints s))
    \<and> get_pixel (snd (draw_text_big x y s b l)) px py = get_pixel l px py"
proof -
  have "run_ink (big_ink y) adv x cps = {}" if "\<forall>cp \<in> set cps. \<not> big_has cp" for adv x cps
    using that by (induction cps arbitrary: x) (auto simp: big_ink_def big_has_def)
  then show ?thesis using draw_text_big_run[of x y s b l px py] assms by simp
qed

theorem draw_text_big_skips_missing_witness:
  "fst (draw_text_big 10 0 (utf8 0x1F642) True (new_lcd (\<lambda>_. 0))) = 22
   \<and> get_pixel (snd (draw_text_big 10 0 (utf8 0x1F642) True (new_lcd (\<lambda>_. 0)))) 3 4
     = get_pixel (new_lcd (\<lambda>_. 0)) 3 4"
proof -
  have cps: "codepoints (utf8 0x1F642) = [0x1F642]"
    using next_cp_decodes[of "0x1F642" "[]"]
    by (subst codepoints.simps) (simp add: codepoints.simps[of "[]"] peek_def utf8_def)
  have "unat k \<noteq> unat (0x1F642 :: u32)" for k :: u16
    using unat_u16_le[of k] by (simp del: unat_u16_le)
  then have "\<not> big_has 0x1F642"
    by (auto simp: big_has_def big_glyph_iff)
  then show ?thesis
    using draw_text_big_skips_missing[of "utf8 0x1F642" 10 0 True "new_lcd (\<lambda>_. 0)" 3 4]
    by (simp add: cps BIGFONT_W_def)
qed

end
