(* ===== verification/MicronRender.thy ===== *)
theory MicronRender
  imports Glyphs "HOL-Library.Monad_Syntax"
begin

text \<open>
  The page renderer, \<open>lib/MicronRender/src/MicronRender.h\<close> and \<open>MicronRender.cpp\<close>, without
  its tables (\<open>MicronTable\<close>): the pen, the wrap rules, and the callbacks the Micron parser
  makes. The parser (\<open>micron::Parser\<close>) is outside the repository; its argument types are
  records with the fields the renderer reads.

  A \<open>(const char* t, size_t n)\<close> pair is the readable memory \<open>t\<close> from the pointer on, and the
  length \<open>n\<close> of the run. An operation returns \<open>None\<close> where the C++ has no defined result: it
  reads past that memory, or a fill it calls does not return.
\<close>

section \<open>What the parser hands over\<close>

datatype align = AlignLeft | AlignCenter | AlignRight

record color =
  is_default :: bool
  is_valid :: bool
  rgb :: u32

record style =
  st_depth :: u8
  st_literal :: bool
  st_align :: align
  st_bg :: color
  st_bold :: bool
  st_underline :: bool
  st_heading :: bool

datatype field_kind = FieldText | FieldCheckbox | FieldRadio

record field =
  fd_kind :: field_kind
  fd_width :: u8
  fd_masked :: bool
  fd_prechecked :: bool
  fd_value :: bytes
  fd_value_len :: nat
  fd_label :: bytes
  fd_label_len :: nat

section \<open>Metrics and state\<close>

definition MARGIN_X :: nat where "MARGIN_X = 2"
definition LINE_H :: u16 where "LINE_H = 13"
definition INDENT_PX :: nat where "INDENT_PX = 12"
definition MAX_DEPTH :: u8 where "MAX_DEPTH = 4"
definition PARA_GAP :: u16 where "PARA_GAP = 4"
definition HEAD_GAP_BIG :: u16 where "HEAD_GAP_BIG = 9"
definition FONT_ADVANCE :: nat where "FONT_ADVANCE = 6"
definition content_w :: nat where "content_w = LCD_WIDTH - 2 * MARGIN_X"
definition right_margin :: nat where "right_margin = LCD_WIDTH - MARGIN_X"
definition MAX_LINKS :: nat where "MAX_LINKS = 48"
definition MAX_MISSING :: nat where "MAX_MISSING = 24"

lemmas page_metrics = MARGIN_X_def LINE_H_def INDENT_PX_def MAX_DEPTH_def PARA_GAP_def
  HEAD_GAP_BIG_def FONT_ADVANCE_def content_w_def right_margin_def

record link_box =
  lb_x :: u16
  lb_y :: u16
  lb_w :: u16
  lb_h :: u16
  lb_target :: bytes
  lb_target_len :: u16

text \<open>The fixed arrays of links and missing codepoints are their used prefixes.\<close>

record page_renderer =
  pr_lcd :: sharp_lcd
  pr_leading :: u8
  pr_stepped :: bool
  pr_head2x :: bool
  pr_dither :: bool
  pr_big :: bool
  pr_head :: u8
  pr_bold :: bool
  pr_underline :: bool
  pr_row_h :: u16
  pr_scroll :: u16
  pr_y :: u16
  pr_x :: u16
  pr_row_open :: bool
  pr_depth :: u8
  pr_invert :: bool
  pr_head_rule :: bool
  pr_literal :: bool
  pr_has_bg :: bool
  pr_bg_luma :: u8
  pr_blank_pending :: bool
  pr_links :: "link_box list"
  pr_links_overflowed :: bool
  pr_missing :: "(u32 \<times> u16) list"
  pr_missing_total :: u32
  pr_missing_over :: bool

definition new_renderer :: "sharp_lcd \<Rightarrow> u8 \<Rightarrow> bool \<Rightarrow> bool \<Rightarrow> bool \<Rightarrow> page_renderer" where
  "new_renderer l leading stepped head2x dither =
     \<lparr>pr_lcd = l, pr_leading = leading, pr_stepped = stepped, pr_head2x = head2x,
      pr_dither = dither, pr_big = False, pr_head = 0, pr_bold = False, pr_underline = False,
      pr_row_h = 0, pr_scroll = 0, pr_y = 0, pr_x = 0, pr_row_open = False, pr_depth = 0,
      pr_invert = False, pr_head_rule = False, pr_literal = False, pr_has_bg = False,
      pr_bg_luma = 255, pr_blank_pending = True, pr_links = [], pr_links_overflowed = False,
      pr_missing = [], pr_missing_total = 0, pr_missing_over = False\<rparr>"

section \<open>Runs\<close>

definition seq_len :: "u8 \<Rightarrow> nat" where
  "seq_len c =
     (if c < 0x80 then 1
      else if c AND 0xE0 = 0xC0 then 2
      else if c AND 0xF0 = 0xE0 then 3
      else if c AND 0xF8 = 0xF0 then 4
      else 1)"

lemma seq_len_range: "0 < seq_len c" "seq_len c \<le> 4"
  by (simp_all add: seq_len_def)

text \<open>The codepoints from byte \<open>i\<close> on of a run of \<open>n\<close> bytes.\<close>

function cells_from :: "bytes \<Rightarrow> nat \<Rightarrow> nat \<Rightarrow> nat" where
  "cells_from t n i = (if i < n then Suc (cells_from t n (i + seq_len (t ! i))) else 0)"
  by pat_completeness auto
termination
  by (relation "measure (\<lambda>(t, n, i). n - i)") (use seq_len_range in \<open>auto simp: diff_less_mono2\<close>)

declare cells_from.simps [simp del]

definition cells :: "bytes \<Rightarrow> nat \<Rightarrow> nat" where
  "cells t n = cells_from t n 0"

definition is_space :: "u8 \<Rightarrow> bool" where
  "is_space c \<longleftrightarrow> c = 0x20 \<or> c = 0x09"

text \<open>The copy of one sequence into the five-byte buffer \<open>g\<close>.\<close>

definition copy_seq :: "bytes \<Rightarrow> nat \<Rightarrow> nat \<Rightarrow> bytes option" where
  "copy_seq t k len = (if k + len \<le> length t then Some (take len (drop k t)) else None)"

section \<open>Colour\<close>

definition rgb_luma :: "u32 \<Rightarrow> u32" where
  "rgb_luma v = (299 * (drop_bit 16 v AND 0xFF) + 587 * (drop_bit 8 v AND 0xFF) + 114 * (v AND 0xFF)) div 1000"

definition luma_of :: "color \<Rightarrow> u8" where
  "luma_of c = (if is_default c \<or> \<not> is_valid c then 255 else ucast (rgb_luma (rgb c)))"

definition background_is_dark :: "color \<Rightarrow> bool" where
  "background_is_dark c = (if is_default c \<or> \<not> is_valid c then False else rgb_luma (rgb c) < 128)"

section \<open>The pen\<close>

definition line_h :: "page_renderer \<Rightarrow> u16" where
  "line_h r = LINE_H + ucast (pr_leading r)"

definition row_h :: "page_renderer \<Rightarrow> u16" where
  "row_h r = (if pr_row_h r \<noteq> 0 then pr_row_h r else line_h r)"

definition left_edge :: "page_renderer \<Rightarrow> nat" where
  "left_edge r =
     (let d = (if MAX_DEPTH < pr_depth r then MAX_DEPTH else pr_depth r)
      in MARGIN_X + unat d * INDENT_PX)"

definition row_visible :: "page_renderer \<Rightarrow> bool" where
  "row_visible r \<longleftrightarrow> pr_scroll r \<le> pr_y r \<and> unat (pr_y r) < unat (pr_scroll r) + LCD_HEIGHT"

definition screen_y :: "page_renderer \<Rightarrow> u16" where
  "screen_y r = pr_y r - pr_scroll r"

definition newline :: "page_renderer \<Rightarrow> page_renderer" where
  "newline r = r\<lparr>pr_y := pr_y r + row_h r, pr_x := of_nat (left_edge r), pr_row_open := False\<rparr>"

definition wrap_if_needed :: "nat \<Rightarrow> page_renderer \<Rightarrow> page_renderer" where
  "wrap_if_needed next_w r =
     (if left_edge r < unat (pr_x r) \<and> right_margin < unat (pr_x r) + next_w then newline r else r)"

definition begin_page :: "u16 \<Rightarrow> page_renderer \<Rightarrow> page_renderer" where
  "begin_page scroll_y r =
     r\<lparr>pr_scroll := scroll_y, pr_y := 0, pr_x := 0, pr_row_open := False, pr_depth := 0,
       pr_invert := False, pr_links := [], pr_links_overflowed := False, pr_missing := [],
       pr_missing_total := 0, pr_missing_over := False, pr_blank_pending := True\<rparr>"

definition blankLine :: "page_renderer \<Rightarrow> page_renderer" where
  "blankLine r =
     (if pr_blank_pending r then r
      else r\<lparr>pr_y := pr_y r + line_h r, pr_blank_pending := True\<rparr>)"

definition note_missing :: "u32 \<Rightarrow> page_renderer \<Rightarrow> page_renderer" where
  "note_missing cp r =
     (let r1 = r\<lparr>pr_missing_total := pr_missing_total r + 1\<rparr> in
      case find_index (\<lambda>m. fst m = cp) (pr_missing r) of
        Some i \<Rightarrow> r1\<lparr>pr_missing := (pr_missing r)[i := (cp, snd (pr_missing r ! i) + 1)]\<rparr>
      | None \<Rightarrow>
          if length (pr_missing r) < MAX_MISSING then r1\<lparr>pr_missing := pr_missing r @ [(cp, 1)]\<rparr>
          else r1\<lparr>pr_missing_over := True\<rparr>)"

section \<open>Drawing on the panel\<close>

definition on_lcd :: "(sharp_lcd \<Rightarrow> sharp_lcd option) \<Rightarrow> page_renderer \<Rightarrow> page_renderer option" where
  "on_lcd f r = map_option (\<lambda>l. r\<lparr>pr_lcd := l\<rparr>) (f (pr_lcd r))"

definition text_at :: "u16 \<Rightarrow> u16 \<Rightarrow> bytes \<Rightarrow> bool \<Rightarrow> page_renderer \<Rightarrow> page_renderer" where
  "text_at x y g black r = r\<lparr>pr_lcd := snd (draw_text x y g black (pr_lcd r))\<rparr>"

definition paint_bg :: "u16 \<Rightarrow> u16 \<Rightarrow> u8 \<Rightarrow> page_renderer \<Rightarrow> page_renderer option" where
  "paint_bg x w luma r =
     (if \<not> row_visible r then Some r
      else if pr_dither r then Some (r\<lparr>pr_lcd := fill_dither x (screen_y r) w (row_h r) luma (pr_lcd r)\<rparr>)
      else if luma < 128 then on_lcd (fill_rect x (screen_y r) w (row_h r) True) r
      else Some r)"

definition head_bold_face :: "u8 \<Rightarrow> bold_face" where
  "head_bold_face head = (if head = 2 then BOLD_H2 else BOLD_H3)"

definition advance :: "page_renderer \<Rightarrow> nat" where
  "advance r =
     (if pr_head r = 1 then BIGFONT_W
      else if pr_head r = 2 \<or> pr_head r = 3 then bold_w (head_bold_face (pr_head r))
      else if pr_bold r then bold_w BOLD_INLINE
      else FONT_ADVANCE)"

definition face_has :: "page_renderer \<Rightarrow> u32 \<Rightarrow> bool" where
  "face_has r cp =
     (if pr_head r = 1 then big_has cp
      else if pr_head r = 2 \<or> pr_head r = 3 then bold_has cp (head_bold_face (pr_head r))
      else has_glyph cp)"

text \<open>The return value, the advance, is unused by every caller.\<close>

definition draw_glyph :: "u16 \<Rightarrow> u16 \<Rightarrow> bytes \<Rightarrow> u32 \<Rightarrow> bool \<Rightarrow> page_renderer \<Rightarrow> page_renderer" where
  "draw_glyph x y g cp black r =
     r\<lparr>pr_lcd :=
        (if pr_head r = 1 then snd (draw_text_big x y g black (pr_lcd r))
         else if pr_head r = 2 \<or> pr_head r = 3
           then snd (draw_text_bold x y g (head_bold_face (pr_head r)) black (pr_lcd r))
         else if pr_bold r \<and> bold_has cp BOLD_INLINE
           then snd (draw_text_bold x y g BOLD_INLINE black (pr_lcd r))
         else snd (draw_text x y g black (pr_lcd r)))\<rparr>"

section \<open>Emitting a run\<close>

text \<open>\<open>emit_literal\<close>: draw as it is, clip at the margin with a mark in the last column.\<close>

definition last_cell :: u16 where
  "last_cell = of_nat (right_margin - FONT_ADVANCE)"

definition clip_mark :: "bool \<Rightarrow> page_renderer \<Rightarrow> page_renderer option" where
  "clip_mark invert r =
     (if row_visible r
      then do {
        r1 \<leftarrow> on_lcd (fill_rect last_cell (screen_y r) (of_nat FONT_ADVANCE) (row_h r) invert) r;
        Some (text_at last_cell (screen_y r) [0xC2, 0xBB] (\<not> invert) r1)
      }
      else Some r)"

definition literal_ink :: "bytes \<Rightarrow> bool \<Rightarrow> page_renderer \<Rightarrow> page_renderer option" where
  "literal_ink g invert r =
     (if row_visible r
      then do {
        r1 \<leftarrow> (if invert
               then on_lcd (fill_rect (pr_x r) (screen_y r) (of_nat FONT_ADVANCE) (row_h r) True) r
               else Some r);
        Some (text_at (pr_x r1) (screen_y r1) g (\<not> invert) r1)
      }
      else Some r)"

definition literal_cell :: "bytes \<Rightarrow> bool \<Rightarrow> page_renderer \<Rightarrow> page_renderer option" where
  "literal_cell g invert r =
     (let cp = fst (next_cp g) in
      do {
        r1 \<leftarrow> literal_ink g invert (if has_glyph cp then r else note_missing cp r);
        Some (r1\<lparr>pr_x := pr_x r1 + of_nat FONT_ADVANCE, pr_row_open := True\<rparr>)
      })"

function literal_loop :: "bytes \<Rightarrow> nat \<Rightarrow> bool \<Rightarrow> nat \<Rightarrow> page_renderer \<Rightarrow> page_renderer option" where
  "literal_loop t n invert k r =
     (if k < n
      then
        (if right_margin < unat (pr_x r) + FONT_ADVANCE
         then map_option (\<lambda>r1. r1\<lparr>pr_row_open := True\<rparr>) (clip_mark invert r)
         else
           (case copy_seq t k (seq_len (t ! k)) of
              None \<Rightarrow> None
            | Some g \<Rightarrow>
                (case literal_cell g invert r of
                   None \<Rightarrow> None
                 | Some r1 \<Rightarrow> literal_loop t n invert (k + seq_len (t ! k)) r1)))
      else Some r)"
  by pat_completeness auto
termination
  by (relation "measure (\<lambda>(t, n, invert, k, r). n - k)") (use seq_len_range in \<open>auto simp: diff_less_mono2\<close>)

declare literal_loop.simps [simp del]

text \<open>A row nothing has been drawn on starts at the left edge.\<close>

definition fresh_row :: "page_renderer \<Rightarrow> page_renderer" where
  "fresh_row r = (if \<not> pr_row_open r then r\<lparr>pr_x := of_nat (left_edge r)\<rparr> else r)"

definition emit_literal :: "bytes \<Rightarrow> nat \<Rightarrow> bool \<Rightarrow> page_renderer \<Rightarrow> page_renderer option" where
  "emit_literal t n invert r =
     literal_loop t n invert 0 (fresh_row r)"

text \<open>The scan of one word and the spaces in front of it.\<close>

function skip_spaces :: "bytes \<Rightarrow> nat \<Rightarrow> nat \<Rightarrow> nat" where
  "skip_spaces t n i = (if i < n \<and> is_space (t ! i) then skip_spaces t n (Suc i) else i)"
  by pat_completeness auto
termination
  by (relation "measure (\<lambda>(t, n, i). n - i)") auto

function word_end :: "bytes \<Rightarrow> nat \<Rightarrow> nat \<Rightarrow> nat" where
  "word_end t n i = (if i < n \<and> \<not> is_space (t ! i) then word_end t n (i + seq_len (t ! i)) else i)"
  by pat_completeness auto
termination
  by (relation "measure (\<lambda>(t, n, i). n - i)") (use seq_len_range in \<open>auto simp: diff_less_mono2\<close>)

declare skip_spaces.simps [simp del] word_end.simps [simp del]

text \<open>A token longer than a line: broken at the margin, glyph by glyph.\<close>

definition hard_cell :: "bytes \<Rightarrow> bool \<Rightarrow> page_renderer \<Rightarrow> page_renderer" where
  "hard_cell g invert r =
     (let cp = fst (next_cp g);
          r1 = (if face_has r cp then r else note_missing cp r);
          r2 = (if row_visible r1 then draw_glyph (pr_x r1) (screen_y r1) g cp (\<not> invert) r1 else r1)
      in r2\<lparr>pr_x := pr_x r2 + of_nat (advance r2), pr_row_open := True\<rparr>)"

function hard_loop :: "bytes \<Rightarrow> nat \<Rightarrow> bool \<Rightarrow> nat \<Rightarrow> page_renderer \<Rightarrow> page_renderer option" where
  "hard_loop t w invert k r =
     (if k < w
      then (case copy_seq t k (seq_len (t ! k)) of
              None \<Rightarrow> None
            | Some g \<Rightarrow>
                hard_loop t w invert (k + seq_len (t ! k)) (hard_cell g invert (wrap_if_needed (advance r) r)))
      else Some r)"
  by pat_completeness auto
termination
  by (relation "measure (\<lambda>(t, w, invert, k, r). w - k)") (use seq_len_range in \<open>auto simp: diff_less_mono2\<close>)

declare hard_loop.simps [simp del]

text \<open>The spaces in front of a word that stays on the row.\<close>

definition lead_spaces :: "u16 \<Rightarrow> bool \<Rightarrow> page_renderer \<Rightarrow> page_renderer option" where
  "lead_spaces lead_w invert r =
     do {
       r1 \<leftarrow> (if pr_has_bg r then paint_bg (pr_x r) lead_w (pr_bg_luma r) r else Some r);
       r2 \<leftarrow> (if pr_underline r1 \<and> row_visible r1
              then on_lcd (draw_hline (pr_x r1) (screen_y r1 + row_h r1 - 2) lead_w (\<not> invert)) r1
              else Some r1);
       Some (r2\<lparr>pr_x := pr_x r2 + lead_w, pr_row_open := True\<rparr>)
     }"

text \<open>One glyph of a word: background under the cell, knockout under the glyph, underline.\<close>

definition cell_background :: "bool \<Rightarrow> bool \<Rightarrow> page_renderer \<Rightarrow> page_renderer option" where
  "cell_background blank invert r =
     (if pr_has_bg r
      then (if blank then paint_bg (pr_x r) (of_nat (advance r)) (pr_bg_luma r) r
            else on_lcd (fill_rect (pr_x r) (screen_y r) (of_nat (advance r)) (row_h r) invert) r)
      else if invert
      then on_lcd (fill_rect (pr_x r) (screen_y r) (of_nat (advance r)) (row_h r) True) r
      else Some r)"

definition word_ink :: "bytes \<Rightarrow> bool \<Rightarrow> page_renderer \<Rightarrow> page_renderer option" where
  "word_ink g invert r =
     (if row_visible r
      then (let blank = (length g = 1 \<and> is_space (hd g)) in
            do {
              r1 \<leftarrow> cell_background blank invert r;
              let r2 = (if blank then r1
                        else draw_glyph (pr_x r1) (screen_y r1) g (fst (next_cp g)) (\<not> invert) r1);
              (if pr_underline r2
               then on_lcd (draw_hline (pr_x r2) (screen_y r2 + row_h r2 - 2) (of_nat (advance r2)) (\<not> invert)) r2
               else Some r2)
            })
      else Some r)"

definition word_cell :: "bytes \<Rightarrow> bool \<Rightarrow> page_renderer \<Rightarrow> page_renderer option" where
  "word_cell g invert r =
     (let cp = fst (next_cp g) in
      do {
        r1 \<leftarrow> word_ink g invert (if face_has r cp then r else note_missing cp r);
        Some (r1\<lparr>pr_x := pr_x r1 + of_nat (advance r1), pr_row_open := True\<rparr>)
      })"

function word_loop :: "bytes \<Rightarrow> nat \<Rightarrow> bool \<Rightarrow> nat \<Rightarrow> page_renderer \<Rightarrow> page_renderer option" where
  "word_loop t w invert k r =
     (if k < w
      then (case copy_seq t k (seq_len (t ! k)) of
              None \<Rightarrow> None
            | Some g \<Rightarrow>
                (case word_cell g invert r of
                   None \<Rightarrow> None
                 | Some r1 \<Rightarrow> word_loop t w invert (k + seq_len (t ! k)) r1))
      else Some r)"
  by pat_completeness auto
termination
  by (relation "measure (\<lambda>(t, w, invert, k, r). w - k)") (use seq_len_range in \<open>auto simp: diff_less_mono2\<close>)

declare word_loop.simps [simp del]

text \<open>One turn of the word loop: the chunk of \<open>t\<close> from \<open>i\<close> to \<open>w\<close> whose word starts at \<open>sp\<close>.\<close>

definition emit_chunk :: "bytes \<Rightarrow> bool \<Rightarrow> nat \<Rightarrow> nat \<Rightarrow> nat \<Rightarrow> page_renderer \<Rightarrow> page_renderer option" where
  "emit_chunk t invert i sp w r =
     (let lead_w = of_nat ((sp - i) * advance r) :: u16;
          word_w = of_nat (cells (drop sp t) (w - sp) * advance r) :: u16
      in if content_w - (left_edge r - MARGIN_X) < unat word_w then hard_loop t w invert i r
         else do {
           r1 \<leftarrow> (if right_margin < unat (pr_x r) + unat lead_w + unat word_w \<and> left_edge r < unat (pr_x r)
                  then Some (newline r)
                  else if lead_w \<noteq> 0 then lead_spaces lead_w invert r
                  else Some r);
           word_loop t w invert sp r1
         })"

lemma skip_spaces_ge: "i \<le> skip_spaces t n i"
proof (induction t n i rule: skip_spaces.induct)
  case (1 t n i)
  then show ?case by (subst skip_spaces.simps) auto
qed

lemma word_end_ge: "i \<le> word_end t n i"
proof (induction t n i rule: word_end.induct)
  case (1 t n i)
  then show ?case by (subst word_end.simps) auto
qed

lemma chunk_progress:
  assumes "i < n"
  shows "i < word_end t n (skip_spaces t n i)"
proof (cases "is_space (t ! i)")
  case True
  then have "skip_spaces t n i = skip_spaces t n (Suc i)"
    using assms by (simp add: skip_spaces.simps[of t n i])
  then show ?thesis
    using skip_spaces_ge[of "Suc i" t n] word_end_ge[of "skip_spaces t n i" t n] by linarith
next
  case False
  then have "skip_spaces t n i = i" by (simp add: skip_spaces.simps[of t n i])
  moreover have "word_end t n i = word_end t n (i + seq_len (t ! i))"
    using assms False by (simp add: word_end.simps[of t n i])
  ultimately show ?thesis
    using word_end_ge[of "i + seq_len (t ! i)" t n] seq_len_range(1)[of "t ! i"] by simp
qed

function run_loop :: "bytes \<Rightarrow> nat \<Rightarrow> bool \<Rightarrow> nat \<Rightarrow> page_renderer \<Rightarrow> page_renderer option" where
  "run_loop t n invert i r =
     (if i < n
      then
        (let sp = skip_spaces t n i; w = word_end t n sp in
         case emit_chunk t invert i sp w r of
           None \<Rightarrow> None
         | Some r1 \<Rightarrow> run_loop t n invert w r1)
      else Some r)"
  by pat_completeness auto
termination
  by (relation "measure (\<lambda>(t, n, invert, i, r). n - i)")
    (use chunk_progress in \<open>auto simp: diff_less_mono2\<close>)

declare run_loop.simps [simp del]

definition emit_run :: "bytes \<Rightarrow> nat \<Rightarrow> bool \<Rightarrow> page_renderer \<Rightarrow> page_renderer option" where
  "emit_run t n invert r =
     (if pr_literal r then emit_literal t n invert r
      else run_loop t n invert 0
             (if \<not> pr_row_open r \<and> unat (pr_x r) < left_edge r
              then r\<lparr>pr_x := of_nat (left_edge r)\<rparr> else r))"

section \<open>Callbacks\<close>

text \<open>The alignment of a fresh row.\<close>

definition align_pen :: "bytes \<Rightarrow> nat \<Rightarrow> style \<Rightarrow> page_renderer \<Rightarrow> page_renderer" where
  "align_pen t n s r =
     (if \<not> pr_row_open r \<and> st_align s \<noteq> AlignLeft
      then (let w = of_nat (cells t n * advance r) :: u16;
                avail = of_nat (LCD_WIDTH - MARGIN_X - left_edge r) :: u16
            in if w \<le> avail
               then r\<lparr>pr_x := (if st_align s = AlignCenter
                                then of_nat (left_edge r + (unat avail - unat w) div 2)
                                else of_nat (LCD_WIDTH - MARGIN_X - unat w))\<rparr>
               else r)
      else r)"

text \<open>The scan that asks whether every codepoint of a heading is in its face.\<close>

definition heading_cp :: "bytes \<Rightarrow> nat \<Rightarrow> u32 option" where
  "heading_cp t k =
     (let c = t ! k; len = seq_len c in
      if len = 2 then
        (if k + 1 < length t
         then Some (push_bit 6 (ucast (c AND 0x1F)) OR ucast (t ! (k + 1) AND 0x3F)) else None)
      else if len = 3 then
        (if k + 2 < length t
         then Some (push_bit 12 (ucast (c AND 0x0F)) OR push_bit 6 (ucast (t ! (k + 1) AND 0x3F))
                    OR ucast (t ! (k + 2) AND 0x3F)) else None)
      else if 3 < len then Some 0xFFFF
      else Some (ucast c))"

definition heading_face_has :: "u8 \<Rightarrow> u32 \<Rightarrow> bool" where
  "heading_face_has want cp =
     (if want = 1 then big_has cp else bold_has cp (if want = 2 then BOLD_H2 else BOLD_H3))"

function heading_all :: "bytes \<Rightarrow> nat \<Rightarrow> u8 \<Rightarrow> nat \<Rightarrow> bool option" where
  "heading_all t n want k =
     (if k < n
      then (case heading_cp t k of
              None \<Rightarrow> None
            | Some cp \<Rightarrow>
                if \<not> heading_face_has want cp then Some False
                else heading_all t n want (k + seq_len (t ! k)))
      else Some True)"
  by pat_completeness auto
termination
  by (relation "measure (\<lambda>(t, n, want, k). n - k)") (use seq_len_range in \<open>auto simp: diff_less_mono2\<close>)

declare heading_all.simps [simp del]

definition heading_want :: "style \<Rightarrow> u8" where
  "heading_want s = (if st_depth s \<le> 1 then 1 else if st_depth s = 2 then 2 else 3)"

definition set_head :: "u8 \<Rightarrow> page_renderer \<Rightarrow> page_renderer" where
  "set_head want r =
     r\<lparr>pr_head := want, pr_big := (want = 1),
       pr_row_h := of_nat (if want = 1 then BIGFONT_H
                           else bold_h (if want = 2 then BOLD_H2 else BOLD_H3)) + ucast (pr_leading r)\<rparr>"

definition heading_face :: "bytes \<Rightarrow> nat \<Rightarrow> style \<Rightarrow> page_renderer \<Rightarrow> page_renderer option" where
  "heading_face t n s r =
     (if pr_head2x r \<and> st_heading s \<and> \<not> pr_row_open r
      then map_option (\<lambda>all. if all then set_head (heading_want s) r else r)
             (if 0 < n then heading_all t n (heading_want s) 0 else Some False)
      else Some r)"

text \<open>\<open>onText\<close> up to the heading scan: the fresh row, the alignment, the background.\<close>

definition text_has_bg :: "style \<Rightarrow> bool" where
  "text_has_bg s \<longleftrightarrow> \<not> is_default (st_bg s) \<and> is_valid (st_bg s)"

definition text_invert :: "style \<Rightarrow> bool" where
  "text_invert s \<longleftrightarrow> text_has_bg s \<and> luma_of (st_bg s) < 128"

definition text_start :: "bytes \<Rightarrow> nat \<Rightarrow> style \<Rightarrow> page_renderer \<Rightarrow> page_renderer" where
  "text_start t n s r =
     (let r1 = r\<lparr>pr_depth := st_depth s, pr_blank_pending := False, pr_literal := st_literal s\<rparr>
      in (align_pen t n s (fresh_row r1))\<lparr>pr_has_bg := text_has_bg s, pr_bg_luma := luma_of (st_bg s)\<rparr>)"

text \<open>And after it: the inline weight, the rule and the inversion of the run.\<close>

definition text_finish :: "style \<Rightarrow> page_renderer \<Rightarrow> page_renderer" where
  "text_finish s r =
     r\<lparr>pr_bold := (st_bold s \<and> pr_head r = 0), pr_underline := st_underline s,
       pr_head_rule := (pr_stepped r \<and> st_heading s \<and> 2 \<le> st_depth s \<and> pr_head r = 0),
       pr_invert := text_invert s\<rparr>"

definition onText :: "bytes \<Rightarrow> nat \<Rightarrow> style \<Rightarrow> page_renderer \<Rightarrow> page_renderer option" where
  "onText t n s r =
     do {
       r1 \<leftarrow> heading_face t n s (text_start t n s r);
       emit_run t n (text_invert s) (text_finish s r1)
     }"

definition onLink :: "bytes \<Rightarrow> nat \<Rightarrow> bytes \<Rightarrow> nat \<Rightarrow> style \<Rightarrow> page_renderer \<Rightarrow> page_renderer option" where
  "onLink label label_len target target_len s r0 =
     (let r1 = r0\<lparr>pr_depth := st_depth s\<rparr>;
          r2 = fresh_row r1;
          x0 = pr_x r2; y0 = screen_y r2
      in do {
        r3 \<leftarrow> emit_run label label_len (pr_invert r2) r2;
        Some (if row_visible r3 \<and> length (pr_links r3) < MAX_LINKS
              then r3\<lparr>pr_links := pr_links r3 @
                     [\<lparr>lb_x = x0, lb_y = y0,
                       lb_w = (if x0 < pr_x r3 then pr_x r3 - x0 else 0), lb_h = row_h r3,
                       lb_target = target, lb_target_len = of_nat target_len\<rparr>]\<rparr>
              else if row_visible r3 then r3\<lparr>pr_links_overflowed := True\<rparr>
              else r3)
      })"

text \<open>The divider's character, encoded by hand; the casts to \<open>char\<close> keep the low byte.\<close>

definition divider_bytes :: "u32 \<Rightarrow> bytes" where
  "divider_bytes ch =
     (if ch < 0x80 then [ucast ch]
      else if ch < 0x800 then [ucast (0xC0 OR drop_bit 6 ch), ucast (0x80 OR (ch AND 0x3F))]
      else [ucast (0xE0 OR drop_bit 12 ch), ucast (0x80 OR (drop_bit 6 ch AND 0x3F)),
            ucast (0x80 OR (ch AND 0x3F))])"

function divider_loop :: "nat \<Rightarrow> bytes \<Rightarrow> page_renderer \<Rightarrow> page_renderer" where
  "divider_loop x g r =
     (if x + FONT_ADVANCE \<le> right_margin
      then divider_loop (x + FONT_ADVANCE) g (text_at (of_nat x) (screen_y r) g True r)
      else r)"
  by pat_completeness auto
termination
  by (relation "measure (\<lambda>(x, g, r). LCD_WIDTH - x)")
    (auto simp: right_margin_def FONT_ADVANCE_def MARGIN_X_def LCD_WIDTH_def)

declare divider_loop.simps [simp del]

definition onDivider :: "u32 \<Rightarrow> style \<Rightarrow> page_renderer \<Rightarrow> page_renderer" where
  "onDivider ch s r0 =
     (let r1 = r0\<lparr>pr_depth := st_depth s\<rparr>;
          r2 = fresh_row r1;
          r3 = (if row_visible r2
                then divider_loop (left_edge r2) (divider_bytes ch)
                       (if has_glyph ch then r2 else note_missing ch r2)
                else r2)
      in r3\<lparr>pr_row_open := True\<rparr>)"

text \<open>A text field: the bar, then one cell per column while the row has room. \<open>vk\<close> is the
  offset into the value.\<close>

definition field_ink :: "field \<Rightarrow> bool \<Rightarrow> bool \<Rightarrow> nat \<Rightarrow> page_renderer \<Rightarrow> page_renderer option" where
  "field_ink f has_bg ink_black vk r =
     (if \<not> row_visible r then Some r
      else if vk < fd_value_len f
        then (if fd_masked f then Some (text_at (pr_x r) (screen_y r) [0x2A] ink_black r)
              else map_option (\<lambda>g. text_at (pr_x r) (screen_y r) g ink_black r)
                     (copy_seq (fd_value f) vk (seq_len (fd_value f ! vk))))
      else if \<not> has_bg then Some (text_at (pr_x r) (screen_y r) [0x5F] True r)
      else Some r)"

fun field_cells :: "field \<Rightarrow> bool \<Rightarrow> bool \<Rightarrow> nat \<Rightarrow> nat \<Rightarrow> page_renderer \<Rightarrow> page_renderer option" where
  "field_cells f has_bg ink_black 0 vk r = Some r"
| "field_cells f has_bg ink_black (Suc w) vk r =
     (if right_margin < unat (pr_x r) + FONT_ADVANCE then Some r
      else
        (case field_ink f has_bg ink_black vk r of
           None \<Rightarrow> None
         | Some r1 \<Rightarrow>
             field_cells f has_bg ink_black w
               (if vk < fd_value_len f then vk + seq_len (fd_value f ! vk) else vk)
               (r1\<lparr>pr_x := pr_x r1 + of_nat FONT_ADVANCE, pr_row_open := True\<rparr>)))"

definition field_width :: "field \<Rightarrow> nat" where
  "field_width f = (if fd_width f \<noteq> 0 then unat (fd_width f) else 1)"

definition field_bar :: "field \<Rightarrow> style \<Rightarrow> page_renderer \<Rightarrow> page_renderer option" where
  "field_bar f s r =
     (let bw = (if unat (pr_x r) + field_width f * FONT_ADVANCE \<le> right_margin
                then of_nat (field_width f * FONT_ADVANCE) else of_nat right_margin - pr_x r) :: u16
      in if \<not> row_visible r then Some r
         else if text_invert s then on_lcd (fill_rect (pr_x r) (screen_y r) bw (row_h r) True) r
         else if text_has_bg s then paint_bg (pr_x r) bw (luma_of (st_bg s)) r
         else Some r)"

definition text_field :: "field \<Rightarrow> style \<Rightarrow> page_renderer \<Rightarrow> page_renderer option" where
  "text_field f s r =
     do {
       r1 \<leftarrow> field_bar f s r;
       field_cells f (text_has_bg s) (\<not> text_invert s) (field_width f) 0 r1
     }"

definition onField :: "field \<Rightarrow> style \<Rightarrow> page_renderer \<Rightarrow> page_renderer option" where
  "onField f s r0 =
     (let r1 = r0\<lparr>pr_depth := st_depth s\<rparr>;
          r2 = fresh_row r1
      in if fd_kind f = FieldText then text_field f s r2
         else
           (let r3 = (if row_visible r2
                 then (if fd_kind f = FieldRadio
                       then text_at (pr_x r2) (screen_y r2)
                              (if fd_prechecked f then [0xE2, 0x97, 0x8F] else [0xE2, 0x97, 0x8B])
                              (\<not> pr_invert r2) r2
                       else
                         (let b = text_at (pr_x r2) (screen_y r2) [0xE2, 0x96, 0xA1] (\<not> pr_invert r2) r2
                          in if fd_prechecked f
                             then text_at (pr_x r2) (screen_y r2) [0xE2, 0x9C, 0x93] (\<not> pr_invert r2) b
                             else b))
                 else r2);
                r4 = r3\<lparr>pr_x := pr_x r3 + of_nat FONT_ADVANCE, pr_row_open := True\<rparr>
            in if fd_label_len f \<noteq> 0
               then do {
                 r5 \<leftarrow> emit_run [0x20] 1 (pr_invert r4) r4;
                 emit_run (fd_label f) (fd_label_len f) (pr_invert r5) r5
               }
               else Some r4))"

definition onAnchor :: "page_renderer \<Rightarrow> page_renderer" where
  "onAnchor r = r"

definition onLineEnd :: "style \<Rightarrow> page_renderer \<Rightarrow> page_renderer option" where
  "onLineEnd s r0 =
     (let r1 = r0\<lparr>pr_depth := st_depth s\<rparr> in
      do {
        r2 \<leftarrow> (if pr_head_rule r1 \<and> pr_row_open r1 \<and> row_visible r1
               then (let w = (if st_depth s \<le> 2
                              then of_nat (LCD_WIDTH - MARGIN_X - left_edge r1)
                              else pr_x r1 - of_nat (left_edge r1)) :: u16
                     in on_lcd (draw_hline (of_nat (left_edge r1)) (screen_y r1 + row_h r1 - 1) w True) r1)
               else Some r1);
        let r3 = newline (r2\<lparr>pr_head_rule := False\<rparr>);
        let r4 = r3\<lparr>pr_row_h := 0, pr_big := False, pr_head := 0, pr_bold := False,
                    pr_y := (if st_heading s
                             then pr_y r3 + (if pr_head r2 = 1 then HEAD_GAP_BIG else PARA_GAP)
                             else pr_y r3),
                    pr_invert := False\<rparr>;
        Some r4
      })"

text \<open>\<open>onImage\<close> with the alternative text (or the address) and \<open>onPartial\<close>.\<close>

definition onImage :: "bytes \<Rightarrow> nat \<Rightarrow> bytes \<Rightarrow> nat \<Rightarrow> style \<Rightarrow> page_renderer \<Rightarrow> page_renderer option" where
  "onImage alt alt_len url url_len s r0 =
     do {
       r1 \<leftarrow> emit_run [0x5B, 0x69, 0x6D, 0x67, 0x5D, 0x20] 6 (pr_invert r0) (r0\<lparr>pr_depth := st_depth s\<rparr>);
       (if alt_len \<noteq> 0 then emit_run alt alt_len (pr_invert r1) r1 else emit_run url url_len (pr_invert r1) r1)
     }"

definition onPartial :: "bytes \<Rightarrow> nat \<Rightarrow> style \<Rightarrow> page_renderer \<Rightarrow> page_renderer option" where
  "onPartial url url_len s r0 =
     do {
       r1 \<leftarrow> emit_run [0x5B, 0x2B, 0x5D, 0x20] 4 (pr_invert r0) (r0\<lparr>pr_depth := st_depth s\<rparr>);
       onLink url url_len url url_len s r1
     }"

end
