(* ===== verification/MicronLayout.thy ===== *)
theory MicronLayout
  imports MicronRender
begin

text \<open>
  What a run does to the page, apart from its pixels: the pen model. A run is a list of
  chunks, each some spaces and a word of some cells; the pen is its position and whether the
  row is open. \<open>emit_run_pen\<close> shows that the renderer implements the model, whatever the
  scroll window, and the layout facts follow from it.
\<close>

section \<open>The pen model\<close>

text \<open>\<open>(x, y, open)\<close>, over the advance, the left edge and the row height of the run.\<close>

type_synonym pen = "u16 \<times> u16 \<times> bool"

record face =
  fc_adv :: nat
  fc_left :: nat
  fc_row :: u16

definition pen_newline :: "face \<Rightarrow> pen \<Rightarrow> pen" where
  "pen_newline f p = (case p of (x, y, op) \<Rightarrow> (of_nat (fc_left f), y + fc_row f, False))"

definition pen_cell :: "face \<Rightarrow> pen \<Rightarrow> pen" where
  "pen_cell f p = (case p of (x, y, op) \<Rightarrow> (x + of_nat (fc_adv f), y, True))"

definition pen_hard_cell :: "face \<Rightarrow> pen \<Rightarrow> pen" where
  "pen_hard_cell f p =
     (case p of (x, y, op) \<Rightarrow>
        if fc_left f < unat x \<and> right_margin < unat x + fc_adv f then pen_cell f (pen_newline f p)
        else pen_cell f p)"

definition pen_chunk :: "face \<Rightarrow> nat \<times> nat \<Rightarrow> pen \<Rightarrow> pen" where
  "pen_chunk f lm p =
     (case (lm, p) of ((lead, m), (x, y, op)) \<Rightarrow>
        let lead_w = of_nat (lead * fc_adv f) :: u16; word_w = of_nat (m * fc_adv f) :: u16 in
        if content_w - (fc_left f - MARGIN_X) < unat word_w then (pen_hard_cell f ^^ (lead + m)) p
        else
          (pen_cell f ^^ m)
            (if right_margin < unat x + unat lead_w + unat word_w \<and> fc_left f < unat x
             then pen_newline f p
             else if lead_w \<noteq> 0 then (x + lead_w, y, True)
             else p))"

function chunks :: "bytes \<Rightarrow> nat \<Rightarrow> nat \<Rightarrow> (nat \<times> nat) list" where
  "chunks t n i =
     (if i < n
      then (let sp = skip_spaces t n i; w = word_end t n sp
            in (sp - i, cells_from t w sp) # chunks t n w)
      else [])"
  by pat_completeness auto
termination
  by (relation "measure (\<lambda>(t, n, i). n - i)") (use chunk_progress in \<open>auto simp: diff_less_mono2\<close>)

declare chunks.simps [simp del]

definition pen_run :: "face \<Rightarrow> (nat \<times> nat) list \<Rightarrow> pen \<Rightarrow> pen" where
  "pen_run f cs p = fold (pen_chunk f) cs p"

fun pen_literal :: "nat \<Rightarrow> pen \<Rightarrow> pen" where
  "pen_literal 0 p = p"
| "pen_literal (Suc m) (x, y, op) =
     (if right_margin < unat x + FONT_ADVANCE then (x, y, True)
      else pen_literal m (x + of_nat FONT_ADVANCE, y, True))"

definition pen_of :: "page_renderer \<Rightarrow> pen" where
  "pen_of r = (pr_x r, pr_y r, pr_row_open r)"

definition face_of :: "page_renderer \<Rightarrow> face" where
  "face_of r = \<lparr>fc_adv = advance r, fc_left = left_edge r, fc_row = row_h r\<rparr>"

section \<open>What a run leaves alone\<close>

text \<open>Everything but the pen, the pixels and the account of missing glyphs.\<close>

definition same_style :: "page_renderer \<Rightarrow> page_renderer \<Rightarrow> bool" where
  "same_style r r' \<longleftrightarrow>
     pr_leading r' = pr_leading r \<and> pr_stepped r' = pr_stepped r \<and> pr_head2x r' = pr_head2x r
     \<and> pr_dither r' = pr_dither r \<and> pr_big r' = pr_big r \<and> pr_head r' = pr_head r
     \<and> pr_bold r' = pr_bold r \<and> pr_underline r' = pr_underline r \<and> pr_row_h r' = pr_row_h r
     \<and> pr_scroll r' = pr_scroll r \<and> pr_depth r' = pr_depth r \<and> pr_invert r' = pr_invert r
     \<and> pr_head_rule r' = pr_head_rule r \<and> pr_literal r' = pr_literal r \<and> pr_has_bg r' = pr_has_bg r
     \<and> pr_bg_luma r' = pr_bg_luma r \<and> pr_blank_pending r' = pr_blank_pending r
     \<and> pr_links r' = pr_links r \<and> pr_links_overflowed r' = pr_links_overflowed r"

lemma same_style_refl [simp, intro]: "same_style r r"
  by (simp add: same_style_def)

lemma same_style_trans: "same_style r r' \<Longrightarrow> same_style r' r'' \<Longrightarrow> same_style r r''"
  by (simp add: same_style_def)

lemma same_style_pen [simp]:
  "same_style r (r\<lparr>pr_x := x\<rparr>)" "same_style r (r\<lparr>pr_row_open := b\<rparr>)"
  "same_style r (r\<lparr>pr_x := x, pr_row_open := b\<rparr>)" "same_style r (r\<lparr>pr_lcd := l\<rparr>)"
  "same_style r (newline r)" "same_style r (wrap_if_needed a r)"
  by (simp_all add: same_style_def newline_def wrap_if_needed_def)

lemma same_style_fresh [simp]: "same_style r (fresh_row r)"
  by (simp add: fresh_row_def)

lemma same_style_face:
  "same_style r r' \<Longrightarrow> face_of r' = face_of r"
  by (simp add: same_style_def face_of_def advance_def left_edge_def row_h_def line_h_def)

text \<open>A step that only draws: the pen, the style and the missing account stay.\<close>

definition only_draws :: "page_renderer \<Rightarrow> page_renderer \<Rightarrow> bool" where
  "only_draws r r' \<longleftrightarrow> (\<exists>l. r' = r\<lparr>pr_lcd := l\<rparr>)"

lemma only_drawsD: "only_draws r r' \<Longrightarrow> same_style r r' \<and> pen_of r' = pen_of r"
  by (auto simp: only_draws_def pen_of_def same_style_def)

lemma only_draws_refl [simp]: "only_draws r r"
  unfolding only_draws_def by (rule exI[of _ "pr_lcd r"]) simp

lemma only_draws_lcd [simp]: "only_draws r (r\<lparr>pr_lcd := l\<rparr>)"
  by (auto simp: only_draws_def)

lemma only_draws_trans: "only_draws r r' \<Longrightarrow> only_draws r' r'' \<Longrightarrow> only_draws r r''"
  by (auto simp: only_draws_def)

lemma only_draws_on_lcd: "on_lcd f r = Some r' \<Longrightarrow> only_draws r r'"
  by (auto simp: on_lcd_def only_draws_def)

lemma only_draws_simps [simp]:
  "only_draws r (text_at x y g b r)" "only_draws r (draw_glyph x y g cp b r)"
  by (auto simp: only_draws_def text_at_def draw_glyph_def)

lemma only_draws_paint_bg: "paint_bg x w v r = Some r' \<Longrightarrow> only_draws r r'"
  by (auto simp: paint_bg_def only_draws_on_lcd split: if_splits)

lemma note_missing_frame:
  "same_style r (note_missing cp r)" "pen_of (note_missing cp r) = pen_of r"
  "pr_lcd (note_missing cp r) = pr_lcd r"
  by (auto simp: note_missing_def Let_def same_style_def pen_of_def split: option.splits)

section \<open>The renderer implements the pen model\<close>

text \<open>A step that draws, may note a missing glyph, and leaves pen and style alone.\<close>

definition quiet :: "page_renderer \<Rightarrow> page_renderer \<Rightarrow> bool" where
  "quiet r r' \<longleftrightarrow> same_style r r' \<and> pen_of r' = pen_of r"

lemma quiet_refl [simp]: "quiet r r"
  by (simp add: quiet_def)

lemma quiet_trans: "quiet r r' \<Longrightarrow> quiet r' r'' \<Longrightarrow> quiet r r''"
  unfolding quiet_def by (metis same_style_trans)

lemma quiet_draws: "only_draws r r' \<Longrightarrow> quiet r r'"
  by (simp add: quiet_def only_drawsD)

lemma quiet_note [simp]: "quiet r (note_missing cp r)"
  by (simp add: quiet_def note_missing_frame)

text \<open>The step all three kinds of cell end with.\<close>

lemma quiet_advance:
  assumes "quiet r r2"
  shows "same_style r (r2\<lparr>pr_x := pr_x r2 + of_nat a, pr_row_open := True\<rparr>)"
    and "pen_of (r2\<lparr>pr_x := pr_x r2 + of_nat a, pr_row_open := True\<rparr>) = (pr_x r + of_nat a, pr_y r, True)"
  using assms by (auto simp: quiet_def pen_of_def same_style_def)

lemma quiet_advance_eq: "quiet r r' \<Longrightarrow> advance r' = advance r"
  using same_style_face[of r r'] by (simp add: quiet_def face_of_def)

lemma only_draws_literal_ink: "literal_ink g invert r = Some r' \<Longrightarrow> only_draws r r'"
  by (auto simp: literal_ink_def split: bind_splits if_splits
      intro: only_draws_trans[OF only_draws_on_lcd only_draws_simps(1)])

lemma only_draws_cell_background: "cell_background blank invert r = Some r' \<Longrightarrow> only_draws r r'"
  by (auto simp: cell_background_def only_draws_on_lcd only_draws_paint_bg split: if_splits)

lemma only_draws_word_ink:
  assumes "word_ink g invert r = Some r'"
  shows "only_draws r r'"
proof (cases "row_visible r")
  case False
  then show ?thesis using assms by (simp add: word_ink_def)
next
  case True
  let ?blank = "length g = 1 \<and> is_space (hd g)"
  obtain r1 where r1: "cell_background ?blank invert r = Some r1"
    and r': "(let r2 = (if ?blank then r1
                  else draw_glyph (pr_x r1) (screen_y r1) g (fst (next_cp g)) (\<not> invert) r1) in
              if pr_underline r2
              then on_lcd (draw_hline (pr_x r2) (screen_y r2 + row_h r2 - 2) (of_nat (advance r2)) (\<not> invert)) r2
              else Some r2) = Some r'"
    using assms True by (auto simp: word_ink_def Let_def split: bind_splits)
  have "only_draws r1 r'"
    using r' by (auto simp: Let_def split: if_splits
        intro: only_draws_on_lcd only_draws_trans[OF only_draws_simps(2) only_draws_on_lcd])
  then show ?thesis by (rule only_draws_trans[OF only_draws_cell_background[OF r1]])
qed

lemma quiet_noted: "quiet r (if C then r else note_missing cp r)"
  by simp

lemma literal_cell_pen:
  assumes "literal_cell g invert r = Some r'"
  shows "same_style r r' \<and> pen_of r' = (pr_x r + of_nat FONT_ADVANCE, pr_y r, True)"
proof -
  obtain r2 where r2: "literal_ink g invert
        (if has_glyph (fst (next_cp g)) then r else note_missing (fst (next_cp g)) r) = Some r2"
    and r': "r' = r2\<lparr>pr_x := pr_x r2 + of_nat FONT_ADVANCE, pr_row_open := True\<rparr>"
    using assms by (auto simp: literal_cell_def Let_def split: bind_splits)
  have "quiet r r2"
    by (rule quiet_trans[OF quiet_noted quiet_draws[OF only_draws_literal_ink[OF r2]]])
  then show ?thesis using quiet_advance unfolding r' by blast
qed

lemma word_cell_pen:
  assumes "word_cell g invert r = Some r'"
  shows "same_style r r' \<and> pen_of r' = pen_cell (face_of r) (pen_of r)"
proof -
  obtain r2 where r2: "word_ink g invert
        (if face_has r (fst (next_cp g)) then r else note_missing (fst (next_cp g)) r) = Some r2"
    and r': "r' = r2\<lparr>pr_x := pr_x r2 + of_nat (advance r2), pr_row_open := True\<rparr>"
    using assms by (auto simp: word_cell_def Let_def split: bind_splits)
  have q: "quiet r r2"
    by (rule quiet_trans[OF quiet_noted quiet_draws[OF only_draws_word_ink[OF r2]]])
  show ?thesis
    using quiet_advance[OF q, of "advance r2"] quiet_advance_eq[OF q]
    unfolding r' by (simp add: pen_cell_def pen_of_def face_of_def)
qed

lemma hard_cell_pen: "same_style r (hard_cell g invert r) \<and> pen_of (hard_cell g invert r) = pen_cell (face_of r) (pen_of r)"
proof -
  let ?cp = "fst (next_cp g)"
  let ?r1 = "if face_has r ?cp then r else note_missing ?cp r"
  let ?r2 = "if row_visible ?r1 then draw_glyph (pr_x ?r1) (screen_y ?r1) g ?cp (\<not> invert) ?r1 else ?r1"
  have "only_draws ?r1 ?r2" by simp
  then have q: "quiet r ?r2" by (rule quiet_trans[OF quiet_noted quiet_draws])
  have "hard_cell g invert r = ?r2\<lparr>pr_x := pr_x ?r2 + of_nat (advance ?r2), pr_row_open := True\<rparr>"
    by (simp add: hard_cell_def Let_def)
  then show ?thesis
    using quiet_advance[OF q, of "advance ?r2"] quiet_advance_eq[OF q]
    by (simp only: pen_cell_def pen_of_def face_of_def) simp
qed

lemma wrap_pen:
  "pen_of (wrap_if_needed (advance r) r)
     = (case pen_of r of (x, y, op) \<Rightarrow>
          if left_edge r < unat x \<and> right_margin < unat x + advance r then pen_newline (face_of r) (pen_of r)
          else pen_of r)"
  by (simp add: wrap_if_needed_def pen_of_def pen_newline_def newline_def face_of_def)

lemma hard_cell_wrap_pen:
  "same_style r (hard_cell g invert (wrap_if_needed (advance r) r))
   \<and> pen_of (hard_cell g invert (wrap_if_needed (advance r) r)) = pen_hard_cell (face_of r) (pen_of r)"
proof -
  let ?r = "wrap_if_needed (advance r) r"
  have ss: "same_style r ?r" by simp
  show ?thesis
    using hard_cell_pen[of ?r g invert] same_style_face[OF ss] wrap_pen[of r] same_style_trans[OF ss]
    by (auto simp: pen_hard_cell_def pen_of_def face_of_def)
qed

lemma literal_loop_pen:
  "literal_loop t n invert k r = Some r' \<Longrightarrow>
     same_style r r' \<and> pen_of r' = pen_literal (cells_from t n k) (pen_of r)"
proof (induction t n invert k r rule: literal_loop.induct)
  case (1 t n invert k r)
  show ?case
  proof (cases "k < n")
    case False
    then show ?thesis
      using 1(2) by (simp add: literal_loop.simps[of t n invert k] cells_from.simps[of t n k])
  next
    case True
    then have cf: "cells_from t n k = Suc (cells_from t n (k + seq_len (t ! k)))"
      by (simp add: cells_from.simps[of t n k])
    show ?thesis
    proof (cases "right_margin < unat (pr_x r) + FONT_ADVANCE")
      case wide: True
      then obtain r1 where r1: "clip_mark invert r = Some r1" "r' = r1\<lparr>pr_row_open := True\<rparr>"
        using 1(2) True by (auto simp: literal_loop.simps[of t n invert k])
      then have "only_draws r r1"
        by (auto simp: clip_mark_def split: bind_splits if_splits intro: only_draws_trans[OF only_draws_on_lcd])
      then show ?thesis
        using wide r1 by (auto simp: cf only_draws_def same_style_def pen_of_def)
    next
      case fits: False
      then obtain g r1 where g: "copy_seq t k (seq_len (t ! k)) = Some g"
        and r1: "literal_cell g invert r = Some r1"
        and rest: "literal_loop t n invert (k + seq_len (t ! k)) r1 = Some r'"
        using 1(2) True by (auto simp: literal_loop.simps[of t n invert k] split: option.splits)
      show ?thesis
        using 1(1)[OF True fits g r1 rest] literal_cell_pen[OF r1] fits
        by (auto simp: cf pen_of_def intro: same_style_trans)
    qed
  qed
qed

lemma word_loop_pen:
  "word_loop t w invert k r = Some r' \<Longrightarrow>
     same_style r r' \<and> pen_of r' = (pen_cell (face_of r) ^^ cells_from t w k) (pen_of r)"
proof (induction t w invert k r rule: word_loop.induct)
  case (1 t w invert k r)
  show ?case
  proof (cases "k < w")
    case False
    then show ?thesis
      using 1(2) by (simp add: word_loop.simps[of t w invert k] cells_from.simps[of t w k])
  next
    case True
    then obtain g r1 where g: "copy_seq t k (seq_len (t ! k)) = Some g"
      and r1: "word_cell g invert r = Some r1"
      and rest: "word_loop t w invert (k + seq_len (t ! k)) r1 = Some r'"
      using 1(2) by (auto simp: word_loop.simps[of t w invert k] split: option.splits)
    have cf: "cells_from t w k = Suc (cells_from t w (k + seq_len (t ! k)))"
      using True by (simp add: cells_from.simps[of t w k])
    show ?thesis
      using 1(1)[OF True g r1 rest] word_cell_pen[OF r1] same_style_face[of r r1]
      by (auto simp: cf funpow_swap1 simp del: funpow.simps(2) simp: funpow_Suc_right
          intro: same_style_trans)
  qed
qed

lemma hard_loop_pen:
  "hard_loop t w invert k r = Some r' \<Longrightarrow>
     same_style r r' \<and> pen_of r' = (pen_hard_cell (face_of r) ^^ cells_from t w k) (pen_of r)"
proof (induction t w invert k r rule: hard_loop.induct)
  case (1 t w invert k r)
  show ?case
  proof (cases "k < w")
    case False
    then show ?thesis
      using 1(2) by (simp add: hard_loop.simps[of t w invert k] cells_from.simps[of t w k])
  next
    case True
    then obtain g where g: "copy_seq t k (seq_len (t ! k)) = Some g"
      and rest: "hard_loop t w invert (k + seq_len (t ! k))
          (hard_cell g invert (wrap_if_needed (advance r) r)) = Some r'"
      using 1(2) by (auto simp: hard_loop.simps[of t w invert k] split: option.splits)
    have cf: "cells_from t w k = Suc (cells_from t w (k + seq_len (t ! k)))"
      using True by (simp add: cells_from.simps[of t w k])
    note cell = hard_cell_wrap_pen[of r g invert]
    show ?thesis
      using 1(1)[OF True g rest] cell same_style_face[OF cell[THEN conjunct1]]
      by (auto simp: cf funpow_Suc_right simp del: funpow.simps(2) intro: same_style_trans)
  qed
qed

text \<open>Measuring a word in place, and the spaces in front of it.\<close>

lemma cells_from_drop:
  "a \<le> length t \<Longrightarrow> cells_from (drop a t) (n - a) i = cells_from t n (a + i)"
proof (induction "drop a t" "n - a" i rule: cells_from.induct)
  case (1 i)
  show ?case
  proof (cases "a + i < n")
    case True
    then show ?thesis
      using 1 by (simp add: cells_from.simps[of "drop a t" "n - a" i] cells_from.simps[of t n "a + i"] add.assoc)
  next
    case False
    then show ?thesis by (simp add: cells_from.simps[of "drop a t" "n - a" i] cells_from.simps[of t n "a + i"])
  qed
qed

lemma cells_from_spaces:
  "skip_spaces t n i \<le> w \<Longrightarrow> cells_from t w i = skip_spaces t n i - i + cells_from t w (skip_spaces t n i)"
proof (induction t n i rule: skip_spaces.induct)
  case (1 t n i)
  show ?case
  proof (cases "i < n \<and> is_space (t ! i)")
    case True
    then have sk: "skip_spaces t n i = skip_spaces t n (Suc i)"
      by (simp add: skip_spaces.simps[of t n i])
    have "seq_len (t ! i) = 1" using True by (auto simp: is_space_def seq_len_def)
    moreover have "i < w" using 1(2) sk skip_spaces_ge[of "Suc i" t n] by linarith
    ultimately have "cells_from t w i = Suc (cells_from t w (Suc i))"
      by (simp add: cells_from.simps[of t w i])
    then show ?thesis
      using 1 True sk skip_spaces_ge[of "Suc i" t n] by auto
  next
    case False
    then have "skip_spaces t n i = i" by (subst skip_spaces.simps) auto
    then show ?thesis by simp
  qed
qed

lemma skip_spaces_le: "i \<le> n \<Longrightarrow> skip_spaces t n i \<le> n"
proof (induction t n i rule: skip_spaces.induct)
  case (1 t n i)
  then show ?case by (subst skip_spaces.simps) auto
qed

lemma lead_spaces_draws:
  assumes "lead_spaces lead_w invert r = Some r'"
  obtains r2 where "only_draws r r2" "r' = r2\<lparr>pr_x := pr_x r2 + lead_w, pr_row_open := True\<rparr>"
proof -
  obtain ra rb where ra: "(if pr_has_bg r then paint_bg (pr_x r) lead_w (pr_bg_luma r) r else Some r) = Some ra"
    and rb: "(if pr_underline ra \<and> row_visible ra
        then on_lcd (draw_hline (pr_x ra) (screen_y ra + row_h ra - 2) lead_w (\<not> invert)) ra
        else Some ra) = Some rb"
    and r': "r' = rb\<lparr>pr_x := pr_x rb + lead_w, pr_row_open := True\<rparr>"
    using assms unfolding lead_spaces_def by (auto simp del: not_None_eq split: bind_splits)
  have "only_draws r ra" using ra by (auto intro: only_draws_paint_bg split: if_splits)
  moreover have "only_draws ra rb" using rb by (auto intro: only_draws_on_lcd split: if_splits)
  ultimately show ?thesis using that r' only_draws_trans by blast
qed

lemma emit_chunk_pen:
  assumes chunk: "emit_chunk t invert i sp w r = Some r'"
    and sp: "sp = skip_spaces t n i" and le: "i \<le> n" "n \<le> length t" and w: "sp \<le> w"
  shows "same_style r r' \<and> pen_of r' = pen_chunk (face_of r) (sp - i, cells_from t w sp) (pen_of r)"
proof -
  let ?m = "cells_from t w sp"
  let ?lead = "of_nat ((sp - i) * advance r) :: u16"
  let ?word = "of_nat (?m * advance r) :: u16"
  have spn: "sp \<le> length t" using skip_spaces_le[OF le(1)] sp le(2) by (metis le_trans)
  have cells: "cells (drop sp t) (w - sp) = ?m"
    using cells_from_drop[OF spn, of w 0] by (simp add: cells_def)
  have total: "cells_from t w i = sp - i + ?m"
    unfolding sp by (rule cells_from_spaces) (use w sp in simp)
  show ?thesis
  proof (cases "content_w - (left_edge r - MARGIN_X) < unat ?word")
    case True
    then have "hard_loop t w invert i r = Some r'"
      using chunk by (simp add: emit_chunk_def cells Let_def del: of_nat_mult)
    from hard_loop_pen[OF this] show ?thesis
      using True by (simp add: pen_chunk_def Let_def pen_of_def face_of_def total)
  next
    case False
    let ?wraps = "right_margin < unat (pr_x r) + unat ?lead + unat ?word \<and> left_edge r < unat (pr_x r)"
    obtain r1 where r1: "(if ?wraps then Some (newline r)
          else if ?lead \<noteq> 0 then lead_spaces ?lead invert r else Some r) = Some r1"
      and loop: "word_loop t w invert sp r1 = Some r'"
      using chunk False by (auto simp: emit_chunk_def cells Let_def simp del: of_nat_mult split: bind_splits)
    have "same_style r r1 \<and> pen_of r1 = (if ?wraps then pen_newline (face_of r) (pen_of r)
        else if ?lead \<noteq> 0 then (pr_x r + ?lead, pr_y r, True) else pen_of r)"
    proof (cases "?wraps \<or> ?lead = 0")
      case True
      then show ?thesis
        using r1 by (auto simp: pen_newline_def pen_of_def face_of_def newline_def same_style_def split: if_splits)
    next
      case False
      then have "lead_spaces ?lead invert r = Some r1" using r1 by (auto split: if_splits)
      then obtain r2 where "only_draws r r2" "r1 = r2\<lparr>pr_x := pr_x r2 + ?lead, pr_row_open := True\<rparr>"
        by (rule lead_spaces_draws)
      then show ?thesis
        using False by (auto simp: only_draws_def pen_of_def same_style_def)
    qed
    then show ?thesis
      using word_loop_pen[OF loop] False same_style_face[of r r1]
      by (auto simp: pen_chunk_def Let_def pen_of_def face_of_def simp del: of_nat_mult intro: same_style_trans)
  qed
qed

lemma run_loop_pen:
  "run_loop t n invert i r = Some r' \<Longrightarrow> n \<le> length t \<Longrightarrow>
     same_style r r' \<and> pen_of r' = pen_run (face_of r) (chunks t n i) (pen_of r)"
proof (induction t n invert i r rule: run_loop.induct)
  case (1 t n invert i r)
  show ?case
  proof (cases "i < n")
    case False
    then show ?thesis
      using 1(2) by (simp add: run_loop.simps[of t n invert i] chunks.simps[of t n i] pen_run_def)
  next
    case True
    let ?sp = "skip_spaces t n i"
    let ?w = "word_end t n ?sp"
    obtain r1 where r1: "emit_chunk t invert i ?sp ?w r = Some r1"
      and rest: "run_loop t n invert ?w r1 = Some r'"
      using 1(2) True by (auto simp: run_loop.simps[of t n invert i] Let_def split: option.splits)
    note c = emit_chunk_pen[OF r1 refl less_imp_le[OF True] 1(3) word_end_ge]
    show ?thesis
      using 1(1)[OF True refl refl r1 rest 1(3)] c same_style_face[of r r1] True
      by (auto simp: chunks.simps[of t n i] Let_def pen_run_def intro: same_style_trans)
  qed
qed

text \<open>The renderer's run is the model's.\<close>

definition pen_emit :: "bytes \<Rightarrow> nat \<Rightarrow> page_renderer \<Rightarrow> pen" where
  "pen_emit t n r =
     (if pr_literal r
      then pen_literal (cells t n)
             (if \<not> pr_row_open r then (of_nat (left_edge r), pr_y r, False) else pen_of r)
      else pen_run (face_of r) (chunks t n 0)
             (if \<not> pr_row_open r \<and> unat (pr_x r) < left_edge r
              then (of_nat (left_edge r), pr_y r, False) else pen_of r))"

lemma emit_run_pen:
  assumes "emit_run t n invert r = Some r'" and "n \<le> length t"
  shows "same_style r r' \<and> pen_of r' = pen_emit t n r"
proof (cases "pr_literal r")
  case True
  have "literal_loop t n invert 0 (fresh_row r) = Some r'"
    using assms True by (simp add: emit_run_def emit_literal_def)
  from literal_loop_pen[OF this] show ?thesis
    using True same_style_trans[OF same_style_fresh, of r]
    by (auto simp: pen_emit_def cells_def pen_of_def fresh_row_def)
next
  case False
  let ?r = "if \<not> pr_row_open r \<and> unat (pr_x r) < left_edge r then r\<lparr>pr_x := of_nat (left_edge r)\<rparr> else r"
  have ss: "same_style r ?r" by simp
  have "run_loop t n invert 0 ?r = Some r'"
    using assms False by (simp add: emit_run_def)
  from run_loop_pen[OF this assms(2)] show ?thesis
    using False same_style_face[OF ss] same_style_trans[OF ss]
    by (auto simp: pen_emit_def pen_of_def)
qed

section \<open>Pages\<close>

text \<open>The callbacks the parser makes for a page, and the caller's \<open>blankLine\<close>; tables apart.\<close>

datatype page_cb =
    CbText bytes nat style
  | CbLink bytes nat bytes nat style
  | CbDivider u32 style
  | CbField field style
  | CbAnchor
  | CbLineEnd style
  | CbImage bytes nat bytes nat style
  | CbPartial bytes nat style
  | CbBlank

fun page_step :: "page_cb \<Rightarrow> page_renderer \<Rightarrow> page_renderer option" where
  "page_step (CbText t n s) r = onText t n s r"
| "page_step (CbLink t n tg tgn s) r = onLink t n tg tgn s r"
| "page_step (CbDivider ch s) r = Some (onDivider ch s r)"
| "page_step (CbField f s) r = onField f s r"
| "page_step CbAnchor r = Some (onAnchor r)"
| "page_step (CbLineEnd s) r = onLineEnd s r"
| "page_step (CbImage a an u un s) r = onImage a an u un s r"
| "page_step (CbPartial u un s) r = onPartial u un s r"
| "page_step CbBlank r = Some (blankLine r)"

fun page_run :: "page_cb list \<Rightarrow> page_renderer \<Rightarrow> page_renderer option" where
  "page_run [] r = Some r"
| "page_run (c # cs) r = (case page_step c r of None \<Rightarrow> None | Some r1 \<Rightarrow> page_run cs r1)"

text \<open>The lengths the parser gives lie within the memory it points to.\<close>

fun wf_cb :: "page_cb \<Rightarrow> bool" where
  "wf_cb (CbText t n s) \<longleftrightarrow> n \<le> length t"
| "wf_cb (CbLink t n tg tgn s) \<longleftrightarrow> n \<le> length t"
| "wf_cb (CbField f s) \<longleftrightarrow> fd_value_len f \<le> length (fd_value f) \<and> fd_label_len f \<le> length (fd_label f)"
| "wf_cb (CbImage a an u un s) \<longleftrightarrow> an \<le> length a \<and> un \<le> length u"
| "wf_cb (CbPartial u un s) \<longleftrightarrow> un \<le> length u"
| "wf_cb _ \<longleftrightarrow> True"

text \<open>The state that decides where things go: all but the pixels, the window, the links, the
  account of missing glyphs and the dither switch.\<close>

definition same_layout :: "page_renderer \<Rightarrow> page_renderer \<Rightarrow> bool" where
  "same_layout r r' \<longleftrightarrow>
     pen_of r = pen_of r' \<and> pr_leading r = pr_leading r' \<and> pr_stepped r = pr_stepped r'
     \<and> pr_head2x r = pr_head2x r' \<and> pr_big r = pr_big r' \<and> pr_head r = pr_head r' \<and> pr_bold r = pr_bold r'
     \<and> pr_underline r = pr_underline r' \<and> pr_row_h r = pr_row_h r' \<and> pr_depth r = pr_depth r'
     \<and> pr_invert r = pr_invert r' \<and> pr_head_rule r = pr_head_rule r' \<and> pr_literal r = pr_literal r'
     \<and> pr_has_bg r = pr_has_bg r' \<and> pr_bg_luma r = pr_bg_luma r'
     \<and> pr_blank_pending r = pr_blank_pending r'"

lemma layout_face: "same_layout r r' \<Longrightarrow> face_of r = face_of r'"
  by (simp add: same_layout_def face_of_def advance_def left_edge_def row_h_def line_h_def)

lemma layout_advance: "same_layout r r' \<Longrightarrow> advance r = advance r'"
  by (simp add: same_layout_def advance_def)

lemma layout_left_edge: "same_layout r r' \<Longrightarrow> left_edge r = left_edge r'"
  by (simp add: same_layout_def left_edge_def)

lemma layout_style:
  "same_style r1 r1' \<Longrightarrow> same_style r2 r2' \<Longrightarrow> same_layout r1 r2 \<Longrightarrow> pen_of r1' = pen_of r2' \<Longrightarrow>
     same_layout r1' r2'"
  by (simp add: same_layout_def same_style_def)

lemma layout_quiet: "quiet r r' \<Longrightarrow> same_layout r' r"
  by (simp add: same_layout_def quiet_def same_style_def)

lemma layout_draws: "only_draws r r' \<Longrightarrow> same_layout r' r"
  by (rule layout_quiet) (rule quiet_draws)

lemma pen_emit_layout: "same_layout r r' \<Longrightarrow> pen_emit t n r = pen_emit t n r'"
  using layout_face[of r r'] layout_left_edge[of r r']
  by (auto simp: pen_emit_def same_layout_def pen_of_def)

lemma layout_emit_run:
  "emit_run t n i r = Some r1 \<Longrightarrow> emit_run t n i' r' = Some r1' \<Longrightarrow> n \<le> length t \<Longrightarrow>
     same_layout r r' \<Longrightarrow> same_layout r1 r1'"
  using emit_run_pen[of t n i r r1] emit_run_pen[of t n i' r' r1'] pen_emit_layout[of r r' t n]
  by (auto intro: layout_style)

text \<open>Equal layouts stay equal under equal updates of layout fields.\<close>

lemma layout_fresh_row: "same_layout r r' \<Longrightarrow> same_layout (fresh_row r) (fresh_row r')"
  using layout_left_edge[of r r'] by (auto simp: fresh_row_def same_layout_def pen_of_def)

lemma layout_depth: "same_layout r r' \<Longrightarrow> same_layout (r\<lparr>pr_depth := d\<rparr>) (r'\<lparr>pr_depth := d\<rparr>)"
  by (auto simp: same_layout_def pen_of_def)

lemma layout_align: "same_layout r r' \<Longrightarrow> same_layout (align_pen t n s r) (align_pen t n s r')"
  using layout_left_edge[of r r'] layout_advance[of r r']
  by (auto simp: align_pen_def Let_def same_layout_def pen_of_def)

lemma layout_set_head: "same_layout r r' \<Longrightarrow> same_layout (set_head w r) (set_head w r')"
  by (simp add: set_head_def same_layout_def pen_of_def)

lemma layout_heading_face:
  assumes "heading_face t n s r = Some r1" "heading_face t n s r' = Some r1'" "same_layout r r'"
  shows "same_layout r1 r1'"
proof (cases "pr_head2x r \<and> st_heading s \<and> \<not> pr_row_open r")
  case True
  then have "pr_head2x r' \<and> st_heading s \<and> \<not> pr_row_open r'"
    using assms(3) by (simp add: same_layout_def pen_of_def)
  then show ?thesis
    using True assms layout_set_head[OF assms(3)] by (auto simp: heading_face_def split: if_splits)
next
  case False
  then have "\<not> (pr_head2x r' \<and> st_heading s \<and> \<not> pr_row_open r')"
    using assms(3) by (auto simp: same_layout_def pen_of_def)
  then have "r1 = r" "r1' = r'"
    using False assms(1,2) by (auto simp: heading_face_def simp del: not_None_eq split: if_splits)
  then show ?thesis using assms(3) by simp
qed

lemma layout_text_start: "same_layout r r' \<Longrightarrow> same_layout (text_start t n s r) (text_start t n s r')"
proof -
  have bg: "same_layout q q' \<Longrightarrow> same_layout (q\<lparr>pr_has_bg := a, pr_bg_luma := b\<rparr>) (q'\<lparr>pr_has_bg := a, pr_bg_luma := b\<rparr>)" for q q' a b
    by (auto simp: same_layout_def pen_of_def)
  assume "same_layout r r'"
  then have "same_layout (r\<lparr>pr_depth := st_depth s, pr_blank_pending := False, pr_literal := st_literal s\<rparr>) (r'\<lparr>pr_depth := st_depth s, pr_blank_pending := False, pr_literal := st_literal s\<rparr>)"
    by (auto simp: same_layout_def pen_of_def)
  then show ?thesis
    unfolding text_start_def Let_def by (intro bg layout_align layout_fresh_row)
qed

lemma layout_text_finish: "same_layout r r' \<Longrightarrow> same_layout (text_finish s r) (text_finish s r')"
  by (auto simp: text_finish_def same_layout_def pen_of_def)

lemma layout_onText:
  assumes "onText t n s r = Some r1" "onText t n s r' = Some r1'" "n \<le> length t" "same_layout r r'"
  shows "same_layout r1 r1'"
proof -
  obtain q where q: "heading_face t n s (text_start t n s r) = Some q"
    "emit_run t n (text_invert s) (text_finish s q) = Some r1"
    using assms(1) by (auto simp: onText_def split: bind_splits)
  obtain q' where q': "heading_face t n s (text_start t n s r') = Some q'"
    "emit_run t n (text_invert s) (text_finish s q') = Some r1'"
    using assms(2) by (auto simp: onText_def split: bind_splits)
  show ?thesis
    by (rule layout_emit_run[OF q(2) q'(2) assms(3) layout_text_finish
          [OF layout_heading_face[OF q(1) q'(1) layout_text_start[OF assms(4)]]]])
qed

lemma layout_links: "same_layout r r' \<Longrightarrow>
    same_layout (r\<lparr>pr_links := a\<rparr>) r' \<and> same_layout (r\<lparr>pr_links_overflowed := b\<rparr>) r'"
  by (simp add: same_layout_def pen_of_def)

lemma same_layout_sym: "same_layout r r' \<Longrightarrow> same_layout r' r"
  by (simp add: same_layout_def)

lemma same_layout_refl [simp]: "same_layout r r"
  by (simp add: same_layout_def)

lemma same_layout_trans: "same_layout r r' \<Longrightarrow> same_layout r' r'' \<Longrightarrow> same_layout r r''"
  by (simp add: same_layout_def)

lemma onLink_layout:
  assumes "onLink t n tg tgn s r = Some r1"
  obtains q where "emit_run t n (pr_invert (fresh_row (r\<lparr>pr_depth := st_depth s\<rparr>)))
      (fresh_row (r\<lparr>pr_depth := st_depth s\<rparr>)) = Some q" "same_layout r1 q"
proof -
  obtain q where q: "emit_run t n (pr_invert (fresh_row (r\<lparr>pr_depth := st_depth s\<rparr>)))
      (fresh_row (r\<lparr>pr_depth := st_depth s\<rparr>)) = Some q"
    and "\<exists>a b. r1 = q\<lparr>pr_links := a\<rparr> \<or> r1 = q\<lparr>pr_links_overflowed := b\<rparr> \<or> r1 = q"
    using assms by (auto simp: onLink_def Let_def split: bind_splits if_splits)
  then have "same_layout r1 q" using layout_links[OF same_layout_refl[of q]] by auto
  then show ?thesis by (rule that[OF q])
qed

lemma layout_onLink:
  assumes "onLink t n tg tgn s r = Some r1" "onLink t n tg' tgn' s r' = Some r1'" "n \<le> length t"
    and "same_layout r r'"
  shows "same_layout r1 r1'"
proof -
  obtain q where q: "emit_run t n (pr_invert (fresh_row (r\<lparr>pr_depth := st_depth s\<rparr>)))
      (fresh_row (r\<lparr>pr_depth := st_depth s\<rparr>)) = Some q" "same_layout r1 q"
    by (rule onLink_layout[OF assms(1)])
  obtain q' where q': "emit_run t n (pr_invert (fresh_row (r'\<lparr>pr_depth := st_depth s\<rparr>)))
      (fresh_row (r'\<lparr>pr_depth := st_depth s\<rparr>)) = Some q'" "same_layout r1' q'"
    by (rule onLink_layout[OF assms(2)])
  have "same_layout q q'"
    by (rule layout_emit_run[OF q(1) q'(1) assms(3) layout_fresh_row[OF layout_depth[OF assms(4)]]])
  then show ?thesis using q(2) q'(2) same_layout_trans same_layout_sym by blast
qed

lemma divider_loop_draws: "only_draws r (divider_loop x g r)"
proof (induction x g r rule: divider_loop.induct)
  case (1 x g r)
  then show ?case
    by (subst divider_loop.simps) (auto intro: only_draws_trans[OF only_draws_simps(1)])
qed

lemma layout_onDivider: "same_layout r r' \<Longrightarrow> same_layout (onDivider ch s r) (onDivider ch s r')"
proof -
  assume "same_layout r r'"
  then have base: "same_layout (fresh_row (r\<lparr>pr_depth := st_depth s\<rparr>)) (fresh_row (r'\<lparr>pr_depth := st_depth s\<rparr>))"
    by (intro layout_fresh_row layout_depth)
  have open_row: "same_layout q q' \<Longrightarrow> same_layout (q\<lparr>pr_row_open := True\<rparr>) (q'\<lparr>pr_row_open := True\<rparr>)" for q q'
    by (simp add: same_layout_def pen_of_def)
  have drawn: "same_layout (if row_visible q
      then divider_loop (left_edge q) g (if has_glyph ch then q else note_missing ch q) else q) q" for q g
    by (auto intro: same_layout_trans[OF layout_draws[OF divider_loop_draws] layout_quiet] layout_draws[OF divider_loop_draws])
  show ?thesis
    unfolding onDivider_def Let_def
    by (rule open_row, rule same_layout_trans[OF drawn], rule same_layout_trans[OF base same_layout_sym[OF drawn]])
qed

fun pen_field :: "nat \<Rightarrow> pen \<Rightarrow> pen" where
  "pen_field 0 p = p"
| "pen_field (Suc w) (x, y, op) =
     (if right_margin < unat x + FONT_ADVANCE then (x, y, op)
      else pen_field w (x + of_nat FONT_ADVANCE, y, True))"

lemma field_ink_draws: "field_ink f hb ink vk r = Some r' \<Longrightarrow> only_draws r r'"
  by (auto simp: field_ink_def split: if_splits)

lemma field_cells_pen:
  "field_cells f hb ink w vk r = Some r' \<Longrightarrow> same_style r r' \<and> pen_of r' = pen_field w (pen_of r)"
proof (induction w arbitrary: vk r)
  case 0
  then show ?case by simp
next
  case (Suc w)
  show ?case
  proof (cases "right_margin < unat (pr_x r) + FONT_ADVANCE")
    case True
    then show ?thesis using Suc.prems by (simp add: pen_of_def)
  next
    case False
    obtain vk' r1 where r1: "field_ink f hb ink vk r = Some r1"
      and rest: "field_cells f hb ink w vk' (r1\<lparr>pr_x := pr_x r1 + of_nat FONT_ADVANCE, pr_row_open := True\<rparr>) = Some r'"
      using Suc.prems False by (auto split: option.splits)
    show ?thesis
      using Suc.IH[OF rest] quiet_advance[OF quiet_draws[OF field_ink_draws[OF r1]], of FONT_ADVANCE] False
      by (auto simp: pen_of_def intro: same_style_trans)
  qed
qed

lemma field_bar_draws: "field_bar f s r = Some r' \<Longrightarrow> only_draws r r'"
  by (auto simp: field_bar_def Let_def intro: only_draws_on_lcd only_draws_paint_bg split: if_splits)

lemma text_field_pen:
  assumes "text_field f s r = Some r'"
  shows "same_style r r' \<and> pen_of r' = pen_field (field_width f) (pen_of r)"
proof -
  obtain r1 where r1: "field_bar f s r = Some r1"
    and c: "field_cells f (text_has_bg s) (\<not> text_invert s) (field_width f) 0 r1 = Some r'"
    using assms by (auto simp: text_field_def split: bind_splits)
  show ?thesis
    using field_cells_pen[OF c] only_drawsD[OF field_bar_draws[OF r1]] by (auto intro: same_style_trans)
qed

text \<open>The glyph of a checkbox or a radio.\<close>

lemma choice_draws:
  "only_draws r (if row_visible r
     then (if k then text_at (pr_x r) (screen_y r) g1 b r
           else let q = text_at (pr_x r) (screen_y r) g2 b r
                in if p then text_at (pr_x r) (screen_y r) g3 b q else q)
     else r)"
  by (auto simp: Let_def text_at_def)

lemma layout_cell:
  "same_layout r r' \<Longrightarrow> same_layout (r\<lparr>pr_x := pr_x r + a, pr_row_open := True\<rparr>)
     (r'\<lparr>pr_x := pr_x r' + a, pr_row_open := True\<rparr>)"
  by (simp add: same_layout_def pen_of_def)

lemma onField_choice:
  assumes "fd_kind f \<noteq> FieldText" "onField f s r = Some r1"
  obtains q where "only_draws (fresh_row (r\<lparr>pr_depth := st_depth s\<rparr>)) q"
    and "fd_label_len f = 0 \<longrightarrow> r1 = q\<lparr>pr_x := pr_x q + of_nat FONT_ADVANCE, pr_row_open := True\<rparr>"
    and "fd_label_len f \<noteq> 0 \<longrightarrow> (\<exists>i j q1. emit_run [0x20] 1 i (q\<lparr>pr_x := pr_x q + of_nat FONT_ADVANCE, pr_row_open := True\<rparr>) = Some q1
       \<and> emit_run (fd_label f) (fd_label_len f) j q1 = Some r1)"
proof -
  let ?r = "fresh_row (r\<lparr>pr_depth := st_depth s\<rparr>)"
  let ?q = "if row_visible ?r
     then (if fd_kind f = FieldRadio
           then text_at (pr_x ?r) (screen_y ?r)
                  (if fd_prechecked f then [0xE2, 0x97, 0x8F] else [0xE2, 0x97, 0x8B]) (\<not> pr_invert ?r) ?r
           else let b = text_at (pr_x ?r) (screen_y ?r) [0xE2, 0x96, 0xA1] (\<not> pr_invert ?r) ?r
                in if fd_prechecked f then text_at (pr_x ?r) (screen_y ?r) [0xE2, 0x9C, 0x93] (\<not> pr_invert ?r) b else b)
     else ?r"
  have d: "only_draws ?r ?q" by (rule choice_draws)
  show ?thesis
    by (rule that[OF d])
      (use assms in \<open>auto simp: onField_def Let_def split: bind_splits if_splits\<close>)
qed

lemma layout_onField:
  assumes "onField f s r = Some r1" "onField f s r' = Some r1'" and wf: "fd_label_len f \<le> length (fd_label f)"
    and "same_layout r r'"
  shows "same_layout r1 r1'"
proof -
  let ?r = "fresh_row (r\<lparr>pr_depth := st_depth s\<rparr>)" and ?r' = "fresh_row (r'\<lparr>pr_depth := st_depth s\<rparr>)"
  have base: "same_layout ?r ?r'"
    by (intro layout_fresh_row layout_depth assms(4))
  show ?thesis
  proof (cases "fd_kind f = FieldText")
    case True
    then have "text_field f s ?r = Some r1" "text_field f s ?r' = Some r1'"
      using assms by (simp_all add: onField_def Let_def)
    from this[THEN text_field_pen] show ?thesis
      using base by (auto simp: same_layout_def same_style_def)
  next
    case False
    let ?c = "\<lambda>q. q\<lparr>pr_x := pr_x q + of_nat FONT_ADVANCE, pr_row_open := True\<rparr>"
    obtain q where q: "only_draws ?r q" "fd_label_len f = 0 \<longrightarrow> r1 = ?c q"
      "fd_label_len f \<noteq> 0 \<longrightarrow> (\<exists>i j q1. emit_run [0x20] 1 i (?c q) = Some q1
       \<and> emit_run (fd_label f) (fd_label_len f) j q1 = Some r1)"
      by (rule onField_choice[OF False assms(1)])
    obtain q' where q': "only_draws ?r' q'" "fd_label_len f = 0 \<longrightarrow> r1' = ?c q'"
      "fd_label_len f \<noteq> 0 \<longrightarrow> (\<exists>i j q1. emit_run [0x20] 1 i (?c q') = Some q1
       \<and> emit_run (fd_label f) (fd_label_len f) j q1 = Some r1')"
      by (rule onField_choice[OF False assms(2)])
    have cell: "same_layout (?c q) (?c q')"
      by (rule layout_cell)
        (rule same_layout_trans[OF layout_draws[OF q(1)] same_layout_trans[OF base same_layout_sym[OF layout_draws[OF q'(1)]]]])
    show ?thesis
    proof (cases "fd_label_len f = 0")
      case True
      then show ?thesis using q(2) q'(2) cell by simp
    next
      case False
      obtain i j q1 where a: "emit_run [0x20] 1 i (?c q) = Some q1"
        "emit_run (fd_label f) (fd_label_len f) j q1 = Some r1" using q(3) False by blast
      obtain i' j' q1' where a': "emit_run [0x20] 1 i' (?c q') = Some q1'"
        "emit_run (fd_label f) (fd_label_len f) j' q1' = Some r1'" using q'(3) False by blast
      have "same_layout q1 q1'" by (rule layout_emit_run[OF a(1) a'(1) _ cell]) simp
      then show ?thesis by (rule layout_emit_run[OF a(2) a'(2) wf])
    qed
  qed
qed

text \<open>The end of a line.\<close>

definition line_reset :: "style \<Rightarrow> page_renderer \<Rightarrow> page_renderer" where
  "line_reset s r =
     (let r1 = newline (r\<lparr>pr_head_rule := False\<rparr>)
      in r1\<lparr>pr_row_h := 0, pr_big := False, pr_head := 0, pr_bold := False,
             pr_y := (if st_heading s then pr_y r1 + (if pr_head r = 1 then HEAD_GAP_BIG else PARA_GAP) else pr_y r1),
             pr_invert := False\<rparr>)"

lemma onLineEnd_reset:
  assumes "onLineEnd s r = Some r1"
  obtains q where "only_draws (r\<lparr>pr_depth := st_depth s\<rparr>) q" "r1 = line_reset s q"
proof -
  let ?r = "r\<lparr>pr_depth := st_depth s\<rparr>"
  obtain q where q: "(if pr_head_rule ?r \<and> pr_row_open ?r \<and> row_visible ?r
       then (let w = (if st_depth s \<le> 2 then of_nat (LCD_WIDTH - MARGIN_X - left_edge ?r)
                      else pr_x ?r - of_nat (left_edge ?r)) :: u16
             in on_lcd (draw_hline (of_nat (left_edge ?r)) (screen_y ?r + row_h ?r - 1) w True) ?r)
       else Some ?r) = Some q" and r1: "r1 = line_reset s q"
    using assms unfolding onLineEnd_def line_reset_def Let_def
    by (auto simp del: not_None_eq split: bind_splits)
  have "only_draws ?r q" using q by (auto simp: Let_def intro: only_draws_on_lcd split: if_splits)
  then show ?thesis using that r1 by blast
qed

lemma layout_line_reset: "same_layout r r' \<Longrightarrow> same_layout (line_reset s r) (line_reset s r')"
  by (simp add: line_reset_def Let_def newline_def same_layout_def pen_of_def left_edge_def row_h_def line_h_def)

lemma layout_onLineEnd:
  assumes "onLineEnd s r = Some r1" "onLineEnd s r' = Some r1'" "same_layout r r'"
  shows "same_layout r1 r1'"
proof -
  obtain q where q: "only_draws (r\<lparr>pr_depth := st_depth s\<rparr>) q" "r1 = line_reset s q"
    by (rule onLineEnd_reset[OF assms(1)])
  obtain q' where q': "only_draws (r'\<lparr>pr_depth := st_depth s\<rparr>) q'" "r1' = line_reset s q'"
    by (rule onLineEnd_reset[OF assms(2)])
  have "same_layout q q'"
    by (rule same_layout_trans[OF layout_draws[OF q(1)] same_layout_trans[OF layout_depth[OF assms(3)]
          same_layout_sym[OF layout_draws[OF q'(1)]]]])
  then show ?thesis unfolding q(2) q'(2) by (rule layout_line_reset)
qed

lemma layout_onImage:
  assumes "onImage a an u un s r = Some r1" "onImage a an u un s r' = Some r1'"
    and "an \<le> length a" "un \<le> length u" "same_layout r r'"
  shows "same_layout r1 r1'"
proof -
  have split: "\<exists>q. emit_run [0x5B, 0x69, 0x6D, 0x67, 0x5D, 0x20] 6 (pr_invert r) (r\<lparr>pr_depth := st_depth s\<rparr>) = Some q
      \<and> emit_run (if an \<noteq> 0 then a else u) (if an \<noteq> 0 then an else un) (pr_invert q) q = Some r1"
    if "onImage a an u un s r = Some r1" for r r1
    using that by (auto simp: onImage_def split: bind_splits if_splits)
  obtain q where q: "emit_run [0x5B, 0x69, 0x6D, 0x67, 0x5D, 0x20] 6 (pr_invert r) (r\<lparr>pr_depth := st_depth s\<rparr>) = Some q"
    "emit_run (if an \<noteq> 0 then a else u) (if an \<noteq> 0 then an else un) (pr_invert q) q = Some r1"
    using split[OF assms(1)] by blast
  obtain q' where q': "emit_run [0x5B, 0x69, 0x6D, 0x67, 0x5D, 0x20] 6 (pr_invert r') (r'\<lparr>pr_depth := st_depth s\<rparr>) = Some q'"
    "emit_run (if an \<noteq> 0 then a else u) (if an \<noteq> 0 then an else un) (pr_invert q') q' = Some r1'"
    using split[OF assms(2)] by blast
  have "same_layout q q'"
    by (rule layout_emit_run[OF q(1) q'(1) _ layout_depth[OF assms(5)]]) simp
  then show ?thesis using assms(3,4) by (intro layout_emit_run[OF q(2) q'(2)]) auto
qed

lemma layout_onPartial:
  assumes "onPartial u un s r = Some r1" "onPartial u un s r' = Some r1'" and "un \<le> length u" "same_layout r r'"
  shows "same_layout r1 r1'"
proof -
  obtain q where q: "emit_run [0x5B, 0x2B, 0x5D, 0x20] 4 (pr_invert r) (r\<lparr>pr_depth := st_depth s\<rparr>) = Some q"
    "onLink u un u un s q = Some r1"
    using assms(1) by (auto simp: onPartial_def split: bind_splits)
  obtain q' where q': "emit_run [0x5B, 0x2B, 0x5D, 0x20] 4 (pr_invert r') (r'\<lparr>pr_depth := st_depth s\<rparr>) = Some q'"
    "onLink u un u un s q' = Some r1'"
    using assms(2) by (auto simp: onPartial_def split: bind_splits)
  have "same_layout q q'"
    by (rule layout_emit_run[OF q(1) q'(1) _ layout_depth[OF assms(4)]]) simp
  then show ?thesis by (rule layout_onLink[OF q(2) q'(2) assms(3)])
qed

lemma layout_blankLine: "same_layout r r' \<Longrightarrow> same_layout (blankLine r) (blankLine r')"
  by (simp add: blankLine_def same_layout_def pen_of_def line_h_def)

lemma layout_page_step:
  assumes "page_step c r = Some r1" "page_step c r' = Some r1'" "wf_cb c" "same_layout r r'"
  shows "same_layout r1 r1'"
proof (cases c)
  case (CbText t n s)
  then show ?thesis using assms by (auto intro: layout_onText)
next
  case (CbLink t n tg tgn s)
  then show ?thesis using assms by (auto intro: layout_onLink)
next
  case (CbDivider ch s)
  then show ?thesis using assms by (auto intro: layout_onDivider)
next
  case (CbField f s)
  then show ?thesis using assms by (auto intro: layout_onField)
next
  case CbAnchor
  then show ?thesis using assms by (simp add: onAnchor_def)
next
  case (CbLineEnd s)
  then show ?thesis using assms by (auto intro: layout_onLineEnd)
next
  case (CbImage a an u un s)
  then show ?thesis using assms by (auto intro: layout_onImage)
next
  case (CbPartial u un s)
  then show ?thesis using assms by (auto intro: layout_onPartial)
next
  case CbBlank
  then show ?thesis using assms by (auto intro: layout_blankLine)
qed

lemma layout_page_run:
  "page_run cs r = Some r1 \<Longrightarrow> page_run cs r' = Some r1' \<Longrightarrow> list_all wf_cb cs \<Longrightarrow> same_layout r r' \<Longrightarrow>
     same_layout r1 r1'"
proof (induction cs arbitrary: r r')
  case (Cons c cs)
  then show ?case
    by (auto split: option.splits intro: layout_page_step)
qed simp

lemma same_layout_begin: "same_layout (begin_page s r) (begin_page s' r)"
  by (simp add: begin_page_def same_layout_def pen_of_def)

section \<open>Properties\<close>


end
