(* ===== verification/MicronRuns.thy ===== *)
theory MicronRuns
  imports MicronLayout
begin

text \<open>
  When a run returns, and where its pen can end: the termination and bounds of \<open>emit_run\<close>,
  and the inputs on which the source departs from what it says of itself.
\<close>

section \<open>Whole sequences\<close>

text \<open>From \<open>k\<close> to \<open>w\<close> the bytes are a whole number of UTF-8 sequences, by their lead bytes.\<close>

function aligned :: "bytes \<Rightarrow> nat \<Rightarrow> nat \<Rightarrow> bool" where
  "aligned t k w = (if k < w then aligned t (k + seq_len (t ! k)) w else k = w)"
  by pat_completeness auto
termination
  by (relation "measure (\<lambda>(t, k, w). w - k)") (use seq_len_range in \<open>auto simp: diff_less_mono2\<close>)

declare aligned.simps [simp del]

lemma aligned_refl [simp]: "aligned t k k"
  by (subst aligned.simps) simp

lemma aligned_le: "aligned t k w \<Longrightarrow> k \<le> w"
  by (subst (asm) aligned.simps) (auto split: if_splits)

lemma aligned_step: "aligned t k w \<Longrightarrow> k < w \<Longrightarrow> aligned t (k + seq_len (t ! k)) w \<and> k + seq_len (t ! k) \<le> w"
  using aligned_le by (subst (asm) aligned.simps) auto

lemma aligned_trans: "aligned t i k \<Longrightarrow> aligned t k w \<Longrightarrow> aligned t i w"
proof (induction t i k rule: aligned.induct)
  case (1 t i k)
  show ?case
  proof (cases "i < k")
    case True
    then show ?thesis
      using 1 aligned_step[OF 1(2) True] aligned_le[OF 1(3)]
      by (subst aligned.simps) auto
  next
    case False
    then show ?thesis using 1 aligned_le[OF 1(2)] by simp
  qed
qed

lemma aligned_skip:
  "aligned t i n \<Longrightarrow> aligned t i (skip_spaces t n i) \<and> aligned t (skip_spaces t n i) n"
proof (induction t n i rule: skip_spaces.induct)
  case (1 t n i)
  show ?case
  proof (cases "i < n \<and> is_space (t ! i)")
    case True
    then have sk: "skip_spaces t n i = skip_spaces t n (Suc i)"
      by (simp add: skip_spaces.simps[of t n i])
    have len: "seq_len (t ! i) = 1" using True by (auto simp: is_space_def seq_len_def)
    have "aligned t (Suc i) n" using aligned_step[OF 1(2)] True len by simp
    from 1(1)[OF True this] have IH: "aligned t (Suc i) (skip_spaces t n i)" "aligned t (skip_spaces t n i) n"
      by (simp_all add: sk)
    moreover have "aligned t i (skip_spaces t n i)"
      using IH(1) aligned_le[OF IH(1)] len by (subst aligned.simps) auto
    ultimately show ?thesis by simp
  next
    case False
    then have "skip_spaces t n i = i" by (subst skip_spaces.simps) auto
    then show ?thesis using 1(2) by simp
  qed
qed

lemma aligned_word:
  "aligned t i n \<Longrightarrow> aligned t i (word_end t n i) \<and> aligned t (word_end t n i) n"
proof (induction t n i rule: word_end.induct)
  case (1 t n i)
  show ?case
  proof (cases "i < n \<and> \<not> is_space (t ! i)")
    case True
    then have we: "word_end t n i = word_end t n (i + seq_len (t ! i))"
      by (simp add: word_end.simps[of t n i])
    have "aligned t (i + seq_len (t ! i)) n" using aligned_step[OF 1(2)] True by simp
    from 1(1)[OF True this] have IH: "aligned t (i + seq_len (t ! i)) (word_end t n i)" "aligned t (word_end t n i) n"
      by (simp_all add: we)
    moreover have "aligned t i (word_end t n i)"
      using IH(1) aligned_le[OF IH(1)] seq_len_range(1)[of "t ! i"] by (subst aligned.simps) auto
    ultimately show ?thesis by simp
  next
    case False
    then have "word_end t n i = i" by (subst word_end.simps) auto
    then show ?thesis using 1(2) by simp
  qed
qed

section \<open>Fills that return\<close>

lemma fill_returns:
  "unat x + unat w \<le> 65535 \<Longrightarrow> unat y + unat h \<le> 65535 \<Longrightarrow> \<exists>r'. on_lcd (fill_rect x y w h b) r = Some r'"
  using fill_rect_spec[where x = x and y = y and w = w and h = h and b = b and l = "pr_lcd r"] by (auto simp: on_lcd_def split: option.splits)

lemma hline_returns:
  "unat x + unat w \<le> 65535 \<Longrightarrow> \<exists>r'. on_lcd (draw_hline x y w b) r = Some r'"
  by (simp add: on_lcd_def draw_hline_eq)

lemma visible_screen_y: "row_visible r \<Longrightarrow> unat (screen_y r) < 240"
  by (auto simp: row_visible_def screen_y_def LCD_HEIGHT_def word_le_nat_alt unat_sub_if_size)

lemma paint_returns:
  assumes "unat x + unat w \<le> 65535" and "unat (row_h r) \<le> 1000"
  shows "\<exists>r'. paint_bg x w v r = Some r'"
proof (cases "row_visible r")
  case True
  then show ?thesis
    using fill_returns[OF assms(1), of "screen_y r" "row_h r" True r] assms(2) visible_screen_y[OF True]
    by (auto simp: paint_bg_def)
qed (simp add: paint_bg_def)

lemma advance_range: "6 \<le> advance r \<and> advance r \<le> 12"
  by (auto simp: advance_def BIGFONT_W_def FONT_ADVANCE_def head_bold_face_def BOLD6_W_def BOLD7_W_def BOLD8_W_def)

lemma left_edge_range: "2 \<le> left_edge r \<and> left_edge r \<le> 50"
proof -
  let ?d = "if MAX_DEPTH < pr_depth r then MAX_DEPTH else pr_depth r"
  have "?d \<le> 4" by (auto simp: MAX_DEPTH_def not_less)
  then have "unat ?d \<le> 4" by (simp add: word_le_nat_alt)
  then show ?thesis by (simp add: left_edge_def Let_def page_metrics)
qed

lemma face_range: "6 \<le> fc_adv (face_of r) \<and> fc_adv (face_of r) \<le> 12 \<and> 2 \<le> fc_left (face_of r) \<and> fc_left (face_of r) \<le> 50"
  using advance_range left_edge_range by (simp add: face_of_def)

lemma unat_advance [simp]: "unat (of_nat (advance r) :: u16) = advance r"
  using advance_range[of r] by (simp add: unat_of_nat_u16)

section \<open>A run returns\<close>

text \<open>A state a fill can be made from: room to the right for one more cell, a sane row.\<close>

definition room :: "nat \<Rightarrow> page_renderer \<Rightarrow> bool" where
  "room k r \<longleftrightarrow> unat (pr_x r) + 12 * k \<le> 65000 \<and> unat (row_h r) \<le> 1000"

lemma row_h_frame [simp]:
  "row_h (r\<lparr>pr_x := a\<rparr>) = row_h r" "row_h (r\<lparr>pr_row_open := b\<rparr>) = row_h r" "row_h (newline r) = row_h r"
  by (simp_all add: row_h_def line_h_def newline_def)

lemma room_mono: "room a r \<Longrightarrow> b \<le> a \<Longrightarrow> room b r"
  by (auto simp: room_def)

lemma room_only_draws: "only_draws r r' \<Longrightarrow> room k r' = room k r"
  by (auto simp: only_draws_def room_def row_h_def line_h_def)

lemma room_note [simp]: "room k (note_missing cp r) = room k r"
  by (auto simp: room_def row_h_def line_h_def note_missing_def Let_def split: option.splits)

lemma word_ink_returns:
  assumes "room 1 r"
  shows "\<exists>r'. word_ink g invert r = Some r'"
proof (cases "row_visible r")
  case False
  then show ?thesis by (simp add: word_ink_def)
next
  case True
  let ?blank = "length g = 1 \<and> is_space (hd g)"
  have x: "unat (pr_x r) + unat (of_nat (advance r) :: u16) \<le> 65535"
    using assms advance_range[of r] by (simp add: room_def)
  have "\<exists>r1. cell_background ?blank invert r = Some r1"
    using fill_returns[OF x, of "screen_y r" "row_h r" _ r] paint_returns[OF x] visible_screen_y[OF True] assms
    by (auto simp: cell_background_def room_def)
  then obtain r1 where r1: "cell_background ?blank invert r = Some r1" by blast
  let ?r2 = "if ?blank then r1 else draw_glyph (pr_x r1) (screen_y r1) g (fst (next_cp g)) (\<not> invert) r1"
  have "only_draws r1 ?r2" by simp
  then have d: "only_draws r ?r2" by (rule only_draws_trans[OF only_draws_cell_background[OF r1]])
  have "pr_x ?r2 = pr_x r" "advance ?r2 = advance r"
    using only_drawsD[OF d] quiet_advance_eq[OF quiet_draws[OF d]] by (simp_all only: pen_of_def prod.inject)
  then have "\<exists>r3. on_lcd (draw_hline (pr_x ?r2) (screen_y ?r2 + row_h ?r2 - 2) (of_nat (advance ?r2)) (\<not> invert)) ?r2 = Some r3"
    using x by (intro hline_returns) (simp only: )
  then show ?thesis
    unfolding word_ink_def Let_def using True r1 by (auto simp del: not_None_eq)
qed

lemma word_cell_returns:
  assumes "room (Suc k) r"
  shows "\<exists>r'. word_cell g invert r = Some r' \<and> room k r'"
proof -
  let ?r1 = "if face_has r (fst (next_cp g)) then r else note_missing (fst (next_cp g)) r"
  have "room (Suc k) ?r1" using assms by simp
  then have "room 1 ?r1" by (simp add: room_def)
  then obtain r2 where r2: "word_ink g invert ?r1 = Some r2" using word_ink_returns by blast
  then have eq: "word_cell g invert r = Some (r2\<lparr>pr_x := pr_x r2 + of_nat (advance r2), pr_row_open := True\<rparr>)"
    by (simp add: word_cell_def Let_def)
  have q: "quiet r r2"
    by (rule quiet_trans[OF quiet_noted quiet_draws[OF only_draws_word_ink[OF r2]]])
  have "pr_x r2 = pr_x r" using q by (simp add: quiet_def pen_of_def)
  moreover have "unat (pr_x r + of_nat (advance r)) = unat (pr_x r) + advance r"
    using assms advance_range[of r] by (intro unat_add_small) (simp add: room_def)
  ultimately show ?thesis
    using eq assms advance_range[of r] quiet_advance_eq[OF q] same_style_face[of r r2] q
    by (auto simp: room_def quiet_def face_of_def row_h_def line_h_def)
qed

lemma hard_cell_room:
  assumes "room (Suc k) r"
  shows "room k (hard_cell g invert (wrap_if_needed (advance r) r))"
proof -
  let ?w = "wrap_if_needed (advance r) r"
  let ?h = "hard_cell g invert ?w"
  have ss: "same_style r ?h" and pen: "pen_of ?h = pen_hard_cell (face_of r) (pen_of r)"
    using hard_cell_wrap_pen by blast+
  have x: "unat (pr_x r) + 12 * Suc k \<le> 65000" using assms by (simp add: room_def)
  have l: "unat (of_nat (left_edge r) :: u16) = left_edge r" "left_edge r \<le> 50"
    using left_edge_range[of r] by (simp_all add: unat_of_nat_u16)
  have a: "unat (u + of_nat (advance r)) = unat u + advance r" if "unat u \<le> 65000" for u :: u16
    using that advance_range[of r] by (intro unat_add_small) simp
  have "unat (pr_x ?h) \<le> max (unat (pr_x r)) 50 + 12"
    using pen a[of "pr_x r"] a[of "of_nat (left_edge r)"] x l advance_range[of r]
    by (auto simp: pen_hard_cell_def pen_cell_def pen_newline_def pen_of_def face_of_def split: if_splits)
  moreover have "pr_x ?h = (if left_edge r < unat (pr_x r) \<and> right_margin < unat (pr_x r) + advance r
      then of_nat (left_edge r) else pr_x r) + of_nat (advance r)"
    using pen by (auto simp: pen_hard_cell_def pen_cell_def pen_newline_def pen_of_def face_of_def split: if_splits)
  ultimately have "unat (pr_x ?h) \<le> unat (pr_x r) + 12"
    using a[of "pr_x r"] a[of "of_nat (left_edge r)"] x l advance_range[of r] by (auto split: if_splits)
  then show ?thesis
    using assms same_style_face[OF ss] by (simp add: room_def face_of_def)
qed

lemma copy_returns: "k + len \<le> length t \<Longrightarrow> \<exists>g. copy_seq t k len = Some g"
  by (simp add: copy_seq_def)

lemma word_loop_returns:
  "aligned t k w \<Longrightarrow> w \<le> length t \<Longrightarrow> room (m + (w - k)) r \<Longrightarrow> \<exists>r'. word_loop t w invert k r = Some r' \<and> room m r'"
proof (induction t w invert k r rule: word_loop.induct)
  case (1 t w invert k r)
  show ?case
  proof (cases "k < w")
    case False
    then show ?thesis using 1(4) by (subst word_loop.simps) simp
  next
    case True
    note st = aligned_step[OF 1(2) True]
    let ?k = "k + seq_len (t ! k)"
    obtain g where g: "copy_seq t k (seq_len (t ! k)) = Some g"
      using copy_returns st 1(3) by (meson le_trans)
    have "room (Suc (m + (w - ?k))) r"
      by (rule room_mono[OF 1(4)]) (use st seq_len_range(1)[of "t ! k"] True in linarith)
    then obtain r1 where r1: "word_cell g invert r = Some r1" "room (m + (w - ?k)) r1"
      using word_cell_returns by blast
    obtain r' where "word_loop t w invert ?k r1 = Some r'" "room m r'"
      using 1(1)[OF True g r1(1)] st 1(3) r1(2) by blast
    then show ?thesis using True g r1 by (simp add: word_loop.simps[of t w invert k])
  qed
qed

lemma hard_loop_returns:
  "aligned t k w \<Longrightarrow> w \<le> length t \<Longrightarrow> room (m + (w - k)) r \<Longrightarrow> \<exists>r'. hard_loop t w invert k r = Some r' \<and> room m r'"
proof (induction t w invert k r rule: hard_loop.induct)
  case (1 t w invert k r)
  show ?case
  proof (cases "k < w")
    case False
    then show ?thesis using 1(4) by (subst hard_loop.simps) simp
  next
    case True
    note st = aligned_step[OF 1(2) True]
    let ?k = "k + seq_len (t ! k)"
    obtain g where g: "copy_seq t k (seq_len (t ! k)) = Some g"
      using copy_returns st 1(3) by (meson le_trans)
    have "room (Suc (m + (w - ?k))) r"
      by (rule room_mono[OF 1(4)]) (use st seq_len_range(1)[of "t ! k"] True in linarith)
    from hard_cell_room[OF this]
    obtain r' where "hard_loop t w invert ?k (hard_cell g invert (wrap_if_needed (advance r) r)) = Some r'" "room m r'"
      using 1(1)[OF True g] st 1(3) by blast
    then show ?thesis using True g by (simp add: hard_loop.simps[of t w invert k])
  qed
qed

lemma literal_cell_returns:
  assumes "unat (pr_x r) \<le> 60000" and "unat (row_h r) \<le> 1000"
  shows "\<exists>r'. literal_cell g invert r = Some r'"
proof -
  let ?r = "if has_glyph (fst (next_cp g)) then r else note_missing (fst (next_cp g)) r"
  have "quiet r ?r" by (rule quiet_noted)
  then have x: "pr_x ?r = pr_x r" and rh: "row_h ?r = row_h r"
    using same_style_face[of r ?r] by (simp_all add: quiet_def pen_of_def face_of_def)
  have "\<exists>r'. literal_ink g invert ?r = Some r'"
  proof (cases "row_visible ?r \<and> invert")
    case True
    have "unat (pr_x ?r) + unat (of_nat FONT_ADVANCE :: u16) \<le> 65535"
      using assms x by (simp add: FONT_ADVANCE_def)
    moreover have "unat (screen_y ?r) + unat (row_h ?r) \<le> 65535"
      using visible_screen_y[of ?r] True rh assms by simp
    ultimately obtain r2 where "on_lcd (fill_rect (pr_x ?r) (screen_y ?r) (of_nat FONT_ADVANCE) (row_h ?r) True) ?r = Some r2"
      using fill_returns by blast
    then show ?thesis using True by (simp add: literal_ink_def)
  qed (auto simp: literal_ink_def)
  then show ?thesis by (auto simp: literal_cell_def Let_def)
qed

lemma clip_mark_returns: "unat (row_h r) \<le> 1000 \<Longrightarrow> \<exists>r'. clip_mark invert r = Some r'"
proof (cases "row_visible r")
  case True
  assume "unat (row_h r) \<le> 1000"
  then have "\<exists>r1. on_lcd (fill_rect last_cell (screen_y r) (of_nat FONT_ADVANCE) (row_h r) invert) r = Some r1"
    using visible_screen_y[OF True]
    by (intro fill_returns) (simp_all add: last_cell_def page_metrics LCD_WIDTH_def)
  then show ?thesis using True by (auto simp: clip_mark_def)
qed (simp add: clip_mark_def)

lemma literal_loop_returns:
  "aligned t k n \<Longrightarrow> n \<le> length t \<Longrightarrow> unat (row_h r) \<le> 1000 \<Longrightarrow> \<exists>r'. literal_loop t n invert k r = Some r'"
proof (induction t n invert k r rule: literal_loop.induct)
  case (1 t n invert k r)
  show ?case
  proof (cases "k < n")
    case False
    then show ?thesis by (subst literal_loop.simps) simp
  next
    case True
    note st = aligned_step[OF 1(2) True]
    show ?thesis
    proof (cases "right_margin < unat (pr_x r) + FONT_ADVANCE")
      case wide: True
      obtain r1 where "clip_mark invert r = Some r1" using clip_mark_returns[OF 1(4)] by blast
      then show ?thesis using True wide by (simp add: literal_loop.simps[of t n invert k])
    next
      case fits: False
      obtain g where g: "copy_seq t k (seq_len (t ! k)) = Some g"
        using copy_returns st 1(3) by (meson le_trans)
      have "unat (pr_x r) \<le> 60000" using fits by (simp add: page_metrics LCD_WIDTH_def)
      then obtain r1 where r1: "literal_cell g invert r = Some r1"
        using literal_cell_returns 1(4) by blast
      have "row_h r1 = row_h r"
        using literal_cell_pen[OF r1] same_style_face[of r r1] by (simp add: face_of_def)
      then obtain r' where "literal_loop t n invert (k + seq_len (t ! k)) r1 = Some r'"
        using 1(1)[OF True fits g r1] st 1(3,4) by auto
      then show ?thesis using True fits g r1 by (simp add: literal_loop.simps[of t n invert k])
    qed
  qed
qed

lemma lead_spaces_returns:
  assumes "room (m + j) r"
  shows "\<exists>r'. lead_spaces (of_nat (j * advance r)) invert r = Some r' \<and> room m r'"
proof -
  let ?w = "of_nat (j * advance r) :: u16"
  have j: "j * advance r \<le> 12 * j" using advance_range[of r] by (simp add: mult.commute)
  moreover have "12 * j \<le> 65000" using assms by (simp add: room_def)
  ultimately have "j * advance r < 65536" by linarith
  then have w: "unat ?w \<le> 12 * j" using j by (simp only: unat_of_nat_u16)
  have x: "unat (pr_x r) + unat ?w + 12 * m \<le> 65000" "unat (row_h r) \<le> 1000"
    using assms w by (simp_all add: room_def del: of_nat_mult)
  then have fit: "unat (pr_x r) + unat ?w \<le> 65535" by linarith
  have "\<exists>ra. (if pr_has_bg r then paint_bg (pr_x r) ?w (pr_bg_luma r) r else Some r) = Some ra \<and> only_draws r ra"
    using paint_returns[OF fit x(2)] only_draws_paint_bg by fastforce
  then obtain ra where ra: "(if pr_has_bg r then paint_bg (pr_x r) ?w (pr_bg_luma r) r else Some r) = Some ra"
    "only_draws r ra" by blast
  then have xa: "pr_x ra = pr_x r" using only_drawsD by (simp add: pen_of_def)
  have "\<exists>rb. (if pr_underline ra \<and> row_visible ra
        then on_lcd (draw_hline (pr_x ra) (screen_y ra + row_h ra - 2) ?w (\<not> invert)) ra
        else Some ra) = Some rb \<and> only_draws ra rb"
    using hline_returns[of "pr_x ra" ?w] fit xa only_draws_on_lcd by fastforce
  then obtain rb where rb: "(if pr_underline ra \<and> row_visible ra
        then on_lcd (draw_hline (pr_x ra) (screen_y ra + row_h ra - 2) ?w (\<not> invert)) ra
        else Some ra) = Some rb" "only_draws ra rb" by blast
  have eq: "lead_spaces ?w invert r = Some (rb\<lparr>pr_x := pr_x rb + ?w, pr_row_open := True\<rparr>)"
    unfolding lead_spaces_def ra(1) by (simp add: rb(1) del: of_nat_mult)
  have d: "only_draws r rb" by (rule only_draws_trans[OF ra(2) rb(2)])
  then have xb: "pr_x rb = pr_x r" "row_h rb = row_h r"
    using only_drawsD[OF d] same_style_face[of r rb] by (simp_all add: pen_of_def face_of_def)
  have "unat (pr_x r + ?w) = unat (pr_x r) + unat ?w"
    using fit by (subst unat_add_lem[THEN iffD1]) simp_all
  then have "room m (rb\<lparr>pr_x := pr_x rb + ?w, pr_row_open := True\<rparr>)"
    using x xb assms by (simp add: room_def del: of_nat_mult)
  then show ?thesis using eq by blast
qed

lemma newline_room: "room k r \<Longrightarrow> left_edge r < unat (pr_x r) \<Longrightarrow> room k (newline r)"
  using left_edge_range[of r]
  by (simp add: room_def) (simp add: newline_def unat_of_nat_u16)

lemma emit_chunk_returns:
  assumes al: "aligned t i n" and "n \<le> length t" and "sp = skip_spaces t n i" and "w = word_end t n sp"
    and room: "room (m + (w - i)) r"
  shows "\<exists>r'. emit_chunk t invert i sp w r = Some r' \<and> room m r'"
proof -
  have a: "aligned t i sp" "aligned t sp w" "aligned t w n"
    using aligned_skip[OF al] aligned_word[of t sp n] assms(3,4) by auto
  have le: "i \<le> sp" "sp \<le> w" "w \<le> length t"
    using aligned_le[OF a(1)] aligned_le[OF a(2)] aligned_le[OF a(3)] assms(2) by auto
  let ?lead = "of_nat ((sp - i) * advance r) :: u16"
  let ?word = "of_nat (cells (drop sp t) (w - sp) * advance r) :: u16"
  show ?thesis
  proof (cases "content_w - (left_edge r - MARGIN_X) < unat ?word")
    case True
    then show ?thesis
      using hard_loop_returns[OF aligned_trans[OF a(1,2)] le(3) room] by (simp add: emit_chunk_def Let_def)
  next
    case False
    have split: "m + (w - i) = (m + (w - sp)) + (sp - i)" using le by simp
    have "\<exists>r1. (if right_margin < unat (pr_x r) + unat ?lead + unat ?word \<and> left_edge r < unat (pr_x r)
          then Some (newline r) else if ?lead \<noteq> 0 then lead_spaces ?lead invert r else Some r) = Some r1
        \<and> room (m + (w - sp)) r1"
    proof -
      have mono: "room (m + (w - sp)) r" by (rule room_mono[OF room]) (use split in simp)
      show ?thesis
        using lead_spaces_returns[of "m + (w - sp)" "sp - i" r invert] room newline_room[OF mono] mono
        by (auto simp: split simp del: of_nat_mult)
    qed
    then obtain r1 where r1: "(if right_margin < unat (pr_x r) + unat ?lead + unat ?word \<and> left_edge r < unat (pr_x r)
          then Some (newline r) else if ?lead \<noteq> 0 then lead_spaces ?lead invert r else Some r) = Some r1"
      "room (m + (w - sp)) r1" by blast
    have "emit_chunk t invert i sp w r = word_loop t w invert sp r1"
      unfolding emit_chunk_def Let_def r1(1) using False by (simp del: of_nat_mult)
    then show ?thesis using word_loop_returns[OF a(2) le(3) r1(2)] by simp
  qed
qed

lemma run_loop_returns:
  "aligned t i n \<Longrightarrow> n \<le> length t \<Longrightarrow> room (n - i) r \<Longrightarrow> \<exists>r'. run_loop t n invert i r = Some r'"
proof (induction t n invert i r rule: run_loop.induct)
  case (1 t n invert i r)
  show ?case
  proof (cases "i < n")
    case False
    then show ?thesis by (subst run_loop.simps) simp
  next
    case True
    let ?sp = "skip_spaces t n i"
    let ?w = "word_end t n ?sp"
    have a: "aligned t ?w n" using aligned_skip[OF 1(2)] aligned_word by blast
    have "n - i = (n - ?w) + (?w - i)" using aligned_le[OF a] chunk_progress[OF True, of t] by linarith
    then obtain r1 where r1: "emit_chunk t invert i ?sp ?w r = Some r1" "room (n - ?w) r1"
      using emit_chunk_returns[OF 1(2,3) refl refl, of "n - ?w" r invert] 1(4) by auto
    obtain r' where "run_loop t n invert ?w r1 = Some r'"
      using 1(1)[OF True refl refl r1(1) a 1(3) r1(2)] by blast
    then show ?thesis using True r1 by (simp add: run_loop.simps[of t n invert i] Let_def)
  qed
qed

lemma run_returns:
  assumes "aligned t 0 n" and "n \<le> length t" and "n \<le> 5000"
    and "unat (pr_x r) \<le> 400" and "unat (row_h r) \<le> 1000"
  shows "\<exists>r'. emit_run t n invert r = Some r'"
proof (cases "pr_literal r")
  case True
  have "row_h (fresh_row r) = row_h r" by (simp add: fresh_row_def)
  then show ?thesis
    using True literal_loop_returns[OF assms(1,2)] assms(5) by (simp add: emit_run_def emit_literal_def)
next
  case False
  let ?r = "if \<not> pr_row_open r \<and> unat (pr_x r) < left_edge r then r\<lparr>pr_x := of_nat (left_edge r)\<rparr> else r"
  have "room (n - 0) ?r"
    using assms left_edge_range[of r] by (simp add: room_def unat_of_nat_u16)
  from run_loop_returns[OF assms(1,2) this] show ?thesis
    using False by (simp add: emit_run_def)
qed


section \<open>Where the pen can end\<close>

text \<open>A chunk the wrap rule can keep on the panel: it fits a whole row, or its word alone is wider
  than a row and is broken.\<close>

definition chunk_fits :: "face \<Rightarrow> nat \<times> nat \<Rightarrow> bool" where
  "chunk_fits f lm = (case lm of (lead, m) \<Rightarrow>
     (lead + m) * fc_adv f \<le> right_margin - fc_left f
     \<or> right_margin - fc_left f < m * fc_adv f \<and> m * fc_adv f < 65536)"

definition good_face :: "face \<Rightarrow> bool" where
  "good_face f \<longleftrightarrow> 6 \<le> fc_adv f \<and> fc_adv f \<le> 12 \<and> 2 \<le> fc_left f \<and> fc_left f \<le> 50"

lemma good_face_of [simp]: "good_face (face_of r)"
  using face_range[of r] by (simp add: good_face_def)

lemma right_margin_eq: "right_margin = 398" "content_w = 396" "MARGIN_X = 2"
  by (simp_all add: page_metrics LCD_WIDTH_def)

lemma pen_cells:
  assumes "unat x + m * fc_adv f < 65536"
  shows "(pen_cell f ^^ m) (x, y, op) = (x + of_nat (m * fc_adv f), y, op \<or> 0 < m)"
    and "unat (x + of_nat (m * fc_adv f)) = unat x + m * fc_adv f"
  using assms
proof (induction m)
  case 0
  { case 1 then show ?case by simp next case 2 then show ?case by simp }
next
  case (Suc m)
  { case 1 then show ?case using Suc by (simp add: pen_cell_def algebra_simps)
  next
    case 2
    then show ?case by (intro unat_add_small)
  }
qed

definition pen_ok :: "face \<Rightarrow> pen \<Rightarrow> bool" where
  "pen_ok f p = (case p of (x, y, op) \<Rightarrow> fc_left f \<le> unat x \<and> unat x \<le> right_margin)"

lemma pen_hard_cell_ok: "good_face f \<Longrightarrow> pen_ok f p \<Longrightarrow> pen_ok f (pen_hard_cell f p)"
  by (cases p) (auto simp: pen_ok_def pen_hard_cell_def pen_cell_def pen_newline_def good_face_def right_margin_eq
      unat_of_nat_u16 unat_add_small not_less)

lemma funpow_ok: "(\<And>p. P p \<Longrightarrow> P (f p)) \<Longrightarrow> P p \<Longrightarrow> P ((f ^^ n) p)"
  by (induction n) auto

lemma pen_chunk_ok:
  assumes f: "good_face f" and ok: "pen_ok f p" and fits: "chunk_fits f lm"
  shows "pen_ok f (pen_chunk f lm p)"
proof -
  obtain lead m x y op where e: "lm = (lead, m)" "p = (x, y, op)" by (cases lm; cases p) auto
  have x: "fc_left f \<le> unat x" "unat x \<le> 398" using ok by (simp_all add: pen_ok_def e right_margin_eq)
  have l: "2 \<le> fc_left f" "fc_left f \<le> 50" using f by (simp_all add: good_face_def)
  have word: "unat (of_nat (m * fc_adv f) :: u16) = m * fc_adv f"
    using fits l by (intro unat_of_nat_u16) (auto simp: chunk_fits_def e right_margin_eq algebra_simps)
  show ?thesis
  proof (cases "396 - (fc_left f - 2) < m * fc_adv f")
    case True
    then have "pen_chunk f lm p = (pen_hard_cell f ^^ (lead + m)) p"
      using word by (simp add: pen_chunk_def e Let_def right_margin_eq del: of_nat_mult)
    then show ?thesis using funpow_ok[of "pen_ok f" "pen_hard_cell f"] pen_hard_cell_ok[OF f] ok by simp
  next
    case False
    then have total: "(lead + m) * fc_adv f \<le> 398 - fc_left f"
      using fits l by (auto simp: chunk_fits_def e right_margin_eq)
    have lead: "unat (of_nat (lead * fc_adv f) :: u16) = lead * fc_adv f"
      using total by (intro unat_of_nat_u16) (simp add: algebra_simps)
    have sum: "(lead + m) * fc_adv f = lead * fc_adv f + m * fc_adv f" by (simp add: algebra_simps)
    let ?start = "if 398 < unat x + lead * fc_adv f + m * fc_adv f \<and> fc_left f < unat x
        then pen_newline f p else if (of_nat (lead * fc_adv f) :: u16) \<noteq> 0 then (x + of_nat (lead * fc_adv f), y, True) else p"
    have eq: "pen_chunk f lm p = (pen_cell f ^^ m) ?start"
      using False word lead by (simp add: pen_chunk_def e Let_def right_margin_eq del: of_nat_mult)
    obtain x1 y1 op1 where s: "?start = (x1, y1, op1)" by (cases ?start) auto
    have "fc_left f \<le> unat x1 \<and> unat x1 + m * fc_adv f \<le> 398"
    proof (cases "398 < unat x + lead * fc_adv f + m * fc_adv f \<and> fc_left f < unat x")
      case True
      then have "x1 = of_nat (fc_left f)" using s by (simp add: pen_newline_def e)
      then have "unat x1 = fc_left f" using l by (simp add: unat_of_nat_u16)
      then show ?thesis using total sum l by simp
    next
      case stay: False
      have "unat (x + of_nat (lead * fc_adv f)) = unat x + lead * fc_adv f"
        using total sum x by (intro unat_add_small) linarith
      moreover have "x1 = x + of_nat (lead * fc_adv f)"
        using s stay by (auto simp: e simp del: of_nat_mult split: if_splits)
      ultimately have "unat x1 = unat x + lead * fc_adv f" by simp
      then show ?thesis using stay total sum x by auto
    qed
    then show ?thesis
      using pen_cells(1)[of x1 m f y1 op1] pen_cells(2)[of x1 m f] by (simp add: eq s pen_ok_def right_margin_eq)
  qed
qed

lemma pen_run_ok: "good_face f \<Longrightarrow> pen_ok f p \<Longrightarrow> list_all (chunk_fits f) cs \<Longrightarrow> pen_ok f (pen_run f cs p)"
proof (induction cs arbitrary: p)
  case (Cons c cs)
  then show ?case using pen_chunk_ok[of f p c] by (simp add: pen_run_def)
qed (simp add: pen_run_def)

lemma pen_literal_ok: "unat (fst p) \<le> right_margin \<Longrightarrow> unat (fst (pen_literal m p)) \<le> right_margin"
proof (induction m p rule: pen_literal.induct)
  case (2 m x y op)
  then show ?case by (auto simp: not_less FONT_ADVANCE_def right_margin_eq unat_add_small[of x 6, simplified])
qed simp


section \<open>Alignment\<close>

lemma cells_from_split: "aligned t i k \<Longrightarrow> k \<le> n \<Longrightarrow> cells_from t n i = cells_from t k i + cells_from t n k"
proof (induction t i k rule: aligned.induct)
  case (1 t i k)
  show ?case
  proof (cases "i < k")
    case True
    then show ?thesis
      using 1(1)[OF True] aligned_step[OF 1(2) True] 1(3)
      by (simp add: cells_from.simps[of t n i] cells_from.simps[of t k i])
  next
    case False
    then have "i = k" using aligned_le[OF 1(2)] by simp
    then show ?thesis by (simp add: cells_from.simps[of t k k])
  qed
qed

text \<open>A run that fits what is left of the row is drawn on it.\<close>

lemma pen_chunk_flat:
  assumes f: "good_face f" and "fc_left f \<le> unat x" and total: "unat x + (lead + m) * fc_adv f \<le> right_margin"
  shows "\<exists>op'. pen_chunk f (lead, m) (x, y, op) = (x + of_nat ((lead + m) * fc_adv f), y, op')"
proof -
  have sum: "(lead + m) * fc_adv f = lead * fc_adv f + m * fc_adv f" by (simp add: algebra_simps)
  have b: "unat x + lead * fc_adv f + m * fc_adv f \<le> 398" using total sum by (simp add: right_margin_eq)
  have word: "unat (of_nat (m * fc_adv f) :: u16) = m * fc_adv f"
    and lead: "unat (of_nat (lead * fc_adv f) :: u16) = lead * fc_adv f"
    using b by (intro unat_of_nat_u16; linarith)+
  have x1: "unat (x + of_nat (lead * fc_adv f)) = unat x + lead * fc_adv f"
    using b by (intro unat_add_small) linarith
  have "\<not> 396 - (fc_left f - 2) < m * fc_adv f"
    using b assms(2) f by (simp add: good_face_def)
  then have "pen_chunk f (lead, m) (x, y, op) = (pen_cell f ^^ m)
      (if (of_nat (lead * fc_adv f) :: u16) \<noteq> 0 then (x + of_nat (lead * fc_adv f), y, True) else (x, y, op))"
    using word lead b by (simp add: pen_chunk_def Let_def right_margin_eq del: of_nat_mult)
  also have "\<dots> = (pen_cell f ^^ m) (x + of_nat (lead * fc_adv f), y, (of_nat (lead * fc_adv f) :: u16) \<noteq> 0 \<or> op)"
    by simp
  also have "\<dots> = (x + of_nat (lead * fc_adv f) + of_nat (m * fc_adv f), y,
      ((of_nat (lead * fc_adv f) :: u16) \<noteq> 0 \<or> op) \<or> 0 < m)"
    using b x1 by (intro pen_cells(1)) linarith
  finally show ?thesis by (simp add: sum add.assoc)
qed

definition chunk_cells :: "(nat \<times> nat) list \<Rightarrow> nat" where
  "chunk_cells cs = sum_list (map (\<lambda>(lead, m). lead + m) cs)"

lemma pen_run_flat:
  assumes "good_face f"
  shows "fc_left f \<le> unat x \<Longrightarrow> unat x + chunk_cells cs * fc_adv f \<le> right_margin \<Longrightarrow>
     \<exists>op'. pen_run f cs (x, y, op) = (x + of_nat (chunk_cells cs * fc_adv f), y, op')"
proof (induction cs arbitrary: x op)
  case Nil
  then show ?case by (simp add: pen_run_def chunk_cells_def)
next
  case (Cons c cs)
  obtain lead m where c: "c = (lead, m)" by (cases c) auto
  have cc: "chunk_cells (c # cs) = (lead + m) + chunk_cells cs" by (simp add: chunk_cells_def c)
  have b: "unat x + (lead + m) * fc_adv f + chunk_cells cs * fc_adv f \<le> right_margin"
    using Cons.prems(2) by (simp add: cc algebra_simps)
  then have b1: "unat x + (lead + m) * fc_adv f \<le> right_margin" by linarith
  obtain op1 where s: "pen_chunk f (lead, m) (x, y, op) = (x + of_nat ((lead + m) * fc_adv f), y, op1)"
    using pen_chunk_flat[OF assms Cons.prems(1) b1] by blast
  have x1: "unat (x + of_nat ((lead + m) * fc_adv f)) = unat x + (lead + m) * fc_adv f"
    using b1 by (intro unat_add_small) (simp add: right_margin_eq)
  have "\<exists>op'. pen_run f cs (x + of_nat ((lead + m) * fc_adv f), y, op1)
      = (x + of_nat ((lead + m) * fc_adv f) + of_nat (chunk_cells cs * fc_adv f), y, op')"
    using Cons.prems(1) b x1 by (intro Cons.IH) linarith+
  then show ?case
    using s by (simp add: c pen_run_def cc[unfolded c] algebra_simps)
qed

lemma chunk_cells_chunks:
  assumes "aligned t i n"
  shows "chunk_cells (chunks t n i) = cells_from t n i"
  using assms
proof (induction t n i rule: chunks.induct)
  case (1 t n i)
  show ?case
  proof (cases "i < n")
    case False
    then show ?thesis by (simp add: chunks.simps[of t n i] cells_from.simps[of t n i] chunk_cells_def)
  next
    case True
    let ?sp = "skip_spaces t n i"
    let ?w = "word_end t n ?sp"
    have a: "aligned t i ?sp" "aligned t ?sp n" using aligned_skip[OF 1(2)] by simp_all
    have aw: "aligned t ?sp ?w" "aligned t ?w n" using aligned_word[OF a(2)] by simp_all
    have "cells_from t n i = ?sp - i + cells_from t n ?sp"
      by (rule cells_from_spaces) (rule aligned_le[OF a(2)])
    also have "cells_from t n ?sp = cells_from t ?w ?sp + cells_from t n ?w"
      by (rule cells_from_split[OF aw(1) aligned_le[OF aw(2)]])
    finally show ?thesis
      using 1(1)[OF True refl refl aw(2)] True
      by (simp add: chunks.simps[of t n i] Let_def chunk_cells_def)
  qed
qed

text \<open>What \<open>onText\<close> leaves of the state that decides the pen, for a run that is no heading.\<close>

lemma onText_plain:
  assumes "\<not> st_heading s \<or> pr_row_open r \<or> \<not> pr_head2x r"
  shows "onText t n s r = emit_run t n (text_invert s) (text_finish s (text_start t n s r))"
proof -
  have "pr_row_open (text_start t n s r) = pr_row_open r" "pr_head2x (text_start t n s r) = pr_head2x r"
    by (simp_all add: text_start_def Let_def fresh_row_def align_pen_def)
  then show ?thesis using assms by (auto simp: onText_def heading_face_def)
qed

text \<open>Alignment. A run of whole sequences that fits one row, given to a fresh row in body style,
  is drawn on that row: a centred one with the same space on both sides to within a pixel, a
  right-aligned one ending at the margin.\<close>

theorem aligned_run_is_placed:
  assumes run: "onText t n s r = Some r'" and "aligned t 0 n" "n \<le> length t"
    and fresh: "\<not> pr_row_open r" and plain: "\<not> st_heading s" "\<not> st_literal s" "\<not> st_bold s"
    and face: "pr_head r = 0" "\<not> pr_bold r"
    and left: "left = left_edge (r\<lparr>pr_depth := st_depth s\<rparr>)"
    and fits: "cells t n * FONT_ADVANCE \<le> right_margin - left"
  shows "pr_y r' = pr_y r
    \<and> (st_align s = AlignRight \<longrightarrow> unat (pr_x r') = right_margin)
    \<and> (st_align s = AlignCenter \<longrightarrow>
         (let before = unat (pr_x r') - cells t n * FONT_ADVANCE - left; after = right_margin - unat (pr_x r')
          in before \<le> after \<and> after \<le> before + 1))
    \<and> (st_align s = AlignLeft \<longrightarrow> unat (pr_x r') = left + cells t n * FONT_ADVANCE)"
proof -
  let ?q = "text_finish s (text_start t n s r)"
  let ?w = "cells t n * FONT_ADVANCE"
  have lr: "2 \<le> left" "left \<le> 50" using left_edge_range[of "r\<lparr>pr_depth := st_depth s\<rparr>"] left by simp_all
  have w: "?w \<le> 398 - left" using fits by (simp add: right_margin_eq)
  have uw: "unat (of_nat ?w :: u16) = ?w" using w by (intro unat_of_nat_u16) linarith
  have emit: "emit_run t n (text_invert s) ?q = Some r'"
    using run onText_plain[of s r t n] plain by simp
  let ?base = "r\<lparr>pr_depth := st_depth s, pr_blank_pending := False, pr_literal := False\<rparr>"
  have le: "left_edge (?base\<lparr>pr_x := x\<rparr>) = left" "left_edge ?base = left" for x
    using left by (simp_all add: left_edge_def)
  have adv: "advance (?base\<lparr>pr_x := x\<rparr>) = FONT_ADVANCE" for x
    using face by (simp add: advance_def)
  have ua: "unat (of_nat (398 - left) :: u16) = 398 - left" by (intro unat_of_nat_u16) simp
  let ?start = "if st_align s = AlignCenter then left + (398 - left - ?w) div 2
      else if st_align s = AlignRight then 398 - ?w else left"
  have q: "pen_of ?q = (of_nat ?start, pr_y r, False)" "\<not> pr_literal ?q" "face_of ?q = \<lparr>fc_adv = FONT_ADVANCE, fc_left = left, fc_row = row_h r\<rparr>"
  proof -
    have al: "align_pen t n s (fresh_row ?base) = ?base\<lparr>pr_x := of_nat ?start\<rparr>"
      using fresh w uw ua
      by (cases "st_align s")
        (simp_all add: align_pen_def fresh_row_def le adv Let_def word_le_nat_alt LCD_WIDTH_def MARGIN_X_def del: of_nat_mult of_nat_add)
    have ts: "text_start t n s r = (?base\<lparr>pr_x := of_nat ?start\<rparr>)\<lparr>pr_has_bg := text_has_bg s, pr_bg_luma := luma_of (st_bg s)\<rparr>"
      using plain al by (simp add: text_start_def Let_def)
    show "pen_of ?q = (of_nat ?start, pr_y r, False)" "\<not> pr_literal ?q"
      using fresh unfolding ts by (simp_all add: text_finish_def pen_of_def)
    show "face_of ?q = \<lparr>fc_adv = FONT_ADVANCE, fc_left = left, fc_row = row_h r\<rparr>"
      using face plain left unfolding ts
      by (simp add: text_finish_def face_of_def advance_def left_edge_def row_h_def line_h_def)
  qed
  have st: "left \<le> ?start" "?start + ?w \<le> 398" using w lr by auto
  then have us: "unat (of_nat ?start :: u16) = ?start" by (intro unat_of_nat_u16) linarith
  then have x: "unat (pr_x ?q) = ?start" using q(1) by (simp add: pen_of_def)
  have cc: "chunk_cells (chunks t n 0) = cells t n"
    using chunk_cells_chunks[OF assms(2)] by (simp add: cells_def)
  have "left_edge ?q = left" using q(3) by (simp add: face_of_def)
  then have "pen_emit t n ?q = pen_run (face_of ?q) (chunks t n 0) (pen_of ?q)"
    using q(2) x st(1) by (simp add: pen_emit_def)
  moreover have "\<exists>op'. pen_run (face_of ?q) (chunks t n 0) (of_nat ?start, pr_y r, False)
      = (of_nat ?start + of_nat (chunk_cells (chunks t n 0) * fc_adv (face_of ?q)), pr_y r, op')"
    using st us by (intro pen_run_flat good_face_of) (simp_all add: q(3) cc right_margin_eq)
  ultimately obtain op' where "pen_of r' = (of_nat ?start + of_nat ?w, pr_y r, op')"
    using emit_run_pen[OF emit assms(3)] by (auto simp: q cc)
  then have "pr_x r' = of_nat ?start + of_nat ?w" "pr_y r' = pr_y r" by (simp_all add: pen_of_def)
  moreover have "unat (of_nat ?start + of_nat ?w :: u16) = ?start + ?w"
    using st us by (subst unat_add_small) (simp_all add: us)
  ultimately have e: "unat (pr_x r') = ?start + ?w" "pr_y r' = pr_y r" by simp_all
  have half: "2 * (d div 2) \<le> d" "d \<le> 2 * (d div 2) + 1" for d :: nat by presburger+
  show ?thesis
  proof (cases "st_align s")
    case AlignCenter
    define d where "d = 398 - left - ?w"
    have "unat (pr_x r') = left + d div 2 + ?w" using AlignCenter e(1) by (simp add: d_def)
    moreover have "398 = left + d + ?w" using w lr by (simp add: d_def)
    ultimately have "unat (pr_x r') - ?w - left = d div 2" "398 - unat (pr_x r') = d - d div 2"
      by linarith+
    moreover have "d div 2 \<le> d - d div 2" "d - d div 2 \<le> d div 2 + 1" using half[of d] by linarith+
    ultimately show ?thesis using e(2) AlignCenter by (simp add: Let_def right_margin_eq)
  qed (use e st w lr in \<open>auto simp: right_margin_eq\<close>)
qed

section \<open>Concrete pages\<close>

definition body_style :: style where
  "body_style = \<lparr>st_depth = 0, st_literal = False, st_align = AlignLeft,
     st_bg = \<lparr>is_default = True, is_valid = True, rgb = 0\<rparr>,
     st_bold = False, st_underline = False, st_heading = False\<rparr>"

definition demo_page :: page_renderer where
  "demo_page = new_renderer (new_lcd (\<lambda>_. 0)) 2 True True True"

lemma demo_page_simps [simp]:
  "pr_x demo_page = 0" "pr_y demo_page = 0" "pr_row_open demo_page = False" "pr_literal demo_page = False"
  "pr_head demo_page = 0" "pr_bold demo_page = False" "pr_row_h demo_page = 0" "pr_leading demo_page = 2"
  "pr_depth demo_page = 0" "pr_scroll demo_page = 0" "pr_has_bg demo_page = False" "pr_head2x demo_page = True"
  "pr_underline demo_page = False" "pr_blank_pending demo_page = True"
  by (simp_all add: demo_page_def new_renderer_def)

lemma demo_page_geometry [simp]: "left_edge demo_page = 2" "row_h demo_page = 15" "advance demo_page = 6"
  by (simp_all add: left_edge_def row_h_def line_h_def advance_def page_metrics MAX_DEPTH_def)

definition hi :: bytes where "hi = [0x48, 0x69]"

lemma hi_simps [simp]: "length hi = 2" "aligned hi 0 2" "cells hi 2 = 2"
  by (simp_all add: hi_def aligned.simps cells_def cells_from.simps seq_len_def)

lemma hi_chunks [simp]: "chunks hi 2 0 = [(0, 2)]"
  by (simp add: hi_def chunks.simps skip_spaces.simps word_end.simps cells_from.simps seq_len_def is_space_def Let_def)



lemma fresh_row_x: "\<not> pr_row_open q \<Longrightarrow> unat (pr_x (fresh_row q)) = left_edge q"
  using left_edge_range[of q] by (simp add: fresh_row_def unat_of_nat_u16)

lemma plain_text_returns:
  assumes "aligned t 0 n" "n \<le> length t" "n \<le> 5000" "\<not> pr_row_open r" "unat (row_h r) \<le> 1000" "\<not> st_heading s"
  shows "\<exists>r'. onText t n s r = Some r'"
proof -
  let ?q = "text_finish s (text_start t n s r)"
  have "row_h ?q = row_h r"
    by (simp add: text_finish_def text_start_def Let_def align_pen_def fresh_row_def row_h_def line_h_def)
  moreover have "unat (pr_x ?q) \<le> 400"
  proof -
    let ?b = "fresh_row (r\<lparr>pr_depth := st_depth s, pr_blank_pending := False, pr_literal := st_literal s\<rparr>)"
    have l: "left_edge ?b \<le> 50" "unat (pr_x ?b) \<le> 50"
      using assms(4) fresh_row_x[of "r\<lparr>pr_depth := st_depth s, pr_blank_pending := False, pr_literal := st_literal s\<rparr>"]
        left_edge_range by simp_all
    have "unat (pr_x (align_pen t n s ?b)) \<le> 400"
    proof (cases "pr_x (align_pen t n s ?b) = pr_x ?b")
      case True
      then show ?thesis using l by simp
    next
      case False
      let ?w = "of_nat (cells t n * advance ?b) :: u16" and ?a = "of_nat (LCD_WIDTH - MARGIN_X - left_edge ?b) :: u16"
      have "unat ?a \<le> 398" by (rule le_trans[OF unat_of_nat_le]) (simp add: LCD_WIDTH_def MARGIN_X_def)
      then have "unat (of_nat (left_edge ?b + (unat ?a - unat ?w) div 2) :: u16) \<le> 50 + 199"
        using l by (intro le_trans[OF unat_of_nat_le]) linarith
      moreover have "unat (of_nat (LCD_WIDTH - MARGIN_X - unat ?w) :: u16) \<le> 398"
        by (rule le_trans[OF unat_of_nat_le]) (simp add: LCD_WIDTH_def MARGIN_X_def)
      ultimately show ?thesis using False by (auto simp: align_pen_def Let_def split: if_splits)
    qed
    then show ?thesis by (simp add: text_finish_def text_start_def Let_def)
  qed
  ultimately show ?thesis
    using run_returns[OF assms(1-3), of ?q "text_invert s"] assms onText_plain[of s r t n] by simp
qed

theorem aligned_run_is_placed_witness:
  "\<exists>r'. onText hi 2 (body_style\<lparr>st_align := AlignCenter\<rparr>) demo_page = Some r' \<and> pr_y r' = pr_y demo_page
     \<and> (let before = unat (pr_x r') - 2 * FONT_ADVANCE - 2; after = right_margin - unat (pr_x r')
        in before \<le> after \<and> after \<le> before + 1)"
proof -
  let ?s = "body_style\<lparr>st_align := AlignCenter\<rparr>"
  obtain r' where r': "onText hi 2 ?s demo_page = Some r'"
    using plain_text_returns[of hi 2 demo_page ?s] by (auto simp: body_style_def)
  show ?thesis
    using aligned_run_is_placed[OF r' _ _ _ _ _ _ _ _ refl] r'
    by (simp add: body_style_def left_edge_def page_metrics MAX_DEPTH_def LCD_WIDTH_def)
qed

section \<open>Where the source departs from what it says\<close>

lemma spaces_scan:
  "t = replicate n 0x20 @ u \<Longrightarrow> i \<le> n \<Longrightarrow> n \<le> m \<Longrightarrow> n = m \<or> u \<noteq> [] \<and> \<not> is_space (hd u) \<Longrightarrow>
     skip_spaces t m i = n"
proof (induction t m i rule: skip_spaces.induct)
  case (1 t m i)
  show ?case
  proof (cases "i < n")
    case True
    then have "is_space (t ! i)" using 1(2) by (simp add: nth_append is_space_def)
    then show ?thesis using 1 True by (subst skip_spaces.simps) auto
  next
    case False
    then have i: "i = n" using 1(3) by simp
    show ?thesis
    proof (cases "n = m")
      case True
      then show ?thesis using i by (subst skip_spaces.simps) simp
    next
      case False
      then have "t ! n = hd u" "\<not> is_space (hd u)" using 1(2,5) by (auto simp: nth_append hd_conv_nth)
      then show ?thesis using i by (subst skip_spaces.simps) simp
    qed
  qed
qed





text \<open>At the start of a row the wrap rule does not apply to leading spaces: 67 spaces and a letter
  put the letter, and leave the pen, beyond the right edge of the panel, on the same row.\<close>

theorem leading_spaces_leave_the_panel:
  "\<exists>r'. emit_run (replicate 67 0x20 @ [0x61]) 68 False demo_page = Some r'
     \<and> unat (pr_x r') = 410 \<and> LCD_WIDTH < unat (pr_x r') \<and> pr_y r' = pr_y demo_page"
proof -
  let ?t = "replicate 67 0x20 @ [0x61] :: u8 list"
  have sp: "skip_spaces ?t 68 0 = 67" by (rule spaces_scan[OF refl]) (simp_all add: is_space_def)
  have we: "word_end ?t 68 67 = 68"
    by (simp add: word_end.simps[of ?t 68 67] word_end.simps[of ?t 68 68] nth_append is_space_def seq_len_def)
  have cf: "cells_from ?t 68 67 = 1"
    by (simp add: cells_from.simps[of ?t 68 67] cells_from.simps[of ?t 68 68] nth_append seq_len_def)
  have "aligned ?t 0 67"
  proof -
    have "aligned ?t i 67" if "i \<le> 67" for i
      using that
    proof (induction "67 - i" arbitrary: i)
      case (Suc k)
      then have "aligned ?t (Suc i) 67" "?t ! i = 0x20" by (auto simp: nth_append)
      then show ?case using Suc by (subst aligned.simps) (simp add: seq_len_def)
    qed simp
    then show ?thesis by simp
  qed
  moreover have "aligned ?t 67 68"
    by (simp add: aligned.simps[of ?t 67] nth_append seq_len_def)
  ultimately have "aligned ?t 0 68" by (rule aligned_trans)
  then obtain r' where r': "emit_run ?t 68 False demo_page = Some r'"
    using run_returns[of ?t 68 demo_page False] by auto
  have "chunks ?t 68 0 = [(67, 1)]"
    by (simp add: chunks.simps[of ?t 68 0] chunks.simps[of ?t 68 68] sp we cf Let_def)
  then have "pen_of r' = (410, 0, True)"
    using emit_run_pen[OF r'] by (simp add: pen_emit_def pen_run_def pen_chunk_def pen_cell_def face_of_def right_margin_eq Let_def)
  then show ?thesis using r' by (simp add: pen_of_def LCD_WIDTH_def)
qed

end
