(* ===== verification/VirtualPanel.thy ===== *)
theory VirtualPanel
  imports SharpLcd
begin

text \<open>
  The host's stand-in for the panel, \<open>lib/SharpLcd/src/VirtualPanel.h\<close> and
  \<open>VirtualPanel.cpp\<close>: it collects the bytes of one chip-select window and decodes them
  back into an image. The theory proves that what the driver flushes is what the panel
  shows, for every drawing sequence (\<open>in_sync\<close> and its preservation).
\<close>

section \<open>State and operations\<close>

definition TX_MAX :: nat where
  "TX_MAX = 1 + LCD_HEIGHT * (1 + LCD_LINE_BYTES + 1) + 1"

text \<open>\<open>_tx_len\<close> is the length of \<open>vp_tx\<close>.\<close>

record virtual_panel =
  vp_img :: "nat \<Rightarrow> u8"
  vp_tx :: bytes
  vp_selected :: bool
  vp_vcom :: bool
  vp_lines_written :: u32
  vp_clears :: u32
  vp_toggles :: u32
  vp_overflowed :: bool

definition new_panel :: virtual_panel where
  "new_panel = \<lparr>vp_img = (\<lambda>_. 0xFF), vp_tx = [], vp_selected = False, vp_vcom = False,
     vp_lines_written = 0, vp_clears = 0, vp_toggles = 0, vp_overflowed = False\<rparr>"

text \<open>The line loop of \<open>apply_transaction\<close>: address, one line of pixels, one gap byte.\<close>

definition store_line :: "nat \<Rightarrow> bytes \<Rightarrow> virtual_panel \<Rightarrow> virtual_panel" where
  "store_line line data p =
     (if 1 \<le> line \<and> line \<le> LCD_HEIGHT
      then p\<lparr>vp_img := (\<lambda>i. let base = (line - 1) * LCD_LINE_BYTES in
                if base \<le> i \<and> i < base + LCD_LINE_BYTES then data ! (i - base) else vp_img p i),
             vp_lines_written := vp_lines_written p + 1\<rparr>
      else p)"

function apply_lines :: "bytes \<Rightarrow> virtual_panel \<Rightarrow> virtual_panel" where
  "apply_lines rest p =
     (if 1 + LCD_LINE_BYTES < length rest
      then apply_lines (drop (2 + LCD_LINE_BYTES) rest)
             (store_line (unat (reverse_bits (hd rest))) (take LCD_LINE_BYTES (tl rest)) p)
      else p)"
  by pat_completeness auto
termination
  by (relation "measure (\<lambda>(rest, p). length rest)") auto

declare apply_lines.simps [simp del]

definition apply_transaction :: "virtual_panel \<Rightarrow> virtual_panel" where
  "apply_transaction p =
     (case vp_tx p of
        [] \<Rightarrow> p
      | mode # rest \<Rightarrow>
          (let want_vcom = (mode AND LCD_M1_VCOM \<noteq> 0);
               p1 = (if want_vcom \<noteq> vp_vcom p
                     then p\<lparr>vp_vcom := want_vcom, vp_toggles := vp_toggles p + 1\<rparr> else p)
           in if mode AND LCD_M2_CLEAR \<noteq> 0
              then p1\<lparr>vp_img := (\<lambda>_. 0xFF), vp_clears := vp_clears p1 + 1\<rparr>
              else if mode AND LCD_M0_WRITE = 0 then p1
              else apply_lines rest p1))"

definition vp_select :: "bool \<Rightarrow> virtual_panel \<Rightarrow> virtual_panel" where
  "vp_select on p =
     (if on then p\<lparr>vp_selected := True, vp_tx := []\<rparr>
      else (apply_transaction (p\<lparr>vp_selected := False\<rparr>))\<lparr>vp_tx := []\<rparr>)"

fun collect :: "bytes \<Rightarrow> virtual_panel \<Rightarrow> virtual_panel" where
  "collect [] p = p"
| "collect (d # ds) p =
     (if TX_MAX \<le> length (vp_tx p) then p\<lparr>vp_overflowed := True\<rparr>
      else collect ds (p\<lparr>vp_tx := vp_tx p @ [d]\<rparr>))"

definition vp_write :: "bytes \<Rightarrow> virtual_panel \<Rightarrow> virtual_panel" where
  "vp_write data p = (if \<not> vp_selected p then p else collect data p)"

definition vp_pixel :: "virtual_panel \<Rightarrow> u16 \<Rightarrow> u16 \<Rightarrow> bool" where
  "vp_pixel p x y =
     (if LCD_WIDTH \<le> unat x \<or> LCD_HEIGHT \<le> unat y then False
      else vp_img p (fb_index x y) AND pixel_mask x = 0)"

definition reset_counters :: "virtual_panel \<Rightarrow> virtual_panel" where
  "reset_counters p = p\<lparr>vp_lines_written := 0, vp_clears := 0, vp_toggles := 0\<rparr>"

text \<open>The body of the portable bitmap \<open>write_pbm\<close> writes: one row of digits per panel row,
  every pixel and every row repeated \<open>scale\<close> times (0 means 1).\<close>

definition pbm_rows :: "virtual_panel \<Rightarrow> u8 \<Rightarrow> string list" where
  "pbm_rows p scale =
     (let k = (if scale = 0 then 1 else unat scale) in
      concat (map (\<lambda>y. replicate k
        (concat (map (\<lambda>x. replicate k (if vp_pixel p (of_nat x) (of_nat y) then CHR ''1'' else CHR ''0''))
          [0..<LCD_WIDTH])))
        [0..<LCD_HEIGHT]))"

text \<open>The panel at the other end of the driver's bus.\<close>

fun bus_step :: "bus_op \<Rightarrow> virtual_panel \<Rightarrow> virtual_panel" where
  "bus_step (Select on) p = vp_select on p"
| "bus_step (Write data) p = vp_write data p"

definition bus_run :: "bus_op list \<Rightarrow> virtual_panel \<Rightarrow> virtual_panel" where
  "bus_run ops p = fold bus_step ops p"

section \<open>Lemmas: one chip-select window\<close>

lemma bus_run_append: "bus_run (xs @ ys) p = bus_run ys (bus_run xs p)"
  by (simp add: bus_run_def)

lemma bus_run_Nil [simp]: "bus_run [] p = p"
  and bus_run_Cons [simp]: "bus_run (o1 # os) p = bus_run os (bus_step o1 p)"
  by (simp_all add: bus_run_def)

lemma collect_fits:
  "length (vp_tx p) + length ds \<le> TX_MAX \<Longrightarrow> collect ds p = p\<lparr>vp_tx := vp_tx p @ ds\<rparr>"
  by (induction ds arbitrary: p) auto

definition payload :: "bus_op list \<Rightarrow> bytes" where
  "payload ops = concat (map (\<lambda>b. case b of Write d \<Rightarrow> d | Select _ \<Rightarrow> []) ops)"

definition only_writes :: "bus_op list \<Rightarrow> bool" where
  "only_writes ops \<longleftrightarrow> (\<forall>b \<in> set ops. case b of Write _ \<Rightarrow> True | Select _ \<Rightarrow> False)"

lemma bus_run_writes:
  assumes "only_writes ops" and "vp_selected p" and "length (vp_tx p) + length (payload ops) \<le> TX_MAX"
  shows "bus_run ops p = p\<lparr>vp_tx := vp_tx p @ payload ops\<rparr>"
  using assms
proof (induction ops arbitrary: p)
  case Nil
  then show ?case by (simp add: payload_def)
next
  case (Cons b ops)
  then obtain d where b: "b = Write d" by (auto simp: only_writes_def split: bus_op.splits)
  let ?p = "p\<lparr>vp_tx := vp_tx p @ d\<rparr>"
  have "bus_step b p = ?p"
    using Cons.prems b by (simp add: vp_write_def collect_fits payload_def)
  moreover have "bus_run ops ?p = ?p\<lparr>vp_tx := vp_tx ?p @ payload ops\<rparr>"
    using Cons.prems b by (intro Cons.IH) (auto simp: only_writes_def payload_def)
  ultimately show ?case by (simp add: b payload_def)
qed

text \<open>A whole window: select, writes that fit the buffer, deselect.\<close>

lemma bus_run_window:
  assumes "only_writes ops" and "length (payload ops) \<le> TX_MAX"
  shows "bus_run (Select True # ops @ [Select False]) p =
    (apply_transaction (p\<lparr>vp_tx := payload ops, vp_selected := False\<rparr>))\<lparr>vp_tx := []\<rparr>"
  using assms by (simp add: bus_run_append vp_select_def bus_run_writes)

section \<open>Lemmas: decoding what the driver sends\<close>

definition line_bytes :: "sharp_lcd \<Rightarrow> nat \<Rightarrow> bytes" where
  "line_bytes l y = line_address (of_nat (Suc y)) # fb_line l y @ [0]"

lemma payload_simps [simp]:
  "payload [] = []" "payload (Write d # ops) = d @ payload ops"
  "payload (xs @ ys) = payload xs @ payload ys"
  by (simp_all add: payload_def)

lemma payload_lines: "payload (concat (map (line_ops l) ys)) = concat (map (line_bytes l) ys)"
  by (induction ys) (simp_all add: line_ops_def line_bytes_def)

lemma length_fb_line [simp]: "length (fb_line l y) = LCD_LINE_BYTES"
  by (simp add: fb_line_def)

lemma length_lines: "length (concat (map (line_bytes l) ys)) = (2 + LCD_LINE_BYTES) * length ys"
  by (induction ys) (simp_all add: line_bytes_def)

lemma line_address_roundtrip:
  assumes "y < LCD_HEIGHT"
  shows "unat (reverse_bits (line_address (of_nat (Suc y)))) = Suc y"
proof -
  have "Suc y < 256" using assms by (simp add: LCD_HEIGHT_def)
  then have "unat (ucast (of_nat (Suc y) :: u16) :: u8) = Suc y"
    by (simp add: unsigned_ucast_eq unat_of_nat_u16 take_bit_eq_mod del: of_nat_Suc)
  then show ?thesis by (simp add: line_address_def reverse_bits_involution)
qed

lemma apply_lines_trailer: "apply_lines [b] p = p"
  by (simp add: apply_lines.simps lcd_geometry)

lemma apply_lines_cons:
  assumes "y < LCD_HEIGHT"
  shows "apply_lines (line_bytes l y @ rest) p = apply_lines rest (store_line (Suc y) (fb_line l y) p)"
    (is "?L = _")
proof -
  have "?L = apply_lines (drop (2 + LCD_LINE_BYTES) (line_bytes l y @ rest))
      (store_line (unat (reverse_bits (hd (line_bytes l y @ rest))))
        (take LCD_LINE_BYTES (tl (line_bytes l y @ rest))) p)"
    by (subst apply_lines.simps) (simp add: line_bytes_def)
  then show ?thesis
    using line_address_roundtrip[OF assms] by (simp add: line_bytes_def)
qed

lemma apply_lines_encoded:
  "(\<forall>y \<in> set ys. y < LCD_HEIGHT) \<Longrightarrow>
     apply_lines (concat (map (line_bytes l) ys) @ [b]) p
       = fold (\<lambda>y. store_line (Suc y) (fb_line l y)) ys p"
  by (induction ys arbitrary: p) (simp_all add: apply_lines_trailer apply_lines_cons)

lemma fb_line_nth:
  "y * LCD_LINE_BYTES \<le> i \<Longrightarrow> i < y * LCD_LINE_BYTES + LCD_LINE_BYTES \<Longrightarrow>
     fb_line l y ! (i - y * LCD_LINE_BYTES) = lcd_fb l i"
  by (simp add: fb_line_def less_diff_conv2 add.commute)

lemma store_line_img:
  assumes "y < LCD_HEIGHT"
  shows "vp_img (store_line (Suc y) (fb_line l y) p) i
    = (if i div LCD_LINE_BYTES = y then lcd_fb l i else vp_img p i)"
proof -
  have "i div LCD_LINE_BYTES = y \<longleftrightarrow> y * LCD_LINE_BYTES \<le> i \<and> i < y * LCD_LINE_BYTES + LCD_LINE_BYTES"
    unfolding lcd_geometry by (simp; linarith)
  then show ?thesis
    using assms by (simp add: store_line_def fb_line_nth Let_def)
qed

lemma store_lines_img:
  "(\<forall>y \<in> set ys. y < LCD_HEIGHT) \<Longrightarrow>
     vp_img (fold (\<lambda>y. store_line (Suc y) (fb_line l y)) ys p) i
       = (if i div LCD_LINE_BYTES \<in> set ys then lcd_fb l i else vp_img p i)"
  by (induction ys arbitrary: p) (auto simp: store_line_img)

lemma store_lines_count:
  "(\<forall>y \<in> set ys. y < LCD_HEIGHT) \<Longrightarrow>
     vp_lines_written (fold (\<lambda>y. store_line (Suc y) (fb_line l y)) ys p)
       = vp_lines_written p + of_nat (length ys)"
  by (induction ys arbitrary: p) (auto simp: store_line_def)

lemma store_line_frame [simp]:
  "vp_overflowed (store_line n d p) = vp_overflowed p" "vp_vcom (store_line n d p) = vp_vcom p"
  "vp_selected (store_line n d p) = vp_selected p" "vp_clears (store_line n d p) = vp_clears p"
  "vp_toggles (store_line n d p) = vp_toggles p"
  by (simp_all add: store_line_def)

lemma store_lines_frame [simp]:
  "vp_overflowed (fold (\<lambda>y. store_line (f y) (g y)) ys p) = vp_overflowed p"
  "vp_vcom (fold (\<lambda>y. store_line (f y) (g y)) ys p) = vp_vcom p"
  "vp_selected (fold (\<lambda>y. store_line (f y) (g y)) ys p) = vp_selected p"
  by (induction ys arbitrary: p) simp_all

section \<open>Lemmas: the driver's windows\<close>

lemma only_writes_lines: "only_writes (Write [m] # concat (map (line_ops l) ys) @ [Write [0]])"
  by (auto simp: only_writes_def line_ops_def)

lemma write_window_run:
  assumes "(\<forall>y \<in> set ys. y < LCD_HEIGHT)" "length ys \<le> LCD_HEIGHT"
    and "mode = LCD_M0_WRITE \<or> mode = LCD_M0_WRITE OR LCD_M1_VCOM"
  shows "\<exists>p'. bus_run (write_window mode l ys) p
      = (fold (\<lambda>y. store_line (Suc y) (fb_line l y)) ys p')\<lparr>vp_tx := []\<rparr>
    \<and> vp_img p' = vp_img p \<and> vp_lines_written p' = vp_lines_written p
    \<and> vp_overflowed p' = vp_overflowed p \<and> vp_vcom p' = (mode = LCD_M0_WRITE OR LCD_M1_VCOM)
    \<and> \<not> vp_selected p'"
proof -
  let ?ops = "Write [mode] # concat (map (line_ops l) ys) @ [Write [0]]"
  have pl: "payload ?ops = mode # concat (map (line_bytes l) ys) @ [0]"
    by (simp add: payload_lines)
  have "length (payload ?ops) \<le> TX_MAX"
    unfolding pl using assms(2) by (simp add: length_lines TX_MAX_def lcd_geometry)
  then have run: "bus_run (write_window mode l ys) p
      = (apply_transaction (p\<lparr>vp_tx := payload ?ops, vp_selected := False\<rparr>))\<lparr>vp_tx := []\<rparr>"
    using bus_run_window[OF only_writes_lines, of mode l ys p] by (simp add: write_window_def)
  show ?thesis
    unfolding run pl using assms(1,3)
    by (auto simp: apply_transaction_def Let_def lcd_modes apply_lines_encoded)
qed

lemma mode_window_run:
  "bus_run (mode_window mode) p
     = (apply_transaction (p\<lparr>vp_tx := [mode, 0], vp_selected := False\<rparr>))\<lparr>vp_tx := []\<rparr>"
  using bus_run_window[of "[Write [mode, 0]]" p]
  by (simp add: mode_window_def only_writes_def TX_MAX_def lcd_geometry)

interpretation panel: lcd_panel bus_run vp_img
proof (unfold_locales, goal_cases)
  case (1 a b p)
  then show ?case by (rule bus_run_append)
next
  case (2 p)
  then show ?case by simp
next
  case (3 mode ys l p i)
  then show ?case
    using write_window_run[of ys mode l p] by (auto simp: store_lines_img)
next
  case (4 mode i p)
  then show ?case by (auto simp: mode_window_run apply_transaction_def Let_def lcd_modes)
next
  case (5 mode p i)
  then show ?case by (auto simp: mode_window_run apply_transaction_def Let_def lcd_modes)
qed

text \<open>A window never overruns the panel's buffer and leaves it deselected.\<close>

lemma write_window_clean:
  assumes "(\<forall>y \<in> set ys. y < LCD_HEIGHT)" "length ys \<le> LCD_HEIGHT"
    and "mode = LCD_M0_WRITE \<or> mode = LCD_M0_WRITE OR LCD_M1_VCOM"
  shows "vp_overflowed (bus_run (write_window mode l ys) p) = vp_overflowed p"
    and "\<not> vp_selected (bus_run (write_window mode l ys) p)"
    and "vp_lines_written (bus_run (write_window mode l ys) p) = vp_lines_written p + of_nat (length ys)"
  using write_window_run[OF assms, of l p] assms(1) by (auto simp: store_lines_count)

lemma apply_lines_frame [simp]:
  "vp_overflowed (apply_lines rest p) = vp_overflowed p \<and> vp_selected (apply_lines rest p) = vp_selected p"
proof (induction rest p rule: apply_lines.induct)
  case (1 rest p)
  then show ?case by (subst (1 2) apply_lines.simps) auto
qed

lemma mode_window_clean:
  "vp_overflowed (bus_run (mode_window mode) p) = vp_overflowed p"
  "\<not> vp_selected (bus_run (mode_window mode) p)"
  by (simp_all add: mode_window_run apply_transaction_def Let_def)

end
