(* ===== verification/Display.thy ===== *)
theory Display
  imports Glyphs VirtualPanel
begin

text \<open>
  The driver and the panel together: what \<open>main.cpp\<close>'s display loop and the host tools rely
  on. A session is any sequence of calls of the driver's public drawing interface on a
  \<open>SharpLcd\<close> whose bus is a \<open>VirtualPanel\<close>.
\<close>

datatype lcd_cmd =
    SetPixel u16 u16 bool
  | FillWhite
  | HLine u16 u16 u16 bool
  | FillRect u16 u16 u16 u16 bool
  | FillDither u16 u16 u16 u16 u8
  | Text u16 u16 bytes bool
  | TextScaled u16 u16 bytes bool u8
  | TextBig u16 u16 bytes bool
  | TextBold u16 u16 bytes bold_face bool
  | Flush
  | ToggleVcom
  | Clear

text \<open>\<open>None\<close> is a call that does not return.\<close>

fun lcd_call :: "lcd_cmd \<Rightarrow> sharp_lcd \<Rightarrow> (bus_op list \<times> sharp_lcd) option" where
  "lcd_call (SetPixel x y b) l = Some ([], set_pixel x y b l)"
| "lcd_call FillWhite l = Some ([], fill_white l)"
| "lcd_call (HLine x y w b) l = map_option (Pair []) (draw_hline x y w b l)"
| "lcd_call (FillRect x y w h b) l = map_option (Pair []) (fill_rect x y w h b l)"
| "lcd_call (FillDither x y w h v) l = Some ([], fill_dither x y w h v l)"
| "lcd_call (Text x y s b) l = Some ([], snd (draw_text x y s b l))"
| "lcd_call (TextScaled x y s b k) l = Some ([], snd (draw_text_scaled x y s b k l))"
| "lcd_call (TextBig x y s b) l = Some ([], snd (draw_text_big x y s b l))"
| "lcd_call (TextBold x y s face b) l = Some ([], snd (draw_text_bold x y s face b l))"
| "lcd_call Flush l = (case flush_lcd l of (n, ops, l') \<Rightarrow> Some (ops, l'))"
| "lcd_call ToggleVcom l = Some (toggle_vcom l)"
| "lcd_call Clear l = Some (clear_lcd l)"

fun lcd_session :: "lcd_cmd list \<Rightarrow> sharp_lcd \<times> virtual_panel \<Rightarrow> (sharp_lcd \<times> virtual_panel) option" where
  "lcd_session [] lp = Some lp"
| "lcd_session (c # cs) (l, p) =
     (case lcd_call c l of None \<Rightarrow> None | Some (ops, l') \<Rightarrow> lcd_session cs (l', bus_run ops p))"

lemma lcd_call_sync:
  assumes "lcd_call c l = Some (ops, l')" and "panel.in_sync l p"
  shows "panel.in_sync l' (bus_run ops p)"
proof (cases c)
  case FillWhite
  then show ?thesis using assms panel.in_sync_fill_white[of l p] by auto
next
  case Flush
  then show ?thesis
    using assms by (auto split: prod.splits intro: panel.in_sync_flush)
next
  case ToggleVcom
  then show ?thesis using assms by (auto intro: panel.in_sync_toggle)
next
  case Clear
  then show ?thesis using assms by (auto intro: panel.in_sync_clear)
qed (use assms in \<open>auto intro: panel.in_sync_draw inv_rules\<close>)

lemma lcd_session_sync:
  "lcd_session cs (l, p) = Some (l', p') \<Longrightarrow> panel.in_sync l p \<Longrightarrow> panel.in_sync l' p'"
proof (induction cs arbitrary: l p)
  case (Cons c cs)
  then show ?case
    by (auto split: option.splits prod.splits intro: lcd_call_sync)
qed simp

lemma lcd_session_append:
  "lcd_session (cs @ ds) lp = Option.bind (lcd_session cs lp) (lcd_session ds)"
proof (induction cs arbitrary: lp)
  case (Cons c cs)
  then show ?case by (cases lp) (auto split: option.splits)
qed simp

lemma lcd_call_clean:
  assumes "lcd_call c l = Some (ops, l')"
  shows "vp_overflowed (bus_run ops p) = vp_overflowed p"
    and "\<not> vp_selected p \<Longrightarrow> \<not> vp_selected (bus_run ops p)"
proof -
  have "ops = [] \<or> (\<exists>mode. ops = mode_window mode)
    \<or> (\<exists>mode. (mode = LCD_M0_WRITE \<or> mode = LCD_M0_WRITE OR LCD_M1_VCOM)
        \<and> ops = write_window mode l (filter (is_dirty l) [0..<LCD_HEIGHT]))"
    using assms
  proof (cases c)
    case Flush
    then obtain n where n: "flush_lcd l = (n, ops, l')"
      using assms by (auto split: prod.splits)
    show ?thesis
    proof (cases "0 < n")
      case True
      then show ?thesis using panel.flush_lines[OF n] by blast
    next
      case False
      then show ?thesis using n by (auto simp: flush_lcd_def Let_def split: if_splits)
    qed
  next
    case ToggleVcom
    then show ?thesis using assms by (auto simp: toggle_vcom_def mode_window_def Let_def)
  next
    case Clear
    then show ?thesis using assms by (auto simp: clear_lcd_def mode_window_def)
  qed auto
  moreover have "length (filter (is_dirty l) [0..<LCD_HEIGHT]) \<le> LCD_HEIGHT"
    by (rule le_trans[OF length_filter_le]) simp
  ultimately show "vp_overflowed (bus_run ops p) = vp_overflowed p"
    "\<not> vp_selected p \<Longrightarrow> \<not> vp_selected (bus_run ops p)"
    using write_window_clean[of "filter (is_dirty l) [0..<LCD_HEIGHT]" _ l p] mode_window_clean[of _ p]
    by auto
qed

lemma lcd_session_clean:
  "lcd_session cs (l, p) = Some (l', p') \<Longrightarrow> \<not> vp_selected p \<Longrightarrow>
     vp_overflowed p' = vp_overflowed p \<and> \<not> vp_selected p'"
proof (induction cs arbitrary: l p)
  case (Cons c cs)
  then obtain ops l1 where c: "lcd_call c l = Some (ops, l1)"
    and rest: "lcd_session cs (l1, bus_run ops p) = Some (l', p')"
    by (auto split: option.splits)
  show ?case
    using Cons.IH[OF rest] lcd_call_clean[OF c] Cons.prems(2) by auto
qed simp

lemma synced_flush_shows:
  assumes sync: "panel.in_sync l p" and flush: "flush_lcd l = (n, ops, l')"
  shows "vp_pixel (bus_run ops p) x y = get_pixel l' x y"
proof (cases "on_panel x y")
  case True
  then have i: "fb_index x y < LCD_FB_BYTES"
    by (simp add: on_panel_def fb_index_bound)
  have "vp_img (bus_run ops p) (fb_index x y) = lcd_fb l' (fb_index x y)"
    unfolding panel.flush_frame[OF flush] by (rule panel.flush_image[OF sync flush i])
  then show ?thesis using True by (simp add: vp_pixel_def get_pixel_def)
next
  case False
  then show ?thesis by (auto simp: vp_pixel_def get_pixel_def on_panel_def)
qed

text \<open>C1: what is drawn is what the panel shows. Start from any framebuffer contents and any panel,
  clear, make any calls in any order, and flush: every pixel the panel displays is the pixel
  the driver holds, the panel's receive buffer did not overflow, and it is deselected.\<close>

theorem panel_shows_framebuffer:
  assumes "lcd_session (Clear # cs @ [Flush]) (l, p) = Some (l', p')" and "\<not> vp_selected p"
  shows "vp_pixel p' x y = get_pixel l' x y \<and> vp_overflowed p' = vp_overflowed p \<and> \<not> vp_selected p'"
proof (intro conjI)
  show "vp_overflowed p' = vp_overflowed p" "\<not> vp_selected p'"
    using lcd_session_clean[OF assms] by simp_all
  obtain ops l1 where clear: "clear_lcd l = (ops, l1)" by fastforce
  obtain l2 p2 where run: "lcd_session cs (l1, bus_run ops p) = Some (l2, p2)"
    and last: "lcd_session [Flush] (l2, p2) = Some (l', p')"
    using assms clear by (auto simp: lcd_session_append split: bind_splits)
  have sync: "panel.in_sync l2 p2"
    by (rule lcd_session_sync[OF run]) (rule panel.in_sync_clear[OF clear])
  obtain n fops where flush: "flush_lcd l2 = (n, fops, l')" and p': "p' = bus_run fops p2"
    using last by (auto split: prod.splits)
  show "vp_pixel p' x y = get_pixel l' x y"
    unfolding p' by (rule synced_flush_shows[OF sync flush])
qed

theorem panel_shows_framebuffer_witness:
  "\<exists>l' p'. lcd_session (Clear # [SetPixel 3 5 True, ToggleVcom] @ [Flush])
        (new_lcd (\<lambda>_. 0), new_panel) = Some (l', p')
     \<and> vp_pixel p' 3 5 = get_pixel l' 3 5 \<and> \<not> vp_overflowed p'"
proof -
  have "lcd_session (Clear # [SetPixel 3 5 True, ToggleVcom] @ [Flush])
      (new_lcd (\<lambda>_. 0), new_panel) \<noteq> None"
    by (simp split: prod.splits)
  then obtain l' p' where run: "lcd_session (Clear # [SetPixel 3 5 True, ToggleVcom] @ [Flush])
      (new_lcd (\<lambda>_. 0), new_panel) = Some (l', p')" by auto
  have "\<not> vp_selected new_panel" "\<not> vp_overflowed new_panel" by (simp_all add: new_panel_def)
  then show ?thesis
    using panel_shows_framebuffer[OF run, of 3 5] run by auto
qed

end
