(* ===== verification/MicronPage.thy ===== *)
theory MicronPage
  imports MicronRuns Display
begin

text \<open>
  What holds of whole pages: the renderer keeps the driver's dirty lines true, so that a flush
  shows the page; its link table and its account of missing glyphs stay within their arrays;
  the divider's encoder; and three concrete layouts.
\<close>

section \<open>What a callback keeps\<close>

text \<open>The account of links and missing glyphs: within the arrays, one entry per codepoint, and an
  overflow flag only where an array is full.\<close>

definition account :: "page_renderer \<Rightarrow> bool" where
  "account r \<longleftrightarrow>
     length (pr_links r) \<le> MAX_LINKS \<and> (pr_links_overflowed r \<longrightarrow> length (pr_links r) = MAX_LINKS)
     \<and> length (pr_missing r) \<le> MAX_MISSING \<and> (pr_missing_over r \<longrightarrow> length (pr_missing r) = MAX_MISSING)
     \<and> distinct (map fst (pr_missing r))"

definition keeps :: "page_renderer \<Rightarrow> page_renderer \<Rightarrow> bool" where
  "keeps r r' \<longleftrightarrow> tracks (pr_lcd r) (pr_lcd r') \<and> (account r \<longrightarrow> account r')"

named_theorems keep_rules \<open>operations of the renderer that keep the account and the dirty lines\<close>

lemma keeps_refl [simp, intro]: "keeps r r"
  by (simp add: keeps_def)

lemma keeps_trans: "keeps r r' \<Longrightarrow> keeps r' r'' \<Longrightarrow> keeps r r''"
  unfolding keeps_def using tracks_trans by blast

lemma keeps_lcd: "tracks (pr_lcd r) l \<Longrightarrow> keeps r (r\<lparr>pr_lcd := l\<rparr>)"
  by (simp add: keeps_def account_def)

text \<open>A step that leaves the panel, the links and the missing glyphs alone.\<close>

definition same_account :: "page_renderer \<Rightarrow> page_renderer \<Rightarrow> bool" where
  "same_account r r' \<longleftrightarrow> pr_lcd r' = pr_lcd r \<and> pr_links r' = pr_links r
     \<and> pr_links_overflowed r' = pr_links_overflowed r \<and> pr_missing r' = pr_missing r
     \<and> pr_missing_over r' = pr_missing_over r"

lemma keeps_same: "same_account r r' \<Longrightarrow> keeps r r'"
  by (simp add: keeps_def same_account_def account_def)

lemma keeps_after: "keeps r r1 \<Longrightarrow> same_account r1 r2 \<Longrightarrow> keeps r r2"
  by (rule keeps_trans[OF _ keeps_same])

lemma same_account_simps [simp]:
  "same_account r r" "same_account r (r\<lparr>pr_depth := d\<rparr>)" "same_account r (r\<lparr>pr_x := x\<rparr>)"
  "same_account r (fresh_row r)" "same_account r (newline r)" "same_account r (wrap_if_needed a r)"
  "same_account r (set_head w r)" "same_account r (align_pen t n s r)" "same_account r (text_start t n s r)"
  "same_account r (text_finish s r)" "same_account r (line_reset s r)" "same_account r (blankLine r)"
  "same_account r (r\<lparr>pr_x := x, pr_row_open := b\<rparr>)" "same_account r (r\<lparr>pr_row_open := b\<rparr>)"
  by (simp_all add: same_account_def fresh_row_def newline_def wrap_if_needed_def set_head_def
      align_pen_def text_start_def text_finish_def line_reset_def blankLine_def Let_def)

lemma keeps_on_lcd [keep_rules]:
  "on_lcd f r = Some r' \<Longrightarrow> (\<And>l l'. f l = Some l' \<Longrightarrow> tracks l l') \<Longrightarrow> keeps r r'"
  by (auto simp: on_lcd_def intro: keeps_lcd)

lemma keeps_text_at [keep_rules]: "keeps r (text_at x y g b r)"
  unfolding text_at_def by (intro keeps_lcd inv_rules)

lemma keeps_draw_glyph [keep_rules]: "keeps r (draw_glyph x y g cp b r)"
  unfolding draw_glyph_def by (intro keeps_lcd) (auto intro: inv_rules)

lemma keeps_paint_bg [keep_rules]: "paint_bg x w v r = Some r' \<Longrightarrow> keeps r r'"
  by (auto simp: paint_bg_def split: if_splits intro: keeps_lcd keep_rules inv_rules)

lemma keeps_note_missing [keep_rules]: "keeps r (note_missing cp r)"
proof (cases "find_index (\<lambda>m. fst m = cp) (pr_missing r)")
  case None
  then have "cp \<notin> fst ` set (pr_missing r)" by (auto simp: find_index_None)
  then show ?thesis using None
    by (auto simp: keeps_def note_missing_def Let_def account_def)
next
  case (Some i)
  then have "i < length (pr_missing r)" "fst (pr_missing r ! i) = cp"
    using find_index_Some[OF Some] by auto
  then have "map fst ((pr_missing r)[i := (cp, n)]) = map fst (pr_missing r)" for n
    by (simp add: map_update list_update_same_conv)
  then show ?thesis using Some
    by (auto simp: keeps_def note_missing_def Let_def account_def)
qed

lemma keeps_noted [keep_rules]: "keeps r (if C then r else note_missing cp r)"
  by (simp add: keep_rules)

section \<open>Runs keep it\<close>

lemma keeps_literal_ink: "literal_ink g invert r = Some r' \<Longrightarrow> keeps r r'"
  by (auto simp: literal_ink_def split: bind_splits if_splits
      intro: keep_rules keeps_trans[OF keeps_on_lcd keeps_text_at] inv_rules)

lemma keeps_literal_cell: "literal_cell g invert r = Some r' \<Longrightarrow> keeps r r'"
  by (auto simp: literal_cell_def Let_def split del: if_split split: bind_splits
      intro: keeps_after[OF keeps_trans[OF keeps_noted keeps_literal_ink]])

lemma keeps_clip_mark: "clip_mark invert r = Some r' \<Longrightarrow> keeps r r'"
  by (auto simp: clip_mark_def split: bind_splits if_splits
      intro: keeps_trans[OF keeps_on_lcd keeps_text_at] inv_rules)

lemma keeps_literal_loop: "literal_loop t n invert k r = Some r' \<Longrightarrow> keeps r r'"
proof (induction t n invert k r rule: literal_loop.induct)
  case (1 t n invert k r)
  show ?case
  proof (cases "k < n \<and> \<not> right_margin < unat (pr_x r) + FONT_ADVANCE")
    case True
    then obtain g r1 where "copy_seq t k (seq_len (t ! k)) = Some g" "literal_cell g invert r = Some r1"
      "literal_loop t n invert (k + seq_len (t ! k)) r1 = Some r'"
      using 1(2) by (subst (asm) literal_loop.simps) (auto split: option.splits)
    then show ?thesis using 1(1) True keeps_trans[OF keeps_literal_cell] by blast
  next
    case False
    then show ?thesis using 1(2)
      by (subst (asm) literal_loop.simps) (auto split: if_splits intro: keeps_after[OF keeps_clip_mark])
  qed
qed

lemma keeps_cell_background: "cell_background blank invert r = Some r' \<Longrightarrow> keeps r r'"
  by (auto simp: cell_background_def split: if_splits intro: keep_rules inv_rules)

lemma keeps_word_ink:
  assumes "word_ink g invert r = Some r'"
  shows "keeps r r'"
proof (cases "row_visible r")
  case True
  let ?blank = "length g = 1 \<and> is_space (hd g)"
  obtain r1 where r1: "cell_background ?blank invert r = Some r1"
    and r': "(let r2 = (if ?blank then r1
                  else draw_glyph (pr_x r1) (screen_y r1) g (fst (next_cp g)) (\<not> invert) r1) in
              if pr_underline r2
              then on_lcd (draw_hline (pr_x r2) (screen_y r2 + row_h r2 - 2) (of_nat (advance r2)) (\<not> invert)) r2
              else Some r2) = Some r'"
    using assms True by (auto simp: word_ink_def Let_def split: bind_splits)
  have "keeps r1 r'"
    using r' by (auto simp: Let_def split: if_splits
        intro: keep_rules inv_rules keeps_trans[OF keeps_draw_glyph keeps_on_lcd])
  then show ?thesis by (rule keeps_trans[OF keeps_cell_background[OF r1]])
qed (use assms in \<open>simp add: word_ink_def\<close>)

lemma keeps_word_cell: "word_cell g invert r = Some r' \<Longrightarrow> keeps r r'"
  by (auto simp: word_cell_def Let_def split del: if_split split: bind_splits
      intro: keeps_after[OF keeps_trans[OF keeps_noted keeps_word_ink]])

lemma keeps_word_loop: "word_loop t w invert k r = Some r' \<Longrightarrow> keeps r r'"
proof (induction t w invert k r rule: word_loop.induct)
  case (1 t w invert k r)
  show ?case
  proof (cases "k < w")
    case True
    then obtain g r1 where "copy_seq t k (seq_len (t ! k)) = Some g" "word_cell g invert r = Some r1"
      "word_loop t w invert (k + seq_len (t ! k)) r1 = Some r'"
      using 1(2) by (subst (asm) word_loop.simps) (auto split: option.splits)
    then show ?thesis using 1(1) True keeps_trans[OF keeps_word_cell] by blast
  qed (use 1(2) in \<open>simp add: word_loop.simps\<close>)
qed

lemma keeps_hard_cell: "keeps r (hard_cell g invert r)"
proof -
  let ?n = "if face_has r (fst (next_cp g)) then r else note_missing (fst (next_cp g)) r"
  have "keeps ?n (if row_visible ?n then draw_glyph (pr_x ?n) (screen_y ?n) g (fst (next_cp g)) (\<not> invert) ?n else ?n)"
    by (auto intro: keep_rules)
  from keeps_after[OF keeps_trans[OF keeps_noted this]] show ?thesis by (simp add: hard_cell_def Let_def)
qed

lemma keeps_hard_loop: "hard_loop t w invert k r = Some r' \<Longrightarrow> keeps r r'"
proof (induction t w invert k r rule: hard_loop.induct)
  case (1 t w invert k r)
  show ?case
  proof (cases "k < w")
    case True
    then obtain g where "copy_seq t k (seq_len (t ! k)) = Some g"
      "hard_loop t w invert (k + seq_len (t ! k)) (hard_cell g invert (wrap_if_needed (advance r) r)) = Some r'"
      using 1(2) by (subst (asm) hard_loop.simps) (auto split: option.splits)
    then have "keeps (hard_cell g invert (wrap_if_needed (advance r) r)) r'" using 1(1) True by blast
    moreover have "keeps r (hard_cell g invert (wrap_if_needed (advance r) r))"
      by (rule keeps_trans[OF keeps_same keeps_hard_cell]) simp
    ultimately show ?thesis by (rule keeps_trans[rotated])
  qed (use 1(2) in \<open>simp add: hard_loop.simps\<close>)
qed

lemma keeps_lead_spaces:
  assumes "lead_spaces w invert r = Some r'"
  shows "keeps r r'"
proof -
  obtain r1 r2 where r1: "(if pr_has_bg r then paint_bg (pr_x r) w (pr_bg_luma r) r else Some r) = Some r1"
    and r2: "(if pr_underline r1 \<and> row_visible r1
              then on_lcd (draw_hline (pr_x r1) (screen_y r1 + row_h r1 - 2) w (\<not> invert)) r1
              else Some r1) = Some r2"
    and r': "r' = r2\<lparr>pr_x := pr_x r2 + w, pr_row_open := True\<rparr>"
    using assms by (auto simp: lead_spaces_def split del: if_split split: bind_splits)
  have "keeps r r1" using r1 by (auto split: if_splits intro: keep_rules)
  moreover have "keeps r1 r2" using r2 by (auto split: if_splits intro: keep_rules inv_rules)
  ultimately show ?thesis unfolding r' using keeps_after keeps_trans same_account_simps(13) by blast
qed

lemma keeps_emit_chunk:
  assumes "emit_chunk t invert i sp w r = Some r'"
  shows "keeps r r'"
proof -
  have "keeps r r'" if "word_loop t w invert sp (newline r) = Some r'"
    by (rule keeps_trans[OF keeps_same keeps_word_loop[OF that]]) simp
  then show ?thesis
    using assms
    by (auto simp: emit_chunk_def Let_def simp del: of_nat_mult split: bind_splits if_splits
        intro: keeps_hard_loop keeps_word_loop keeps_trans[OF keeps_lead_spaces keeps_word_loop])
qed

lemma keeps_run_loop: "run_loop t n invert i r = Some r' \<Longrightarrow> keeps r r'"
proof (induction t n invert i r rule: run_loop.induct)
  case (1 t n invert i r)
  show ?case
  proof (cases "i < n")
    case True
    let ?sp = "skip_spaces t n i"
    obtain r1 where r1: "emit_chunk t invert i ?sp (word_end t n ?sp) r = Some r1"
      "run_loop t n invert (word_end t n ?sp) r1 = Some r'"
      using 1(2) True by (subst (asm) run_loop.simps) (auto simp: Let_def split: option.splits)
    then show ?thesis using 1(1)[OF True refl refl] keeps_trans[OF keeps_emit_chunk] by blast
  qed (use 1(2) in \<open>simp add: run_loop.simps\<close>)
qed

lemma keeps_emit_run [keep_rules]:
  assumes "emit_run t n invert r = Some r'"
  shows "keeps r r'"
proof (cases "pr_literal r")
  case True
  then show ?thesis
    using assms keeps_trans[OF keeps_same keeps_literal_loop, of r "fresh_row r"]
    by (auto simp: emit_run_def emit_literal_def)
next
  case False
  then have "keeps (if \<not> pr_row_open r \<and> unat (pr_x r) < left_edge r
      then r\<lparr>pr_x := of_nat (left_edge r)\<rparr> else r) r'"
    using assms keeps_run_loop by (auto simp: emit_run_def split del: if_split)
  then show ?thesis by (rule keeps_trans[rotated]) (auto intro: keeps_same)
qed

section \<open>Callbacks keep it\<close>

lemma keeps_onText:
  assumes "onText t n s r = Some r'"
  shows "keeps r r'"
proof -
  obtain r1 where r1: "heading_face t n s (text_start t n s r) = Some r1"
    "emit_run t n (text_invert s) (text_finish s r1) = Some r'"
    using assms by (auto simp: onText_def split: bind_splits)
  have "keeps (text_start t n s r) r1"
    using r1(1) by (auto simp: heading_face_def intro: keeps_same split: if_splits)
  then have "keeps (text_start t n s r) (text_finish s r1)" by (rule keeps_after) simp
  then have "keeps (text_start t n s r) r'" by (rule keeps_trans[OF _ keeps_emit_run[OF r1(2)]])
  then show ?thesis by (rule keeps_trans[rotated]) (rule keeps_same, simp)
qed

lemma keeps_onLink:
  assumes "onLink t n tg tgn s r = Some r'"
  shows "keeps r r'"
proof -
  let ?q = "fresh_row (r\<lparr>pr_depth := st_depth s\<rparr>)"
  obtain q where q: "emit_run t n (pr_invert ?q) ?q = Some q"
    and r': "(\<exists>b. row_visible q \<and> length (pr_links q) < MAX_LINKS \<and> r' = q\<lparr>pr_links := pr_links q @ [b]\<rparr>)
      \<or> (row_visible q \<and> \<not> length (pr_links q) < MAX_LINKS \<and> r' = q\<lparr>pr_links_overflowed := True\<rparr>) \<or> r' = q"
    using assms by (auto simp: onLink_def Let_def split: bind_splits if_splits)
  have "keeps q r'" using r' by (auto simp: keeps_def account_def)
  then have "keeps ?q r'" by (rule keeps_trans[OF keeps_emit_run[OF q]])
  moreover have "keeps r ?q" by (rule keeps_same) (simp add: same_account_def fresh_row_def)
  ultimately show ?thesis by (rule keeps_trans[rotated])
qed

lemma keeps_divider_loop: "keeps r (divider_loop x g r)"
proof (induction x g r rule: divider_loop.induct)
  case (1 x g r)
  then show ?case by (subst divider_loop.simps) (auto intro: keeps_trans[OF keeps_text_at])
qed

lemma keeps_onDivider: "keeps r (onDivider ch s r)"
proof -
  let ?q = "fresh_row (r\<lparr>pr_depth := st_depth s\<rparr>)"
  let ?n = "if has_glyph ch then ?q else note_missing ch ?q"
  let ?d = "if row_visible ?q then divider_loop (left_edge ?q) (divider_bytes ch) ?n else ?q"
  have "keeps ?q (divider_loop (left_edge ?q) (divider_bytes ch) ?n)"
    by (rule keeps_trans[OF keeps_noted keeps_divider_loop])
  then have d: "keeps ?q ?d" by (cases "row_visible ?q") (simp_all only: if_True if_False keeps_refl)
  have start: "keeps r ?q" by (rule keeps_same) (simp add: same_account_def fresh_row_def)
  have "keeps r (?d\<lparr>pr_row_open := True\<rparr>)"
    by (rule keeps_after[OF keeps_trans[OF start d]]) (rule same_account_simps)
  then show ?thesis by (simp only: onDivider_def Let_def)
qed

lemma keeps_field_ink: "field_ink f hb ink vk r = Some r' \<Longrightarrow> keeps r r'"
  by (auto simp: field_ink_def split: if_splits intro: keep_rules)

lemma keeps_field_cells: "field_cells f hb ink w vk r = Some r' \<Longrightarrow> keeps r r'"
proof (induction w arbitrary: vk r)
  case (Suc w)
  show ?case
  proof (cases "right_margin < unat (pr_x r) + FONT_ADVANCE")
    case False
    then obtain r1 vk' where r1: "field_ink f hb ink vk r = Some r1"
      "field_cells f hb ink w vk' (r1\<lparr>pr_x := pr_x r1 + of_nat FONT_ADVANCE, pr_row_open := True\<rparr>) = Some r'"
      using Suc.prems by (auto split: option.splits)
    show ?thesis
      by (rule keeps_trans[OF keeps_after[OF keeps_field_ink[OF r1(1)]] Suc.IH[OF r1(2)]]) simp
  qed (use Suc.prems in simp)
qed simp

lemma keeps_text_field:
  assumes "text_field f s r = Some r'"
  shows "keeps r r'"
proof -
  obtain r1 where r1: "field_bar f s r = Some r1"
    "field_cells f (text_has_bg s) (\<not> text_invert s) (field_width f) 0 r1 = Some r'"
    using assms by (auto simp: text_field_def split: bind_splits)
  have "keeps r r1"
    using r1(1) by (auto simp: field_bar_def Let_def split: if_splits intro: keep_rules inv_rules)
  then show ?thesis by (rule keeps_trans) (rule keeps_field_cells[OF r1(2)])
qed

lemma keeps_onField:
  assumes "onField f s r = Some r'"
  shows "keeps r r'"
proof -
  let ?q = "fresh_row (r\<lparr>pr_depth := st_depth s\<rparr>)"
  have start: "keeps r ?q" by (rule keeps_same) (simp add: same_account_def fresh_row_def)
  show ?thesis
  proof (cases "fd_kind f = FieldText")
    case True
    then have "text_field f s ?q = Some r'" using assms by (simp add: onField_def Let_def)
    then show ?thesis by (rule keeps_trans[OF start keeps_text_field])
  next
    case False
    obtain q where "keeps ?q q" and q: "onField f s r =
        (let r4 = q\<lparr>pr_x := pr_x q + of_nat FONT_ADVANCE, pr_row_open := True\<rparr> in
         if fd_label_len f \<noteq> 0
         then do {
           r5 \<leftarrow> emit_run [0x20] 1 (pr_invert r4) r4;
           emit_run (fd_label f) (fd_label_len f) (pr_invert r5) r5
         } else Some r4)"
    proof (rule that)
      let ?three = "if row_visible ?q
                 then (if fd_kind f = FieldRadio
                       then text_at (pr_x ?q) (screen_y ?q)
                              (if fd_prechecked f then [0xE2, 0x97, 0x8F] else [0xE2, 0x97, 0x8B])
                              (\<not> pr_invert ?q) ?q
                       else
                         (let b = text_at (pr_x ?q) (screen_y ?q) [0xE2, 0x96, 0xA1] (\<not> pr_invert ?q) ?q
                          in if fd_prechecked f
                             then text_at (pr_x ?q) (screen_y ?q) [0xE2, 0x9C, 0x93] (\<not> pr_invert ?q) b
                             else b))
                 else ?q"
      show "keeps ?q ?three" by (auto simp: Let_def intro: keep_rules keeps_trans[OF keeps_text_at keeps_text_at])
      show "onField f s r = (let r4 = ?three\<lparr>pr_x := pr_x ?three + of_nat FONT_ADVANCE, pr_row_open := True\<rparr> in
         if fd_label_len f \<noteq> 0
         then do {
           r5 \<leftarrow> emit_run [0x20] 1 (pr_invert r4) r4;
           emit_run (fd_label f) (fd_label_len f) (pr_invert r5) r5
         } else Some r4)"
        using False by (simp only: onField_def Let_def if_False)
    qed
    let ?r4 = "q\<lparr>pr_x := pr_x q + of_nat FONT_ADVANCE, pr_row_open := True\<rparr>"
    have "keeps ?r4 r'"
      using assms unfolding q Let_def
      by (auto split: bind_splits if_splits intro: keeps_trans[OF keeps_emit_run keeps_emit_run])
    moreover have "keeps r ?r4" by (rule keeps_after[OF keeps_trans[OF start \<open>keeps ?q q\<close>]]) simp
    ultimately show ?thesis by (rule keeps_trans[rotated])
  qed
qed

lemma keeps_onLineEnd:
  assumes "onLineEnd s r = Some r'"
  shows "keeps r r'"
proof -
  let ?r = "r\<lparr>pr_depth := st_depth s\<rparr>"
  obtain q where q: "(if pr_head_rule ?r \<and> pr_row_open ?r \<and> row_visible ?r
       then (let w = (if st_depth s \<le> 2 then of_nat (LCD_WIDTH - MARGIN_X - left_edge ?r)
                      else pr_x ?r - of_nat (left_edge ?r)) :: u16
             in on_lcd (draw_hline (of_nat (left_edge ?r)) (screen_y ?r + row_h ?r - 1) w True) ?r)
       else Some ?r) = Some q" and r': "r' = line_reset s q"
    using assms unfolding onLineEnd_def line_reset_def Let_def
    by (auto simp del: not_None_eq split: bind_splits)
  have "keeps ?r q" using q by (auto simp: Let_def intro: keep_rules inv_rules split: if_splits)
  then have "keeps ?r r'" unfolding r' by (rule keeps_after) simp
  then show ?thesis by (rule keeps_trans[OF keeps_same, rotated]) simp
qed

lemma keeps_depth_run:
  assumes "emit_run t n i (r\<lparr>pr_depth := d\<rparr>) = Some r'"
  shows "keeps r r'"
  by (rule keeps_trans[OF keeps_same keeps_emit_run[OF assms]]) simp

lemma keeps_page_step:
  assumes "page_step c r = Some r'"
  shows "keeps r r'"
proof (cases c)
  case (CbImage a an u un s)
  then show ?thesis using assms
    by (auto simp: onImage_def split: bind_splits if_splits intro: keeps_trans[OF keeps_depth_run keeps_emit_run])
next
  case (CbPartial u un s)
  then show ?thesis using assms
    by (auto simp: onPartial_def split: bind_splits intro: keeps_trans[OF keeps_depth_run keeps_onLink])
qed (use assms in \<open>auto simp: onAnchor_def intro: keeps_onText keeps_onLink keeps_onDivider keeps_onField keeps_onLineEnd
    keeps_same\<close>)

lemma keeps_page_run: "page_run cs r = Some r' \<Longrightarrow> keeps r r'"
proof (induction cs arbitrary: r)
  case (Cons c cs)
  then show ?case by (auto split: option.splits intro: keeps_trans[OF keeps_page_step])
qed simp

section \<open>The divider's encoder\<close>

lemma lead_or: "a < 16 \<Longrightarrow> (ucast (0xE0 OR of_nat a :: u32) :: u8) = of_nat (0xE0 + a)"
  and lead_or2: "a < 32 \<Longrightarrow> (ucast (0xC0 OR of_nat a :: u32) :: u8) = of_nat (0xC0 + a)"
  and cont_or: "a < 64 \<Longrightarrow> (ucast (0x80 OR of_nat a :: u32) :: u8) = of_nat (0x80 + a)"
proof -
  have *: "list_all (\<lambda>a. (ucast (0xE0 OR of_nat a :: u32) :: u8) = of_nat (0xE0 + a)) [0..<16]"
    "list_all (\<lambda>a. (ucast (0xC0 OR of_nat a :: u32) :: u8) = of_nat (0xC0 + a)) [0..<32]"
    "list_all (\<lambda>a. (ucast (0x80 OR of_nat a :: u32) :: u8) = of_nat (0x80 + a)) [0..<64]"
    by code_simp+
  show "a < 16 \<Longrightarrow> (ucast (0xE0 OR of_nat a :: u32) :: u8) = of_nat (0xE0 + a)"
    "a < 32 \<Longrightarrow> (ucast (0xC0 OR of_nat a :: u32) :: u8) = of_nat (0xC0 + a)"
    "a < 64 \<Longrightarrow> (ucast (0x80 OR of_nat a :: u32) :: u8) = of_nat (0x80 + a)"
    using * by (simp_all add: list_all_iff del: of_nat_add)
qed

lemma low_six: "(ch :: u32) AND 0x3F = of_nat (unat ch mod 64)"
proof -
  have "ch AND 0x3F = take_bit 6 ch" by (simp add: take_bit_eq_mask mask_eq_exp_minus_1)
  moreover have "unat (take_bit 6 ch) = unat ch mod 64" by (simp only: unsigned_take_bit_eq) (simp add: take_bit_eq_mod)
  ultimately have "of_nat (unat (ch AND 0x3F)) = (of_nat (unat ch mod 64) :: u32)" by (simp only:)
  then show ?thesis by simp
qed

lemma high_bits: "drop_bit n (ch :: u32) = of_nat (unat ch div 2 ^ n)"
proof -
  have "unat (drop_bit n ch) = unat ch div 2 ^ n" by (simp only: unsigned_drop_bit_eq) (simp add: drop_bit_eq_div take_bit_nat_eq_self unsigned_less)
  then have "of_nat (unat (drop_bit n ch)) = (of_nat (unat ch div 2 ^ n) :: u32)" by (simp only:)
  then show ?thesis by simp
qed

lemma middle_six: "drop_bit 6 (ch :: u32) AND 0x3F = of_nat (unat ch div 64 mod 64)"
proof -
  have "unat (drop_bit 6 ch) = unat ch div 64" by (simp only: unsigned_drop_bit_eq) (simp add: drop_bit_eq_div take_bit_nat_eq_self unsigned_less)
  then show ?thesis using low_six[of "drop_bit 6 ch"] by simp
qed

lemma divider_is_utf8:
  assumes "ch < 0x10000"
  shows "divider_bytes ch = utf8 (unat ch)"
proof -
  define n where "n = unat ch"
  have n: "n < 65536" using assms by (simp add: word_less_nat_alt n_def)
  have lt: "ch < 0x80 \<longleftrightarrow> n < 0x80" "ch < 0x800 \<longleftrightarrow> n < 0x800" by (simp_all add: word_less_nat_alt n_def)
  have one: "(ucast ch :: u8) = of_nat n" by (simp add: n_def)
  have bits: "ch AND 0x3F = of_nat (n mod 64)" "drop_bit 6 ch AND 0x3F = of_nat (n div 64 mod 64)"
    "drop_bit 6 ch = of_nat (n div 64)" "drop_bit 12 ch = of_nat (n div 4096)"
    using low_six[of ch] middle_six[of ch] high_bits[of 6 ch] high_bits[of 12 ch] by (simp_all add: n_def)
  have lead: "ucast (0xC0 OR drop_bit 6 ch) = (of_nat (0xC0 + n div 64) :: u8)" if "n < 0x800"
    unfolding bits by (rule lead_or2) (use that in \<open>simp add: less_mult_imp_div_less\<close>)
  have lead3: "ucast (0xE0 OR drop_bit 12 ch) = (of_nat (0xE0 + n div 4096) :: u8)"
    unfolding bits by (rule lead_or) (use n in \<open>simp add: less_mult_imp_div_less\<close>)
  have cont: "ucast (0x80 OR (ch AND 0x3F)) = (of_nat (0x80 + n mod 64) :: u8)"
    "ucast (0x80 OR (drop_bit 6 ch AND 0x3F)) = (of_nat (0x80 + n div 64 mod 64) :: u8)"
    unfolding bits(1,2) by (rule cont_or; simp)+
  show ?thesis
    unfolding divider_bytes_def utf8_def n_def[symmetric] lt lead3 cont one
    using lead n by (simp del: of_nat_add)
qed


text \<open>Two continuation bytes after at most four bits stay below 65536.\<close>

lemma continuation_2_bound:
  assumes "cp < 16"
  shows "unat (fst (continuation 2 cp s)) < 0x10000"
proof -
  have step: "unat (push_bit 6 a OR ucast (p AND 0x3F) :: u32) < 64 * k"
    if "unat a < k" "64 * k \<le> 0x10000" for a :: u32 and p :: u8 and k
  proof -
    have p: "(ucast (p AND 0x3F) :: u32) = of_nat (unat (p AND 0x3F))" by simp
    have b: "unat (p AND 0x3F) < 64" by (rule le_less_trans[OF word_and_le1[THEN word_le_nat_alt[THEN iffD1]]]) simp
    have "push_bit 6 a OR ucast (p AND 0x3F) = (of_nat (64 * unat a + unat (p AND 0x3F)) :: u32)"
      using shift_in[OF b, of "unat a"] by (simp only: p) simp
    also have "unat \<dots> = 64 * unat a + unat (p AND 0x3F)"
      using that b by (intro unat_of_nat_u32) linarith
    finally show ?thesis using that b by linarith
  qed
  have two: "continuation 2 cp s =
      (if peek s AND 0xC0 \<noteq> 0x80 then (0xFFFD, s)
       else if peek (tl s) AND 0xC0 \<noteq> 0x80 then (0xFFFD, tl s)
       else (push_bit 6 (push_bit 6 cp OR ucast (peek s AND 0x3F)) OR ucast (peek (tl s) AND 0x3F), tl (tl s)))"
    by (simp add: numeral_2_eq_2)
  show ?thesis
  proof (cases "peek s AND 0xC0 = 0x80 \<and> peek (tl s) AND 0xC0 = 0x80")
    case True
    let ?a = "push_bit 6 cp OR ucast (peek s AND 0x3F) :: u32"
    have "unat ?a < 64 * 16" using assms by (intro step[of cp 16]) (simp_all add: word_less_nat_alt)
    then have "unat (push_bit 6 ?a OR ucast (peek (tl s) AND 0x3F) :: u32) < 64 * (64 * 16)"
      by (rule step) simp
    then show ?thesis using True by (simp add: two)
  qed (auto simp: two)
qed

lemma high_divider_is_another:
  assumes "0x10000 \<le> ch"
  shows "fst (next_cp (divider_bytes ch)) \<noteq> ch"
proof -
  let ?b = "ucast (0xE0 OR drop_bit 12 ch) :: u8"
  let ?s = "[ucast (0x80 OR (drop_bit 6 ch AND 0x3F)), ucast (0x80 OR (ch AND 0x3F))] :: u8 list"
  have n: "\<not> ch < 0x80" "\<not> ch < 0x800" using assms by (auto simp: word_less_nat_alt word_le_nat_alt)
  have bytes: "divider_bytes ch = ?b # ?s" using n by (simp add: divider_bytes_def)
  have top: "?b AND 0xE0 = 0xE0"
  proof (rule bit_eqI)
    fix k :: nat
    show "bit (?b AND 0xE0) k = bit (0xE0 :: u8) k"
      by (cases "k < 8") (auto simp: bit_simps less_Suc_eq numeral_eq_Suc)
  qed
  have "?b AND 0xE0 \<le> ?b" by (rule word_and_le2)
  then have nb: "\<not> ?b < 0x80" "?b AND 0xE0 \<noteq> 0xC0" unfolding top by (auto simp: word_less_nat_alt word_le_nat_alt)
  have "unat (fst (next_cp (divider_bytes ch))) < 0x10000"
  proof (cases "?b AND 0xF0 = 0xE0")
    case True
    have "unat (?b AND 0x0F) \<le> 0x0F" using word_and_le1[of ?b "0x0F"] by (simp add: word_le_nat_alt)
    then have "(ucast (?b AND 0x0F) :: u32) < 16"
      by (simp add: word_less_nat_alt unsigned_ucast_eq le_less_trans[OF take_bit_nat_less_eq_self])
    then show ?thesis unfolding bytes using nb True
      by (simp add: next_cp_def peek_def continuation_2_bound)
  next
    case False
    have three: "fst (continuation 3 x [c, d]) = 0xFFFD" for x c d
      by (simp add: numeral_3_eq_3 peek_def)
    show ?thesis unfolding bytes using nb False
      by (simp add: next_cp_def peek_def Let_def three)
  qed
  then show ?thesis using assms by (auto simp: word_le_nat_alt)
qed

section \<open>Properties\<close>


text \<open>A rendered page reaches the glass. Wipe the framebuffer, render any page onto it and
  flush: whatever the panel held before, each of its pixels is the renderer's.\<close>

theorem rendered_page_reaches_the_panel:
  assumes "page_run cs (begin_page s (r\<lparr>pr_lcd := fill_white l\<rparr>)) = Some r'"
    and "flush_lcd (pr_lcd r') = (n, ops, l')"
  shows "vp_pixel (bus_run ops p) x y = get_pixel (pr_lcd r') x y"
proof -
  have "tracks (fill_white l) (pr_lcd r')"
    using keeps_page_run[OF assms(1)] by (simp add: keeps_def begin_page_def)
  then have "panel.in_sync (pr_lcd r') p"
    by (rule panel.in_sync_draw[OF panel.in_sync_fill_white])
  then have "vp_pixel (bus_run ops p) x y = get_pixel l' x y"
    by (rule synced_flush_shows[OF _ assms(2)])
  then show ?thesis using panel.flush_frame[OF assms(2)] by (simp add: get_pixel_def)
qed

text \<open>The divider draws the character the page asked for exactly when it lies below U+10000: the
  bytes it encodes decode to that character, and to some other one from there on.\<close>

theorem divider_draws_its_character:
  "fst (next_cp (divider_bytes ch)) = ch \<longleftrightarrow> ch < 0x10000"
proof (cases "ch < 0x10000")
  case True
  then have "unat ch < 0x200000" by (simp add: word_less_nat_alt)
  then show ?thesis using next_cp_utf8[of "unat ch" "[]"] True by (simp add: divider_is_utf8)
next
  case False
  then show ?thesis using high_divider_is_another[of ch] by (simp add: not_less)
qed

text \<open>A gap is swallowed. Two blank lines with a line of nothing but a link between them are no run
  of blank lines, yet the second adds no height: only \<open>onText\<close> ends a run.\<close>

theorem blank_after_link_line_is_swallowed:
  assumes "onLink t n tg tgn s r = Some r1" "onLineEnd s r1 = Some r2" "pr_blank_pending r" "n \<le> length t"
  shows "blankLine r2 = r2"
proof -
  obtain q where q: "emit_run t n (pr_invert (fresh_row (r\<lparr>pr_depth := st_depth s\<rparr>)))
      (fresh_row (r\<lparr>pr_depth := st_depth s\<rparr>)) = Some q" "same_layout r1 q"
    by (rule onLink_layout[OF assms(1)])
  have "pr_blank_pending q"
    using emit_run_pen[OF q(1) assms(4)] assms(3) by (simp add: same_style_def fresh_row_def)
  then have r1: "pr_blank_pending r1" using q(2) by (simp add: same_layout_def)
  obtain q2 where q2: "only_draws (r1\<lparr>pr_depth := st_depth s\<rparr>) q2" "r2 = line_reset s q2"
    by (rule onLineEnd_reset[OF assms(2)])
  have "pr_blank_pending q2" using r1 only_drawsD[OF q2(1)] by (simp add: same_style_def)
  then show ?thesis unfolding q2(2) by (simp add: blankLine_def line_reset_def Let_def newline_def)
qed

lemma left_edge_cong: "pr_depth r = d \<Longrightarrow> d = pr_depth r' \<Longrightarrow> left_edge r = left_edge r'"
  by (simp add: left_edge_def)

text \<open>A right-aligned heading can leave its row. The alignment is measured in body cells before the
  large face is chosen, so a one-word depth-1 heading that would fit the row starts where its
  body-size copy would, does not fit there, and wraps to the left edge of the next row.\<close>

theorem right_aligned_heading_leaves_its_row:
  assumes run: "onText t n s r = Some r'" and "n \<le> length t" "0 < n"
    and word: "chunks t n 0 = [(0, c)]" "cells t n = c" "0 < c"
    and heading: "st_heading s" "st_depth s \<le> 1" "st_align s = AlignRight" "\<not> st_literal s"
    and fresh: "\<not> pr_row_open r" "pr_head2x r" "pr_head r = 0" "\<not> pr_bold r"
    and face: "heading_all t n 1 0 = Some True"
    and left: "left = left_edge (r\<lparr>pr_depth := st_depth s\<rparr>)"
    and fits: "c * BIGFONT_W \<le> right_margin - left"
  shows "pr_y r' = pr_y r + (of_nat BIGFONT_H + ucast (pr_leading r)) \<and> unat (pr_x r') = left + c * BIGFONT_W"
proof -
  let ?base = "r\<lparr>pr_depth := st_depth s, pr_blank_pending := False, pr_literal := False\<rparr>"
  let ?q = "text_finish s (set_head 1 (text_start t n s r))"
  have lr: "2 \<le> left" "left \<le> 50" using left_edge_range[of "r\<lparr>pr_depth := st_depth s\<rparr>"] left by simp_all
  have c: "c * 12 \<le> 398 - left" using fits by (simp add: right_margin_eq BIGFONT_W_def)
  then have c33: "c \<le> 33" using lr by linarith
  have le: "left_edge (?base\<lparr>pr_x := x\<rparr>) = left" "left_edge ?base = left" for x
    using left by (simp_all add: left_edge_def)
  have adv: "advance (?base\<lparr>pr_x := x\<rparr>) = 6" for x
    using fresh by (simp add: advance_def FONT_ADVANCE_def)
  have u: "unat (of_nat (c * 6) :: u16) = c * 6" "unat (of_nat (398 - left) :: u16) = 398 - left"
    using c33 by (intro unat_of_nat_u16; simp)+
  have start: "text_start t n s r
      = (?base\<lparr>pr_x := of_nat (398 - c * 6)\<rparr>)\<lparr>pr_has_bg := text_has_bg s, pr_bg_luma := luma_of (st_bg s)\<rparr>"
    using fresh heading c u word(2)
    by (simp add: text_start_def align_pen_def fresh_row_def le adv Let_def word_le_nat_alt LCD_WIDTH_def
        MARGIN_X_def del: of_nat_mult)
  have want: "heading_want s = 1" using heading(2) by (simp add: heading_want_def)
  have "heading_face t n s (text_start t n s r) = Some (set_head 1 (text_start t n s r))"
    using assms(3) heading fresh face by (simp add: heading_face_def want) (simp add: start)
  then have emit: "emit_run t n (text_invert s) ?q = Some r'" using run by (simp add: onText_def)
  have h0: "(26 :: u16) + ucast (pr_leading r) \<noteq> 0"
  proof -
    have "unat (26 + ucast (pr_leading r) :: u16) = 26 + unat (pr_leading r)"
      using unat_add_small[of 26 "unat (pr_leading r)"] unat_u8_lt[of "pr_leading r"] by simp
    then show ?thesis by auto
  qed
  have q: "pen_of ?q = (of_nat (398 - c * 6), pr_y r, False)" "\<not> pr_literal ?q"
    "face_of ?q = \<lparr>fc_adv = 12, fc_left = left, fc_row = of_nat BIGFONT_H + ucast (pr_leading r)\<rparr>"
    using fresh h0 unfolding start
    by (simp_all add: text_finish_def set_head_def pen_of_def face_of_def advance_def BIGFONT_W_def
        row_h_def BIGFONT_H_def left left_edge_cong[OF _ refl])
  have "unat (of_nat (398 - c * 6) :: u16) = 398 - c * 6" by (rule unat_of_nat_u16) simp
  moreover have "left < 398 - c * 6" using c lr word(3) by linarith
  ultimately have x: "unat (pr_x ?q) = 398 - c * 6" "left_edge ?q \<le> unat (pr_x ?q)"
    using q(1,3) by (simp_all add: pen_of_def face_of_def)
  have uw: "unat (of_nat (c * 12) :: u16) = c * 12" using c33 by (intro unat_of_nat_u16) simp
  have fit: "\<not> 396 - (left - 2) < c * 12" using c lr by linarith
  have over: "398 < 398 - c * 6 + c * 12" using c33 word(3) by linarith
  have ul: "unat (of_nat left :: u16) = left" using lr by (intro unat_of_nat_u16) simp
  have "pen_of r' = pen_run (face_of ?q) [(0, c)] (pen_of ?q)"
    using emit_run_pen[OF emit assms(2)] q(2) x(2) word(1) by (simp add: pen_emit_def)
  also have "\<dots> = (pen_cell (face_of ?q) ^^ c) (of_nat left, pr_y r + (of_nat BIGFONT_H + ucast (pr_leading r)), False)"
    using q x(1) fit over uw \<open>left < 398 - c * 6\<close>
    by (simp add: pen_run_def pen_chunk_def pen_newline_def right_margin_eq Let_def pen_of_def del: of_nat_mult)
  also have "\<dots> = (of_nat left + of_nat (c * 12), pr_y r + (of_nat BIGFONT_H + ucast (pr_leading r)), True)"
    using c lr word(3) by (subst pen_cells) (simp_all add: q(3) ul del: of_nat_mult)
  finally have "pr_x r' = of_nat left + of_nat (c * 12)"
    "pr_y r' = pr_y r + (of_nat BIGFONT_H + ucast (pr_leading r))"
    by (simp_all add: pen_of_def del: of_nat_mult)
  moreover have "unat (of_nat left + of_nat (c * 12) :: u16) = left + c * 12"
    using c lr by (subst unat_add_small) (simp_all add: ul del: of_nat_mult)
  ultimately show ?thesis by (simp add: BIGFONT_W_def del: of_nat_mult)
qed

section \<open>Witnesses\<close>

lemma hi_link_returns:
  assumes "\<not> pr_head_rule r" "\<not> pr_row_open r" "unat (row_h r) \<le> 1000" "\<not> pr_literal r"
  shows "\<exists>r1 r2. onLink hi 2 tg tgn body_style r = Some r1 \<and> onLineEnd body_style r1 = Some r2"
proof -
  let ?q = "fresh_row (r\<lparr>pr_depth := 0\<rparr>)"
  have "unat (pr_x ?q) \<le> 400"
    using assms(2) fresh_row_x[of "r\<lparr>pr_depth := 0\<rparr>"] left_edge_range[of "r\<lparr>pr_depth := 0\<rparr>"] by simp
  moreover have "row_h ?q = row_h r" by (simp add: fresh_row_def row_h_def line_h_def)
  ultimately obtain q where q: "emit_run hi 2 (pr_invert ?q) ?q = Some q"
    using run_returns[of hi 2 ?q "pr_invert ?q"] assms(3) by auto
  have d: "st_depth body_style = 0" by (simp add: body_style_def)
  obtain r1 where r1: "onLink hi 2 tg tgn body_style r = Some r1"
    using q by (auto simp: onLink_def Let_def d)
  obtain q' where q': "emit_run hi 2 (pr_invert ?q) ?q = Some q'" "same_layout r1 q'"
    by (rule onLink_layout[OF r1]) (simp_all add: d)
  have "\<not> pr_head_rule q'" using emit_run_pen[OF q'(1)] assms(1) by (simp add: same_style_def fresh_row_def)
  then have "\<not> pr_head_rule r1" using q'(2) by (simp add: same_layout_def)
  then show ?thesis using r1 by (auto simp: onLineEnd_def Let_def)
qed

theorem blank_after_link_line_is_swallowed_witness:
  "\<exists>r1 r2. onLink hi 2 hi 2 body_style demo_page = Some r1 \<and> onLineEnd body_style r1 = Some r2 \<and> blankLine r2 = r2"
proof -
  obtain r1 r2 where r: "onLink hi 2 hi 2 body_style demo_page = Some r1" "onLineEnd body_style r1 = Some r2"
    using hi_link_returns[of demo_page hi 2] by (auto simp: demo_page_def new_renderer_def row_h_def line_h_def LINE_H_def)
  then show ?thesis using blank_after_link_line_is_swallowed[OF r] by auto
qed

text \<open>One line of text as a page, from any scroll offset and any framebuffer.\<close>

definition hi_page :: "page_cb list" where
  "hi_page = [CbText hi 2 body_style, CbLineEnd body_style]"

lemma hi_page_returns:
  "\<exists>r'. page_run hi_page (begin_page s (demo_page\<lparr>pr_lcd := l\<rparr>)) = Some r'"
proof -
  let ?r = "begin_page s (demo_page\<lparr>pr_lcd := l\<rparr>)"
  obtain r1 where r1: "onText hi 2 body_style ?r = Some r1"
    using plain_text_returns[of hi 2 ?r body_style]
    by (auto simp: begin_page_def row_h_def line_h_def LINE_H_def body_style_def)
  have e: "emit_run hi 2 (text_invert body_style) (text_finish body_style (text_start hi 2 body_style ?r)) = Some r1"
    using r1 onText_plain[of body_style ?r hi 2] by (simp add: body_style_def)
  have "\<not> pr_head_rule r1"
    using emit_run_pen[OF e] by (simp add: same_style_def text_finish_def body_style_def)
  then show ?thesis using r1 by (auto simp: hi_page_def onLineEnd_def Let_def)
qed



theorem rendered_page_reaches_the_panel_witness:
  "\<exists>r1 n ops l. page_run hi_page (begin_page 0 (demo_page\<lparr>pr_lcd := fill_white (pr_lcd demo_page)\<rparr>)) = Some r1
     \<and> flush_lcd (pr_lcd r1) = (n, ops, l)
     \<and> vp_pixel (bus_run ops new_panel) 3 4 = get_pixel (pr_lcd r1) 3 4"
proof -
  obtain r1 where r: "page_run hi_page (begin_page 0 (demo_page\<lparr>pr_lcd := fill_white (pr_lcd demo_page)\<rparr>)) = Some r1"
    using hi_page_returns[of 0 "fill_white (pr_lcd demo_page)"] by auto
  obtain n ops l where f: "flush_lcd (pr_lcd r1) = (n, ops, l)" by (cases "flush_lcd (pr_lcd r1)") auto
  then show ?thesis using rendered_page_reaches_the_panel[OF r f] r by auto
qed

definition title_style :: style where
  "title_style = body_style\<lparr>st_heading := True, st_depth := 1, st_align := AlignRight\<rparr>"

theorem right_aligned_heading_leaves_its_row_witness:
  "\<exists>r'. onText [0x21, 0x21] 2 title_style demo_page = Some r' \<and> pr_y r' = 28 \<and> unat (pr_x r') = 38"
proof -
  let ?t = "[0x21, 0x21] :: u8 list"
  have al: "aligned ?t 0 2" by (simp add: aligned.simps seq_len_def)
  have ch: "chunks ?t 2 0 = [(0, 2)]"
    by (simp add: chunks.simps skip_spaces.simps word_end.simps cells_from.simps seq_len_def is_space_def Let_def)
  have ce: "cells ?t 2 = 2" by (simp add: cells_def cells_from.simps seq_len_def)
  have big: "big_has 0x21" by code_simp
  have face: "heading_all ?t 2 1 0 = Some True"
    by (simp add: heading_all.simps heading_cp_def heading_face_has_def seq_len_def big Let_def)
  have d: "st_heading title_style" "st_depth title_style \<le> 1" "st_align title_style = AlignRight"
    "\<not> st_literal title_style" "st_depth title_style = 1"
    by (simp_all add: title_style_def body_style_def)
  have left: "left_edge (demo_page\<lparr>pr_depth := st_depth title_style\<rparr>) = 14"
    by (simp add: left_edge_def d page_metrics)
  let ?q = "text_finish title_style (set_head 1 (text_start ?t 2 title_style demo_page))"
  have hf: "heading_face ?t 2 title_style (text_start ?t 2 title_style demo_page)
      = Some (set_head 1 (text_start ?t 2 title_style demo_page))"
    using face d by (simp add: heading_face_def heading_want_def text_start_def align_pen_def fresh_row_def Let_def)
  have "unat (pr_x ?q) \<le> 400" "unat (row_h ?q) \<le> 1000"
    using ce d by (simp_all add: text_finish_def set_head_def text_start_def align_pen_def fresh_row_def Let_def
        row_h_def BIGFONT_H_def left_edge_def page_metrics LCD_WIDTH_def advance_def)
  then obtain r' where "emit_run ?t 2 (text_invert title_style) ?q = Some r'"
    using run_returns[of ?t 2 ?q "text_invert title_style"] al by auto
  then have r': "onText ?t 2 title_style demo_page = Some r'" using hf by (simp add: onText_def)
  have "pr_y r' = pr_y demo_page + (of_nat BIGFONT_H + ucast (pr_leading demo_page)) \<and> unat (pr_x r') = 14 + 2 * BIGFONT_W"
    by (rule right_aligned_heading_leaves_its_row[OF r' _ _ ch ce _ d(1-4) _ _ _ _ face left[symmetric]])
      (simp_all add: BIGFONT_W_def right_margin_eq)
  then show ?thesis using r' by (simp add: BIGFONT_H_def BIGFONT_W_def)
qed

end
