(* ===== verification/MicronTable.thy ===== *)
theory MicronTable
  imports MicronPage
begin

text \<open>
  Tables, the rest of \<open>MicronRender.cpp\<close>: rows are collected into a fixed buffer
  (\<open>onTableRow\<close>), and laid out into columns and drawn when the table closes
  (\<open>table_flush\<close>). The fixed arrays keep their size: six widths, 16 by 6 offsets and
  lengths, 1024 bytes of text.
\<close>

section \<open>State\<close>

definition T_ROWS :: nat where "T_ROWS = 16"
definition T_COLS :: nat where "T_COLS = 6"
definition T_BYTES :: nat where "T_BYTES = 1024"
definition GAP :: nat where "GAP = 1"

lemmas table_metrics = T_ROWS_def T_COLS_def T_BYTES_def GAP_def

record table_renderer =
  tr_page :: page_renderer
  tr_in_table :: bool
  tr_row :: u8
  tr_cols :: nat
  tr_col_w :: "u8 list"
  tr_align :: align
  tr_buf :: bytes
  tr_len :: nat
  tr_off :: "nat list list"
  tr_clen :: "nat list list"
  tr_rows :: nat
  tr_overflowed :: bool

record table =
  align_set :: bool
  tb_align :: align

definition begin_tables :: "u16 \<Rightarrow> table_renderer \<Rightarrow> table_renderer" where
  "begin_tables scroll_y t =
     t\<lparr>tr_page := begin_page scroll_y (tr_page t), tr_in_table := False, tr_row := 0, tr_cols := 0\<rparr>"

definition onTableBegin :: "table \<Rightarrow> style \<Rightarrow> table_renderer \<Rightarrow> table_renderer" where
  "onTableBegin tb s t =
     t\<lparr>tr_page := (tr_page t)\<lparr>pr_depth := st_depth s\<rparr>, tr_in_table := True, tr_row := 0, tr_cols := 0,
       tr_rows := 0, tr_len := 0, tr_overflowed := False,
       tr_align := (if align_set tb then tb_align tb else AlignLeft),
       tr_col_w := replicate T_COLS 0\<rparr>"

section \<open>Collecting a row\<close>

definition BAR :: u8 where "BAR = 0x7C"
definition TICK :: u8 where "TICK = 0x60"

function trim_front :: "(u8 \<Rightarrow> bool) \<Rightarrow> bytes \<Rightarrow> nat \<Rightarrow> nat \<Rightarrow> nat" where
  "trim_front f row a b = (if a < b \<and> f (row ! a) then trim_front f row (Suc a) b else a)"
  by pat_completeness auto
termination by (relation "measure (\<lambda>(f, row, a, b). b - a)") auto

declare trim_front.simps [simp del]

fun trim_back :: "(u8 \<Rightarrow> bool) \<Rightarrow> bytes \<Rightarrow> nat \<Rightarrow> nat \<Rightarrow> nat" where
  "trim_back f row a 0 = 0"
| "trim_back f row a (Suc b) = (if a < Suc b \<and> f (row ! b) then trim_back f row a b else Suc b)"

definition edge_char :: "u8 \<Rightarrow> bool" where
  "edge_char c \<longleftrightarrow> c = BAR \<or> is_space c"

definition separator_row :: "bytes \<Rightarrow> nat \<Rightarrow> nat \<Rightarrow> bool" where
  "separator_row row a b \<longleftrightarrow>
     a < b \<and> list_all (\<lambda>c. c = 0x2D \<or> c = 0x3A \<or> c = BAR \<or> is_space c) (drop a (take b row))"

text \<open>The first byte from \<open>i\<close> on that is \<open>c\<close>, or the end.\<close>

function scan_to :: "u8 \<Rightarrow> bytes \<Rightarrow> nat \<Rightarrow> nat \<Rightarrow> nat" where
  "scan_to c row i b = (if i < b \<and> row ! i \<noteq> c then scan_to c row (Suc i) b else i)"
  by pat_completeness auto
termination by (relation "measure (\<lambda>(c, row, i, b). b - i)") auto

declare scan_to.simps [simp del]

lemma scan_to_ge: "i \<le> scan_to c row i b"
proof (induction c row i b rule: scan_to.induct)
  case (1 c row i b)
  then show ?case by (subst scan_to.simps) auto
qed

lemma scan_to_gt: "k < Suc (scan_to c row (Suc (Suc k)) b)"
  using scan_to_ge[of "Suc (Suc k)" c row b] by simp

text \<open>The bytes of one cell as they are copied: the buffer, their number, the overflow flag.\<close>

type_synonym cell_fill = "bytes \<times> nat \<times> bool"

fun copy_label :: "bytes \<Rightarrow> nat \<Rightarrow> nat \<Rightarrow> cell_fill \<Rightarrow> cell_fill" where
  "copy_label row tlen q (buf, n, ovf) =
     (if n < 255
      then (if tlen + n < T_BYTES then (buf[tlen + n := row ! q], Suc n, ovf) else (buf, n, True))
      else (buf, n, ovf))"

text \<open>A label byte that does not fit ends the label's loop, as do 255 bytes; from then on
  \<open>copy_label\<close> changes nothing but the flag the loop has already set.\<close>

definition link_stop :: "bytes \<Rightarrow> nat \<Rightarrow> nat \<Rightarrow> nat \<Rightarrow> nat" where
  "link_stop row k e ce =
     (let bar = scan_to TICK row (k + 2) e in if bar < e then bar else e)"

definition skip_len :: "bytes \<Rightarrow> nat \<Rightarrow> nat \<Rightarrow> nat" where
  "skip_len row k ce =
     (if row ! (k + 1) = 0x46 \<or> row ! (k + 1) = 0x42
      then (if k + 2 < ce \<and> row ! (k + 2) = 0x54 then 9 else 5)
      else 2)"

function fill_cell :: "bytes \<Rightarrow> nat \<Rightarrow> nat \<Rightarrow> nat \<Rightarrow> cell_fill \<Rightarrow> cell_fill" where
  "fill_cell row ce tlen k (buf, n, ovf) =
     (if k < ce \<and> n < 255
      then
        (if row ! k = TICK \<and> k + 1 < ce
         then
           (if row ! (k + 1) = 0x5B
            then
              (let e = scan_to 0x5D row (k + 2) ce in
               fill_cell row ce tlen (if e < ce then Suc e else ce)
                 (fold (copy_label row tlen) [k + 2..<link_stop row k e ce] (buf, n, ovf)))
            else
              (let skip = skip_len row k ce in
               fill_cell row ce tlen (if k + skip \<le> ce then k + skip else ce) (buf, n, ovf)))
         else if tlen + n < T_BYTES
         then fill_cell row ce tlen (Suc k) (buf[tlen + n := row ! k], Suc n, ovf)
         else (buf, n, True))
      else (buf, n, ovf))"
  by pat_completeness auto
termination
  by (relation "measure (\<lambda>(row, ce, tlen, k, f). ce - k)")
    (auto simp: skip_len_def scan_to_gt intro!: diff_less_mono2)

declare fill_cell.simps [simp del]

text \<open>One cell: where it lies in the buffer, its length, and its column's width.\<close>

definition set_cell :: "nat \<Rightarrow> nat \<Rightarrow> nat \<Rightarrow> nat list list \<Rightarrow> nat list list" where
  "set_cell r c v m = m[r := (m ! r)[c := v]]"

definition store_cell :: "bytes \<Rightarrow> nat \<Rightarrow> nat \<Rightarrow> nat \<Rightarrow> table_renderer \<Rightarrow> table_renderer" where
  "store_cell row i cell col t =
     (let cs = trim_front is_space row i cell;
          ce = trim_back is_space row cs cell;
          r = tr_rows t;
          off = tr_len t
      in case fill_cell row ce off cs (tr_buf t, 0, tr_overflowed t) of
           (buf, n, ovf) \<Rightarrow>
             let w = of_nat (cells (drop off buf) n) :: u8 in
             t\<lparr>tr_buf := buf, tr_overflowed := ovf,
               tr_off := set_cell r col off (tr_off t), tr_clen := set_cell r col n (tr_clen t),
               tr_len := off + n,
               tr_col_w := (if n \<noteq> 0 \<and> tr_col_w t ! col < w then (tr_col_w t)[col := w] else tr_col_w t)\<rparr>)"

function row_cells :: "bytes \<Rightarrow> nat \<Rightarrow> nat \<Rightarrow> nat \<Rightarrow> table_renderer \<Rightarrow> nat \<times> table_renderer" where
  "row_cells row b i col t =
     (if i \<le> b \<and> col < T_COLS
      then (let cell = scan_to BAR row i b in row_cells row b (Suc cell) (Suc col) (store_cell row i cell col t))
      else (col, t))"
  by pat_completeness auto
termination by (relation "measure (\<lambda>(row, b, i, col, t). T_COLS - col)") auto

declare row_cells.simps [simp del]

definition onTableRow :: "bytes \<Rightarrow> nat \<Rightarrow> style \<Rightarrow> table_renderer \<Rightarrow> table_renderer" where
  "onTableRow row len s t0 =
     (let t = t0\<lparr>tr_page := (tr_page t0)\<lparr>pr_depth := st_depth s\<rparr>\<rparr>;
          a = trim_front edge_char row 0 len;
          b = trim_back edge_char row a len
      in if separator_row row a b then t
         else if T_ROWS \<le> tr_rows t then t\<lparr>tr_overflowed := True\<rparr>
         else
           (let r = tr_rows t;
                t1 = t\<lparr>tr_off := (tr_off t)[r := replicate T_COLS 0], tr_clen := (tr_clen t)[r := replicate T_COLS 0]\<rparr>
            in case row_cells row b a 0 t1 of
                 (col, t2) \<Rightarrow> t2\<lparr>tr_cols := max col (tr_cols t2), tr_rows := Suc r\<rparr>))"

section \<open>Slicing a cell into lines\<close>

text \<open>A cell's text from its first byte is \<open>p\<close>, \<open>n\<close> bytes of it, and \<open>w\<close> the column's width. The
  source has the same break rule three times: where the lines are counted, where a line's start
  is walked to, and where its end is found.\<close>

fun take_cells :: "bytes \<Rightarrow> nat \<Rightarrow> nat \<Rightarrow> nat \<Rightarrow> nat" where
  "take_cells p n 0 e = e"
| "take_cells p n (Suc w) e = (if e < n then take_cells p n w (e + seq_len (p ! e)) else e)"

fun word_back :: "bytes \<Rightarrow> nat \<Rightarrow> nat \<Rightarrow> nat" where
  "word_back p from 0 = 0"
| "word_back p from (Suc b) = (if from < Suc b \<and> p ! b \<noteq> 0x20 then word_back p from b else Suc b)"

definition slice_end :: "bytes \<Rightarrow> nat \<Rightarrow> nat \<Rightarrow> nat \<Rightarrow> nat" where
  "slice_end p n w from =
     (let e = take_cells p n w from in
      if e < n \<and> p ! e \<noteq> 0x20
      then (let brk = word_back p from e in if from < brk \<and> (e - from) * 2 \<le> (brk - from) * 3 then brk else e)
      else e)"

definition blank_byte :: "u8 \<Rightarrow> bool" where "blank_byte c \<longleftrightarrow> c = 0x20"

definition next_slice :: "bytes \<Rightarrow> nat \<Rightarrow> nat \<Rightarrow> nat \<Rightarrow> nat" where
  "next_slice p n w from = trim_front blank_byte p (slice_end p n w from) n"

function lines_needed :: "bytes \<Rightarrow> nat \<Rightarrow> nat \<Rightarrow> nat \<Rightarrow> nat \<Rightarrow> nat" where
  "lines_needed p n w at need =
     (if at < n \<and> need < 32 then lines_needed p n w (next_slice p n w at) (Suc need) else need)"
  by pat_completeness auto
termination by (relation "measure (\<lambda>(p, n, w, at, need). 32 - need)") auto

declare lines_needed.simps [simp del]

fun slice_start :: "bytes \<Rightarrow> nat \<Rightarrow> nat \<Rightarrow> nat \<Rightarrow> nat \<Rightarrow> nat" where
  "slice_start p n w 0 from = from"
| "slice_start p n w (Suc k) from =
     (let f = next_slice p n w from in if n \<le> f then f else slice_start p n w k f)"

section \<open>Fitting the columns\<close>

definition over_cols :: "nat \<Rightarrow> (u8 \<Rightarrow> u8) \<Rightarrow> u8 list \<Rightarrow> u8 list" where
  "over_cols cols f ws = map f (take cols ws) @ drop cols ws"

definition sum_cols :: "nat \<Rightarrow> (u8 \<Rightarrow> u16) \<Rightarrow> u8 list \<Rightarrow> u16" where
  "sum_cols cols f ws = fold (\<lambda>w acc. acc + f w) (take cols ws) 0"

definition avail_cells :: "page_renderer \<Rightarrow> nat" where
  "avail_cells r = (LCD_WIDTH - MARGIN_X - left_edge r) div FONT_ADVANCE"

definition cap_width :: "nat \<Rightarrow> u8 \<Rightarrow> u8" where
  "cap_width avail w = (if avail div 2 < unat w then of_nat (avail div 2) else w)"

definition scaled :: "u16 \<Rightarrow> u16 \<Rightarrow> u8 \<Rightarrow> u16" where
  "scaled space widths w =
     (let s = of_nat (unat w * unat space div unat widths) :: u16 in if s < 2 then 2 else s)"

definition widest :: "nat \<Rightarrow> u8 list \<Rightarrow> nat" where
  "widest cols ws = fold (\<lambda>c best. if ws ! best < ws ! c then c else best) [1..<cols] 0"

definition scale_columns :: "u16 \<Rightarrow> nat \<Rightarrow> u8 list \<Rightarrow> u8 list option" where
  "scale_columns space cols ws =
     (let widths = sum_cols cols ucast ws in
      if widths = 0 then None
      else
        (let used = sum_cols cols (scaled space widths) ws;
             ws1 = over_cols cols (\<lambda>w. ucast (scaled space widths w)) ws
         in Some (if used < space
                  then ws1[widest cols ws1 := ws1 ! widest cols ws1 + ucast (space - used)]
                  else ws1)))"

text \<open>\<open>None\<close> is the early return.\<close>

definition fit_columns :: "nat \<Rightarrow> nat \<Rightarrow> u8 list \<Rightarrow> u8 list option" where
  "fit_columns avail cols ws =
     (let ws1 = over_cols cols (cap_width avail) ws;
          natural = sum_cols cols (\<lambda>w. ucast w + of_nat GAP) ws1
      in if of_nat avail < natural
         then scale_columns (of_nat avail - of_nat (cols * GAP)) cols ws1
         else Some ws1)"

section \<open>Drawing the table\<close>

definition cell_text :: "table_renderer \<Rightarrow> nat \<Rightarrow> nat \<Rightarrow> bytes" where
  "cell_text t r c = drop (tr_off t ! r ! c) (tr_buf t)"

definition row_lines :: "table_renderer \<Rightarrow> nat \<Rightarrow> nat" where
  "row_lines t r =
     fold (\<lambda>c lines.
       let n = tr_clen t ! r ! c; w = unat (tr_col_w t ! c) in
       if n = 0 \<or> w = 0 then lines else max lines (lines_needed (cell_text t r c) n w 0 0))
     [0..<tr_cols t] 1"

definition column_step :: "table_renderer \<Rightarrow> nat \<Rightarrow> u16" where
  "column_step t c = of_nat ((unat (tr_col_w t ! c) + GAP) * FONT_ADVANCE)"

definition draw_cell :: "table_renderer \<Rightarrow> nat \<Rightarrow> nat \<Rightarrow> nat \<Rightarrow> u16 \<Rightarrow> page_renderer \<Rightarrow> page_renderer option" where
  "draw_cell t r ln c x q =
     (let p = cell_text t r c; n = tr_clen t ! r ! c; w = unat (tr_col_w t ! c);
          from = slice_start p n w ln 0; to = slice_end p n w from
      in if from < to then emit_run (drop from p) (to - from) False (q\<lparr>pr_x := x, pr_row_open := True\<rparr>)
         else Some q)"

fun draw_cells :: "table_renderer \<Rightarrow> nat \<Rightarrow> nat \<Rightarrow> nat list \<Rightarrow> u16 \<Rightarrow> page_renderer \<Rightarrow> page_renderer option" where
  "draw_cells t r ln [] x q = Some q"
| "draw_cells t r ln (c # cs) x q =
     (case draw_cell t r ln c x q of
        None \<Rightarrow> None
      | Some q1 \<Rightarrow> draw_cells t r ln cs (x + column_step t c) q1)"

fun draw_gutters :: "table_renderer \<Rightarrow> nat list \<Rightarrow> u16 \<Rightarrow> page_renderer \<Rightarrow> page_renderer option" where
  "draw_gutters t [] sx q = Some q"
| "draw_gutters t (c # cs) sx q =
     (let sx1 = sx + column_step t c in
      case on_lcd (fill_rect (sx1 - of_nat (GAP * FONT_ADVANCE div 2) - 1) (screen_y q) 1 (line_h q) True) q of
        None \<Rightarrow> None
      | Some q1 \<Rightarrow> draw_gutters t cs sx1 q1)"

definition table_line :: "table_renderer \<Rightarrow> nat \<Rightarrow> nat \<Rightarrow> page_renderer \<Rightarrow> page_renderer option" where
  "table_line t r ln q =
     do {
       q1 \<leftarrow> (if row_visible q
              then do {
                q2 \<leftarrow> draw_cells t r ln [0..<tr_cols t] (of_nat (left_edge q)) q;
                draw_gutters t [0..<tr_cols t - 1] (of_nat (left_edge q2)) q2
              }
              else Some q);
       Some (q1\<lparr>pr_y := pr_y q1 + line_h q1, pr_row_open := False, pr_x := of_nat (left_edge q1)\<rparr>)
     }"

fun table_lines :: "table_renderer \<Rightarrow> nat \<Rightarrow> nat list \<Rightarrow> page_renderer \<Rightarrow> page_renderer option" where
  "table_lines t r [] q = Some q"
| "table_lines t r (ln # lns) q =
     (case table_line t r ln q of None \<Rightarrow> None | Some q1 \<Rightarrow> table_lines t r lns q1)"

definition table_rule :: "u16 \<Rightarrow> page_renderer \<Rightarrow> page_renderer option" where
  "table_rule y q =
     (if row_visible q
      then on_lcd (draw_hline (of_nat (left_edge q)) y (of_nat (LCD_WIDTH - MARGIN_X - left_edge q)) True) q
      else Some q)"

fun table_rows :: "table_renderer \<Rightarrow> nat list \<Rightarrow> page_renderer \<Rightarrow> page_renderer option" where
  "table_rows t [] q = Some q"
| "table_rows t (r # rs) q =
     (case table_lines t r [0..<row_lines t r] q of
        None \<Rightarrow> None
      | Some q1 \<Rightarrow>
          (case (if r = 0 then table_rule (screen_y q1 - 1) q1 else Some q1) of
             None \<Rightarrow> None
           | Some q2 \<Rightarrow> table_rows t rs q2))"

definition table_flush :: "table_renderer \<Rightarrow> table_renderer option" where
  "table_flush t =
     (if tr_rows t = 0 \<or> tr_cols t = 0 then Some t
      else
        (case fit_columns (avail_cells (tr_page t)) (tr_cols t) (tr_col_w t) of
           None \<Rightarrow> Some t
         | Some ws \<Rightarrow>
             (let t1 = t\<lparr>tr_col_w := ws\<rparr> in
              do {
                q1 \<leftarrow> table_rows t1 [0..<tr_rows t1] (tr_page t1);
                q2 \<leftarrow> table_rule (screen_y q1) q1;
                Some (t1\<lparr>tr_page := q2\<lparr>pr_y := pr_y q2 + PARA_GAP\<rparr>\<rparr>)
              })))"

definition onTableEnd :: "style \<Rightarrow> table_renderer \<Rightarrow> table_renderer option" where
  "onTableEnd s t =
     map_option (\<lambda>t1. t1\<lparr>tr_in_table := False\<rparr>) (table_flush (t\<lparr>tr_page := (tr_page t)\<lparr>pr_depth := st_depth s\<rparr>\<rparr>))"

end
