(* ===== verification/TableRows.thy ===== *)
theory TableRows
  imports MicronTable
begin

text \<open>
  Collecting rows: the fixed arrays hold, whatever the rows, and a row leaves the cells of the
  rows before it as they were.
\<close>

section \<open>The invariant\<close>

definition table_shape :: "table_renderer \<Rightarrow> bool" where
  "table_shape t \<longleftrightarrow>
     length (tr_buf t) = T_BYTES \<and> tr_len t \<le> T_BYTES \<and> length (tr_col_w t) = T_COLS
     \<and> length (tr_off t) = T_ROWS \<and> length (tr_clen t) = T_ROWS
     \<and> list_all (\<lambda>row. length row = T_COLS) (tr_off t) \<and> list_all (\<lambda>row. length row = T_COLS) (tr_clen t)"

definition cells_in :: "nat \<Rightarrow> table_renderer \<Rightarrow> bool" where
  "cells_in k t \<longleftrightarrow>
     (\<forall>r < k. \<forall>c < T_COLS. tr_off t ! r ! c + tr_clen t ! r ! c \<le> tr_len t \<and> tr_clen t ! r ! c \<le> 255)"

definition table_ok :: "table_renderer \<Rightarrow> bool" where
  "table_ok t \<longleftrightarrow> table_shape t \<and> tr_rows t \<le> T_ROWS \<and> tr_cols t \<le> T_COLS \<and> cells_in (tr_rows t) t"

definition cell_at :: "table_renderer \<Rightarrow> nat \<Rightarrow> nat \<Rightarrow> bytes" where
  "cell_at t r c = take (tr_clen t ! r ! c) (cell_text t r c)"

section \<open>Filling a cell\<close>

text \<open>A fill keeps the buffer's size and everything outside the bytes it adds.\<close>

definition fills :: "nat \<Rightarrow> cell_fill \<Rightarrow> cell_fill \<Rightarrow> bool" where
  "fills tlen f f' =
     (case (f, f') of ((buf, n, ovf), (buf', n', ovf')) \<Rightarrow>
        length buf' = length buf \<and> n \<le> n' \<and> (n \<le> 255 \<longrightarrow> n' \<le> 255)
        \<and> (tlen + n \<le> T_BYTES \<longrightarrow> tlen + n' \<le> T_BYTES)
        \<and> take (tlen + n) buf' = take (tlen + n) buf \<and> (ovf \<longrightarrow> ovf'))"

lemma fills_refl [simp]: "fills tlen f f"
  by (cases f) (simp add: fills_def)

lemma take_eq_le: "take m xs = take m ys \<Longrightarrow> k \<le> m \<Longrightarrow> take k xs = take k ys"
  by (drule arg_cong[where f = "take k"]) (simp add: min_absorb1)

lemma fills_trans: "fills tlen f g \<Longrightarrow> fills tlen g h \<Longrightarrow> fills tlen f h"
  using take_eq_le[of "tlen + fst (snd g)" "fst h" "fst g" "tlen + fst (snd f)"]
  by (simp add: fills_def split: prod.splits)

lemma fills_add: "n < 255 \<Longrightarrow> tlen + n < T_BYTES \<Longrightarrow> fills tlen (buf, n, ovf) (buf[tlen + n := v], Suc n, ovf)"
  by (simp add: fills_def)

lemma fills_label: "fills tlen f (fold (copy_label row tlen) qs f)"
proof (induction qs arbitrary: f)
  case (Cons q qs)
  have "fills tlen f (copy_label row tlen q f)"
    by (cases f) (auto intro: fills_add simp: fills_def)
  then show ?case using fills_trans[OF _ Cons.IH] by simp
qed simp

lemma fills_cell: "fills tlen f (fill_cell row ce tlen k f)"
proof (induction row ce tlen k f rule: fill_cell.induct)
  case (1 row ce tlen k buf n ovf)
  consider (ended) "\<not> (k < ce \<and> n < 255)"
    | (link) "k < ce" "n < 255" "row ! k = TICK" "k + 1 < ce" "row ! (k + 1) = 0x5B"
    | (cmd) "k < ce" "n < 255" "row ! k = TICK" "k + 1 < ce" "row ! (k + 1) \<noteq> 0x5B"
    | (copy) "k < ce" "n < 255" "\<not> (row ! k = TICK \<and> k + 1 < ce)" "tlen + n < T_BYTES"
    | (full) "k < ce" "n < 255" "\<not> (row ! k = TICK \<and> k + 1 < ce)" "\<not> tlen + n < T_BYTES"
    by blast
  then show ?case
  proof cases
    case ended
    then show ?thesis by (subst fill_cell.simps) auto
  next
    case link
    let ?e = "scan_to 0x5D row (k + 2) ce"
    let ?f = "fold (copy_label row tlen) [k + 2..<link_stop row k ?e ce] (buf, n, ovf)"
    have "fills tlen ?f (fill_cell row ce tlen (if ?e < ce then Suc ?e else ce) ?f)"
      by (rule 1(1)) (use link in simp_all)
    then have "fills tlen (buf, n, ovf) (fill_cell row ce tlen (if ?e < ce then Suc ?e else ce) ?f)"
      by (rule fills_trans[OF fills_label])
    moreover have "fill_cell row ce tlen k (buf, n, ovf)
        = fill_cell row ce tlen (if ?e < ce then Suc ?e else ce) ?f"
      using link by (subst fill_cell.simps) (simp only: Let_def simp_thms if_True)
    ultimately show ?thesis by (simp only:)
  next
    case cmd
    let ?s = "skip_len row k ce"
    have "fills tlen (buf, n, ovf) (fill_cell row ce tlen (if k + ?s \<le> ce then k + ?s else ce) (buf, n, ovf))"
      by (rule 1(2)) (use cmd in simp_all)
    moreover have "fill_cell row ce tlen k (buf, n, ovf)
        = fill_cell row ce tlen (if k + ?s \<le> ce then k + ?s else ce) (buf, n, ovf)"
      using cmd by (subst fill_cell.simps) (simp only: Let_def simp_thms if_True if_False)
    ultimately show ?thesis by (simp only:)
  next
    case copy
    have "fills tlen (buf[tlen + n := row ! k], Suc n, ovf)
        (fill_cell row ce tlen (Suc k) (buf[tlen + n := row ! k], Suc n, ovf))"
      by (rule 1(3)) (use copy in simp_all)
    with fills_add have "fills tlen (buf, n, ovf) (fill_cell row ce tlen (Suc k) (buf[tlen + n := row ! k], Suc n, ovf))"
      using copy(2,4) fills_trans by blast
    moreover have "fill_cell row ce tlen k (buf, n, ovf)
        = fill_cell row ce tlen (Suc k) (buf[tlen + n := row ! k], Suc n, ovf)"
      using copy by (subst fill_cell.simps) (simp only: simp_thms if_True if_False)
    ultimately show ?thesis by (simp only:)
  next
    case full
    then show ?thesis by (subst fill_cell.simps) (auto simp: fills_def)
  qed
qed

section \<open>Storing the cells of a row\<close>

text \<open>While a row is collected it counts as not yet stored: the row being filled is \<open>tr_rows\<close>.\<close>

definition filling :: "table_renderer \<Rightarrow> bool" where
  "filling t \<longleftrightarrow> table_shape t \<and> tr_rows t < T_ROWS \<and> tr_cols t \<le> T_COLS \<and> cells_in (Suc (tr_rows t)) t"

text \<open>What a fill keeps: the counts, and every cell of the rows before.\<close>

definition same_rows :: "table_renderer \<Rightarrow> table_renderer \<Rightarrow> bool" where
  "same_rows t t' \<longleftrightarrow> tr_rows t' = tr_rows t \<and> tr_cols t' = tr_cols t \<and> tr_page t' = tr_page t
     \<and> (\<forall>r < tr_rows t. \<forall>c < T_COLS. cell_at t' r c = cell_at t r c)"

lemma same_rows_refl [simp]: "same_rows t t"
  by (simp add: same_rows_def)

lemma same_rows_trans: "same_rows t u \<Longrightarrow> same_rows u v \<Longrightarrow> same_rows t v"
  by (simp add: same_rows_def)

lemma set_cell_nth:
  "r < length m \<Longrightarrow> c < length (m ! r) \<Longrightarrow>
     set_cell r c v m ! r' ! c' = (if r' = r \<and> c' = c then v else m ! r' ! c')"
  by (simp add: set_cell_def nth_list_update)

lemma set_cell_shape:
  "list_all (\<lambda>row. length row = k) m \<Longrightarrow> r < length m \<Longrightarrow> list_all (\<lambda>row. length row = k) (set_cell r c v m)"
  by (auto simp: set_cell_def list_all_length nth_list_update)

lemma length_set_cell [simp]: "length (set_cell r c v m) = length m"
  by (simp add: set_cell_def)

lemma table_shape_row:
  "table_shape t \<Longrightarrow> r < T_ROWS \<Longrightarrow> length (tr_off t ! r) = T_COLS \<and> length (tr_clen t ! r) = T_COLS"
  by (simp add: table_shape_def list_all_length)

lemma store_cell_ok:
  assumes ok: "filling t" and col: "col < T_COLS"
  shows "filling (store_cell row i cell col t) \<and> same_rows t (store_cell row i cell col t)"
proof -
  let ?cs = "trim_front is_space row i cell"
  let ?ce = "trim_back is_space row ?cs cell"
  let ?r = "tr_rows t" and ?off = "tr_len t"
  obtain buf n ovf where f: "fill_cell row ?ce ?off ?cs (tr_buf t, 0, tr_overflowed t) = (buf, n, ovf)"
    by (metis prod_cases3)
  have shape: "table_shape t" and r: "?r < T_ROWS" using ok by (simp_all add: filling_def)
  have fills: "length buf = T_BYTES" "n \<le> 255" "?off + n \<le> T_BYTES" "take ?off buf = take ?off (tr_buf t)"
    using fills_cell[of ?off "(tr_buf t, 0, tr_overflowed t)" row ?ce ?cs] shape
    by (simp_all add: f fills_def table_shape_def)
  define u where "u = store_cell row i cell col t"
  have u: "tr_buf u = buf" "tr_len u = ?off + n" "tr_rows u = ?r" "tr_cols u = tr_cols t" "tr_page u = tr_page t"
    "tr_off u = set_cell ?r col ?off (tr_off t)" "tr_clen u = set_cell ?r col n (tr_clen t)"
    "length (tr_col_w u) = length (tr_col_w t)"
    by (simp_all add: u_def store_cell_def Let_def f)
  have offs: "?r < length (tr_off t)" "col < length (tr_off t ! ?r)" "?r < length (tr_clen t)" "col < length (tr_clen t ! ?r)"
    using shape r col table_shape_row[OF shape r] by (simp_all add: table_shape_def)
  have nth: "tr_off u ! r' ! c' = (if r' = ?r \<and> c' = col then ?off else tr_off t ! r' ! c')"
    "tr_clen u ! r' ! c' = (if r' = ?r \<and> c' = col then n else tr_clen t ! r' ! c')" for r' c'
    using offs by (simp_all add: u set_cell_nth)
  have cin: "tr_off t ! r' ! c' + tr_clen t ! r' ! c' \<le> ?off \<and> tr_clen t ! r' ! c' \<le> 255"
    if "r' < Suc ?r" "c' < T_COLS" for r' c'
    using ok that by (simp add: filling_def cells_in_def)
  have "table_shape u"
    using shape fills r by (simp add: table_shape_def u set_cell_shape)
  moreover have "cells_in (Suc (tr_rows u)) u"
    using cin fills(2) by (fastforce simp: cells_in_def nth u(2,3) split: if_splits)
  moreover have "cell_at u r' c' = cell_at t r' c'" if "r' < ?r" "c' < T_COLS" for r' c'
  proof -
    let ?o = "tr_off t ! r' ! c'" and ?n = "tr_clen t ! r' ! c'"
    have "?o + ?n \<le> ?off" using cin[of r' c'] that by simp
    then have "take (?o + ?n) buf = take (?o + ?n) (tr_buf t)" by (rule take_eq_le[OF fills(4)])
    then have "drop ?o (take (?o + ?n) buf) = drop ?o (take (?o + ?n) (tr_buf t))" by simp
    then show ?thesis using that by (simp add: cell_at_def cell_text_def nth u(1) drop_take)
  qed
  ultimately show ?thesis
    using ok unfolding u_def[symmetric] by (simp add: filling_def same_rows_def u)
qed

lemma row_cells_ok:
  "filling t \<Longrightarrow> row_cells row b i col t = (col', t') \<Longrightarrow> col \<le> T_COLS \<Longrightarrow>
     filling t' \<and> same_rows t t' \<and> col' \<le> T_COLS"
proof (induction row b i col t rule: row_cells.induct)
  case (1 row b i col t)
  show ?case
  proof (cases "i \<le> b \<and> col < T_COLS")
    case True
    let ?cell = "scan_to BAR row i b"
    have s: "filling (store_cell row i ?cell col t) \<and> same_rows t (store_cell row i ?cell col t)"
      by (rule store_cell_ok) (use 1(2) True in simp_all)
    have "row_cells row b (Suc ?cell) (Suc col) (store_cell row i ?cell col t) = (col', t')"
      using 1(3) True by (subst (asm) row_cells.simps) (simp add: Let_def)
    then have "filling t' \<and> same_rows (store_cell row i ?cell col t) t' \<and> col' \<le> T_COLS"
      using 1(1)[OF True refl] s True by simp
    then show ?thesis using s same_rows_trans by blast
  next
    case False
    then show ?thesis using 1 by (subst (asm) row_cells.simps) auto
  qed
qed

lemma table_row_ok:
  assumes "table_ok t"
  shows "table_ok (onTableRow row len s t)
    \<and> (\<forall>r < tr_rows t. \<forall>c < T_COLS. cell_at (onTableRow row len s t) r c = cell_at t r c)
    \<and> tr_rows t \<le> tr_rows (onTableRow row len s t)"
proof -
  let ?t = "t\<lparr>tr_page := (tr_page t)\<lparr>pr_depth := st_depth s\<rparr>\<rparr>"
  let ?a = "trim_front edge_char row 0 len"
  let ?b = "trim_back edge_char row ?a len"
  let ?r = "tr_rows t"
  let ?t1 = "?t\<lparr>tr_off := (tr_off t)[?r := replicate T_COLS 0], tr_clen := (tr_clen t)[?r := replicate T_COLS 0]\<rparr>"
  have ok: "table_ok ?t" "cell_at ?t r c = cell_at t r c" for r c
    using assms by (simp_all add: table_ok_def table_shape_def cells_in_def cell_at_def cell_text_def)
  consider "separator_row row ?a ?b" | "\<not> separator_row row ?a ?b" "T_ROWS \<le> ?r"
    | "\<not> separator_row row ?a ?b" "?r < T_ROWS" by linarith
  then show ?thesis
  proof cases
    case 1
    then show ?thesis using ok by (simp add: onTableRow_def Let_def)
  next
    case 2
    then show ?thesis using ok
      by (simp add: onTableRow_def Let_def table_ok_def table_shape_def cells_in_def cell_at_def cell_text_def)
  next
    case 3
    obtain col t2 where rc: "row_cells row ?b ?a 0 ?t1 = (col, t2)" by (cases "row_cells row ?b ?a 0 ?t1")
    have len: "length (tr_off t) = T_ROWS" "length (tr_clen t) = T_ROWS"
      using assms by (simp_all add: table_ok_def table_shape_def)
    have "table_shape ?t1"
      using assms 3 by (auto simp: table_ok_def table_shape_def list_all_length nth_list_update)
    moreover have "cells_in (Suc ?r) ?t1"
      using assms 3 len by (auto simp: cells_in_def table_ok_def nth_list_update less_Suc_eq)
    ultimately have "filling ?t1" using assms 3 by (simp add: filling_def table_ok_def)
    then have t2: "filling t2" "same_rows ?t1 t2" "col \<le> T_COLS"
      using row_cells_ok[OF _ rc] by simp_all
    have before: "cell_at ?t1 r c = cell_at t r c" if "r < ?r" for r c
      using that by (simp add: cell_at_def cell_text_def)
    have out: "onTableRow row len s t = t2\<lparr>tr_cols := max col (tr_cols t2), tr_rows := Suc ?r\<rparr>"
      using 3 rc by (simp add: onTableRow_def Let_def)
    have r2: "tr_rows t2 = ?r" using t2(2) by (simp add: same_rows_def)
    have "table_ok (t2\<lparr>tr_cols := max col (tr_cols t2), tr_rows := Suc ?r\<rparr>)"
      using t2 3 r2 by (simp add: table_ok_def filling_def table_shape_def cells_in_def)
    moreover have "cell_at (t2\<lparr>tr_cols := max col (tr_cols t2), tr_rows := Suc ?r\<rparr>) r c = cell_at t r c"
      if "r < ?r" "c < T_COLS" for r c
      using t2(2) before[of r c] that by (simp add: same_rows_def cell_at_def cell_text_def)
    ultimately show ?thesis unfolding out by simp
  qed
qed

section \<open>Properties\<close>

text \<open>C25: the table buffers hold. Open a table and feed it any rows: at most 16 rows and 6 columns are
  kept, every cell lies inside the 1024 bytes of text already used, and is at most 255 bytes
  long.\<close>

theorem table_buffers_hold:
  assumes "length (tr_buf t) = T_BYTES" "length (tr_off t) = T_ROWS" "length (tr_clen t) = T_ROWS"
    and "list_all (\<lambda>row. length row = T_COLS) (tr_off t @ tr_clen t)"
    and u: "u = fold (\<lambda>(row, len). onTableRow row len s) rows (onTableBegin tb s t)"
  shows "tr_rows u \<le> T_ROWS \<and> tr_cols u \<le> T_COLS \<and> tr_len u \<le> length (tr_buf u)
    \<and> (\<forall>r < tr_rows u. \<forall>c < T_COLS.
          tr_off u ! r ! c + tr_clen u ! r ! c \<le> tr_len u \<and> tr_clen u ! r ! c \<le> 255)"
proof -
  have "table_ok (onTableBegin tb s t)"
    using assms(1-4) by (simp add: table_ok_def table_shape_def onTableBegin_def cells_in_def)
  then have "table_ok u"
    unfolding u by (induction rows arbitrary: t rule: rev_induct) (auto simp: table_row_ok)
  then show ?thesis by (simp add: table_ok_def table_shape_def cells_in_def)
qed

text \<open>A row leaves the cells before it alone. Whatever a new row holds, the text of every cell
  stored before it is the same afterwards.\<close>

theorem row_keeps_earlier_cells:
  assumes "table_ok t" "r < tr_rows t" "c < T_COLS"
  shows "cell_at (onTableRow row len s t) r c = cell_at t r c"
  using table_row_ok[OF assms(1)] assms(2,3) by blast

lemma fill_plain:
  "list_all (\<lambda>c. c \<noteq> TICK) row \<Longrightarrow> k \<le> ce \<Longrightarrow> ce \<le> length row \<Longrightarrow> tlen + 255 \<le> T_BYTES \<Longrightarrow> n \<le> 255 \<Longrightarrow>
     snd (fill_cell row ce tlen k (buf, n, ovf)) = (min 255 (n + (ce - k)), ovf)"
proof (induction row ce tlen k "(buf, n, ovf)" arbitrary: buf n ovf rule: fill_cell.induct)
  case (1 row ce tlen k buf n ovf)
  show ?case
  proof (cases "k < ce \<and> n < 255")
    case True
    then have plain: "row ! k \<noteq> TICK" using 1(4,6) by (simp add: list_all_length)
    have "snd (fill_cell row ce tlen (Suc k) (buf[tlen + n := row ! k], Suc n, ovf)) = (min 255 (Suc n + (ce - Suc k)), ovf)"
      using 1(3)[OF True] 1 plain True by simp
    then show ?thesis using True 1(7) plain by (subst fill_cell.simps) auto
  next
    case False
    then show ?thesis using 1(5,8) by (subst fill_cell.simps) auto
  qed
qed

lemma trim_front_none: "\<not> f (row ! a) \<Longrightarrow> trim_front f row a b = a"
  by (subst trim_front.simps) simp

lemma trim_back_none: "0 < b \<Longrightarrow> \<not> f (row ! (b - 1)) \<Longrightarrow> trim_back f row a b = b"
  by (cases b) auto

lemma scan_to_none: "(\<forall>j < b. row ! j \<noteq> c) \<Longrightarrow> i \<le> b \<Longrightarrow> scan_to c row i b = b"
proof (induction c row i b rule: scan_to.induct)
  case (1 c row i b)
  show ?case
  proof (cases "i < b")
    case True
    then have "scan_to c row (Suc i) b = b" using 1 by simp
    then show ?thesis using 1(2) True by (subst scan_to.simps) simp
  next
    case False
    then show ?thesis using 1(3) by (subst scan_to.simps) simp
  qed
qed

definition plain_byte :: "u8 \<Rightarrow> bool" where
  "plain_byte c \<longleftrightarrow> c \<notin> {BAR, TICK, 0x2D, 0x3A} \<and> \<not> is_space c"

text \<open>A long cell is cut in silence. Of a row that is one plain cell of more than 255 bytes, 255
  bytes are kept, and the overflow flag the page reports is not raised.\<close>

theorem long_cell_is_cut_in_silence:
  assumes ok: "table_ok t" "tr_rows t < T_ROWS" "tr_len t + 255 \<le> T_BYTES"
    and row: "list_all plain_byte row" "255 < length row"
  shows "tr_clen (onTableRow row (length row) s t) ! tr_rows t ! 0 = 255
    \<and> tr_rows (onTableRow row (length row) s t) = Suc (tr_rows t)
    \<and> tr_overflowed (onTableRow row (length row) s t) = tr_overflowed t"
proof -
  let ?n = "length row"
  let ?t = "t\<lparr>tr_page := (tr_page t)\<lparr>pr_depth := st_depth s\<rparr>\<rparr>"
  let ?t1 = "?t\<lparr>tr_off := (tr_off t)[tr_rows t := replicate T_COLS 0],
      tr_clen := (tr_clen t)[tr_rows t := replicate T_COLS 0]\<rparr>"
  have p: "plain_byte (row ! j)" if "j < ?n" for j using row(1) that by (simp add: list_all_length)
  have edge: "\<not> edge_char (row ! j)" "\<not> is_space (row ! j)" "row ! j \<noteq> BAR" if "j < ?n" for j
    using p[OF that] by (simp_all add: plain_byte_def edge_char_def)
  have n0: "0 < ?n" "?n - 1 < ?n" "row \<noteq> []" using row(2) by auto
  have a: "trim_front edge_char row 0 ?n = 0" by (rule trim_front_none) (simp add: edge[OF n0(1)])
  have b: "trim_back edge_char row 0 ?n = ?n" by (rule trim_back_none) (simp_all add: edge[OF n0(2)] n0(3) del: One_nat_def)
  have "plain_byte (hd row)" using p[of 0] row(2) by (cases row) auto
  then have sep: "\<not> separator_row row 0 ?n"
    using row(2) by (cases row) (auto simp: separator_row_def plain_byte_def)
  have cell: "scan_to BAR row 0 ?n = ?n" by (rule scan_to_none) (use edge in auto)
  have cs: "trim_front is_space row 0 ?n = 0" by (rule trim_front_none) (simp add: edge[OF n0(1)])
  have ce: "trim_back is_space row 0 ?n = ?n" by (rule trim_back_none) (simp_all add: edge[OF n0(2)] n0(3) del: One_nat_def)
  have "list_all (\<lambda>c. c \<noteq> TICK) row" using row(1) by (auto simp: list_all_iff plain_byte_def)
  then obtain buf where f: "fill_cell row ?n (tr_len t) 0 (tr_buf t, 0, tr_overflowed t) = (buf, 255, tr_overflowed t)"
    using fill_plain[of row 0 ?n "tr_len t" 0 "tr_buf t" "tr_overflowed t"] ok row(2)
    by (cases "fill_cell row ?n (tr_len t) 0 (tr_buf t, 0, tr_overflowed t)") auto
  have len: "tr_rows t < length (tr_clen t)" using ok by (simp add: table_ok_def table_shape_def)
  define u where "u = store_cell row 0 ?n 0 ?t1"
  have u: "tr_clen u ! tr_rows t ! 0 = 255" "tr_rows u = tr_rows t" "tr_overflowed u = tr_overflowed t"
    using len f by (simp_all add: u_def store_cell_def cs ce Let_def set_cell_nth T_COLS_def)
  have "row_cells row ?n 0 0 ?t1 = (1, u)"
    using cell by (simp add: row_cells.simps[of row ?n 0] row_cells.simps[of row ?n "Suc ?n"] T_COLS_def Let_def u_def)
  then have "onTableRow row ?n s t = u\<lparr>tr_cols := max 1 (tr_cols u), tr_rows := Suc (tr_rows t)\<rparr>"
    using ok sep by (simp add: onTableRow_def Let_def a b)
  then show ?thesis using u by simp
qed

section \<open>Witnesses\<close>

definition demo_table :: table_renderer where
  "demo_table = \<lparr>tr_page = demo_page, tr_in_table = False, tr_row = 0, tr_cols = 0, tr_col_w = replicate T_COLS 0,
     tr_align = AlignLeft, tr_buf = replicate T_BYTES 0, tr_len = 0, tr_off = replicate T_ROWS (replicate T_COLS 0),
     tr_clen = replicate T_ROWS (replicate T_COLS 0), tr_rows = 0, tr_overflowed = False\<rparr>"

definition demo_head :: table where "demo_head = \<lparr>align_set = False, tb_align = AlignLeft\<rparr>"

text \<open>Two rows: \<open>a|bc\<close> and \<open>d\<close>.\<close>

definition demo_rows :: "(bytes \<times> nat) list" where
  "demo_rows = [([0x61, 0x7C, 0x62, 0x63], 4), ([0x64], 1)]"

lemma demo_table_ok: "table_ok demo_table"
  by (simp add: table_ok_def table_shape_def cells_in_def demo_table_def list_all_iff)

theorem table_buffers_hold_witness:
  "tr_rows (fold (\<lambda>(row, len). onTableRow row len body_style) demo_rows (onTableBegin demo_head body_style demo_table)) \<le> 16"
proof -
  let ?u = "fold (\<lambda>(row, len). onTableRow row len body_style) demo_rows (onTableBegin demo_head body_style demo_table)"
  have "tr_rows ?u \<le> T_ROWS \<and> tr_cols ?u \<le> T_COLS \<and> tr_len ?u \<le> length (tr_buf ?u)
    \<and> (\<forall>r < tr_rows ?u. \<forall>c < T_COLS. tr_off ?u ! r ! c + tr_clen ?u ! r ! c \<le> tr_len ?u \<and> tr_clen ?u ! r ! c \<le> 255)"
    by (rule table_buffers_hold[OF _ _ _ _ refl]) (simp_all add: demo_table_def list_all_iff)
  then show ?thesis by (simp only: T_ROWS_def)
qed

theorem row_keeps_earlier_cells_witness:
  "cell_at (onTableRow [0x64] 1 body_style (onTableRow [0x61, 0x7C, 0x62, 0x63] 4 body_style demo_table)) 0 1
    = cell_at (onTableRow [0x61, 0x7C, 0x62, 0x63] 4 body_style demo_table) 0 1"
proof (rule row_keeps_earlier_cells)
  show "table_ok (onTableRow [0x61, 0x7C, 0x62, 0x63] 4 body_style demo_table)"
    using table_row_ok[OF demo_table_ok] by blast
  show "0 < tr_rows (onTableRow [0x61, 0x7C, 0x62, 0x63] 4 body_style demo_table)" by code_simp
qed (simp add: T_COLS_def)

theorem long_cell_is_cut_in_silence_witness:
  "tr_clen (onTableRow (replicate 300 0x61) 300 body_style demo_table) ! 0 ! 0 = 255"
proof -
  have "list_all plain_byte (replicate 300 0x61)"
    by (simp add: list_all_iff plain_byte_def BAR_def TICK_def is_space_def)
  then show ?thesis
    using long_cell_is_cut_in_silence[OF demo_table_ok, of "replicate 300 0x61" body_style]
    by (simp add: demo_table_def T_ROWS_def T_BYTES_def)
qed

end
