(* ===== verification/TableLines.thy ===== *)
theory TableLines
  imports TableRows
begin

text \<open>
  Laying a table out: how a cell is sliced into lines, what the lines cover, and how the column
  widths are fitted.
\<close>

section \<open>Slices\<close>

text \<open>Whole sequences none of whose later bytes is a space, as in UTF-8.\<close>

function whole :: "bytes \<Rightarrow> nat \<Rightarrow> nat \<Rightarrow> bool" where
  "whole p k n =
     (if k < n
      then k + seq_len (p ! k) \<le> n \<and> list_all (\<lambda>j. p ! j \<noteq> 0x20) [Suc k..<k + seq_len (p ! k)]
           \<and> whole p (k + seq_len (p ! k)) n
      else k = n)"
  by pat_completeness auto
termination
  by (relation "measure (\<lambda>(p, k, n). n - k)") (use seq_len_range in \<open>auto simp: diff_less_mono2\<close>)

declare whole.simps [simp del]

lemma whole_refl [simp]: "whole p n n"
  by (subst whole.simps) simp

lemma whole_le: "whole p k n \<Longrightarrow> k \<le> n"
  by (subst (asm) whole.simps) (auto split: if_splits)

lemma whole_step: "whole p k n \<Longrightarrow> k < n \<Longrightarrow> k + seq_len (p ! k) \<le> n \<and> whole p (k + seq_len (p ! k)) n"
  by (subst (asm) whole.simps) simp

text \<open>A space is a boundary.\<close>

lemma whole_space:
  "whole p k n \<Longrightarrow> k \<le> b \<Longrightarrow> b < n \<Longrightarrow> p ! b = 0x20 \<Longrightarrow>
     whole p b n \<and> whole p (Suc b) n \<and> aligned p k (Suc b)"
proof (induction p k n rule: whole.induct)
  case (1 p k n)
  have k: "k < n" using 1(3,4) by linarith
  have w: "k + seq_len (p ! k) \<le> n" "list_all (\<lambda>j. p ! j \<noteq> 0x20) [Suc k..<k + seq_len (p ! k)]"
    "whole p (k + seq_len (p ! k)) n"
    using 1(2) k by (subst (asm) whole.simps; simp)+
  show ?case
  proof (cases "b = k")
    case True
    then have "seq_len (p ! k) = 1" using 1(5) by (simp add: seq_len_def)
    moreover have "aligned p k (Suc k)"
      using \<open>seq_len (p ! k) = 1\<close> by (subst aligned.simps) simp
    ultimately show ?thesis using True 1(2) w(3) by simp
  next
    case False
    then have "k + seq_len (p ! k) \<le> b"
      using w(2) 1(3,5) by (auto simp: list_all_iff not_le[symmetric] dest: bspec[of _ _ b])
    then have "whole p b n \<and> whole p (Suc b) n \<and> aligned p (k + seq_len (p ! k)) (Suc b)"
      using 1(1)[OF k w(3)] 1(4,5) by blast
    moreover have "aligned p k (Suc b)" if "aligned p (k + seq_len (p ! k)) (Suc b)"
      using that aligned_le[OF that] by (subst aligned.simps) auto
    ultimately show ?thesis by blast
  qed
qed

lemma take_cells_whole:
  "whole p e n \<Longrightarrow> e \<le> take_cells p n w e \<and> take_cells p n w e \<le> n \<and> whole p (take_cells p n w e) n
     \<and> (0 < w \<and> e < n \<longrightarrow> e < take_cells p n w e)"
proof (induction w arbitrary: e)
  case 0
  then show ?case by (simp add: whole_le)
next
  case (Suc w)
  show ?case
  proof (cases "e < n")
    case True
    then have "e + seq_len (p ! e) \<le> n" "whole p (e + seq_len (p ! e)) n" using whole_step[OF Suc.prems] by auto
    then show ?thesis using Suc.IH[of "e + seq_len (p ! e)"] True seq_len_range(1)[of "p ! e"] by simp
  next
    case False
    then show ?thesis using Suc.prems whole_le[OF Suc.prems] by simp
  qed
qed

lemma word_back_spec: "word_back p from b \<le> b \<and> (from < word_back p from b \<longrightarrow> p ! (word_back p from b - 1) = 0x20)"
  by (induction b) auto

lemma slice_end_whole:
  assumes "whole p from n" "0 < w" "from < n"
  shows "from < slice_end p n w from \<and> slice_end p n w from \<le> n \<and> whole p (slice_end p n w from) n"
proof -
  let ?e = "take_cells p n w from" and ?b = "word_back p from (take_cells p n w from)"
  have e: "from < ?e" "?e \<le> n" "whole p ?e n" using take_cells_whole[OF assms(1), of w] assms by auto
  have b: "?b \<le> n" "whole p ?b n" if "from < ?b"
  proof -
    have "?b \<le> ?e" "p ! (?b - 1) = 0x20" using word_back_spec[of p "from" ?e] that by auto
    then show "?b \<le> n" "whole p ?b n"
      using whole_space[OF assms(1), of "?b - 1"] that e by auto
  qed
  show ?thesis using e b by (auto simp: slice_end_def Let_def)
qed

lemma trim_front_ge: "a \<le> trim_front f row a b"
proof (induction f row a b rule: trim_front.induct)
  case (1 f row a b)
  then show ?case by (subst trim_front.simps) auto
qed

lemma trim_front_le: "a \<le> b \<Longrightarrow> trim_front f row a b \<le> b"
proof (induction f row a b rule: trim_front.induct)
  case (1 f row a b)
  then show ?case by (subst trim_front.simps) auto
qed

lemma trim_front_skips: "a \<le> j \<Longrightarrow> j < trim_front f row a b \<Longrightarrow> f (row ! j)"
proof (induction f row a b rule: trim_front.induct)
  case (1 f row a b)
  show ?case
  proof (cases "a < b \<and> f (row ! a)")
    case True
    then have "trim_front f row a b = trim_front f row (Suc a) b" by (subst trim_front.simps) simp
    then show ?thesis using 1 True by (cases "j = a") auto
  next
    case False
    then have "trim_front f row a b = a" by (subst trim_front.simps) auto
    then show ?thesis using 1(2,3) by simp
  qed
qed

lemma trim_front_whole: "whole p a n \<Longrightarrow> whole p (trim_front blank_byte p a n) n"
proof (induction blank_byte p a n rule: trim_front.induct)
  case (1 p a n)
  show ?case
  proof (cases "a < n \<and> blank_byte (p ! a)")
    case True
    then have "whole p (Suc a) n" using whole_space[OF 1(2), of a] by (simp add: blank_byte_def)
    then show ?thesis using 1(1) True by (subst trim_front.simps) simp
  next
    case False
    then show ?thesis using 1(2) by (subst trim_front.simps) auto
  qed
qed

lemma next_slice_whole:
  assumes "whole p from n" "0 < w" "from < n"
  shows "from < next_slice p n w from \<and> next_slice p n w from \<le> n \<and> whole p (next_slice p n w from) n"
  using slice_end_whole[OF assms] trim_front_ge[of "slice_end p n w from" blank_byte p n]
    trim_front_le[of "slice_end p n w from" n blank_byte p] trim_front_whole[of p "slice_end p n w from" n]
  by (auto simp: next_slice_def)

section \<open>What the lines of a cell cover\<close>

definition slice :: "bytes \<Rightarrow> nat \<Rightarrow> nat \<Rightarrow> nat \<Rightarrow> bytes" where
  "slice p n w from = drop from (take (slice_end p n w from) p)"

definition ink :: "bytes \<Rightarrow> bytes" where
  "ink = filter (\<lambda>c. \<not> blank_byte c)"

lemma ink_append [simp]: "ink (xs @ ys) = ink xs @ ink ys"
  by (simp add: ink_def)

lemma drop_take_split: "i \<le> j \<Longrightarrow> j \<le> n \<Longrightarrow> drop i (take n p) = drop i (take j p) @ drop j (take n p)"
proof -
  assume "i \<le> j" "j \<le> n"
  then have "take n p = take j p @ drop j (take n p)" using append_take_drop_id[of j "take n p"] by (simp add: min_absorb1)
  then have "drop i (take n p) = drop i (take j p @ drop j (take n p))" by simp
  then show ?thesis using \<open>i \<le> j\<close> \<open>j \<le> n\<close>
    by (cases "j \<le> length p") (simp_all add: min_def)
qed

lemma ink_skipped:
  assumes "n \<le> length p" "a \<le> n"
  shows "ink (drop a (take n p)) = ink (drop (trim_front blank_byte p a n) (take n p))"
proof -
  let ?f = "trim_front blank_byte p a n"
  have "a \<le> ?f" "?f \<le> n" using trim_front_ge trim_front_le assms(2) by blast+
  then have "drop a (take n p) = drop a (take ?f p) @ drop ?f (take n p)" by (rule drop_take_split)
  moreover have "ink (drop a (take ?f p)) = []"
  proof -
    have "blank_byte (drop a (take ?f p) ! j)" if "j < ?f - a" for j
      using trim_front_skips[of a "a + j" blank_byte p n] that \<open>?f \<le> n\<close> assms(1) by simp
    then have "\<forall>c \<in> set (drop a (take ?f p)). blank_byte c"
      using \<open>?f \<le> n\<close> assms(1) by (auto simp: in_set_conv_nth)
    then show ?thesis by (simp add: ink_def)
  qed
  ultimately show ?thesis by simp
qed

lemma lines_needed_ge: "need \<le> lines_needed p n w at need"
proof (induction p n w at need rule: lines_needed.induct)
  case (1 p n w at need)
  then show ?case by (subst lines_needed.simps) auto
qed

lemma slices_cover:
  "whole p at n \<Longrightarrow> n \<le> length p \<Longrightarrow> 0 < w \<Longrightarrow> lines_needed p n w at need < 32 \<Longrightarrow>
     ink (drop at (take n p))
       = concat (map (\<lambda>k. ink (slice p n w (slice_start p n w k at))) [0..<lines_needed p n w at need - need])"
proof (induction p n w at need rule: lines_needed.induct)
  case (1 p n w at need)
  show ?case
  proof (cases "at < n")
    case False
    then have "at = n" using whole_le[OF 1(2)] by simp
    then show ?thesis by (simp add: lines_needed.simps[of p n w n] ink_def)
  next
    case True
    have need: "need < 32" using lines_needed_ge[of need p n w at] 1(5) by simp
    let ?e = "slice_end p n w at" and ?f = "next_slice p n w at"
    have e: "at < ?e" "?e \<le> n" using slice_end_whole[OF 1(2,4) True] by auto
    have f: "at < ?f" "?f \<le> n" "whole p ?f n" using next_slice_whole[OF 1(2,4) True] by auto
    have step: "lines_needed p n w at need = lines_needed p n w ?f (Suc need)"
      using True need by (subst lines_needed.simps) simp
    let ?m = "lines_needed p n w ?f (Suc need) - Suc need"
    have ge: "Suc need \<le> lines_needed p n w ?f (Suc need)" by (rule lines_needed_ge)
    have IH: "ink (drop ?f (take n p)) = concat (map (\<lambda>k. ink (slice p n w (slice_start p n w k ?f))) [0..<?m])"
      using 1(1)[OF _ f(3) 1(3,4)] True need 1(5) step by simp
    have split: "ink (drop at (take n p)) = ink (slice p n w at) @ ink (drop ?f (take n p))"
      using drop_take_split[of at ?e n p] ink_skipped[OF 1(3) e(2)] e by (simp add: slice_def next_slice_def)
    have starts: "slice_start p n w (Suc k) at = slice_start p n w k ?f" if "k < ?m" for k
    proof -
      have "?f < n" using that by (cases "?f < n") (auto simp: lines_needed.simps[of p n w ?f "Suc need"])
      then show ?thesis by (simp add: Let_def)
    qed
    have "lines_needed p n w at need - need = Suc ?m" using step ge by simp
    then have "map (\<lambda>k. ink (slice p n w (slice_start p n w k at))) [0..<lines_needed p n w at need - need]
        = ink (slice p n w at) # map (\<lambda>k. ink (slice p n w (slice_start p n w (Suc k) at))) [0..<?m]"
      by (simp only: upt_conv_Cons[OF zero_less_Suc] list.map slice_start.simps(1) map_Suc_upt[symmetric] map_map comp_def)
    also have "map (\<lambda>k. ink (slice p n w (slice_start p n w (Suc k) at))) [0..<?m]
        = map (\<lambda>k. ink (slice p n w (slice_start p n w k ?f))) [0..<?m]"
      using starts by (intro map_cong) simp_all
    finally show ?thesis using split IH by simp
  qed
qed


text \<open>A taller cell is clipped. On a depth-4 table of six wide columns the fitting leaves columns of
  eight cells; a cell of forty five-letter words is counted as 32 lines, and its thirty-third
  line, at byte 192 of 240, is never drawn.\<close>

definition five_letter_words :: bytes where
  "five_letter_words = concat (replicate 40 [0x61, 0x62, 0x63, 0x64, 0x65, 0x20])"

theorem tall_cell_is_clipped:
  "fit_columns 58 6 (replicate 6 240) = Some [12, 8, 8, 8, 8, 8]
   \<and> lines_needed five_letter_words 240 8 0 0 = 32
   \<and> slice_start five_letter_words 240 8 32 0 = 192"
proof (intro conjI)
  show "fit_columns 58 6 (replicate 6 240) = Some [12, 8, 8, 8, 8, 8]" by code_simp
  show "lines_needed five_letter_words 240 8 0 0 = 32" by code_simp
  show "slice_start five_letter_words 240 8 32 0 = 192" by code_simp
qed

text \<open>The two-cell floor can push a table off its row. Two wide columns and four of one cell are
  fitted into 66 cells as 70.\<close>

theorem column_floor_exceeds_the_row:
  "fit_columns 66 6 [33, 33, 1, 1, 1, 1] = Some [28, 28, 2, 2, 2, 2]
   \<and> (\<Sum>w \<leftarrow> [28, 28, 2, 2, 2, 2 :: u8]. unat w + GAP) > 66"
proof (intro conjI)
  show "fit_columns 66 6 [33, 33, 1, 1, 1, 1] = Some [28, 28, 2, 2, 2, 2]" by code_simp
qed (simp add: GAP_def)

section \<open>Fitting\<close>

lemma unat_ucast_8_16 [simp]: "unat (ucast (w :: u8) :: u16) = unat w"
  by (simp add: unsigned_ucast_eq take_bit_nat_eq_self[OF less_trans[OF unat_u8_lt]])

lemma unat_sum_list:
  "(\<Sum>x \<leftarrow> xs. unat (f x)) < 65536 \<Longrightarrow> unat (fold (\<lambda>x acc. acc + f x) xs (0 :: u16)) = (\<Sum>x \<leftarrow> xs. unat (f x))"
proof (induction xs rule: rev_induct)
  case (snoc x xs)
  then have IH: "unat (fold (\<lambda>x acc. acc + f x) xs 0) = (\<Sum>x \<leftarrow> xs. unat (f x))" by simp
  have "unat (fold (\<lambda>x acc. acc + f x) xs 0 + of_nat (unat (f x))) = (\<Sum>x \<leftarrow> xs. unat (f x)) + unat (f x)"
    using snoc.prems IH by (subst unat_add_small) simp_all
  then show ?case by simp
qed simp

lemma unat_sum_cols:
  "(\<Sum>w \<leftarrow> take cols ws. unat (f w)) < 65536 \<Longrightarrow> unat (sum_cols cols f ws) = (\<Sum>w \<leftarrow> take cols ws. unat (f w))"
  by (simp add: sum_cols_def unat_sum_list)

lemma sum_div_le: "(\<Sum>x \<leftarrow> xs. f x * k div n) \<le> (\<Sum>x \<leftarrow> xs. f x) * k div (n :: nat)"
proof (induction xs)
  case (Cons x xs)
  have "f x * k div n + (\<Sum>x \<leftarrow> xs. f x) * k div n \<le> (f x * k + (\<Sum>x \<leftarrow> xs. f x) * k) div n"
    by (subst div_add1_eq) simp
  then show ?case using Cons.IH by (simp add: algebra_simps)
qed simp

lemma sum_list_le: "(\<forall>x \<in> set xs. f x \<le> (b :: nat)) \<Longrightarrow> (\<Sum>x \<leftarrow> xs. f x) \<le> length xs * b"
  by (induction xs) auto

lemma sum_list_gap: "(\<Sum>x \<leftarrow> xs. f x + GAP) = (\<Sum>x \<leftarrow> xs. f x) + length xs"
  by (induction xs) (simp_all add: GAP_def)

lemma sum_list_bump:
  "k < length xs \<Longrightarrow> (\<Sum>x \<leftarrow> xs[k := v]. f x) + f (xs ! k) = (\<Sum>x \<leftarrow> xs. f x) + (f v :: nat)"
proof (induction xs arbitrary: k)
  case (Cons x xs)
  then show ?case by (cases k) auto
qed simp

lemma widest_lt: "0 < cols \<Longrightarrow> widest cols ws < cols"
proof -
  assume "0 < cols"
  have "fold (\<lambda>c best. if ws ! best < ws ! c then c else best) cs b < cols" if "b < cols" "\<forall>c \<in> set cs. c < cols" for cs b
    using that by (induction cs arbitrary: b) auto
  then show ?thesis unfolding widest_def using \<open>0 < cols\<close> by simp
qed

lemma cap_width_le: "avail \<le> 66 \<Longrightarrow> unat (cap_width avail w) \<le> avail div 2"
  by (auto simp: cap_width_def intro: unat_of_nat_le)

lemma scaled_columns_fill:
  assumes len: "cols \<le> length ws" "0 < cols" "cols \<le> 6" "cols \<le> avail" "avail \<le> 66"
    and small: "\<forall>w \<in> set (take cols ws). unat w \<le> 33"
    and over: "avail < (\<Sum>w \<leftarrow> take cols ws. unat w) + cols"
    and floor: "\<forall>w \<in> set (take cols ws). 2 * (\<Sum>w \<leftarrow> take cols ws. unat w) \<le> unat w * (avail - cols)"
    and fit: "scale_columns (of_nat avail - of_nat (cols * GAP)) cols ws = Some ws'"
  shows "(\<Sum>w \<leftarrow> take cols ws'. unat w) = avail - cols"
proof -
  define rm where "rm = (of_nat avail - of_nat (cols * GAP) :: u16)"
  let ?xs = "take cols ws"
  let ?S = "\<Sum>w \<leftarrow> ?xs. unat w" and ?q = "\<lambda>w :: u8. unat w * (avail - cols) div (\<Sum>w \<leftarrow> take cols ws. unat w)"
  have room: "unat rm = avail - cols"
    using len by (simp add: rm_def GAP_def unat_sub_if' unat_of_nat_u16 word_le_nat_alt unat_sub)
  have "?S \<le> length ?xs * 33" by (rule sum_list_le[OF small])
  then have S: "?S \<le> 198" using len by simp
  have sum: "unat (sum_cols cols ucast ws) = ?S"
    using S unat_sum_cols[of ucast cols ws] by simp
  have S0: "avail - cols < ?S" using over len(4) by linarith
  have q: "2 \<le> ?q w \<and> ?q w \<le> 33" if "w \<in> set ?xs" for w
  proof
    show "2 \<le> ?q w" using floor that S0 by (simp add: less_eq_div_iff_mult_less_eq)
    have "?q w \<le> unat w * ?S div ?S" using S0 by (intro div_le_mono mult_le_mono2) simp
    then show "?q w \<le> 33" using small that S0 by (auto intro: le_trans)
  qed
  have sc: "unat (scaled rm (sum_cols cols ucast ws) w) = ?q w" if "w \<in> set ?xs" for w
  proof -
    have u: "unat (of_nat (?q w) :: u16) = ?q w" using q[OF that] by (intro unat_of_nat_u16) linarith
    then have "\<not> (of_nat (?q w) :: u16) < 2" using q[OF that] by (simp add: word_less_nat_alt)
    then show ?thesis using u by (simp add: scaled_def room sum Let_def)
  qed
  have eqs: "(\<Sum>w \<leftarrow> ?xs. unat (scaled rm (sum_cols cols ucast ws) w)) = (\<Sum>w \<leftarrow> ?xs. ?q w)"
    by (intro arg_cong[where f = sum_list] map_cong) (simp_all add: sc)
  have "(\<Sum>w \<leftarrow> ?xs. ?q w) \<le> ?S * (avail - cols) div ?S" by (rule sum_div_le)
  then have Q: "(\<Sum>w \<leftarrow> ?xs. ?q w) \<le> avail - cols" using S0 by simp
  have used: "unat (sum_cols cols (scaled rm (sum_cols cols ucast ws)) ws) = (\<Sum>w \<leftarrow> ?xs. ?q w)"
    using Q len eqs by (subst unat_sum_cols) simp_all
  let ?f = "\<lambda>w. ucast (scaled rm (sum_cols cols ucast ws) w) :: u8"
  let ?ws1 = "over_cols cols ?f ws"
  have f: "unat (?f w) = ?q w" if "w \<in> set ?xs" for w
    using sc[OF that] q[OF that] by (simp add: unsigned_ucast_eq take_bit_nat_eq_self)
  have t1: "take cols ?ws1 = map ?f ?xs" using len by (simp add: over_cols_def)
  have s1: "(\<Sum>w \<leftarrow> take cols ?ws1. unat w) = (\<Sum>w \<leftarrow> ?xs. ?q w)"
    unfolding t1 map_map comp_def by (intro arg_cong[where f = sum_list] map_cong) (simp_all add: f)
  let ?used = "sum_cols cols (scaled rm (sum_cols cols ucast ws)) ws"
  have nz: "sum_cols cols ucast ws \<noteq> 0" using sum S0 by (metis unat_0 not_less_zero)
  have ws': "ws' = (if ?used < rm then ?ws1[widest cols ?ws1 := ?ws1 ! widest cols ?ws1 + ucast (rm - ?used)] else ?ws1)"
    using fit[folded rm_def] nz by (simp add: scale_columns_def Let_def)
  show ?thesis
  proof (cases "?used < rm")
    case False
    then have "avail - cols \<le> (\<Sum>w \<leftarrow> ?xs. ?q w)" using used room by (simp add: word_less_nat_alt not_less)
    then show ?thesis using False ws' s1 Q by simp
  next
    case True
    define k where "k = widest cols ?ws1"
    have k: "k < cols" using widest_lt len(2) by (simp add: k_def)
    let ?v = "?ws1 ! k + ucast (rm - ?used)"
    have kq: "unat (?ws1 ! k) \<le> 33"
    proof -
      have "?ws1 ! k = take cols ?ws1 ! k" using k by simp
      also have "\<dots> = ?f (?xs ! k)" unfolding t1 using k len by (intro nth_map) simp
      finally have "?ws1 ! k = ?f (?xs ! k)" .
      moreover have "?xs ! k \<in> set ?xs" using k len by (intro nth_mem) simp
      ultimately show ?thesis using f q by simp
    qed
    have rest: "unat (rm - ?used) = avail - cols - (\<Sum>w \<leftarrow> ?xs. ?q w)"
      using True room used by (simp add: unat_sub word_less_nat_alt word_le_nat_alt)
    then have "unat (ucast (rm - ?used) :: u8) = avail - cols - (\<Sum>w \<leftarrow> ?xs. ?q w)"
      using len by (simp add: unsigned_ucast_eq take_bit_nat_eq_self)
    then have v: "unat ?v = unat (?ws1 ! k) + (avail - cols - (\<Sum>w \<leftarrow> ?xs. ?q w))"
      using kq len by (simp add: unat_word_ariths)
    have A: "take cols ws' = (take cols ?ws1)[k := ?v]" using True ws' by (simp add: k_def take_update_swap)
    have "(\<Sum>w \<leftarrow> (take cols ?ws1)[k := ?v]. unat w) + unat (take cols ?ws1 ! k)
        = (\<Sum>w \<leftarrow> take cols ?ws1. unat w) + unat ?v"
      using k len by (intro sum_list_bump) (simp add: over_cols_def)
    moreover have "take cols ?ws1 ! k = ?ws1 ! k" using k by simp
    ultimately have "(\<Sum>w \<leftarrow> (take cols ?ws1)[k := ?v]. unat w) + unat (?ws1 ! k)
        = (\<Sum>w \<leftarrow> ?xs. ?q w) + unat ?v" by (simp only: s1)
    then show ?thesis unfolding A using v Q by linarith
  qed
qed

text \<open>C30: fitted columns fit. On a row of 58 to 66 cells, up to six columns come out, with a gap after
  each, no wider than the row, unless proportional scaling would leave a column under two
  cells.\<close>

theorem fitted_columns_fit:
  assumes fit: "fit_columns avail cols ws = Some ws'" and len: "length ws = T_COLS" "0 < cols" "cols \<le> T_COLS"
    and avail: "58 \<le> avail" "avail \<le> 66"
    and floor: "\<forall>w \<in> set (take cols ws). 2 * (\<Sum>w \<leftarrow> take cols ws. unat (cap_width avail w))
        \<le> unat (cap_width avail w) * (avail - cols)"
  shows "(\<Sum>w \<leftarrow> take cols ws'. unat w + GAP) \<le> avail"
proof -
  let ?ws1 = "over_cols cols (cap_width avail) ws"
  have t1: "take cols ?ws1 = map (cap_width avail) (take cols ws)" using len by (simp add: over_cols_def)
  let ?S = "\<Sum>w \<leftarrow> take cols ?ws1. unat w"
  have plus: "(\<Sum>w \<leftarrow> take cols vs. unat w + GAP) = (\<Sum>w \<leftarrow> take cols vs. unat w) + cols"
    if "length vs = T_COLS" for vs :: "u8 list"
    using len that by (simp add: sum_list_gap min_def)
  have small: "\<forall>w \<in> set (take cols ?ws1). unat w \<le> 33"
    using avail le_trans[OF cap_width_le[OF avail(2)], of 33] by (auto simp: t1)
  have "?S \<le> length (take cols ?ws1) * 33" by (rule sum_list_le[OF small])
  moreover have "length (take cols ?ws1) = cols" using len by (simp add: over_cols_def)
  ultimately have S: "?S \<le> 198" using len by (simp add: T_COLS_def)
  have l1: "length ?ws1 = T_COLS" using len by (simp add: over_cols_def)
  have step: "unat (ucast w + of_nat GAP :: u16) = unat w + GAP" for w :: u8
    using unat_add_small[of "ucast w" GAP] unat_u8_lt[of w] by (simp add: GAP_def)
  have nat: "unat (sum_cols cols (\<lambda>w. ucast w + of_nat GAP) ?ws1) = ?S + cols"
    using S len plus[OF l1] by (subst unat_sum_cols) (simp_all add: step T_COLS_def)
  have av: "unat (of_nat avail :: u16) = avail" using avail by (intro unat_of_nat_u16) simp
  show ?thesis
  proof (cases "avail < ?S + cols")
    case False
    then have "ws' = ?ws1" using fit by (simp add: fit_columns_def Let_def word_less_nat_alt nat av)
    then show ?thesis using False plus[OF l1] by simp
  next
    case True
    then have sc: "scale_columns (of_nat avail - of_nat (cols * GAP)) cols ?ws1 = Some ws'"
      using fit by (simp only: fit_columns_def Let_def word_less_nat_alt nat av if_True)
    have "(\<Sum>w \<leftarrow> take cols ws'. unat w) = avail - cols"
    proof (rule scaled_columns_fill[OF _ _ _ _ _ small True _ sc])
      show "\<forall>w \<in> set (take cols ?ws1). 2 * ?S \<le> unat w * (avail - cols)"
        using floor by (simp add: t1 comp_def)
    qed (use len avail l1 in \<open>simp_all add: T_COLS_def\<close>)
    moreover have "length ws' = T_COLS"
      using sc l1 by (auto simp: scale_columns_def Let_def over_cols_def split: if_splits)
    ultimately show ?thesis using plus len avail by (simp add: T_COLS_def)
  qed
qed

theorem fitted_columns_fit_witness:
  "\<exists>ws'. fit_columns 66 3 [60, 20, 30, 0, 0, 0] = Some ws' \<and> (\<Sum>w \<leftarrow> take 3 ws'. unat w + GAP) \<le> 66"
proof -
  obtain ws' where f: "fit_columns 66 3 [60, 20, 30, 0, 0, 0] = Some ws'"
    by (cases "fit_columns 66 3 [60, 20, 30, 0, 0, 0]") (simp add: fit_columns_def scale_columns_def sum_cols_def over_cols_def cap_width_def Let_def split: if_splits)
  have "(\<Sum>w \<leftarrow> take 3 ws'. unat w + GAP) \<le> 66"
    by (rule fitted_columns_fit[OF f]) (simp_all add: T_COLS_def cap_width_def)
  then show ?thesis using f by blast
qed


end
