(* ===== verification/TableDraw.thy ===== *)
theory TableDraw
  imports TableLines
begin

text \<open>
  Drawing a table: when its columns fit the row, every line of every cell stays in its column
  and on its row, so the height a table takes depends on its cells and not on the scroll offset.
\<close>

section \<open>A slice is a run of whole sequences no wider than its column\<close>

lemma take_cells_run:
  "whole p e n \<Longrightarrow> aligned p e (take_cells p n w e) \<and> cells_from p (take_cells p n w e) e \<le> w"
proof (induction w arbitrary: e)
  case 0
  then show ?case by (simp add: cells_from.simps[of p e e])
next
  case (Suc w)
  show ?case
  proof (cases "e < n")
    case True
    let ?e = "take_cells p n w (e + seq_len (p ! e))"
    have w: "whole p (e + seq_len (p ! e)) n" using whole_step[OF Suc.prems True] by simp
    have IH: "aligned p (e + seq_len (p ! e)) ?e" "cells_from p ?e (e + seq_len (p ! e)) \<le> w" using Suc.IH[OF w] by auto
    have "e < ?e" using aligned_le[OF IH(1)] seq_len_range(1)[of "p ! e"] by linarith
    then show ?thesis using IH True by (simp add: aligned.simps[of p e] cells_from.simps[of p ?e e])
  qed (simp add: cells_from.simps[of p e e])
qed

lemma slice_end_none [simp]: "slice_end p n 0 from = from"
  using word_back_spec[of p "from" "from"] by (simp add: slice_end_def Let_def)

lemma slice_end_full [simp]: "slice_end p n w n = n"
  by (cases w) (simp_all add: slice_end_def)

lemma slice_run:
  assumes "whole p from n" "from < slice_end p n w from" "from < n"
  shows "aligned p from (slice_end p n w from) \<and> cells_from p (slice_end p n w from) from \<le> w
    \<and> slice_end p n w from \<le> n"
proof -
  let ?e = "take_cells p n w from" and ?b = "word_back p from (take_cells p n w from)"
  have e: "aligned p from ?e" "cells_from p ?e from \<le> w" "?e \<le> n"
    using take_cells_run[OF assms(1)] take_cells_whole[OF assms(1)] by blast+
  have b: "aligned p from ?b \<and> cells_from p ?b from \<le> w \<and> ?b \<le> n" if "from < ?b"
  proof -
    have le: "?b \<le> ?e" "p ! (?b - 1) = 0x20" using word_back_spec[of p "from" ?e] that by auto
    then have al: "aligned p from ?b"
      using whole_space[OF assms(1), of "?b - 1"] that e(3) by auto
    have "cells_from p ?e from = cells_from p ?b from + cells_from p ?e ?b"
      by (rule cells_from_split[OF al le(1)])
    then show ?thesis using al e le by linarith
  qed
  show ?thesis using e b by (auto simp: slice_end_def Let_def)
qed

lemma slice_start_whole:
  "whole p from n \<Longrightarrow> 0 < w \<Longrightarrow> whole p (slice_start p n w k from) n"
proof (induction k arbitrary: "from")
  case (Suc k)
  show ?case
  proof (cases "from < n")
    case True
    then show ?thesis using next_slice_whole[OF Suc.prems True] Suc.IH[OF _ Suc.prems(2)] by (simp add: Let_def)
  next
    case False
    then have f: "from = n" using whole_le[OF Suc.prems(1)] by simp
    have "next_slice p n w n = n" by (simp add: next_slice_def trim_front.simps)
    then show ?thesis using f by simp
  qed
qed simp

lemma aligned_drop: "aligned p (a + i) (a + k) \<Longrightarrow> a \<le> length p \<Longrightarrow> aligned (drop a p) i k"
proof (induction "drop a p" i k rule: aligned.induct)
  case (1 i k)
  show ?case
  proof (cases "i < k")
    case True
    then have "aligned p (a + (i + seq_len (p ! (a + i)))) (a + k)"
      using aligned_step[OF 1(2)] by (simp add: add.assoc)
    then have "aligned (drop a p) (i + seq_len (drop a p ! i)) k" using 1(1)[OF True] 1(3) by simp
    then show ?thesis using True by (subst aligned.simps) simp
  next
    case False
    then show ?thesis using aligned_le[OF 1(2)] by simp
  qed
qed

section \<open>A cell stays on its row\<close>

text \<open>The page state a table finds: a body face, no literal block.\<close>

definition body_row :: "page_renderer \<Rightarrow> bool" where
  "body_row q \<longleftrightarrow> pr_head q = 0 \<and> \<not> pr_literal q \<and> unat (row_h q) \<le> 1000"

lemma body_row_style: "same_style q q' \<Longrightarrow> body_row q \<Longrightarrow> body_row q'"
  using same_style_face[of q q'] by (auto simp: body_row_def face_of_def same_style_def)

lemma body_advance: "body_row q \<Longrightarrow> advance q = 6"
  by (simp add: body_row_def advance_def FONT_ADVANCE_def BOLD6_W_def)

definition good_cell :: "table_renderer \<Rightarrow> nat \<Rightarrow> nat \<Rightarrow> bool" where
  "good_cell t r c \<longleftrightarrow> whole (cell_text t r c) 0 (tr_clen t ! r ! c) \<and> tr_clen t ! r ! c \<le> length (cell_text t r c)
     \<and> tr_clen t ! r ! c \<le> 255"

lemma draw_cell_stays:
  assumes q: "body_row q" and cell: "good_cell t r c"
    and x: "left_edge q \<le> unat x" "unat x + unat (tr_col_w t ! c) * 6 \<le> right_margin"
  shows "\<exists>q'. draw_cell t r ln c x q = Some q' \<and> same_style q q' \<and> pr_y q' = pr_y q"
proof -
  let ?p = "cell_text t r c" and ?n = "tr_clen t ! r ! c" and ?w = "unat (tr_col_w t ! c)"
  let ?from = "slice_start ?p ?n ?w ln 0"
  let ?to = "slice_end ?p ?n ?w ?from"
  show ?thesis
  proof (cases "?from < ?to")
    case False
    then show ?thesis by (simp add: draw_cell_def Let_def)
  next
    case True
    have w: "0 < ?w" using True by (cases "?w") auto
    have whole: "whole ?p ?from ?n" using slice_start_whole cell w by (simp add: good_cell_def)
    have fn: "?from < ?n"
    proof (rule ccontr)
      assume "\<not> ?from < ?n"
      then have "?from = ?n" using whole_le[OF whole] by simp
      then show False using True by simp
    qed
    have run: "aligned ?p ?from ?to" "cells_from ?p ?to ?from \<le> ?w" "?to \<le> ?n"
      using slice_run[OF whole True fn] by auto
    let ?t = "drop ?from ?p" and ?m = "?to - ?from" and ?q = "q\<lparr>pr_x := x, pr_row_open := True\<rparr>"
    have len: "?to \<le> length ?p" using run(3) cell by (simp add: good_cell_def)
    have al: "aligned ?t 0 ?m" using aligned_drop[of ?p ?from 0 ?m] run(1) True len by simp
    have ce: "cells_from ?t ?m 0 \<le> ?w" using cells_from_drop[of ?from ?p ?to 0] run(2) True len by simp
    have ss: "same_style q ?q" by (rule same_style_pen)+
    have "unat (pr_x ?q) \<le> 400" using x(2) by (simp add: right_margin_eq)
    moreover have "?m \<le> 5000" using run(3) cell unfolding good_cell_def by linarith
    moreover have "row_h ?q = row_h q" by (simp add: row_h_def line_h_def)
    then have "unat (row_h ?q) \<le> 1000" using q by (simp add: body_row_def)
    ultimately obtain q' where q': "emit_run ?t ?m False ?q = Some q'"
      using run_returns[OF al diff_le_mono[OF len, of ?from, folded length_drop], of ?q False] by blast
    have face: "fc_adv (face_of q) = 6" "fc_left (face_of q) = left_edge q" "face_of ?q = face_of q"
      using body_advance[OF q] same_style_face[OF ss] by (simp_all add: face_of_def)
    have cc: "chunk_cells (chunks ?t ?m 0) * 6 \<le> ?w * 6"
      using ce chunk_cells_chunks[OF al] by simp
    have "\<exists>op'. pen_run (face_of ?q) (chunks ?t ?m 0) (x, pr_y q, True)
        = (x + of_nat (chunk_cells (chunks ?t ?m 0) * fc_adv (face_of ?q)), pr_y q, op')"
      using x cc by (intro pen_run_flat good_face_of) (simp_all add: face)
    moreover have "pen_emit ?t ?m ?q = pen_run (face_of ?q) (chunks ?t ?m 0) (x, pr_y q, True)"
      using q by (simp add: pen_emit_def pen_of_def body_row_def)
    ultimately have "pr_y q' = pr_y q" "same_style ?q q'"
      using emit_run_pen[OF q'] len by (auto simp: pen_of_def)
    then show ?thesis using q' True same_style_trans[OF ss] by (auto simp: draw_cell_def Let_def)
  qed
qed

section \<open>A line, a row, a table\<close>

definition step_cells :: "table_renderer \<Rightarrow> nat \<Rightarrow> nat" where
  "step_cells t c = (unat (tr_col_w t ! c) + GAP) * FONT_ADVANCE"

lemma draw_cells_stay:
  "body_row q \<Longrightarrow> \<forall>c \<in> set cs. good_cell t r c \<Longrightarrow> left_edge q \<le> unat x \<Longrightarrow>
     unat x + (\<Sum>c \<leftarrow> cs. step_cells t c) \<le> right_margin \<Longrightarrow>
     \<exists>q'. draw_cells t r ln cs x q = Some q' \<and> same_style q q' \<and> pr_y q' = pr_y q"
proof (induction cs arbitrary: x q)
  case (Cons c cs)
  have "unat x + unat (tr_col_w t ! c) * 6 \<le> right_margin"
    using Cons.prems(4) by (simp add: step_cells_def GAP_def FONT_ADVANCE_def)
  then obtain q1 where q1: "draw_cell t r ln c x q = Some q1" "same_style q q1" "pr_y q1 = pr_y q"
    using draw_cell_stays[OF Cons.prems(1), of t r c x ln] Cons.prems(2,3) by auto
  have b: "unat x + step_cells t c + (\<Sum>c \<leftarrow> cs. step_cells t c) \<le> right_margin" using Cons.prems(4) by simp
  then have "unat x + step_cells t c < 65536" by (simp add: right_margin_eq)
  then have ux: "unat (x + column_step t c) = unat x + step_cells t c"
    unfolding column_step_def step_cells_def by (rule unat_add_small)
  have le: "left_edge q1 = left_edge q" using same_style_face[OF q1(2)] by (simp add: face_of_def)
  obtain q' where "draw_cells t r ln cs (x + column_step t c) q1 = Some q'" "same_style q1 q'" "pr_y q' = pr_y q1"
    using Cons.IH[OF body_row_style[OF q1(2) Cons.prems(1)], of "x + column_step t c"] Cons.prems(2,3) b ux le by auto
  then show ?case using q1 same_style_trans by auto
qed simp

lemma line_h_small: "unat (line_h q) \<le> 268"
proof -
  have "unat (13 + of_nat (unat (pr_leading q)) :: u16) = 13 + unat (pr_leading q)"
    by (subst unat_add_small) (use less_trans[OF unat_u8_lt[of "pr_leading q"], of 65523] in simp_all)
  moreover have "unat (pr_leading q) \<le> 255" using less_Suc_eq_le[of "unat (pr_leading q)" 255] by simp
  ultimately show ?thesis by (simp add: line_h_def LINE_H_def)
qed

lemma same_style_line_h: "same_style q q' \<Longrightarrow> line_h q' = line_h q"
  by (simp add: same_style_def line_h_def)

lemma draw_gutters_draw:
  "row_visible q \<Longrightarrow> 2 \<le> unat sx \<Longrightarrow> unat sx + (\<Sum>c \<leftarrow> cs. step_cells t c) \<le> right_margin \<Longrightarrow>
     \<exists>q'. draw_gutters t cs sx q = Some q' \<and> only_draws q q'"
proof (induction cs arbitrary: sx q)
  case (Cons c cs)
  let ?sx = "sx + column_step t c"
  let ?x = "?sx - of_nat (GAP * FONT_ADVANCE div 2) - 1"
  have b: "unat sx + step_cells t c + (\<Sum>c \<leftarrow> cs. step_cells t c) \<le> right_margin" using Cons.prems(3) by simp
  then have "unat sx + step_cells t c < 65536" by (simp add: right_margin_eq)
  then have us: "unat ?sx = unat sx + step_cells t c"
    unfolding column_step_def step_cells_def by (rule unat_add_small)
  have g: "of_nat (GAP * FONT_ADVANCE div 2) = (3 :: u16)" by (simp add: GAP_def FONT_ADVANCE_def)
  have "6 \<le> step_cells t c" by (simp add: step_cells_def GAP_def FONT_ADVANCE_def)
  then have "unat ?x \<le> unat ?sx" unfolding g using Cons.prems(2) us
    by (simp add: unat_sub_if' word_le_nat_alt)
  then have "unat ?x \<le> 398" using us b by (simp add: right_margin_eq)
  then obtain q1 where q1: "on_lcd (fill_rect ?x (screen_y q) 1 (line_h q) True) q = Some q1"
    using fill_returns[of ?x 1 "screen_y q" "line_h q" True q] visible_screen_y[OF Cons.prems(1)] line_h_small[of q] by auto
  then have d: "only_draws q q1" by (rule only_draws_on_lcd)
  then have v: "row_visible q1" using Cons.prems(1) by (auto simp: only_draws_def row_visible_def)
  obtain q' where "draw_gutters t cs ?sx q1 = Some q'" "only_draws q1 q'"
    using Cons.IH[OF v, of ?sx] us b Cons.prems(2) by auto
  then show ?case using q1 only_draws_trans[OF d] by (auto simp: Let_def)
qed simp

text \<open>The fitted columns of a table, on the page it is drawn to.\<close>

definition fits_row :: "table_renderer \<Rightarrow> page_renderer \<Rightarrow> bool" where
  "fits_row t q \<longleftrightarrow> left_edge q + (\<Sum>c \<leftarrow> [0..<tr_cols t]. step_cells t c) \<le> right_margin"

lemma fits_row_style: "same_style q q' \<Longrightarrow> fits_row t q' = fits_row t q"
  using same_style_face[of q q'] by (simp add: fits_row_def face_of_def)

lemma unat_left_edge [simp]: "unat (of_nat (left_edge q) :: u16) = left_edge q"
  using left_edge_range[of q] by (intro unat_of_nat_u16) simp

lemma table_line_height:
  assumes "body_row q" "\<forall>c < tr_cols t. good_cell t r c" "fits_row t q"
  shows "\<exists>q'. table_line t r ln q = Some q' \<and> same_style q q' \<and> pr_y q' = pr_y q + line_h q"
proof (cases "row_visible q")
  case False
  then show ?thesis by (simp add: table_line_def same_style_def)
next
  case True
  obtain q2 where q2: "draw_cells t r ln [0..<tr_cols t] (of_nat (left_edge q)) q = Some q2" "same_style q q2" "pr_y q2 = pr_y q"
    using draw_cells_stay[OF assms(1), of "[0..<tr_cols t]" t r "of_nat (left_edge q)" ln] assms(2,3)
    by (auto simp: fits_row_def)
  have v: "row_visible q2" using True q2 by (simp add: row_visible_def same_style_def)
  have le: "left_edge q2 = left_edge q" using same_style_face[OF q2(2)] by (simp add: face_of_def)
  have "(\<Sum>c \<leftarrow> [0..<tr_cols t - 1]. step_cells t c) \<le> (\<Sum>c \<leftarrow> [0..<tr_cols t]. step_cells t c)"
    by (cases "tr_cols t") simp_all
  then have "left_edge q2 + (\<Sum>c \<leftarrow> [0..<tr_cols t - 1]. step_cells t c) \<le> right_margin"
    using assms(3) le by (simp add: fits_row_def)
  then obtain q1 where q1: "draw_gutters t [0..<tr_cols t - 1] (of_nat (left_edge q2)) q2 = Some q1" "only_draws q2 q1"
    using draw_gutters_draw[OF v, of "of_nat (left_edge q2)" t "[0..<tr_cols t - 1]"] left_edge_range[of q2] by auto
  have s: "same_style q q1" "pr_y q1 = pr_y q"
    using q2 only_drawsD[OF q1(2)] same_style_trans by (auto simp: pen_of_def)
  then have "same_style q (q1\<lparr>pr_y := pr_y q1 + line_h q1, pr_row_open := False, pr_x := of_nat (left_edge q1)\<rparr>)"
    by (simp add: same_style_def)
  then show ?thesis using True q2(1) q1(1) s same_style_line_h[OF s(1)] by (simp add: table_line_def)
qed

lemma table_lines_height:
  "body_row q \<Longrightarrow> \<forall>c < tr_cols t. good_cell t r c \<Longrightarrow> fits_row t q \<Longrightarrow>
     \<exists>q'. table_lines t r lns q = Some q' \<and> same_style q q' \<and> pr_y q' = pr_y q + of_nat (length lns) * line_h q"
proof (induction lns arbitrary: q)
  case (Cons ln lns)
  obtain q1 where q1: "table_line t r ln q = Some q1" "same_style q q1" "pr_y q1 = pr_y q + line_h q"
    using table_line_height[OF Cons.prems] by blast
  obtain q' where "table_lines t r lns q1 = Some q'" "same_style q1 q'" "pr_y q' = pr_y q1 + of_nat (length lns) * line_h q1"
    using Cons.IH[OF body_row_style[OF q1(2) Cons.prems(1)] Cons.prems(2)] Cons.prems(3) fits_row_style[OF q1(2)] by blast
  then show ?case
    using q1 same_style_trans[OF q1(2)] same_style_line_h[OF q1(2)] by (auto simp: algebra_simps)
qed simp

lemma table_rule_draws: "\<exists>q'. table_rule y q = Some q' \<and> only_draws q q'"
proof -
  have "unat (of_nat (LCD_WIDTH - MARGIN_X - left_edge q) :: u16) \<le> 398"
    by (rule le_trans[OF unat_of_nat_le]) (simp add: LCD_WIDTH_def MARGIN_X_def)
  then have "\<exists>q'. on_lcd (draw_hline (of_nat (left_edge q)) y (of_nat (LCD_WIDTH - MARGIN_X - left_edge q)) True) q = Some q'"
    using left_edge_range[of q] by (intro hline_returns) simp
  then show ?thesis using only_draws_on_lcd by (auto simp: table_rule_def)
qed

lemma table_rows_height:
  "body_row q \<Longrightarrow> \<forall>r \<in> set rs. \<forall>c < tr_cols t. good_cell t r c \<Longrightarrow> fits_row t q \<Longrightarrow>
     \<exists>q'. table_rows t rs q = Some q' \<and> same_style q q'
       \<and> pr_y q' = pr_y q + of_nat (\<Sum>r \<leftarrow> rs. row_lines t r) * line_h q"
proof (induction rs arbitrary: q)
  case (Cons r rs)
  obtain q1 where q1: "table_lines t r [0..<row_lines t r] q = Some q1" "same_style q q1"
    "pr_y q1 = pr_y q + of_nat (row_lines t r) * line_h q"
    using table_lines_height[OF Cons.prems(1) _ Cons.prems(3), of r "[0..<row_lines t r]"] Cons.prems(2) by auto
  obtain q2 where q2: "(if r = 0 then table_rule (screen_y q1 - 1) q1 else Some q1) = Some q2" "only_draws q1 q2"
    using table_rule_draws[of "screen_y q1 - 1" q1] by (cases "r = 0") auto
  have s: "same_style q q2" "pr_y q2 = pr_y q1"
    using same_style_trans[OF q1(2)] only_drawsD[OF q2(2)] by (auto simp: pen_of_def)
  obtain q' where "table_rows t rs q2 = Some q'" "same_style q2 q'"
    "pr_y q' = pr_y q2 + of_nat (\<Sum>r \<leftarrow> rs. row_lines t r) * line_h q2"
    using Cons.IH[OF body_row_style[OF s(1) Cons.prems(1)]] Cons.prems(2,3) fits_row_style[OF s(1)] by auto
  then show ?case
    using q1 q2(1) s same_style_trans[OF s(1)] same_style_line_h[OF s(1)]
    by (auto simp: algebra_simps simp del: if_split)
qed simp

section \<open>Properties\<close>

text \<open>C20: a table that fits takes the height of its lines. When the fitted columns fit the row and the
  cells are whole UTF-8 sequences, drawing the table returns and moves the page down by one line
  height per line of its rows and one gap, whether its lines are on screen or not.\<close>

theorem table_height:
  assumes cols: "0 < tr_rows t" "0 < tr_cols t"
    and fit: "fit_columns (avail_cells (tr_page t)) (tr_cols t) (tr_col_w t) = Some ws"
    and narrow: "(\<Sum>c \<leftarrow> [0..<tr_cols t]. unat (ws ! c) + GAP) \<le> avail_cells (tr_page t)"
    and page: "body_row (tr_page t)"
    and cells: "\<forall>r < tr_rows t. \<forall>c < tr_cols t. good_cell t r c"
  shows "\<exists>t'. table_flush t = Some t' \<and> tr_col_w t' = ws
    \<and> pr_y (tr_page t') = pr_y (tr_page t)
        + of_nat (\<Sum>r \<leftarrow> [0..<tr_rows t]. row_lines (t\<lparr>tr_col_w := ws\<rparr>) r) * line_h (tr_page t) + PARA_GAP"
proof -
  let ?t = "t\<lparr>tr_col_w := ws\<rparr>" and ?q = "tr_page t"
  have "(\<Sum>c \<leftarrow> cs. step_cells ?t c) = (\<Sum>c \<leftarrow> cs. unat (ws ! c) + GAP) * FONT_ADVANCE" for cs
    by (induction cs) (simp_all add: step_cells_def algebra_simps)
  then have "(\<Sum>c \<leftarrow> [0..<tr_cols t]. step_cells ?t c) \<le> avail_cells ?q * FONT_ADVANCE"
    using narrow by simp
  also have "\<dots> \<le> LCD_WIDTH - MARGIN_X - left_edge ?q" by (simp add: avail_cells_def)
  finally have "fits_row ?t ?q"
    using left_edge_range[of ?q] by (simp add: fits_row_def right_margin_def LCD_WIDTH_def MARGIN_X_def le_diff_conv2 add.commute)
  moreover have "\<forall>r \<in> set [0..<tr_rows t]. \<forall>c < tr_cols ?t. good_cell ?t r c"
    using cells by (simp add: good_cell_def cell_text_def)
  ultimately obtain q1 where q1: "table_rows ?t [0..<tr_rows t] ?q = Some q1"
    "pr_y q1 = pr_y ?q + of_nat (\<Sum>r \<leftarrow> [0..<tr_rows t]. row_lines ?t r) * line_h ?q"
    using table_rows_height[OF page] by blast
  obtain q2 where q2: "table_rule (screen_y q1) q1 = Some q2" "pr_y q2 = pr_y q1"
    using table_rule_draws[of "screen_y q1" q1] only_drawsD by (fastforce simp: pen_of_def)
  show ?thesis using cols fit q1 q2 by (simp add: table_flush_def Let_def)
qed

text \<open>The two demo rows, drawn.\<close>

definition demo_filled :: table_renderer where
  "demo_filled = fold (\<lambda>(row, len). onTableRow row len body_style) demo_rows demo_table"

theorem table_height_witness:
  "\<exists>t'. table_flush demo_filled = Some t' \<and> pr_y (tr_page t') = 34"
proof -
  let ?ws = "[1, 2, 0, 0, 0, 0] :: u8 list"
  have n: "tr_rows demo_filled = 2" "tr_cols demo_filled = 2" by code_simp+
  have fit: "fit_columns (avail_cells (tr_page demo_filled)) (tr_cols demo_filled) (tr_col_w demo_filled) = Some ?ws"
    by code_simp
  have av: "avail_cells (tr_page demo_filled) = 66" by code_simp
  have page: "body_row (tr_page demo_filled)" by code_simp
  have cells: "good_cell demo_filled 0 0" "good_cell demo_filled 0 1" "good_cell demo_filled 1 0" "good_cell demo_filled 1 1"
    by code_simp+
  have lines: "row_lines (demo_filled\<lparr>tr_col_w := ?ws\<rparr>) 0 = 1" "row_lines (demo_filled\<lparr>tr_col_w := ?ws\<rparr>) 1 = 1"
    by code_simp+
  have y: "pr_y (tr_page demo_filled) = 0" "line_h (tr_page demo_filled) = 15" by code_simp+
  have "\<exists>t'. table_flush demo_filled = Some t' \<and> tr_col_w t' = ?ws
    \<and> pr_y (tr_page t') = pr_y (tr_page demo_filled)
        + of_nat (\<Sum>r \<leftarrow> [0..<tr_rows demo_filled]. row_lines (demo_filled\<lparr>tr_col_w := ?ws\<rparr>) r)
          * line_h (tr_page demo_filled) + PARA_GAP"
  proof (rule table_height[OF _ _ fit _ page])
    show "(\<Sum>c \<leftarrow> [0..<tr_cols demo_filled]. unat (?ws ! c) + GAP) \<le> avail_cells (tr_page demo_filled)"
      by (simp add: n av GAP_def upt_rec)
    show "\<forall>r < tr_rows demo_filled. \<forall>c < tr_cols demo_filled. good_cell demo_filled r c"
      using cells by (auto simp: n less_2_cases_iff)
  qed (simp_all add: n)
  then show ?thesis using lines y by (auto simp: n upt_rec PARA_GAP_def)
qed

end
