(* ===== verification/Compose.thy ===== *)
theory Compose
  imports TableRows
begin

text \<open>
  Page composition, \<open>lib/MicronRender/src/ComposePage.h\<close>: the source is cut at its newlines, each
  line goes to the parser or, if empty, to \<open>blankLine\<close>, and the frame is flushed. The Micron parser
  is outside the repository: a state it starts in, and for each line the callbacks it makes.
\<close>

section \<open>The operations\<close>

text \<open>Every callback of the renderer, tables included.\<close>

datatype callback =
    Cb page_cb
  | CbTableBegin table style
  | CbTableRow bytes nat style
  | CbTableEnd style

fun callback_step :: "callback \<Rightarrow> table_renderer \<Rightarrow> table_renderer option" where
  "callback_step (Cb c) t = map_option (\<lambda>q. t\<lparr>tr_page := q\<rparr>) (page_step c (tr_page t))"
| "callback_step (CbTableBegin tb s) t = Some (onTableBegin tb s t)"
| "callback_step (CbTableRow row n s) t = Some (onTableRow row n s t)"
| "callback_step (CbTableEnd s) t = onTableEnd s t"

fun callback_run :: "callback list \<Rightarrow> table_renderer \<Rightarrow> table_renderer option" where
  "callback_run [] t = Some t"
| "callback_run (c # cs) t = (case callback_step c t of None \<Rightarrow> None | Some t1 \<Rightarrow> callback_run cs t1)"

record 'p parser =
  parser_reset :: 'p
  parseLine :: "bytes \<Rightarrow> 'p \<Rightarrow> callback list \<times> 'p"

text \<open>The lines: up to each newline, and what is left after the last one.\<close>

fun page_lines :: "bytes \<Rightarrow> bytes list" where
  "page_lines [] = [[]]"
| "page_lines (c # cs) =
     (if c = 0x0A then [] # page_lines cs
      else case page_lines cs of [] \<Rightarrow> [[c]] | l # ls \<Rightarrow> (c # l) # ls)"

fun feed_lines :: "'p parser \<Rightarrow> bytes list \<Rightarrow> 'p \<Rightarrow> table_renderer \<Rightarrow> table_renderer option" where
  "feed_lines P [] p t = Some t"
| "feed_lines P (l # ls) p t =
     (if l = [] then feed_lines P ls p (t\<lparr>tr_page := blankLine (tr_page t)\<rparr>)
      else case parseLine P l p of
             (cs, p1) \<Rightarrow> (case callback_run cs t of None \<Rightarrow> None | Some t1 \<Rightarrow> feed_lines P ls p1 t1))"

text \<open>The height, what goes to the bus, and the renderer afterwards.\<close>

definition compose_page ::
  "'p parser \<Rightarrow> bytes \<Rightarrow> u16 \<Rightarrow> table_renderer \<Rightarrow> (u16 \<times> bus_op list \<times> table_renderer) option" where
  "compose_page P src scroll t =
     (let t = t\<lparr>tr_page := (tr_page t)\<lparr>pr_lcd := fill_white (pr_lcd (tr_page t))\<rparr>\<rparr> in
      case feed_lines P (page_lines src) (parser_reset P) (begin_tables scroll t) of
        None \<Rightarrow> None
      | Some t1 \<Rightarrow>
          (case flush_lcd (pr_lcd (tr_page t1)) of
             (n, ops, l) \<Rightarrow> Some (pr_y (tr_page t1), ops, t1\<lparr>tr_page := (tr_page t1)\<lparr>pr_lcd := l\<rparr>\<rparr>)))"

section \<open>Lines\<close>

lemma page_lines_nonempty [simp]: "page_lines s \<noteq> []"
  by (induction s) (auto split: list.splits)

text \<open>Joining the lines with newlines gives the source back, and no line has a newline in it.\<close>

fun join_lines :: "bytes list \<Rightarrow> bytes" where
  "join_lines [] = []"
| "join_lines [l] = l"
| "join_lines (l # ls) = l @ 0x0A # join_lines ls"

lemma join_lines_Cons: "ls \<noteq> [] \<Longrightarrow> join_lines (l # ls) = l @ 0x0A # join_lines ls"
  by (cases ls) auto

lemma join_lines_head: "join_lines ((c # l) # ls) = c # join_lines (l # ls)"
  by (cases ls) auto

lemma join_page_lines: "join_lines (page_lines s) = s"
proof (induction s)
  case (Cons c s)
  show ?case
  proof (cases "page_lines s")
    case (Cons l ls)
    then show ?thesis using Cons.IH
      by (cases "c = 0x0A") (simp_all add: join_lines_Cons join_lines_head)
  qed simp
qed simp

lemma page_lines_no_newline: "l \<in> set (page_lines s) \<Longrightarrow> 0x0A \<notin> set l"
  by (induction s arbitrary: l) (auto split: list.splits if_splits)

section \<open>Tables keep the panel's account\<close>

lemma keeps_pen_run:
  assumes "emit_run tx n i (q\<lparr>pr_x := x, pr_row_open := True\<rparr>) = Some q'"
  shows "keeps q q'"
  by (rule keeps_trans[OF keeps_same keeps_emit_run[OF assms]]) (simp add: same_account_def)

lemma keeps_draw_cell: "draw_cell t r ln c x q = Some q' \<Longrightarrow> keeps q q'"
  by (auto simp: draw_cell_def Let_def split: if_splits intro: keeps_pen_run)

lemma keeps_draw_cells: "draw_cells t r ln cs x q = Some q' \<Longrightarrow> keeps q q'"
  by (induction cs arbitrary: x q) (auto split: option.splits intro: keeps_trans keeps_draw_cell)

lemma keeps_gutter: "on_lcd (fill_rect x y w h b) q = Some q' \<Longrightarrow> keeps q q'"
  by (rule keeps_on_lcd) (auto intro: inv_rules)

lemma keeps_draw_gutters: "draw_gutters t cs x q = Some q' \<Longrightarrow> keeps q q'"
proof (induction cs arbitrary: x q)
  case (Cons c cs)
  then show ?case by (auto simp: Let_def split: option.splits intro: keeps_trans[OF keeps_gutter])
qed simp

lemma keeps_next_row: "keeps q q' \<Longrightarrow> keeps q (q'\<lparr>pr_y := y, pr_row_open := b, pr_x := x\<rparr>)"
  by (auto simp: same_account_def intro: keeps_after)

lemma keeps_table_line: "table_line t r ln q = Some q' \<Longrightarrow> keeps q q'"
  by (auto simp: table_line_def split: if_splits bind_splits
      intro: keeps_next_row keeps_trans[OF keeps_draw_cells keeps_draw_gutters])

lemma keeps_table_lines: "table_lines t r lns q = Some q' \<Longrightarrow> keeps q q'"
  by (induction lns arbitrary: q) (auto split: option.splits intro: keeps_trans keeps_table_line)

lemma keeps_table_rule: "table_rule y q = Some q' \<Longrightarrow> keeps q q'"
  by (auto simp: table_rule_def split: if_splits intro: keep_rules inv_rules)

lemma keeps_table_rows: "table_rows t rs q = Some q' \<Longrightarrow> keeps q q'"
proof (induction rs arbitrary: q)
  case (Cons r rs)
  then obtain q1 q2 where q: "table_lines t r [0..<row_lines t r] q = Some q1"
    "(if r = 0 then table_rule (screen_y q1 - 1) q1 else Some q1) = Some q2" "table_rows t rs q2 = Some q'"
    by (auto split: option.splits)
  have "keeps q1 q2" using q(2) by (auto split: if_splits intro: keeps_table_rule)
  then show ?case using keeps_table_lines[OF q(1)] Cons.IH[OF q(3)] keeps_trans by blast
qed simp

lemma keeps_table_flush:
  assumes "table_flush t = Some t'"
  shows "keeps (tr_page t) (tr_page t')"
proof (cases "(tr_rows t = 0 \<or> tr_cols t = 0) \<or> fit_columns (avail_cells (tr_page t)) (tr_cols t) (tr_col_w t) = None")
  case True
  then show ?thesis using assms by (auto simp: table_flush_def split: if_splits)
next
  case False
  then obtain ws where "fit_columns (avail_cells (tr_page t)) (tr_cols t) (tr_col_w t) = Some ws" by auto
  then obtain q1 q2 where q: "table_rows (t\<lparr>tr_col_w := ws\<rparr>) [0..<tr_rows t] (tr_page t) = Some q1"
    "table_rule (screen_y q1) q1 = Some q2" "tr_page t' = q2\<lparr>pr_y := pr_y q2 + PARA_GAP\<rparr>"
    using assms False by (auto simp: table_flush_def Let_def split: bind_splits)
  have "keeps (tr_page t) q2" using keeps_trans[OF keeps_table_rows[OF q(1)] keeps_table_rule[OF q(2)]] .
  then show ?thesis unfolding q(3) by (rule keeps_after) (simp add: same_account_def)
qed

lemma store_cell_page [simp]: "tr_page (store_cell row i cell col t) = tr_page t"
  by (simp add: store_cell_def Let_def split: prod.splits)

lemma row_cells_page: "row_cells row b i col t = (col', t') \<Longrightarrow> tr_page t' = tr_page t"
proof (induction row b i col t arbitrary: col' t' rule: row_cells.induct)
  case (1 row b i col t)
  show ?case
  proof (cases "i \<le> b \<and> col < T_COLS")
    case True
    then show ?thesis using 1(1)[OF True refl] 1(2) by (simp add: row_cells.simps[of row b i] Let_def)
  next
    case False
    then show ?thesis using 1(2) by (auto simp: row_cells.simps[of row b i] split: if_splits)
  qed
qed

lemma onTableRow_page: "tr_page (onTableRow row n s t) = (tr_page t)\<lparr>pr_depth := st_depth s\<rparr>"
  by (auto simp: onTableRow_def Let_def split: prod.splits dest: row_cells_page)

lemma keeps_depth: "keeps q (q\<lparr>pr_depth := d\<rparr>)"
  by (rule keeps_same) (simp add: same_account_def)

lemma keeps_onTableEnd:
  assumes "onTableEnd s t = Some t'"
  shows "keeps (tr_page t) (tr_page t')"
proof -
  obtain t1 where t1: "table_flush (t\<lparr>tr_page := (tr_page t)\<lparr>pr_depth := st_depth s\<rparr>\<rparr>) = Some t1" "tr_page t' = tr_page t1"
    using assms by (auto simp: onTableEnd_def)
  show ?thesis using keeps_trans[OF keeps_depth keeps_table_flush[OF t1(1), simplified]] t1(2) by simp
qed

lemma keeps_callback: "callback_step c t = Some t' \<Longrightarrow> keeps (tr_page t) (tr_page t')"
  by (cases c) (auto simp: onTableBegin_def onTableRow_page keeps_depth intro: keeps_page_step keeps_onTableEnd)

lemma keeps_callbacks: "callback_run cs t = Some t' \<Longrightarrow> keeps (tr_page t) (tr_page t')"
  by (induction cs arbitrary: t) (auto split: option.splits intro: keeps_trans keeps_callback)

lemma keeps_feed: "feed_lines P ls p t = Some t' \<Longrightarrow> keeps (tr_page t) (tr_page t')"
proof (induction ls arbitrary: p t)
  case (Cons l ls)
  show ?case
  proof (cases "l = []")
    case True
    have "keeps (tr_page t) (blankLine (tr_page t))" by (rule keeps_same) (simp add: same_account_def blankLine_def)
    then show ?thesis using Cons.IH[of p "t\<lparr>tr_page := blankLine (tr_page t)\<rparr>"] Cons.prems True keeps_trans by auto
  next
    case False
    then show ?thesis using Cons.prems Cons.IH
      by (auto split: prod.splits option.splits intro: keeps_trans[OF keeps_callbacks])
  qed
qed simp

section \<open>Properties\<close>

text \<open>C2: a composed page reaches the glass. Whatever the parser, the source, the scroll offset and the
  state of the renderer, with or without tables: when composing returns, the bytes it sent leave
  every pixel of the panel as the framebuffer has it, whatever the panel showed before.\<close>

theorem composed_page_reaches_the_panel:
  assumes "compose_page P src scroll t = Some (height, ops, t')"
  shows "vp_pixel (bus_run ops p) x y = get_pixel (pr_lcd (tr_page t')) x y \<and> height = pr_y (tr_page t')"
proof -
  let ?l = "fill_white (pr_lcd (tr_page t))"
  let ?b = "begin_tables scroll (t\<lparr>tr_page := (tr_page t)\<lparr>pr_lcd := ?l\<rparr>\<rparr>)"
  obtain t1 n l where f: "feed_lines P (page_lines src) (parser_reset P) ?b = Some t1"
    "flush_lcd (pr_lcd (tr_page t1)) = (n, ops, l)" "height = pr_y (tr_page t1)"
    "t' = t1\<lparr>tr_page := (tr_page t1)\<lparr>pr_lcd := l\<rparr>\<rparr>"
    using assms by (auto simp: compose_page_def Let_def split: option.splits prod.splits)
  have "tracks ?l (pr_lcd (tr_page t1))"
    using keeps_feed[OF f(1)] by (simp add: keeps_def begin_tables_def begin_page_def)
  then have "panel.in_sync (pr_lcd (tr_page t1)) p"
    by (rule panel.in_sync_draw[OF panel.in_sync_fill_white])
  then have "vp_pixel (bus_run ops p) x y = get_pixel l x y" by (rule synced_flush_shows[OF _ f(2)])
  then show ?thesis using f(3,4) by simp
qed

text \<open>No byte of a page is lost between the source and the parser. The lines that are fed, joined by
  newlines, are the source, and no line holds a newline.\<close>

theorem page_lines_are_the_source:
  "join_lines (page_lines src) = src \<and> list_all (\<lambda>l. 0x0A \<notin> set l) (page_lines src)"
  by (auto simp: join_page_lines list_all_iff dest: page_lines_no_newline)

section \<open>Witness\<close>

lemma callback_run_page:
  "callback_run (map Cb cs) t = map_option (\<lambda>q. t\<lparr>tr_page := q\<rparr>) (page_run cs (tr_page t))"
  by (induction cs arbitrary: t) (auto split: option.splits)

text \<open>A parser that prints \<open>hi\<close> for every line that is not empty.\<close>

definition hi_parser :: "unit parser" where
  "hi_parser = \<lparr>parser_reset = (), parseLine = (\<lambda>l p. (map Cb hi_page, p))\<rparr>"

lemma hi_composes: "\<exists>height ops t. compose_page hi_parser [0x0A, 0x68] 0 demo_table = Some (height, ops, t)"
proof -
  have pl: "page_lines [0x0A, 0x68] = [[], [0x68]]" by simp
  obtain q where q: "page_run hi_page (begin_page 0 (demo_page\<lparr>pr_lcd := fill_white (pr_lcd demo_page)\<rparr>)) = Some q"
    using hi_page_returns[of 0 "fill_white (pr_lcd demo_page)"] by auto
  have b: "blankLine (begin_page 0 r) = begin_page 0 r" for r by (simp add: blankLine_def begin_page_def)
  have t: "tr_page demo_table = demo_page" by (simp add: demo_table_def)
  obtain n ops l where "flush_lcd (pr_lcd q) = (n, ops, l)" by (cases "flush_lcd (pr_lcd q)") auto
  with q show ?thesis
    by (simp add: compose_page_def Let_def pl hi_parser_def callback_run_page begin_tables_def b t)
qed

theorem composed_page_reaches_the_panel_witness:
  "\<exists>height ops t. compose_page hi_parser [0x0A, 0x68] 0 demo_table = Some (height, ops, t)
     \<and> vp_pixel (bus_run ops new_panel) 3 4 = get_pixel (pr_lcd (tr_page t)) 3 4"
proof -
  obtain height ops t where c: "compose_page hi_parser [0x0A, 0x68] 0 demo_table = Some (height, ops, t)"
    using hi_composes by blast
  then show ?thesis using composed_page_reaches_the_panel[OF c] by blast
qed

end
