(* ===== verification/Diag.thy ===== *)
theory Diag
  imports Complex_Main Prelude
begin

text \<open>
  The body of a diagnostic message, \<open>build_diag_body\<close> of \<open>src/main.cpp\<close>: the formats it uses, the text
  it builds, and how long that can be. A measured value, a \<open>float\<close> in the code, is a rational here:
  signal strength and noise ratio of the radio are quarters and halves.
\<close>

section \<open>Numbers as text\<close>

definition digit :: "nat \<Rightarrow> char" where "digit n = char_of (48 + n)"

text \<open>The formats \<open>%lu\<close> and \<open>%ld\<close>.\<close>

fun dec :: "nat \<Rightarrow> string" where
  "dec n = (if n < 10 then [digit n] else dec (n div 10) @ [digit (n mod 10)])"

declare dec.simps [simp del]

definition dec_int :: "int \<Rightarrow> string" where
  "dec_int i = (if i < 0 then CHR ''-'' # dec (nat (- i)) else dec (nat i))"

text \<open>Rounding to the nearest integer, halves away from zero.\<close>

definition lroundf :: "rat \<Rightarrow> int" where
  "lroundf x = (if x < 0 then - \<lfloor>- x + 1 / 2\<rfloor> else \<lfloor>x + 1 / 2\<rfloor>)"

lemma dec_length: "n < 10 ^ Suc k \<Longrightarrow> length (dec n) \<le> Suc k"
proof (induction n arbitrary: k rule: dec.induct)
  case (1 n)
  show ?case
  proof (cases "n < 10")
    case True
    then show ?thesis by (simp add: dec.simps[of n])
  next
    case False
    with 1 obtain j where k: "k = Suc j" by (cases k) auto
    have "n div 10 < 10 ^ Suc j" using 1(2) by (simp add: k less_mult_imp_div_less)
    then show ?thesis using 1(1)[OF False, of j] False by (simp add: dec.simps[of n] k)
  qed
qed

section \<open>The body\<close>

definition REPLY_CONTENT_BUDGET :: nat where "REPLY_CONTENT_BUDGET = 48"

definition BODY_BUF :: nat where "BODY_BUF = 72"

definition rssi_text :: "bool \<Rightarrow> rat \<Rightarrow> string" where
  "rssi_text signal_valid rssi =
     (if signal_valid
      then let r = lroundf rssi; r = (if r < -200 then -200 else if r > 20 then 20 else r) in take 7 (dec_int r)
      else ''?'')"

definition snr_text :: "bool \<Rightarrow> rat \<Rightarrow> string" where
  "snr_text signal_valid snr =
     (if signal_valid
      then let tenths = lroundf (snr * 10);
               tenths = (if tenths < -300 then -300 else if tenths > 300 then 300 else tenths);
               mag = (if tenths < 0 then - tenths else tenths)
           in take 9 ((if tenths < 0 then CHR ''-'' else CHR ''+'') # dec_int (mag div 10) @ ''.'' @ dec_int (mag mod 10))
      else ''?'')"

text \<open>The text left in a buffer of \<open>out_size\<close> bytes, and the result. \<open>id_hex\<close> is the identity's hash in
  hexadecimal, \<open>now\<close> the milliseconds since the start.\<close>

definition build_diag_body :: "nat \<Rightarrow> string \<Rightarrow> u32 \<Rightarrow> u32 \<Rightarrow> bool \<Rightarrow> rat \<Rightarrow> rat \<Rightarrow> string \<times> nat" where
  "build_diag_body out_size id_hex g_send_counter now signal_valid rssi snr =
     (let rssi_buf = rssi_text signal_valid rssi;
          snr_buf = snr_text signal_valid snr;
          ident = (if length id_hex > 8 then take 8 id_hex else id_hex);
          body = ''#'' @ dec (unat g_send_counter) @ '' up'' @ dec (unat (now div 1000)) @ ''s r'' @ rssi_buf
                   @ '' s'' @ snr_buf @ '' id'' @ ident
      in (take (out_size - 1) body, length body))"

section \<open>Its length\<close>

lemma dec_u32_length: "length (dec (unat (n :: u32))) \<le> 10"
proof -
  have "unat n < 10 ^ Suc 9" by (rule less_le_trans[OF unsigned_less]) simp
  from dec_length[OF this] show ?thesis by simp
qed

lemma dec_seconds_length: "length (dec (unat ((n :: u32) div 1000))) \<le> 7"
proof -
  have "unat n < 10000000 * 1000" by (rule less_le_trans[OF unsigned_less]) simp
  then have "unat (n div 1000) < 10 ^ Suc 6" by (simp only: unat_div) (simp add: less_mult_imp_div_less)
  from dec_length[OF this] show ?thesis by simp
qed

lemma rssi_text_length: "length (rssi_text v x) \<le> 4"
proof -
  have d: "length (dec (nat i)) \<le> 3" if "i < 1000" for i using dec_length[of "nat i" 2] that by simp
  have "length (dec_int t) \<le> 4" if "-200 \<le> t" "t \<le> 20" for t
    using d[of t] d[of "- t"] that by (simp add: dec_int_def)
  from this[of "max (-200) (min 20 (lroundf x))"] show ?thesis
    by (auto simp: rssi_text_def Let_def min_def max_def split: if_splits)
qed

lemma snr_text_length: "length (snr_text v x) \<le> 5"
proof -
  have one: "length (dec (nat i)) \<le> 1" if "i < 10" for i using dec_length[of "nat i" 0] that by simp
  have two: "length (dec (nat i)) \<le> 2" if "i < 100" for i using dec_length[of "nat i" 1] that by (simp add: numeral_2_eq_2)
  define f where "f t = length ((if t < 0 then CHR ''-'' else CHR ''+'') # dec_int ((if t < 0 then - t else t) div 10)
    @ ''.'' @ dec_int ((if t < 0 then - t else t) mod 10))" for t :: int
  have "f t \<le> 5" if "-300 \<le> t" "t \<le> 300" for t
  proof -
    define m where "m = (if t < 0 then - t else t)"
    have m: "0 \<le> m" "m div 10 < 100" "m mod 10 < 10" "0 \<le> m div 10" "0 \<le> m mod 10" using that by (auto simp: m_def)
    have "\<not> m div 10 < 0" "\<not> m mod 10 < 0" using m(4,5) by (simp_all only: not_less)
    then show ?thesis using two[OF m(2)] one[OF m(3)] by (simp add: f_def dec_int_def flip: m_def)
  qed
  from this[of "max (-300) (min 300 (lroundf (x * 10)))"] show ?thesis
    by (auto simp: snr_text_def Let_def f_def min_def max_def split: if_splits)
qed

lemma diag_body_fits_lemma:
  "case build_diag_body BODY_BUF id_hex counter now signal_valid rssi snr of (text, n) \<Rightarrow>
     length text \<le> 46 \<and> length text \<le> REPLY_CONTENT_BUDGET \<and> n = length text
     \<and> text = ''#'' @ dec (unat counter) @ '' up'' @ dec (unat (now div 1000)) @ ''s r'' @ rssi_text signal_valid rssi
               @ '' s'' @ snr_text signal_valid snr @ '' id'' @ take 8 id_hex"
proof -
  define body where "body = ''#'' @ dec (unat counter) @ '' up'' @ dec (unat (now div 1000)) @ ''s r''
    @ rssi_text signal_valid rssi @ '' s'' @ snr_text signal_valid snr @ '' id'' @ take 8 id_hex"
  have ident: "(if length id_hex > 8 then take 8 id_hex else id_hex) = take 8 id_hex" by simp
  have len: "length body \<le> 46"
    using dec_u32_length[of counter] dec_seconds_length[of now] rssi_text_length[of signal_valid rssi]
      snr_text_length[of signal_valid snr]
    by (simp add: body_def)
  have "build_diag_body BODY_BUF id_hex counter now signal_valid rssi snr = (body, length body)"
    unfolding build_diag_body_def ident Let_def body_def[symmetric] using len by (simp add: BODY_BUF_def)
  with len show ?thesis by (simp only: prod.case REPLY_CONTENT_BUDGET_def) (simp only: body_def, simp)
qed

text \<open>A diagnostic body fits a single packet. Whatever the counter, the time and the measurements, the
  text is at most 46 bytes, within the budget of 48; the buffer never clips it and the result is its
  length.\<close>

theorem diag_body_fits_one_packet:
  "case build_diag_body BODY_BUF id_hex counter now signal_valid rssi snr of (text, n) \<Rightarrow>
     length text \<le> 46 \<and> length text \<le> REPLY_CONTENT_BUDGET \<and> n = length text
     \<and> text = ''#'' @ dec (unat counter) @ '' up'' @ dec (unat (now div 1000)) @ ''s r'' @ rssi_text signal_valid rssi
               @ '' s'' @ snr_text signal_valid snr @ '' id'' @ take 8 id_hex"
  by (fact diag_body_fits_lemma)

lemma diag_body_example:
  "fst (build_diag_body BODY_BUF ''3f9ac114deadbeef'' 7 812345 True (-96) (41 / 5)) = ''#7 up812s r-96 s+8.2 id3f9ac114''"
  by code_simp

end
