(* ===== verification/Browser.thy ===== *)
theory Browser
  imports Compose Diag
begin

text \<open>
  The desktop browser, \<open>desktop/browser.cpp\<close>, without its window: composing a page with its links,
  the focus overlay, finding the page of a link on disk, the history, and the script driver.
  Strings are lists of bytes. The host's files are a parameter, as is a fetch over the network.
\<close>

section \<open>Frames\<close>

definition ascii :: "string \<Rightarrow> bytes" where "ascii s = map of_char s"

record box =
  bx_x :: int
  bx_y :: int
  bx_w :: int
  bx_h :: int
  bx_target :: bytes

record frame =
  fr_height :: u16
  fr_links :: "box list"

text \<open>A renderer as its constructor leaves it, with the default flags and blank memory.\<close>

definition fresh_renderer :: "(nat \<Rightarrow> u8) \<Rightarrow> table_renderer" where
  "fresh_renderer fb =
     \<lparr>tr_page = new_renderer (new_lcd fb) 2 True True True, tr_in_table = False, tr_row = 0, tr_cols = 0,
      tr_col_w = replicate T_COLS 0, tr_align = AlignLeft, tr_buf = replicate T_BYTES 0, tr_len = 0,
      tr_off = replicate T_ROWS (replicate T_COLS 0), tr_clen = replicate T_ROWS (replicate T_COLS 0),
      tr_rows = 0, tr_overflowed = False\<rparr>"

definition box_of :: "link_box \<Rightarrow> box" where
  "box_of b =
     \<lparr>bx_x = uint (lb_x b), bx_y = uint (lb_y b), bx_w = uint (lb_w b), bx_h = uint (lb_h b),
      bx_target = take (unat (lb_target_len b)) (lb_target b)\<rparr>"

text \<open>The frame and the framebuffer \<open>g_fb\<close> afterwards.\<close>

definition compose :: "'p parser \<Rightarrow> bytes \<Rightarrow> u16 \<Rightarrow> (nat \<Rightarrow> u8) \<Rightarrow> (frame \<times> (nat \<Rightarrow> u8)) option" where
  "compose P src scroll fb =
     (case compose_page P src scroll (fresh_renderer fb) of
        None \<Rightarrow> None
      | Some (height, ops, t) \<Rightarrow>
          Some (\<lparr>fr_height = height, fr_links = map box_of (pr_links (tr_page t))\<rparr>, lcd_fb (pr_lcd (tr_page t))))"

definition invert_pixel :: "int \<Rightarrow> int \<Rightarrow> sharp_lcd \<Rightarrow> sharp_lcd" where
  "invert_pixel y x l =
     (if x < 0 \<or> x \<ge> int LCD_WIDTH then l
      else set_pixel (of_int x) (of_int y) (\<not> get_pixel l (of_int x) (of_int y)) l)"

definition invert_row :: "box \<Rightarrow> int \<Rightarrow> sharp_lcd \<Rightarrow> sharp_lcd" where
  "invert_row b y l =
     (if y < 0 \<or> y \<ge> int LCD_HEIGHT then l else fold (invert_pixel y) [bx_x b - 1..bx_x b + bx_w b] l)"

definition invert_box :: "box \<Rightarrow> (nat \<Rightarrow> u8) \<Rightarrow> nat \<Rightarrow> u8" where
  "invert_box b fb = lcd_fb (fold (invert_row b) [bx_y b..bx_y b + bx_h b - 1] (new_lcd fb))"

section \<open>Files and names\<close>

record host =
  is_file :: "bytes \<Rightarrow> bool"
  contents :: "bytes \<Rightarrow> bytes option"

definition SLASH :: u8 where "SLASH = 0x2F"
definition COLON :: u8 where "COLON = 0x3A"

definition dirname_of :: "bytes \<Rightarrow> bytes" where
  "dirname_of p = (if SLASH \<notin> set p then ascii ''.'' else rev (tl (dropWhile (\<lambda>c. c \<noteq> SLASH) (rev p))))"

definition basename_of :: "bytes \<Rightarrow> bytes" where
  "basename_of p = rev (takeWhile (\<lambda>c. c \<noteq> SLASH) (rev p))"

definition hex_digit :: "u8 \<Rightarrow> bool" where
  "hex_digit c \<longleftrightarrow> (0x30 \<le> c \<and> c \<le> 0x39) \<or> (0x41 \<le> c \<and> c \<le> 0x46) \<or> (0x61 \<le> c \<and> c \<le> 0x66)"

definition looks_hex :: "bytes \<Rightarrow> bool" where
  "looks_hex s = (if length s < 8 then False else list_all hex_digit s)"

text \<open>\<open>replace_all\<close> for a pattern of one byte, as it is called.\<close>

definition replace_all :: "bytes \<Rightarrow> u8 \<Rightarrow> bytes \<Rightarrow> bytes" where
  "replace_all s a b = concat (map (\<lambda>c. if c = a then b else [c]) s)"

definition candidates :: "bytes \<Rightarrow> bytes \<Rightarrow> bytes \<Rightarrow> bytes list" where
  "candidates target curdir home =
     (let before = takeWhile (\<lambda>c. c \<noteq> COLON) target;
          qualified = (COLON \<in> set target \<and> looks_hex before);
          hash = (if qualified then before else []);
          path = (if qualified then drop (length before + 1) target else target);
          rel = (if path \<noteq> [] \<and> hd path = SLASH then tl path else path);
          und = replace_all rel SLASH (ascii ''__'');
          base = basename_of path
      in (if hash \<noteq> []
          then [home @ [SLASH] @ take 16 hash @ ascii ''__'' @ und, home @ [SLASH] @ hash @ ascii ''__'' @ und]
          else [])
         @ [curdir @ [SLASH] @ base, curdir @ [SLASH] @ rel, home @ [SLASH] @ rel, home @ [SLASH] @ base])"

fun first_held :: "host \<Rightarrow> bytes list \<Rightarrow> bytes" where
  "first_held H [] = []"
| "first_held H (cand # cands) =
     (if is_file H cand then cand
      else if (length cand < 3 \<or> drop (length cand - 3) cand \<noteq> ascii ''.mu'') \<and> is_file H (cand @ ascii ''.mu'')
      then cand @ ascii ''.mu''
      else first_held H cands)"

definition resolve :: "host \<Rightarrow> bytes \<Rightarrow> bytes \<Rightarrow> bytes \<Rightarrow> bytes" where
  "resolve H target curdir home =
     (if target = [] \<or> hd target = COLON then [] else first_held H (candidates target curdir home))"

section \<open>The browser\<close>

definition clamp_scroll :: "int \<Rightarrow> u16 \<Rightarrow> u16" where
  "clamp_scroll s height =
     (let maxs = uint height - int LCD_HEIGHT;
          maxs = (if maxs < 0 then 0 else maxs);
          s = (if s < 0 then 0 else s);
          s = (if s > maxs then maxs else s)
      in of_int s)"

record page_state =
  ps_src :: bytes
  ps_address :: bytes
  ps_dir :: bytes
  ps_scroll :: u16
  ps_focus :: int

definition new_page :: page_state where
  "new_page = \<lparr>ps_src = [], ps_address = [], ps_dir = [], ps_scroll = 0, ps_focus = -1\<rparr>"

record browser =
  br_home :: bytes
  br_cur :: page_state
  br_frame :: frame
  br_stack :: "page_state list"
  br_last_scroll :: u16
  br_status :: bytes
  br_fb :: "nat \<Rightarrow> u8"

text \<open>The result of a fetch, and the build: with a live fetch or without.\<close>

record fetch_result =
  fetch_ok :: bool
  fetch_page :: bytes
  fetch_error :: bytes

type_synonym live = "(bytes \<Rightarrow> fetch_result) option"

definition settle_scroll :: "'p parser \<Rightarrow> browser \<Rightarrow> browser option" where
  "settle_scroll P b =
     (let s = ps_scroll (br_cur b) in
      if s \<noteq> br_last_scroll b then
        (case compose P (ps_src (br_cur b)) s (br_fb b) of
           None \<Rightarrow> None
         | Some (f, fb) \<Rightarrow> Some (b\<lparr>br_frame := f, br_fb := fb, br_last_scroll := s\<rparr>))
      else Some b)"

definition focus_overlay :: "browser \<Rightarrow> browser" where
  "focus_overlay b =
     (let b = (if ps_focus (br_cur b) \<ge> int (length (fr_links (br_frame b)))
               then b\<lparr>br_cur := (br_cur b)\<lparr>ps_focus := -1\<rparr>\<rparr> else b)
      in if ps_focus (br_cur b) \<ge> 0
         then b\<lparr>br_fb := invert_box (fr_links (br_frame b) ! nat (ps_focus (br_cur b))) (br_fb b)\<rparr>
         else b)"

definition recompose :: "'p parser \<Rightarrow> browser \<Rightarrow> browser option" where
  "recompose P b =
     (case compose P (ps_src (br_cur b)) (ps_scroll (br_cur b)) (br_fb b) of
        None \<Rightarrow> None
      | Some (f, fb) \<Rightarrow>
          let s = clamp_scroll (uint (ps_scroll (br_cur b))) (fr_height f)
          in map_option focus_overlay
               (settle_scroll P (b\<lparr>br_frame := f, br_fb := fb, br_cur := (br_cur b)\<lparr>ps_scroll := s\<rparr>\<rparr>)))"

definition open_path :: "'p parser \<Rightarrow> host \<Rightarrow> bytes \<Rightarrow> browser \<Rightarrow> (bool \<times> browser) option" where
  "open_path P H path b =
     (case contents H path of
        None \<Rightarrow> Some (False, b\<lparr>br_status := ascii ''cannot open '' @ path\<rparr>)
      | Some src \<Rightarrow>
          map_option (\<lambda>b. (True, b))
            (recompose P (b\<lparr>br_cur := new_page\<lparr>ps_src := src, ps_address := path, ps_dir := dirname_of path\<rparr>,
                            br_status := ascii ''opened '' @ basename_of path\<rparr>)))"

definition scroll_by :: "int \<Rightarrow> browser \<Rightarrow> browser" where
  "scroll_by d b =
     (let s = clamp_scroll (uint (ps_scroll (br_cur b)) + d) (fr_height (br_frame b))
      in b\<lparr>br_cur := (br_cur b)\<lparr>ps_scroll := s, ps_focus := -1\<rparr>, br_last_scroll := s\<rparr>)"

definition scroll_top :: "browser \<Rightarrow> browser" where
  "scroll_top b = b\<lparr>br_cur := (br_cur b)\<lparr>ps_scroll := 0, ps_focus := -1\<rparr>, br_last_scroll := 0\<rparr>"

definition scroll_bottom :: "browser \<Rightarrow> browser" where
  "scroll_bottom b = scroll_by (uint (fr_height (br_frame b))) b"

definition focus_cycle :: "int \<Rightarrow> browser \<Rightarrow> browser" where
  "focus_cycle dir b =
     (let n = int (length (fr_links (br_frame b))) in
      if n = 0 then
        b\<lparr>br_status := ascii ''no links on screen; scroll to more'', br_cur := (br_cur b)\<lparr>ps_focus := -1\<rparr>\<rparr>
      else let f = (if ps_focus (br_cur b) < 0 then (if dir > 0 then 0 else n - 1)
                    else (ps_focus (br_cur b) + dir + n) mod n)
           in b\<lparr>br_cur := (br_cur b)\<lparr>ps_focus := f\<rparr>,
                br_status := ascii ''link '' @ ascii (dec_int (f + 1)) @ ascii ''/'' @ ascii (dec_int n) @ ascii '': ''
                  @ bx_target (fr_links (br_frame b) ! nat f)\<rparr>)"

definition set_focus :: "int \<Rightarrow> browser \<Rightarrow> browser" where
  "set_focus i b =
     (if 0 \<le> i \<and> i < int (length (fr_links (br_frame b))) then b\<lparr>br_cur := (br_cur b)\<lparr>ps_focus := i\<rparr>\<rparr> else b)"

definition commit_page :: "bytes \<Rightarrow> bytes \<Rightarrow> bytes \<Rightarrow> browser \<Rightarrow> browser" where
  "commit_page src address dir b =
     (let b = b\<lparr>br_cur := (br_cur b)\<lparr>ps_focus := -1\<rparr>\<rparr>;
          b = b\<lparr>br_stack := br_cur b # br_stack b\<rparr>
      in b\<lparr>br_cur := new_page\<lparr>ps_src := src, ps_address := address, ps_dir := dir\<rparr>, br_last_scroll := 0\<rparr>)"

definition follow_target :: "host \<Rightarrow> live \<Rightarrow> bytes \<Rightarrow> browser \<Rightarrow> bool \<times> browser" where
  "follow_target H live target b =
     (let path = resolve H target (ps_dir (br_cur b)) (br_home b) in
      if path \<noteq> [] then
        (case contents H path of
           None \<Rightarrow> (False, b\<lparr>br_status := ascii ''cannot open '' @ path\<rparr>)
         | Some src \<Rightarrow>
             (True, (commit_page src target (dirname_of path) b)\<lparr>br_status := ascii ''followed -> '' @ basename_of path\<rparr>))
      else case live of
             None \<Rightarrow> (False, b\<lparr>br_status := ascii ''not held locally: '' @ target\<rparr>)
           | Some fetch \<Rightarrow>
               let fr = fetch target in
               if fetch_ok fr
               then (True, (commit_page (fetch_page fr) target [] b)\<lparr>br_status := ascii ''fetched -> '' @ target\<rparr>)
               else (False, b\<lparr>br_status := ascii ''fetch failed: '' @ fetch_error fr\<rparr>))"

definition follow_focus :: "host \<Rightarrow> live \<Rightarrow> browser \<Rightarrow> bool \<times> browser" where
  "follow_focus H live b =
     (if ps_focus (br_cur b) < 0 \<or> ps_focus (br_cur b) \<ge> int (length (fr_links (br_frame b)))
      then (False, b\<lparr>br_status := ascii ''no link focused''\<rparr>)
      else follow_target H live (bx_target (fr_links (br_frame b) ! nat (ps_focus (br_cur b)))) b)"

definition hit :: "int \<Rightarrow> int \<Rightarrow> box \<Rightarrow> bool" where
  "hit px py b \<longleftrightarrow> px \<ge> bx_x b \<and> px < bx_x b + bx_w b \<and> py \<ge> bx_y b \<and> py < bx_y b + bx_h b"

definition click_at :: "host \<Rightarrow> live \<Rightarrow> int \<Rightarrow> int \<Rightarrow> browser \<Rightarrow> bool \<times> browser" where
  "click_at H live px py b =
     (case find_index (hit px py) (fr_links (br_frame b)) of
        None \<Rightarrow> (False, b)
      | Some i \<Rightarrow>
          follow_target H live (bx_target (fr_links (br_frame b) ! i)) (b\<lparr>br_cur := (br_cur b)\<lparr>ps_focus := int i\<rparr>\<rparr>))"

definition go_back :: "browser \<Rightarrow> bool \<times> browser" where
  "go_back b =
     (case br_stack b of
        [] \<Rightarrow> (False, b\<lparr>br_status := ascii ''no page to go back to''\<rparr>)
      | p # ps \<Rightarrow>
          (True, b\<lparr>br_cur := p, br_stack := ps, br_last_scroll := ps_scroll p,
                   br_status := ascii ''back -> '' @ basename_of (ps_address p)\<rparr>))"

definition scroll_pct :: "browser \<Rightarrow> int" where
  "scroll_pct b =
     (let span = uint (fr_height (br_frame b)) - int LCD_HEIGHT
      in if span \<le> 0 then 100 else 100 * uint (ps_scroll (br_cur b)) div span)"

section \<open>The script driver\<close>

text \<open>The bytes of a frame as \<open>write_pbm\<close> writes them.\<close>

definition frame_pbm :: "u8 \<Rightarrow> (nat \<Rightarrow> u8) \<Rightarrow> bytes" where
  "frame_pbm scale fb =
     (let k = (if scale = 0 then 1 else unat scale);
          row = (\<lambda>y. concat (map (\<lambda>x. replicate k (if get_pixel (new_lcd fb) (of_nat x) (of_nat y) then 0x31 else 0x30))
                               [0..<LCD_WIDTH]) @ [0x0A])
      in ascii ''P1'' @ [0x0A] @ ascii ''# thicket browser frame'' @ [0x0A]
         @ ascii (dec (LCD_WIDTH * k)) @ ascii '' '' @ ascii (dec (LCD_HEIGHT * k)) @ [0x0A]
         @ concat (map (\<lambda>y. concat (replicate k (row y))) [0..<LCD_HEIGHT]))"

definition isspace :: "u8 \<Rightarrow> bool" where "isspace c \<longleftrightarrow> c = 0x20 \<or> (0x09 \<le> c \<and> c \<le> 0x0D)"

definition trim :: "bytes \<Rightarrow> bytes" where
  "trim s = rev (dropWhile isspace (rev (dropWhile isspace s)))"

fun digits_value :: "int \<Rightarrow> bytes \<Rightarrow> int" where
  "digits_value n [] = n"
| "digits_value n (c # cs) = (if 0x30 \<le> c \<and> c \<le> 0x39 then digits_value (10 * n + uint (c - 0x30)) cs else n)"

definition atol :: "bytes \<Rightarrow> int" where
  "atol s =
     (case dropWhile isspace s of
        [] \<Rightarrow> 0
      | c # cs \<Rightarrow> if c = 0x2D then - digits_value 0 cs else if c = 0x2B then digits_value 0 cs else digits_value 0 (c # cs))"

text \<open>The commands of a script.\<close>

fun pieces :: "u8 \<Rightarrow> bytes \<Rightarrow> bytes list" where
  "pieces d [] = [[]]"
| "pieces d (c # cs) =
     (if c = d then [] # pieces d cs
      else case pieces d cs of [] \<Rightarrow> [[c]] | l # ls \<Rightarrow> (c # l) # ls)"

record session =
  se_browser :: browser
  se_shot :: nat
  se_files :: "(bytes \<times> bytes) list"

definition shot_name :: "bytes \<Rightarrow> nat \<Rightarrow> bytes" where
  "shot_name outdir shot =
     take 63 (outdir @ ascii ''/'' @ ascii (if shot < 10 then ''0'' @ dec shot else dec shot) @ ascii ''.pbm'')"

text \<open>One command that is not blank. \<open>None\<close> is a page whose layout does not return.\<close>

definition script_command ::
  "'p parser \<Rightarrow> host \<Rightarrow> live \<Rightarrow> bytes \<Rightarrow> u8 \<Rightarrow> bytes \<Rightarrow> session \<Rightarrow> session option" where
  "script_command P H live outdir scale cmd S =
     (let spaced = (0x20 \<in> set cmd);
          op = takeWhile (\<lambda>c. c \<noteq> 0x20) cmd;
          rest = (if spaced then drop (length op + 1) cmd else cmd);
          arg = (if spaced then atol rest else 0);
          b = se_browser S;
          go = (\<lambda>b. map_option (\<lambda>b. S\<lparr>se_browser := b\<rparr>) (recompose P b))
      in if op = ascii ''down'' then go (scroll_by (if arg \<noteq> 0 then arg else 15) b)
         else if op = ascii ''up'' then go (scroll_by (- (if arg \<noteq> 0 then arg else 15)) b)
         else if op = ascii ''pagedown'' then go (scroll_by (int LCD_HEIGHT - 20) b)
         else if op = ascii ''pageup'' then go (scroll_by (- (int LCD_HEIGHT - 20)) b)
         else if op = ascii ''top'' then go (scroll_top b)
         else if op = ascii ''bottom'' then go (scroll_bottom b)
         else if op = ascii ''next'' then go (focus_cycle 1 b)
         else if op = ascii ''prev'' then go (focus_cycle (-1) b)
         else if op = ascii ''focus'' then go (set_focus arg b)
         else if op = ascii ''enter'' then go (snd (follow_focus H live b))
         else if op = ascii ''back'' then go (snd (go_back b))
         else if op = ascii ''open'' then
           (case open_path P H rest b of None \<Rightarrow> None | Some (ok, b) \<Rightarrow> go b)
         else if op = ascii ''shot'' then
           map_option
             (\<lambda>b. S\<lparr>se_browser := b, se_shot := se_shot S + 1,
                     se_files := se_files S @ [(shot_name outdir (se_shot S), frame_pbm scale (br_fb b))]\<rparr>)
             (recompose P b)
         else go b)"

fun run_commands :: "'p parser \<Rightarrow> host \<Rightarrow> live \<Rightarrow> bytes \<Rightarrow> u8 \<Rightarrow> bytes list \<Rightarrow> session \<Rightarrow> session option" where
  "run_commands P H live outdir scale [] S = Some S"
| "run_commands P H live outdir scale (c # cs) S =
     (if trim c = [] then run_commands P H live outdir scale cs S
      else case script_command P H live outdir scale (trim c) S of
             None \<Rightarrow> None
           | Some S1 \<Rightarrow> run_commands P H live outdir scale cs S1)"

definition run_script :: "'p parser \<Rightarrow> host \<Rightarrow> live \<Rightarrow> bytes \<Rightarrow> bytes \<Rightarrow> u8 \<Rightarrow> browser \<Rightarrow> session option" where
  "run_script P H live script outdir scale b =
     run_commands P H live outdir scale (pieces 0x3B script) \<lparr>se_browser = b, se_shot = 0, se_files = []\<rparr>"

section \<open>What is on the screen\<close>

text \<open>The frame of a browser is the layout of its page at its scroll offset, its focus is one of its
  links or none, and the framebuffer is the layout's with the focused link inverted.\<close>

definition shows_page :: "'p parser \<Rightarrow> browser \<Rightarrow> bool" where
  "shows_page P b \<longleftrightarrow>
     (\<exists>fb0 fb. compose P (ps_src (br_cur b)) (ps_scroll (br_cur b)) fb0 = Some (br_frame b, fb)
        \<and> br_fb b = (if ps_focus (br_cur b) \<ge> 0
                     then invert_box (fr_links (br_frame b) ! nat (ps_focus (br_cur b))) fb else fb))
     \<and> ps_focus (br_cur b) < int (length (fr_links (br_frame b)))"

text \<open>The scroll offset remembered for the next composition.\<close>

definition remembers :: "browser \<Rightarrow> bool" where
  "remembers b \<longleftrightarrow> br_last_scroll b = ps_scroll (br_cur b) \<or> ps_scroll (br_cur b) = 0"

lemma clamp_zero [simp]: "clamp_scroll 0 h = 0"
  by (simp add: clamp_scroll_def Let_def)

lemma focus_overlay_shows:
  assumes "compose P (ps_src (br_cur b)) (ps_scroll (br_cur b)) fb0 = Some (br_frame b, br_fb b)" "remembers b"
  shows "shows_page P (focus_overlay b) \<and> remembers (focus_overlay b)"
  using assms by (auto simp: focus_overlay_def shows_page_def remembers_def Let_def)

lemma recompose_shows:
  assumes "recompose P b = Some b'" "remembers b"
  shows "shows_page P b' \<and> remembers b'"
proof -
  obtain f fb where c: "compose P (ps_src (br_cur b)) (ps_scroll (br_cur b)) (br_fb b) = Some (f, fb)"
    using assms(1) by (auto simp: recompose_def split: option.splits)
  define s where "s = clamp_scroll (uint (ps_scroll (br_cur b))) (fr_height f)"
  define b1 where "b1 = b\<lparr>br_frame := f, br_fb := fb, br_cur := (br_cur b)\<lparr>ps_scroll := s\<rparr>\<rparr>"
  obtain b2 where b2: "settle_scroll P b1 = Some b2" "b' = focus_overlay b2"
    using assms(1) by (auto simp: recompose_def c Let_def s_def b1_def)
  have "(\<exists>fb0. compose P (ps_src (br_cur b2)) (ps_scroll (br_cur b2)) fb0 = Some (br_frame b2, br_fb b2)) \<and> remembers b2"
  proof (cases "s = br_last_scroll b")
    case True
    then have same: "s = ps_scroll (br_cur b)" using assms(2) by (auto simp: remembers_def s_def)
    have "b2 = b1" using b2 True by (simp add: b1_def settle_scroll_def)
    then show ?thesis using c same True by (auto simp: b1_def remembers_def)
  next
    case False
    then show ?thesis using b2 by (auto simp: b1_def remembers_def settle_scroll_def split: option.splits)
  qed
  then show ?thesis using focus_overlay_shows b2(2) by blast
qed

lemma remembers_simps [simp]:
  "remembers (b\<lparr>br_status := m\<rparr>) = remembers b" "remembers (b\<lparr>br_fb := fb\<rparr>) = remembers b"
  "remembers (scroll_by d b)" "remembers (scroll_top b)" "remembers (scroll_bottom b)"
  "remembers (commit_page src a dd b)" "remembers (snd (go_back b)) = (remembers b \<or> br_stack b \<noteq> [])"
  "remembers (b\<lparr>br_cur := (br_cur b)\<lparr>ps_focus := i\<rparr>\<rparr>) = remembers b"
  by (auto simp: remembers_def scroll_by_def scroll_top_def scroll_bottom_def commit_page_def new_page_def go_back_def
      Let_def split: list.splits)

lemma remembers_focus [simp]: "remembers b \<Longrightarrow> remembers (focus_cycle d b)" "remembers b \<Longrightarrow> remembers (set_focus i b)"
  by (simp_all add: focus_cycle_def set_focus_def remembers_def Let_def)

lemma remembers_follow [simp]: "remembers b \<Longrightarrow> remembers (snd (follow_target H live target b))"
  by (auto simp: follow_target_def Let_def split: option.splits)

lemma remembers_follow_focus [simp]: "remembers b \<Longrightarrow> remembers (snd (follow_focus H live b))"
  by (simp add: follow_focus_def)

lemma remembers_back [simp]: "remembers b \<Longrightarrow> remembers (snd (go_back b))"
  by simp

lemma open_path_shows:
  assumes "open_path P H path b = Some (ok, b')" "remembers b"
  shows "remembers b' \<and> (ok \<longrightarrow> shows_page P b')"
proof (cases "contents H path")
  case None
  then show ?thesis using assms by (auto simp: open_path_def)
next
  case (Some src)
  let ?b = "b\<lparr>br_cur := new_page\<lparr>ps_src := src, ps_address := path, ps_dir := dirname_of path\<rparr>,
              br_status := ascii ''opened '' @ basename_of path\<rparr>"
  have "remembers ?b" by (simp add: remembers_def new_page_def)
  then show ?thesis using assms(1) Some recompose_shows[of P ?b] by (auto simp: open_path_def)
qed

lemma script_command_shows:
  assumes "script_command P H live outdir scale cmd S = Some S'" "remembers (se_browser S)"
  shows "shows_page P (se_browser S') \<and> remembers (se_browser S')"
proof -
  obtain b where "recompose P b = Some (se_browser S')" "remembers b"
  proof -
    have "\<exists>b. recompose P b = Some (se_browser S') \<and> remembers b"
      using assms open_path_shows[of P H]
      by (auto simp: script_command_def Let_def split: if_splits option.splits prod.splits)
    then show ?thesis using that by blast
  qed
  then show ?thesis by (rule recompose_shows)
qed

lemma run_commands_shows:
  "run_commands P H live outdir scale cs S = Some S' \<Longrightarrow> shows_page P (se_browser S) \<Longrightarrow> remembers (se_browser S) \<Longrightarrow>
   shows_page P (se_browser S')"
proof (induction cs arbitrary: S)
  case (Cons c cs)
  show ?case
  proof (cases "trim c = []")
    case True
    then show ?thesis using Cons by simp
  next
    case False
    then obtain S1 where c: "script_command P H live outdir scale (trim c) S = Some S1"
      "run_commands P H live outdir scale cs S1 = Some S'"
      using Cons.prems(1) by (auto split: option.splits)
    then show ?thesis using Cons.IH[OF c(2)] script_command_shows[OF c(1) Cons.prems(3)] by blast
  qed
qed simp

section \<open>The focus overlay\<close>

definition in_box :: "box \<Rightarrow> u16 \<Rightarrow> u16 \<Rightarrow> bool" where
  "in_box b x y \<longleftrightarrow>
     bx_x b - 1 \<le> uint x \<and> uint x \<le> bx_x b + bx_w b \<and> bx_y b \<le> uint y \<and> uint y < bx_y b + bx_h b
     \<and> unat x < LCD_WIDTH \<and> unat y < LCD_HEIGHT"

lemma uint_panel: "0 \<le> i \<Longrightarrow> i < 400 \<Longrightarrow> uint (of_int i :: u16) = i"
  by (simp add: unsigned_of_int take_bit_int_eq_self)

lemma unat_less_uint: "unat (w :: u16) < n \<longleftrightarrow> uint w < int n"
  unfolding unat_eq_nat_uint by (rule nat_less_iff) simp

lemma get_invert_pixel:
  assumes "0 \<le> y" "y < int LCD_HEIGHT"
  shows "get_pixel (invert_pixel y x l) px py =
    (if uint px = x \<and> uint py = y \<and> unat px < LCD_WIDTH then \<not> get_pixel l px py else get_pixel l px py)"
proof (cases "x < 0 \<or> x \<ge> int LCD_WIDTH")
  case True
  have "\<not> (uint px = x \<and> unat px < LCD_WIDTH)" using True by (auto simp: unat_less_uint)
  then show ?thesis using True by (auto simp: invert_pixel_def)
next
  case False
  have x: "uint (of_int x :: u16) = x" and y: "uint (of_int y :: u16) = y"
    using False assms by (simp_all add: LCD_WIDTH_def LCD_HEIGHT_def uint_panel)
  have "unat (of_int x :: u16) < LCD_WIDTH" "unat (of_int y :: u16) < LCD_HEIGHT"
    using False assms x y by (simp_all add: unat_less_uint)
  moreover have "px = of_int x \<longleftrightarrow> uint px = x" "py = of_int y \<longleftrightarrow> uint py = y" using x y by (metis word_of_int_uint)+
  ultimately show ?thesis using False by (auto simp: invert_pixel_def get_set_pixel unat_less_uint)
qed

lemma get_invert_row:
  assumes "0 \<le> y" "y < int LCD_HEIGHT" "distinct xs"
  shows "get_pixel (fold (invert_pixel y) xs l) px py =
    (if uint px \<in> set xs \<and> uint py = y \<and> unat px < LCD_WIDTH then \<not> get_pixel l px py else get_pixel l px py)"
  using assms(3) by (induction xs arbitrary: l) (auto simp: get_invert_pixel[OF assms(1,2)])

lemma get_invert_rows:
  assumes "distinct ys"
  shows "get_pixel (fold (invert_row b) ys l) px py =
    (if uint py \<in> set ys \<and> bx_x b - 1 \<le> uint px \<and> uint px \<le> bx_x b + bx_w b \<and> unat px < LCD_WIDTH \<and> unat py < LCD_HEIGHT
     then \<not> get_pixel l px py else get_pixel l px py)"
  using assms
proof (induction ys arbitrary: l)
  case (Cons y ys)
  have "get_pixel (invert_row b y l) px py =
    (if uint py = y \<and> bx_x b - 1 \<le> uint px \<and> uint px \<le> bx_x b + bx_w b \<and> unat px < LCD_WIDTH \<and> unat py < LCD_HEIGHT
     then \<not> get_pixel l px py else get_pixel l px py)"
  proof (cases "y < 0 \<or> y \<ge> int LCD_HEIGHT")
    case True
    then have "\<not> (uint py = y \<and> unat py < LCD_HEIGHT)" by (auto simp: unat_less_uint)
    then show ?thesis using True by (auto simp: invert_row_def)
  next
    case False
    then show ?thesis by (auto simp: invert_row_def get_invert_row unat_less_uint)
  qed
  then show ?case using Cons by auto
qed simp

lemma invert_box_pixel:
  "get_pixel (new_lcd (invert_box b fb)) x y = (get_pixel (new_lcd fb) x y \<noteq> in_box b x y)"
proof -
  have "get_pixel (new_lcd (lcd_fb l)) x y = get_pixel l x y" for l by (simp add: get_pixel_def new_lcd_def)
  then show ?thesis by (auto simp: invert_box_def get_invert_rows in_box_def)
qed

section \<open>Properties\<close>


text \<open>C39: back undoes a followed link. When a link is followed with success, from disk or over the
  network, going back succeeds and gives the page, its address, its directory and its scroll offset
  again, with no link focused, and the history as it was.\<close>

theorem back_undoes_follow:
  assumes "follow_target H live target b = (True, b1)" "go_back b1 = (ok, b2)"
  shows "ok \<and> br_cur b2 = (br_cur b)\<lparr>ps_focus := -1\<rparr> \<and> br_stack b2 = br_stack b
    \<and> br_last_scroll b2 = ps_scroll (br_cur b)"
proof -
  obtain src dir m where "b1 = (commit_page src target dir b)\<lparr>br_status := m\<rparr>"
    using assms(1) by (auto simp: follow_target_def Let_def split: if_splits option.splits)
  then show ?thesis using assms(2) by (auto simp: commit_page_def go_back_def Let_def)
qed

text \<open>The focus overlay inverts the box of the link and a column to its left and right, clipped to
  the panel, and no other pixel; drawn twice it is gone.\<close>

theorem focus_overlay_is_an_involution:
  "get_pixel (new_lcd (invert_box b fb)) x y = (get_pixel (new_lcd fb) x y \<noteq> in_box b x y)
   \<and> get_pixel (new_lcd (invert_box b (invert_box b fb))) x y = get_pixel (new_lcd fb) x y"
  by (auto simp: invert_box_pixel)

text \<open>C40: a fetched page reaches outside the pages. It has no directory of its own, and its relative link
  is looked for under the empty one: a link to \<open>a/b\<close> opens the host's file \<open>/a/b\<close>, if there is one and
  no file \<open>/b\<close>, whatever the root holds.\<close>

theorem fetched_page_opens_host_files:
  assumes "ps_dir (br_cur b) = []" "target \<noteq> []" "COLON \<notin> set target" "hd target \<noteq> SLASH"
    and "is_file H (SLASH # target)" "contents H (SLASH # target) = Some src"
    and "\<not> is_file H (SLASH # basename_of target)" "\<not> is_file H (SLASH # basename_of target @ ascii ''.mu'')"
  shows "ps_src (br_cur (snd (follow_target H live target b))) = src"
proof -
  have "hd target \<noteq> COLON" using assms(2,3) by (cases target) auto
  then have "resolve H target [] (br_home b) = SLASH # target"
    using assms by (simp add: resolve_def candidates_def Let_def)
  then show ?thesis using assms by (simp add: follow_target_def commit_page_def new_page_def Let_def)
qed

section \<open>Witnesses\<close>

definition new_browser :: "bytes \<Rightarrow> browser" where
  "new_browser home =
     \<lparr>br_home = home, br_cur = new_page, br_frame = \<lparr>fr_height = 0, fr_links = []\<rparr>, br_stack = [],
      br_last_scroll = 0, br_status = [], br_fb = (\<lambda>_. 0)\<rparr>"

text \<open>A host with one page and one file outside the pages.\<close>

definition demo_host :: host where
  "demo_host =
     \<lparr>is_file = (\<lambda>p. p = ascii ''/p/h.mu'' \<or> p = ascii ''/etc/passwd''),
      contents = (\<lambda>p. if p = ascii ''/p/h.mu'' then Some [0x68] else if p = ascii ''/etc/passwd'' then Some [0x78] else None)\<rparr>"

lemma hi_compose: "\<exists>f fb'. compose hi_parser [0x68] scroll fb = Some (f, fb')"
proof -
  have f: "fresh_renderer fb = demo_table\<lparr>tr_page := demo_page\<lparr>pr_lcd := new_lcd fb\<rparr>\<rparr>"
    by (simp add: fresh_renderer_def demo_table_def demo_page_def new_renderer_def)
  obtain q where q: "page_run hi_page (begin_page scroll (demo_page\<lparr>pr_lcd := fill_white (new_lcd fb)\<rparr>)) = Some q"
    using hi_page_returns[of scroll "fill_white (new_lcd fb)"] by auto
  obtain n ops l where "flush_lcd (pr_lcd q) = (n, ops, l)" by (cases "flush_lcd (pr_lcd q)") auto
  with q show ?thesis
    by (simp add: compose_def compose_page_def Let_def hi_parser_def callback_run_page begin_tables_def f)
qed

lemma hi_recompose:
  assumes "ps_src (br_cur b) = [0x68]"
  shows "\<exists>b'. recompose hi_parser b = Some b' \<and> ps_src (br_cur b') = [0x68]"
proof -
  obtain f fb where c: "compose hi_parser [0x68] (ps_scroll (br_cur b)) (br_fb b) = Some (f, fb)"
    using hi_compose by blast
  let ?s = "clamp_scroll (uint (ps_scroll (br_cur b))) (fr_height f)"
  let ?b = "b\<lparr>br_frame := f, br_fb := fb, br_cur := (br_cur b)\<lparr>ps_scroll := ?s\<rparr>\<rparr>"
  obtain f2 fb2 where c2: "compose hi_parser [0x68] ?s fb = Some (f2, fb2)" using hi_compose by blast
  have "settle_scroll hi_parser ?b
      = Some (if ?s \<noteq> br_last_scroll b then ?b\<lparr>br_frame := f2, br_fb := fb2, br_last_scroll := ?s\<rparr> else ?b)"
    using assms c2 by (simp add: settle_scroll_def Let_def)
  then obtain b2 where b2: "settle_scroll hi_parser ?b = Some b2" "ps_src (br_cur b2) = [0x68]"
    using assms by (cases "?s \<noteq> br_last_scroll b") auto
  have "ps_src (br_cur (focus_overlay b2)) = [0x68]" using b2(2) by (simp add: focus_overlay_def Let_def)
  then show ?thesis using assms b2(1) by (simp add: recompose_def c Let_def)
qed


theorem back_undoes_follow_witness:
  "let r = follow_target demo_host None (ascii ''h.mu'') (new_browser (ascii ''/p''))
   in fst r \<and> fst (go_back (snd r)) \<and> br_cur (snd (go_back (snd r))) = new_page"
proof -
  define r where "r = follow_target demo_host None (ascii ''h.mu'') (new_browser (ascii ''/p''))"
  have t: "fst r" by (simp add: r_def) code_simp
  then have "follow_target demo_host None (ascii ''h.mu'') (new_browser (ascii ''/p'')) = (True, snd r)"
    by (metis r_def prod.collapse)
  from back_undoes_follow[OF this prod.collapse[symmetric]] t
  show ?thesis unfolding Let_def r_def[symmetric] by (simp add: new_browser_def new_page_def)
qed

theorem fetched_page_opens_host_files_witness:
  "ps_src (br_cur (snd (follow_target demo_host None (ascii ''etc/passwd'') (new_browser (ascii ''/p''))))) = [0x78]"
  by (rule fetched_page_opens_host_files) code_simp+

end
