(* ===== verification/LoRa.thy ===== *)
theory LoRa
  imports Prelude
begin

unbundle bit_operations_syntax

text \<open>
  The LoRa link, \<open>lib/LoRaInterface/src/LoRaInterface.{h,cpp}\<close>: one packet goes out as one
  frame, or as two with a shared sequence number, and the receive loop puts split packets
  together again. The radio (RadioLib) is a parameter: what it transmits is a list of frames,
  and what a call of the loop finds is a \<open>radio_event\<close>. Link quality figures are values of an
  arbitrary type.
\<close>

section \<open>State\<close>

definition HEADER_SPLIT :: u8 where "HEADER_SPLIT = 0x08"
definition HEADER_SEQ_MASK :: u8 where "HEADER_SEQ_MASK = 0x07"
definition SEQ_UNSET :: u8 where "SEQ_UNSET = 0xFF"
definition LORA_MAX_PAYLOAD :: nat where "LORA_MAX_PAYLOAD = 254"
definition HW_MTU :: nat where "HW_MTU = 508"

lemmas lora_defs = HEADER_SPLIT_def HEADER_SEQ_MASK_def SEQ_UNSET_def LORA_MAX_PAYLOAD_def

record 'q lora =
  lo_online :: bool
  lo_buffer :: bytes
  lo_rx_seq :: u8
  lo_tx_seq :: u8
  lo_rssi :: 'q
  lo_snr :: 'q
  lo_signal_valid :: bool
  lo_irq_pending :: bool

definition new_lora :: "'q \<Rightarrow> 'q lora" where
  "new_lora zero = \<lparr>lo_online = False, lo_buffer = [], lo_rx_seq = SEQ_UNSET, lo_tx_seq = 0,
     lo_rssi = zero, lo_snr = zero, lo_signal_valid = False, lo_irq_pending = False\<rparr>"

text \<open>\<open>isr_build\<close> says whether the firmware is built with \<open>THICKET_LORA_ISR\<close>; \<open>chip_ok\<close> is whether the
  radio's own start succeeded.\<close>

definition lora_start :: "bool \<Rightarrow> bool \<Rightarrow> 'q lora \<Rightarrow> bool \<times> 'q lora" where
  "lora_start isr_build chip_ok s =
     (let s1 = s\<lparr>lo_online := False\<rparr> in
      if \<not> chip_ok then (False, s1)
      else (True, s1\<lparr>lo_irq_pending := (isr_build \<or> lo_irq_pending s1), lo_online := True\<rparr>))"

definition lora_stop :: "'q lora \<Rightarrow> 'q lora" where
  "lora_stop s = s\<lparr>lo_online := False\<rparr>"

text \<open>The interrupt: the flag, and whether the installed wake hook is called.\<close>

definition lora_isr :: "bool \<Rightarrow> 'q lora \<Rightarrow> bool \<times> 'q lora" where
  "lora_isr wake_hook s = (wake_hook, s\<lparr>lo_irq_pending := True\<rparr>)"

section \<open>Receiving\<close>

definition isSplitPacket :: "u8 \<Rightarrow> bool" where
  "isSplitPacket h \<longleftrightarrow> h AND HEADER_SPLIT \<noteq> 0"

definition packetSequence :: "u8 \<Rightarrow> u8" where
  "packetSequence h = h AND HEADER_SEQ_MASK"

record 'q radio_event =
  ev_rx_done :: bool
  ev_ok :: bool
  ev_frame :: bytes
  ev_rssi :: 'q
  ev_snr :: 'q

text \<open>The part of the loop that handles one frame: the packets passed to the transport.\<close>

definition rx_frame :: "bytes \<Rightarrow> 'q lora \<Rightarrow> bytes list \<times> 'q lora" where
  "rx_frame f s =
     (let hdr = hd f; seq = packetSequence hdr; payload = tl f in
      if isSplitPacket hdr
      then
        (if lo_rx_seq s = SEQ_UNSET \<or> lo_rx_seq s \<noteq> seq
         then ([], s\<lparr>lo_rx_seq := seq, lo_buffer := payload\<rparr>)
         else (let b = lo_buffer s @ payload in ([b], s\<lparr>lo_buffer := b, lo_rx_seq := SEQ_UNSET\<rparr>)))
      else
        (let s1 = (if lo_rx_seq s \<noteq> SEQ_UNSET then s\<lparr>lo_buffer := [], lo_rx_seq := SEQ_UNSET\<rparr> else s)
         in ([payload], s1\<lparr>lo_buffer := payload\<rparr>)))"

text \<open>One call of \<open>loop\<close>: the packets delivered, and whether receive mode was armed again.\<close>

definition lora_loop :: "bool \<Rightarrow> 'q radio_event \<Rightarrow> 'q lora \<Rightarrow> bytes list \<times> bool \<times> 'q lora" where
  "lora_loop isr_build ev s =
     (if \<not> lo_online s then ([], False, s)
      else if isr_build \<and> \<not> lo_irq_pending s then ([], False, s)
      else
        (let s1 = (if isr_build then s\<lparr>lo_irq_pending := False\<rparr> else s) in
         if \<not> ev_rx_done ev then ([], False, s1)
         else if ev_ok ev \<and> 1 < length (ev_frame ev)
         then
           (case rx_frame (ev_frame ev)
                   (s1\<lparr>lo_rssi := ev_rssi ev, lo_snr := ev_snr ev, lo_signal_valid := True\<rparr>) of
              (out, s2) \<Rightarrow> (out, True, s2))
         else ([], True, s1)))"

section \<open>Sending\<close>

text \<open>The frames given to the radio, the result, and the state. \<open>rand\<close> is the random byte, \<open>ok1\<close>
  and \<open>ok2\<close> whether the radio reported each transmission done, \<open>throws\<close> whether the
  housekeeping of the base class raised. \<open>None\<close> is a copy past the 255-byte frame buffer.\<close>

definition split_header :: "u8 \<Rightarrow> u8 \<Rightarrow> u8" where
  "split_header rand seq = (rand AND 0xF0) OR HEADER_SPLIT OR seq"

definition send_outgoing ::
  "u8 \<Rightarrow> bool \<Rightarrow> bool \<Rightarrow> bool \<Rightarrow> bytes \<Rightarrow> 'q lora \<Rightarrow> (bytes list \<times> bool \<times> 'q lora) option" where
  "send_outgoing rand ok1 ok2 throws data s =
     (if \<not> lo_online s then Some ([], \<not> throws, s)
      else if length data \<le> LORA_MAX_PAYLOAD
      then Some ([(rand AND 0xF0) # data], ok1 \<and> \<not> throws, s)
      else
        (let seq = lo_tx_seq s AND HEADER_SEQ_MASK; h = split_header rand seq;
             rest = drop LORA_MAX_PAYLOAD data
         in if 254 < length rest then None
            else Some ([h # take LORA_MAX_PAYLOAD data, h # rest], ok1 \<and> ok2 \<and> \<not> throws,
                       s\<lparr>lo_tx_seq := lo_tx_seq s + 1\<rparr>)))"

section \<open>Lemmas: headers\<close>

lemma seq_mask_range: "h AND HEADER_SEQ_MASK \<noteq> SEQ_UNSET"
proof
  assume "h AND HEADER_SEQ_MASK = SEQ_UNSET"
  then have "bit (h AND HEADER_SEQ_MASK) 7 = bit SEQ_UNSET 7" by simp
  then show False by (simp add: bit_simps lora_defs)
qed

lemma packetSequence_set [simp]: "packetSequence h \<noteq> SEQ_UNSET"
  unfolding packetSequence_def by (rule seq_mask_range)

lemma single_header [simp]: "\<not> isSplitPacket (rand AND 0xF0)"
proof -
  have "(rand AND 0xF0) AND HEADER_SPLIT = 0"
    by (rule bit_eqI) (auto simp: bit_simps lora_defs less_Suc_eq numeral_eq_Suc)
  then show ?thesis by (simp add: isSplitPacket_def)
qed

lemma split_header_bits [simp]:
  "isSplitPacket (split_header rand (c AND HEADER_SEQ_MASK))"
  "packetSequence (split_header rand (c AND HEADER_SEQ_MASK)) = c AND HEADER_SEQ_MASK"
proof -
  have "bit (split_header rand (c AND HEADER_SEQ_MASK) AND HEADER_SPLIT) 3"
    by (simp add: split_header_def bit_simps lora_defs)
  then show "isSplitPacket (split_header rand (c AND HEADER_SEQ_MASK))"
    by (auto simp: isSplitPacket_def)
  show "packetSequence (split_header rand (c AND HEADER_SEQ_MASK)) = c AND HEADER_SEQ_MASK"
    unfolding packetSequence_def
    by (rule bit_eqI) (auto simp: split_header_def bit_simps lora_defs less_Suc_eq numeral_eq_Suc)
qed

section \<open>Sessions\<close>

text \<open>A sender's packets, each with its random byte, all transmitted: the frames on the air.\<close>

fun lora_send :: "(u8 \<times> bytes) list \<Rightarrow> 'q lora \<Rightarrow> (bytes list \<times> 'q lora) option" where
  "lora_send [] s = Some ([], s)"
| "lora_send ((rand, data) # ps) s =
     (case send_outgoing rand True True False data s of
        None \<Rightarrow> None
      | Some (fs, ok, s1) \<Rightarrow> map_option (\<lambda>(gs, s2). (fs @ gs, s2)) (lora_send ps s1))"

text \<open>A receiver's calls of the loop, each after the interrupt has fired.\<close>

fun lora_receive :: "bool \<Rightarrow> 'q radio_event list \<Rightarrow> 'q lora \<Rightarrow> bytes list \<times> 'q lora" where
  "lora_receive isr_build [] s = ([], s)"
| "lora_receive isr_build (ev # evs) s =
     (case lora_loop isr_build ev (snd (lora_isr False s)) of
        (out, armed, s1) \<Rightarrow> (case lora_receive isr_build evs s1 of (rest, s2) \<Rightarrow> (out @ rest, s2)))"

definition heard :: "'q radio_event \<Rightarrow> bool" where
  "heard ev \<longleftrightarrow> ev_rx_done ev \<and> ev_ok ev"

section \<open>The abstract link\<close>

text \<open>What reassembly promises: at most one packet is in progress, its first part and sequence
  number; a frame either starts one, completes it, or replaces it.\<close>

type_synonym partial = "(u8 \<times> bytes) option"

definition spec_frame :: "bytes \<Rightarrow> partial \<Rightarrow> bytes list \<times> partial" where
  "spec_frame f p =
     (if length f < 2 then ([], p)
      else if \<not> isSplitPacket (hd f) then ([tl f], None)
      else (case p of
              Some (seq, first) \<Rightarrow>
                (if seq = packetSequence (hd f) then ([first @ tl f], None)
                 else ([], Some (packetSequence (hd f), tl f)))
            | None \<Rightarrow> ([], Some (packetSequence (hd f), tl f))))"

fun spec_frames :: "bytes list \<Rightarrow> partial \<Rightarrow> bytes list \<times> partial" where
  "spec_frames [] p = ([], p)"
| "spec_frames (f # fs) p =
     (case spec_frame f p of (out, p1) \<Rightarrow> (case spec_frames fs p1 of (rest, p2) \<Rightarrow> (out @ rest, p2)))"

definition in_progress :: "'q lora \<Rightarrow> partial" where
  "in_progress s = (if lo_rx_seq s = SEQ_UNSET then None else Some (lo_rx_seq s, lo_buffer s))"

lemma rx_frame_spec:
  "1 < length f \<Longrightarrow> (fst (rx_frame f s), in_progress (snd (rx_frame f s))) = spec_frame f (in_progress s)"
  by (auto simp: rx_frame_def spec_frame_def in_progress_def Let_def)

lemma rx_frame_frame:
  "lo_online (snd (rx_frame f s)) = lo_online s" "lo_tx_seq (snd (rx_frame f s)) = lo_tx_seq s"
  by (auto simp: rx_frame_def Let_def)

lemma in_progress_frame [simp]:
  "in_progress (s\<lparr>lo_irq_pending := b\<rparr>) = in_progress s"
  "in_progress (s\<lparr>lo_rssi := x, lo_snr := y, lo_signal_valid := v\<rparr>) = in_progress s"
  by (simp_all add: in_progress_def)

lemma loop_heard:
  assumes "lo_online s" "heard ev" and l: "lora_loop isr_build ev (snd (lora_isr w s)) = (out, armed, s1)"
  shows "(out, in_progress s1) = spec_frame (ev_frame ev) (in_progress s) \<and> lo_online s1"
proof (cases "1 < length (ev_frame ev)")
  case True
  define u where "u = (if isr_build then s\<lparr>lo_irq_pending := False\<rparr> else s\<lparr>lo_irq_pending := True\<rparr>)
      \<lparr>lo_rssi := ev_rssi ev, lo_snr := ev_snr ev, lo_signal_valid := True\<rparr>"
  have "rx_frame (ev_frame ev) u = (out, s1)"
    using assms True by (auto simp: lora_loop_def lora_isr_def heard_def u_def split: prod.splits if_splits)
  moreover have "in_progress u = in_progress s" "lo_online u" using assms(1) by (auto simp: u_def in_progress_def)
  ultimately show ?thesis
    using rx_frame_spec[OF True, of u] rx_frame_frame[of "ev_frame ev" u] by simp
next
  case False
  then have "out = []" "s1 = (if isr_build then s\<lparr>lo_irq_pending := False\<rparr> else s\<lparr>lo_irq_pending := True\<rparr>)"
    using assms by (auto simp: lora_loop_def lora_isr_def heard_def split: if_splits)
  then show ?thesis using False assms(1) by (auto simp: spec_frame_def in_progress_def)
qed

lemma receive_spec:
  "lo_online s \<Longrightarrow> list_all heard evs \<Longrightarrow> lora_receive isr_build evs s = (out, s1) \<Longrightarrow>
     spec_frames (map ev_frame evs) (in_progress s) = (out, in_progress s1)"
proof (induction evs arbitrary: s out)
  case (Cons ev evs)
  obtain o1 a u where l: "lora_loop isr_build ev (snd (lora_isr False s)) = (o1, a, u)"
    by (metis prod_cases3)
  obtain o2 where r: "lora_receive isr_build evs u = (o2, s1)" "out = o1 @ o2"
    using Cons.prems(3) l by (auto split: prod.splits)
  have h: "spec_frame (ev_frame ev) (in_progress s) = (o1, in_progress u)" "lo_online u"
    using loop_heard[OF Cons.prems(1) _ l] Cons.prems(2) by auto
  show ?case using Cons.IH[OF h(2) _ r(1)] Cons.prems(2) h(1) r(2) by simp
qed simp

section \<open>Properties\<close>

text \<open>C9: reassembly implements the abstract link. Over any frames heard, in either build of the receive
  loop, the packets delivered and the packet in progress are the abstract ones; what the buffer
  holds otherwise never shows.\<close>

theorem receive_refines_spec:
  assumes "lo_online s" "list_all heard evs" "in_progress s = p"
  shows "fst (lora_receive isr_build evs s) = fst (spec_frames (map ev_frame evs) p)
    \<and> in_progress (snd (lora_receive isr_build evs s)) = snd (spec_frames (map ev_frame evs) p)"
  using receive_spec[OF assms(1,2), of isr_build "fst (lora_receive isr_build evs s)" "snd (lora_receive isr_build evs s)"]
    assms(3) by simp

lemma send_one_spec:
  assumes "send_outgoing rand True True False data s = Some (fs, ok, s1)" "lo_online s" "data \<noteq> []"
  shows "spec_frames (fs @ gs) None = (let (out, p) = spec_frames gs None in (data # out, p)) \<and> lo_online s1"
proof (cases "length data \<le> LORA_MAX_PAYLOAD")
  case True
  then show ?thesis using assms by (auto simp: send_outgoing_def spec_frame_def split: prod.splits)
next
  case False
  then have len: "254 < length data" by (simp add: LORA_MAX_PAYLOAD_def)
  let ?h = "split_header rand (lo_tx_seq s AND HEADER_SEQ_MASK)"
  have fs: "fs = [?h # take 254 data, ?h # drop 254 data]" "lo_online s1"
    using assms len by (auto simp: send_outgoing_def LORA_MAX_PAYLOAD_def Let_def split: if_splits)
  have "take 254 data \<noteq> []" "drop 254 data \<noteq> []" using len by auto
  then show ?thesis using fs by (auto simp: spec_frame_def split: prod.splits)
qed

text \<open>C8: packets cross the link. An idle receiver that hears every frame delivers exactly the packets
  the sender was given, in order, single and split ones alike, whatever the random bits.\<close>

theorem packets_cross_the_link:
  assumes send: "lora_send ps s = Some (fs, s')" "lo_online s" "list_all (\<lambda>(rand, data). data \<noteq> []) ps"
    and hear: "map ev_frame evs = fs" "list_all heard evs" "lo_online r" "lo_rx_seq r = SEQ_UNSET"
  shows "fst (lora_receive isr_build evs r) = map snd ps"
proof -
  have "spec_frames fs None = (map snd ps, None)"
    using send
  proof (induction ps arbitrary: s fs)
    case (Cons p ps)
    obtain rand data where p: "p = (rand, data)" by fastforce
    obtain f ok s1 gs where f: "send_outgoing rand True True False data s = Some (f, ok, s1)"
      "lora_send ps s1 = Some (gs, s')" "fs = f @ gs"
      using Cons.prems(1) by (auto simp: p split: option.splits)
    have step: "spec_frames (f @ gs) None = (let (out, p) = spec_frames gs None in (data # out, p))" "lo_online s1"
      using send_one_spec[OF f(1) Cons.prems(2), of gs] Cons.prems(3) by (auto simp: p)
    show ?case using Cons.IH[OF f(2) step(2)] Cons.prems(3) step(1) f(3) by (simp add: p)
  qed simp
  then show ?thesis
    using receive_spec[OF hear(3,2), of isr_build "fst (lora_receive isr_build evs r)" "snd (lora_receive isr_build evs r)"]
      hear(1,4) by (simp add: in_progress_def)
qed

text \<open>A frame fits the radio. Sending fails to return, by a copy past the frame buffer, exactly for a
  packet over the hardware MTU of 508 bytes; otherwise it makes at most two frames of at most 255
  bytes.\<close>

theorem frames_fit_the_radio:
  assumes "lo_online s"
  shows "(send_outgoing rand ok1 ok2 throws data s = None \<longleftrightarrow> HW_MTU < length data)
    \<and> (send_outgoing rand ok1 ok2 throws data s = Some (fs, ok, s') \<longrightarrow>
         length fs \<le> 2 \<and> list_all (\<lambda>f. length f \<le> 255) fs)"
  using assms by (auto simp: send_outgoing_def HW_MTU_def LORA_MAX_PAYLOAD_def Let_def split: if_splits)


section \<open>Witnesses\<close>

definition up :: "nat lora" where
  "up = snd (lora_start True True (new_lora 0))"

lemma up_simps [simp]: "lo_online up" "lo_rx_seq up = SEQ_UNSET" "lo_tx_seq up = 0" "in_progress up = None"
  by (simp_all add: up_def lora_start_def new_lora_def in_progress_def)

definition clear_air :: "bytes \<Rightarrow> nat radio_event" where
  "clear_air f = \<lparr>ev_rx_done = True, ev_ok = True, ev_frame = f, ev_rssi = 0, ev_snr = 0\<rparr>"

lemma clear_air_simps [simp]: "heard (clear_air f)" "ev_frame (clear_air f) = f"
  by (simp_all add: clear_air_def heard_def)

lemma clear_air_list: "map ev_frame (map clear_air fs) = fs" "list_all heard (map clear_air fs)"
  by (induction fs) simp_all

definition long_packet :: bytes where "long_packet = replicate 300 0x41"

theorem receive_refines_spec_witness:
  "fst (lora_receive True (map clear_air [[0x08, 1], [0x08, 2]]) up) = [[1, 2]]"
  using receive_refines_spec[of up "map clear_air [[0x08, 1], [0x08, 2]]" None True, OF _ clear_air_list(2)]
  unfolding clear_air_list(1) by (simp add: spec_frame_def isSplitPacket_def packetSequence_def lora_defs)

theorem packets_cross_the_link_witness:
  "\<exists>fs s'. lora_send [(0x35, [1, 2]), (0xA0, long_packet)] up = Some (fs, s')
     \<and> fst (lora_receive False (map clear_air fs) up) = [[1, 2], long_packet]"
proof -
  obtain fs s' where s: "lora_send [(0x35, [1, 2]), (0xA0, long_packet)] up = Some (fs, s')"
    by (simp add: send_outgoing_def LORA_MAX_PAYLOAD_def long_packet_def Let_def)
  have "fst (lora_receive False (map clear_air fs) up) = map snd [(0x35 :: u8, [1, 2]), (0xA0, long_packet)]"
    by (rule packets_cross_the_link[OF s _ _ clear_air_list]) (simp_all add: long_packet_def)
  then show ?thesis using s by auto
qed

theorem frames_fit_the_radio_witness:
  "send_outgoing 0 True True False (replicate 509 0) up = None"
  using frames_fit_the_radio[of up 0 True True False "replicate 509 0"] by (simp add: HW_MTU_def)


end
