(* ===== verification/Sealed.thy ===== *)
theory Sealed
  imports Prelude
begin

unbundle bit_operations_syntax

text \<open>
  What the two encrypted file formats share: the primitives they are built on, which are outside
  the repository and parameters here, the comparison in constant time, the file system, and the
  layout \<open>version, header, ciphertext, code\<close>, stated once as a locale.
\<close>

section \<open>Primitives\<close>

text \<open>HMAC-SHA256 of a key and a message; AES-256 in counter mode of a key, an initial vector and
  data; HKDF of a length, a key and a salt.\<close>

record crypto =
  hmac :: "bytes \<Rightarrow> bytes \<Rightarrow> bytes"
  ctr_encrypt :: "bytes \<Rightarrow> bytes \<Rightarrow> bytes \<Rightarrow> bytes"
  ctr_decrypt :: "bytes \<Rightarrow> bytes \<Rightarrow> bytes \<Rightarrow> bytes"
  hkdf :: "nat \<Rightarrow> bytes \<Rightarrow> bytes \<Rightarrow> bytes"

definition crypto_laws :: "crypto \<Rightarrow> bool" where
  "crypto_laws c \<longleftrightarrow>
     (\<forall>k m. length (hmac c k m) = 32) \<and> (\<forall>n k s. length (hkdf c n k s) = n)
     \<and> (\<forall>k iv d. length (ctr_encrypt c k iv d) = length d \<and> length (ctr_decrypt c k iv d) = length d)
     \<and> (\<forall>k iv d. ctr_decrypt c k iv (ctr_encrypt c k iv d) = d)"

lemma crypto_lawsD:
  assumes "crypto_laws c"
  shows "length (hmac c k m) = 32" "length (hkdf c n k s) = n" "length (ctr_encrypt c k iv d) = length d"
    "length (ctr_decrypt c k iv d) = length d" "ctr_decrypt c k iv (ctr_encrypt c k iv d) = d"
  using assms by (simp_all add: crypto_laws_def)

text \<open>The primitives a witness uses: a length-preserving toy.\<close>

definition toy_crypto :: crypto where
  "toy_crypto =
     \<lparr>hmac = (\<lambda>k m. replicate 32 (fold (XOR) (k @ m) 0)),
      ctr_encrypt = (\<lambda>k iv. map ((XOR) 0x5A)), ctr_decrypt = (\<lambda>k iv. map ((XOR) 0x5A)),
      hkdf = (\<lambda>n k s. replicate n (fold (XOR) (k @ s) 0))\<rparr>"

lemma toy_crypto_laws: "crypto_laws toy_crypto"
  by (simp add: crypto_laws_def toy_crypto_def comp_def flip: xor.assoc)

section \<open>Comparison in constant time\<close>

definition ct_equal :: "bytes \<Rightarrow> bytes \<Rightarrow> nat \<Rightarrow> bool" where
  "ct_equal a b len \<longleftrightarrow> fold (\<lambda>i diff. diff OR (a ! i XOR b ! i)) [0..<len] 0 = 0"

lemma or_zero: "(x :: 'a::len word) OR y = 0 \<longleftrightarrow> x = 0 \<and> y = 0"
  by (metis or.right_idem or.left_neutral or_eq_0_iff)

lemma xor_zero: "(x :: 'a::len word) XOR y = 0 \<longleftrightarrow> x = y"
  by (metis xor.left_neutral xor.assoc xor_self_eq)

lemma ct_equal_iff:
  assumes "len \<le> length a" "len \<le> length b"
  shows "ct_equal a b len \<longleftrightarrow> take len a = take len b"
proof -
  have "fold (\<lambda>i diff. diff OR (a ! i XOR b ! i)) is x = 0 \<longleftrightarrow> x = 0 \<and> (\<forall>i \<in> set is. a ! i = b ! i)" for "is" x
    by (induction "is" arbitrary: x) (auto simp: or_zero xor_zero)
  then have "ct_equal a b len \<longleftrightarrow> (\<forall>i < len. a ! i = b ! i)" by (auto simp: ct_equal_def)
  also have "\<dots> \<longleftrightarrow> take len a = take len b" using assms by (simp add: list_eq_iff_nth_eq)
  finally show ?thesis .
qed

section \<open>The file system\<close>

text \<open>The calls of \<open>RNS::Utilities::OS\<close> on a state of the file system. A write returns the bytes
  written, a read the bytes read and the data.\<close>

record 'fs os =
  write_file :: "string \<Rightarrow> bytes \<Rightarrow> 'fs \<Rightarrow> nat \<times> 'fs"
  read_file :: "string \<Rightarrow> 'fs \<Rightarrow> nat \<times> bytes"
  file_exists :: "string \<Rightarrow> 'fs \<Rightarrow> bool"
  remove_file :: "string \<Rightarrow> 'fs \<Rightarrow> 'fs"
  file_size :: "string \<Rightarrow> 'fs \<Rightarrow> nat option"

text \<open>What they do to the contents \<open>view fs\<close>. A write may fall short; then it returns fewer bytes, and
  only other files are known to be as they were.\<close>

definition os_laws :: "('fs \<Rightarrow> string \<Rightarrow> bytes option) \<Rightarrow> 'fs os \<Rightarrow> bool" where
  "os_laws view os \<longleftrightarrow>
     (\<forall>p fs. file_exists os p fs \<longleftrightarrow> view fs p \<noteq> None)
     \<and> (\<forall>p fs. file_size os p fs = map_option length (view fs p))
     \<and> (\<forall>p fs. case view fs p of None \<Rightarrow> fst (read_file os p fs) = 0 | Some b \<Rightarrow> read_file os p fs = (length b, b))
     \<and> (\<forall>p fs. view (remove_file os p fs) = (view fs)(p := None))
     \<and> (\<forall>p b fs. fst (write_file os p b fs) = length b \<longrightarrow> view (snd (write_file os p b fs)) = (view fs)(p \<mapsto> b))
     \<and> (\<forall>p b fs. fst (write_file os p b fs) \<le> length b)
     \<and> (\<forall>p b fs q. q \<noteq> p \<longrightarrow> view (snd (write_file os p b fs)) q = view fs q)"

definition writes_succeed :: "'fs os \<Rightarrow> bool" where
  "writes_succeed os \<longleftrightarrow> (\<forall>p b fs. fst (write_file os p b fs) = length b)"

lemma os_lawsD:
  assumes "os_laws view os"
  shows "file_exists os p fs \<longleftrightarrow> view fs p \<noteq> None" "file_size os p fs = map_option length (view fs p)"
    "view fs p = Some b \<Longrightarrow> read_file os p fs = (length b, b)"
    "view fs p = None \<Longrightarrow> fst (read_file os p fs) = 0"
    "view (remove_file os p fs) = (view fs)(p := None)"
    "fst (write_file os p b fs) = length b \<Longrightarrow> view (snd (write_file os p b fs)) = (view fs)(p \<mapsto> b)"
    "q \<noteq> p \<Longrightarrow> view (snd (write_file os p b fs)) q = view fs q"
proof -
  note laws = assms[unfolded os_laws_def]
  note tl = laws[THEN conjunct2, THEN conjunct2]
  show "file_exists os p fs \<longleftrightarrow> view fs p \<noteq> None" by (rule laws[THEN conjunct1, rule_format])
  show "file_size os p fs = map_option length (view fs p)"
    by (rule laws[THEN conjunct2, THEN conjunct1, rule_format])
  have rd: "case view fs p of None \<Rightarrow> fst (read_file os p fs) = 0 | Some b \<Rightarrow> read_file os p fs = (length b, b)"
    by (rule tl[THEN conjunct1, rule_format])
  show "view fs p = Some b \<Longrightarrow> read_file os p fs = (length b, b)" "view fs p = None \<Longrightarrow> fst (read_file os p fs) = 0"
    using rd by simp_all
  show "view (remove_file os p fs) = (view fs)(p := None)" by (rule tl[THEN conjunct2, THEN conjunct1, rule_format])
  show "fst (write_file os p b fs) = length b \<Longrightarrow> view (snd (write_file os p b fs)) = (view fs)(p \<mapsto> b)"
    by (rule tl[THEN conjunct2, THEN conjunct2, THEN conjunct1, rule_format])
  show "q \<noteq> p \<Longrightarrow> view (snd (write_file os p b fs)) q = view fs q"
    by (rule tl[THEN conjunct2, THEN conjunct2, THEN conjunct2, THEN conjunct2, rule_format])
qed

text \<open>A file system that is a map of its contents.\<close>

definition map_os :: "(string \<Rightarrow> bytes option) os" where
  "map_os =
     \<lparr>write_file = (\<lambda>p b fs. (length b, fs(p \<mapsto> b))),
      read_file = (\<lambda>p fs. case fs p of None \<Rightarrow> (0, []) | Some b \<Rightarrow> (length b, b)),
      file_exists = (\<lambda>p fs. fs p \<noteq> None),
      remove_file = (\<lambda>p fs. fs(p := None)),
      file_size = (\<lambda>p fs. map_option length (fs p))\<rparr>"

lemma map_os_laws: "os_laws (\<lambda>fs. fs) map_os" "writes_succeed map_os"
  by (auto simp: os_laws_def writes_succeed_def map_os_def split: option.splits)

section \<open>The layout\<close>

lemma take_drop_numeral_add_Cons [simp]:
  "drop (numeral k + n) (x # xs) = drop (pred_numeral k + n) xs"
  "take (numeral k + n) (x # xs) = x # take (pred_numeral k + n) xs"
  by (simp_all add: numeral_eq_Suc)

text \<open>A sealed blob is a version byte, a header of \<open>hdr\<close> bytes, the ciphertext and a code of 32 bytes;
  \<open>ovh\<close> is what it adds to the plaintext.\<close>

locale sealed_layout =
  fixes hdr ovh :: nat
  assumes overhead: "ovh = hdr + 33"
begin

lemma blob_parts:
  fixes h code ct :: bytes
  assumes "length h = hdr" "length code = 32"
  shows "length (v # h @ ct @ code) = length ct + ovh"
    "take hdr (drop 1 (v # h @ ct @ code)) = h"
    "take (length ct) (drop (Suc hdr) (v # h @ ct @ code)) = ct"
    "drop (Suc hdr + length ct) (v # h @ ct @ code) = code"
  using assms by (simp_all add: overhead)

lemma blob_split:
  fixes blob :: bytes
  assumes "ovh \<le> length blob"
  obtains v h ct code where "blob = v # h @ ct @ code" "length h = hdr" "length code = 32" "length ct = length blob - ovh"
proof -
  let ?n = "length blob - ovh"
  have "blob \<noteq> []" using assms overhead by auto
  then obtain v rest where b: "blob = v # rest" by (cases blob) auto
  have len: "length rest = hdr + ?n + 32" using assms overhead by (simp add: b)
  show ?thesis
  proof (rule that)
    show "blob = v # take hdr rest @ take ?n (drop hdr rest) @ drop ?n (drop hdr rest)"
      by (simp only: b append_take_drop_id)
  qed (use len in simp_all)
qed

lemma open_parts:
  fixes blob :: bytes
  assumes "ovh \<le> length blob"
  shows "blob = hd blob # take hdr (drop 1 blob) @ take (length blob - ovh) (drop (Suc hdr) blob)
      @ drop (Suc hdr + (length blob - ovh)) blob"
    "length (take hdr (drop 1 blob)) = hdr" "length (take (length blob - ovh) (drop (Suc hdr) blob)) = length blob - ovh"
    "length (drop (Suc hdr + (length blob - ovh)) blob) = 32"
proof -
  obtain v h ct code where b: "blob = v # h @ ct @ code" "length h = hdr" "length code = 32" "length ct = length blob - ovh"
    by (rule blob_split[OF assms])
  have p: "take hdr (drop 1 blob) = h" "take (length blob - ovh) (drop (Suc hdr) blob) = ct"
    "drop (Suc hdr + (length blob - ovh)) blob = code" "hd blob = v"
    using blob_parts[OF b(2,3), where v = v and ct = ct, folded b(1)] b(1)
    by (simp_all only: b(4) list.sel(1))
  show "blob = hd blob # take hdr (drop 1 blob) @ take (length blob - ovh) (drop (Suc hdr) blob)
      @ drop (Suc hdr + (length blob - ovh)) blob"
    unfolding p by (rule b(1))
  show "length (take hdr (drop 1 blob)) = hdr" "length (take (length blob - ovh) (drop (Suc hdr) blob)) = length blob - ovh"
    "length (drop (Suc hdr + (length blob - ovh)) blob) = 32"
    unfolding p by (rule b)+
qed

end

end
