(* ===== verification/EncryptedStore.thy ===== *)
theory EncryptedStore
  imports Sealed
begin

text \<open>
  \<open>lib/EncryptedStore\<close>: message blobs encrypted under the identity's key. The random bytes of the
  initial vector and whether an allocation succeeds are arguments of the operations that use them.
\<close>

section \<open>The operations\<close>

text \<open>The parts of an identity the store reads: the X25519 private key and the hash.\<close>

record identity =
  encryptionPrivateKey :: bytes
  id_hash :: bytes

definition ENCSTORE_FILE_VERSION :: u8 where "ENCSTORE_FILE_VERSION = 0x01"

definition ENCSTORE_FILE_OVERHEAD :: nat where "ENCSTORE_FILE_OVERHEAD = 49"

definition derive_keys :: "crypto \<Rightarrow> identity \<Rightarrow> bytes" where
  "derive_keys c who = take 64 (hkdf c 64 (encryptionPrivateKey who) (id_hash who))"

definition compute_mac :: "crypto \<Rightarrow> bytes \<Rightarrow> u8 \<Rightarrow> bytes \<Rightarrow> bytes \<Rightarrow> bytes" where
  "compute_mac c mac_key version iv ct = hmac c (take 32 mac_key) ([version] @ take 16 iv @ ct)"

definition encstore_encrypt :: "crypto \<Rightarrow> bytes \<Rightarrow> bool \<Rightarrow> identity \<Rightarrow> bytes \<Rightarrow> bytes option" where
  "encstore_encrypt c iv malloc_ok who data =
     (let keys = derive_keys c who in
      if \<not> malloc_ok then None
      else let ct = ctr_encrypt c (take 32 keys) (take 16 iv) data;
               mac = compute_mac c (drop 32 keys) ENCSTORE_FILE_VERSION iv ct
           in Some (ENCSTORE_FILE_VERSION # take 16 iv @ ct @ take 32 mac))"

definition encstore_decrypt :: "crypto \<Rightarrow> identity \<Rightarrow> bytes \<Rightarrow> bytes option" where
  "encstore_decrypt c who blob =
     (if length blob < ENCSTORE_FILE_OVERHEAD then None
      else let ctlen = length blob - ENCSTORE_FILE_OVERHEAD;
               version = hd blob;
               iv = take 16 (drop 1 blob);
               ct = take ctlen (drop 17 blob);
               mac_stored = drop (17 + ctlen) blob;
               keys = derive_keys c who;
               mac_expected = compute_mac c (drop 32 keys) version iv ct
           in if \<not> ct_equal mac_expected mac_stored 32 then None
              else Some (ctr_decrypt c (take 32 keys) iv ct))"

definition encstore_write ::
  "crypto \<Rightarrow> 'fs os \<Rightarrow> bytes \<Rightarrow> bool \<Rightarrow> string \<Rightarrow> identity \<Rightarrow> bytes \<Rightarrow> 'fs \<Rightarrow> bool \<times> 'fs" where
  "encstore_write c os iv malloc_ok path who data fs =
     (case encstore_encrypt c iv malloc_ok who data of
        None \<Rightarrow> (False, fs)
      | Some file_data \<Rightarrow> let (written, fs) = write_file os path file_data fs in (written = length file_data, fs))"

definition encstore_read :: "crypto \<Rightarrow> 'fs os \<Rightarrow> string \<Rightarrow> identity \<Rightarrow> nat \<Rightarrow> 'fs \<Rightarrow> bytes option" where
  "encstore_read c os path who len fs =
     (let (read, file_data) = read_file os path fs in
      if read \<noteq> len + ENCSTORE_FILE_OVERHEAD then None
      else case encstore_decrypt c who (take read file_data) of
             None \<Rightarrow> None
           | Some plain \<Rightarrow> if length plain \<noteq> len then None else Some plain)"

definition encstore_size :: "'fs os \<Rightarrow> string \<Rightarrow> 'fs \<Rightarrow> nat" where
  "encstore_size os path fs =
     (case file_size os path fs of
        None \<Rightarrow> 0
      | Some sz \<Rightarrow> if ENCSTORE_FILE_OVERHEAD < sz then sz - ENCSTORE_FILE_OVERHEAD else 0)"

section \<open>The layout\<close>

interpretation enc: sealed_layout 16 ENCSTORE_FILE_OVERHEAD
  by unfold_locales (simp add: ENCSTORE_FILE_OVERHEAD_def)

lemma compute_mac_length: "crypto_laws c \<Longrightarrow> length (compute_mac c k v iv ct) = 32"
  by (simp add: compute_mac_def crypto_lawsD)

lemma decrypt_parts:
  assumes "crypto_laws c" "length iv = 16" "length code = 32"
  shows "encstore_decrypt c who (v # iv @ ct @ code) =
    (if compute_mac c (drop 32 (derive_keys c who)) v iv ct = code
     then Some (ctr_decrypt c (take 32 (derive_keys c who)) iv ct) else None)"
  using assms by (simp add: encstore_decrypt_def Let_def ct_equal_iff enc.overhead compute_mac_length)

text \<open>A blob with any version byte and a fitting code opens.\<close>

lemma decrypt_sealed:
  assumes "crypto_laws c" "length iv = 16"
  shows "encstore_decrypt c who (v # iv @ ct @ compute_mac c (drop 32 (derive_keys c who)) v iv ct)
    = Some (ctr_decrypt c (take 32 (derive_keys c who)) iv ct)"
  using assms by (simp add: decrypt_parts compute_mac_length)

lemma encrypt_sealed:
  assumes "crypto_laws c" "length iv = 16" "encstore_encrypt c iv malloc_ok who data = Some blob"
  shows "length blob = length data + ENCSTORE_FILE_OVERHEAD" "encstore_decrypt c who blob = Some data"
proof -
  define ct where "ct = ctr_encrypt c (take 32 (derive_keys c who)) iv data"
  have b: "blob = ENCSTORE_FILE_VERSION # iv @ ct
      @ compute_mac c (drop 32 (derive_keys c who)) ENCSTORE_FILE_VERSION iv ct"
    using assms by (simp add: encstore_encrypt_def Let_def ct_def compute_mac_length split: if_splits)
  show "length blob = length data + ENCSTORE_FILE_OVERHEAD"
    unfolding b using assms
    by (simp add: enc.overhead compute_mac_length ct_def crypto_lawsD)
  show "encstore_decrypt c who blob = Some data"
    unfolding b by (simp add: decrypt_sealed assms ct_def crypto_lawsD)
qed

section \<open>Properties\<close>

text \<open>C11: a blob opens exactly when it is at least 49 bytes long and its last 32 bytes are the code of
  all the bytes before them under the identity's second key; what comes out is the decryption of
  the bytes between the initial vector and the code. A truncated, tampered or foreign blob whose
  code does not fit gives nothing.\<close>

theorem blob_opens_iff_authentic:
  assumes "crypto_laws c"
  shows "encstore_decrypt c who blob = Some plain \<longleftrightarrow>
    49 \<le> length blob
    \<and> drop (length blob - 32) blob
        = hmac c (take 32 (drop 32 (hkdf c 64 (encryptionPrivateKey who) (id_hash who)))) (take (length blob - 32) blob)
    \<and> plain = ctr_decrypt c (take 32 (hkdf c 64 (encryptionPrivateKey who) (id_hash who)))
        (take 16 (drop 1 blob)) (take (length blob - 49) (drop 17 blob))"
proof (cases "49 \<le> length blob")
  case False
  then show ?thesis by (simp add: encstore_decrypt_def ENCSTORE_FILE_OVERHEAD_def)
next
  case True
  then have len: "ENCSTORE_FILE_OVERHEAD \<le> length blob" by (simp add: ENCSTORE_FILE_OVERHEAD_def)
  obtain v iv code ct where b: "blob = v # iv @ ct @ code" "length iv = 16" "length code = 32"
    "length ct = length blob - ENCSTORE_FILE_OVERHEAD"
    by (rule enc.blob_split[OF len])
  have k: "derive_keys c who = hkdf c 64 (encryptionPrivateKey who) (id_hash who)"
    using assms by (simp add: derive_keys_def crypto_lawsD)
  have p: "drop (length blob - 32) blob = code" "take (length blob - 32) blob = v # iv @ ct"
    "take 16 (drop 1 blob) = iv" "take (length blob - 49) (drop 17 blob) = ct"
    using b(2,3) by (simp_all add: b(1))
  have m: "compute_mac c k v iv ct = hmac c (take 32 k) (v # iv @ ct)" for k
    using b(2) by (simp add: compute_mac_def)
  show ?thesis
    unfolding p k[symmetric] m[symmetric] unfolding b(1) decrypt_parts[OF assms b(2,3)]
    using True by (auto simp: b(1))
qed

definition demo_identity :: identity where
  "demo_identity = \<lparr>encryptionPrivateKey = [1, 2, 3], id_hash = [9, 8]\<rparr>"

theorem blob_opens_iff_authentic_witness:
  "encstore_decrypt toy_crypto demo_identity (1 # replicate 16 0 @ [0x32] @ replicate 32 0x33) = Some [0x68]
   \<and> encstore_decrypt toy_crypto demo_identity (1 # replicate 16 0 @ [0x32] @ replicate 32 0x34) \<noteq> Some [0x68]"
  unfolding blob_opens_iff_authentic[OF toy_crypto_laws, where who = demo_identity]
  by (intro conjI; code_simp)

text \<open>C10: a message written to the store is read back. When the write reports success the size of the
  file is the size of the message, reading that many bytes with the same identity gives the
  message, asking for any other length gives nothing, and no other file has changed.\<close>

theorem message_survives_the_store:
  assumes "crypto_laws c" "os_laws view os" "length iv = 16"
    and "encstore_write c os iv malloc_ok path who data fs = (True, fs')"
  shows "encstore_size os path fs' = length data
    \<and> encstore_read c os path who len fs' = (if len = length data then Some data else None)
    \<and> (q \<noteq> path \<longrightarrow> view fs' q = view fs q)"
proof (intro conjI impI)
  obtain blob where e: "encstore_encrypt c iv malloc_ok who data = Some blob"
    and w: "fst (write_file os path blob fs) = length blob" "fs' = snd (write_file os path blob fs)"
    using assms(4) by (auto simp: encstore_write_def split: option.splits prod.splits)
  note o = encrypt_sealed[OF assms(1,3) e]
  have v: "view fs' path = Some blob" using os_lawsD(6)[OF assms(2) w(1)] w(2) by simp
  show "encstore_size os path fs' = length data"
    using o(1) by (simp add: encstore_size_def os_lawsD(2)[OF assms(2)] v)
  show "encstore_read c os path who len fs' = (if len = length data then Some data else None)"
    using o by (simp add: encstore_read_def os_lawsD(3)[OF assms(2) v])
  show "q \<noteq> path \<Longrightarrow> view fs' q = view fs q" using os_lawsD(7)[OF assms(2)] w(2) by simp
qed

lemma encstore_write_map_os: "\<exists>fs'. encstore_write c map_os iv True path who data fs = (True, fs')"
  by (simp add: encstore_write_def encstore_encrypt_def Let_def map_os_def)

theorem message_survives_the_store_witness:
  "\<exists>fs'. encstore_write toy_crypto map_os (replicate 16 7) True ''msg'' demo_identity [1, 2, 3] Map.empty = (True, fs')
     \<and> encstore_read toy_crypto map_os ''msg'' demo_identity 3 fs' = Some [1, 2, 3]"
proof -
  obtain fs' where w: "encstore_write toy_crypto map_os (replicate 16 7) True ''msg'' demo_identity [1, 2, 3] Map.empty
      = (True, fs')"
    using encstore_write_map_os by blast
  have "encstore_read toy_crypto map_os ''msg'' demo_identity 3 fs' = Some [1, 2, 3]"
    using message_survives_the_store[OF toy_crypto_laws map_os_laws(1) length_replicate w] by simp
  with w show ?thesis by blast
qed

end
