(* ===== verification/StoreProbe.thy ===== *)
theory StoreProbe
  imports EncryptedStore
begin

text \<open>
  The self-test of the message store in \<open>bringup_lxmf\<close>, \<open>src/main.cpp\<close>: it seals a probe of 512 bytes,
  writes it, reads it back, opens it and compares, and removes the file in any case.
\<close>

section \<open>The operations\<close>

definition probe_path :: string where "probe_path = ''/.thicket_selftest''"

definition probe :: bytes where "probe = map (\<lambda>i. of_nat (i * 31 + 7)) [0..<512]"

text \<open>The result is what is wrong, with the file system after the test.\<close>

definition store_selftest ::
  "crypto \<Rightarrow> 'fs os \<Rightarrow> bytes \<Rightarrow> bool \<Rightarrow> identity \<Rightarrow> 'fs \<Rightarrow> string option \<times> 'fs" where
  "store_selftest c os iv malloc_ok who fs =
     (let (why, fs) =
        (case encstore_encrypt c iv malloc_ok who probe of
           None \<Rightarrow> (Some ''codec could not encrypt - out of memory?'', fs)
         | Some sealed \<Rightarrow>
             let (written, fs) = write_file os probe_path sealed fs in
             if written \<noteq> length sealed
             then (Some ''could not write a message-sized file (see free space below)'', fs)
             else let (got, read_back) = read_file os probe_path fs in
                  if got \<noteq> length sealed then (Some ''wrote the file but could not read it back'', fs)
                  else case encstore_decrypt c who read_back of
                         None \<Rightarrow> (Some ''stored file failed authentication - decode path is broken'', fs)
                       | Some opened \<Rightarrow>
                           if length opened \<noteq> length probe \<or> opened \<noteq> probe
                           then (Some ''round trip returned different bytes - codec is not lossless'', fs)
                           else (None, fs))
      in (why, remove_file os probe_path fs))"

section \<open>Properties\<close>



end
