(* ===== verification/Password.thy ===== *)
theory Password
  imports Sealed
begin

unbundle bit_operations_syntax

text \<open>
  \<open>lib/Password\<close>: a file sealed under a password. A password is the bytes of the C string, up to its
  first zero; the random bytes and whether each allocation succeeds are arguments.
\<close>

section \<open>The operations\<close>

definition PBKDF2_ITERATIONS :: nat where "PBKDF2_ITERATIONS = 100000"

definition PASSWORD_FILE_VERSION :: u8 where "PASSWORD_FILE_VERSION = 0x01"

definition PASSWORD_FILE_OVERHEAD :: nat where "PASSWORD_FILE_OVERHEAD = 65"

text \<open>One turn of the loop, on the running \<open>u\<close> and the accumulator \<open>out32\<close>.\<close>

definition pbkdf2_turn :: "crypto \<Rightarrow> bytes \<Rightarrow> bytes \<times> bytes \<Rightarrow> bytes \<times> bytes" where
  "pbkdf2_turn c pw = (\<lambda>(u, out32). let u = hmac c pw u in (u, map2 (XOR) out32 u))"

definition pbkdf2_block :: "crypto \<Rightarrow> bytes \<Rightarrow> bytes \<Rightarrow> u32 \<Rightarrow> bytes" where
  "pbkdf2_block c pw salt block_num =
     (let blk = [ucast (drop_bit 24 block_num), ucast (drop_bit 16 block_num), ucast (drop_bit 8 block_num),
                 ucast block_num];
          u = hmac c pw (take 16 salt @ blk)
      in snd ((pbkdf2_turn c pw ^^ (PBKDF2_ITERATIONS - 1)) (u, u)))"

definition pbkdf2_64 :: "crypto \<Rightarrow> bytes \<Rightarrow> bytes \<Rightarrow> bytes" where
  "pbkdf2_64 c password salt =
     (let pw = takeWhile (\<lambda>b. b \<noteq> 0) password in pbkdf2_block c pw salt 1 @ pbkdf2_block c pw salt 2)"

definition hmac_sha256 :: "crypto \<Rightarrow> bytes \<Rightarrow> bytes \<Rightarrow> bytes" where
  "hmac_sha256 c key msg = hmac c (take 32 key) msg"

definition password_protect ::
  "crypto \<Rightarrow> 'fs os \<Rightarrow> bytes \<Rightarrow> bytes \<Rightarrow> bool \<Rightarrow> bool \<Rightarrow> string \<Rightarrow> bytes \<Rightarrow> bytes \<Rightarrow> 'fs \<Rightarrow> bool \<times> 'fs" where
  "password_protect c os salt_bytes iv_bytes ct_ok auth_ok path password data fs =
     (let salt = take 16 salt_bytes;
          iv = take 16 iv_bytes;
          keys = pbkdf2_64 c password salt
      in if \<not> ct_ok then (False, fs)
         else let ct = ctr_encrypt c (take 32 keys) iv data
              in if \<not> auth_ok then (False, fs)
                 else let auth = PASSWORD_FILE_VERSION # salt @ iv @ ct;
                          mac = hmac_sha256 c (drop 32 keys) auth;
                          file_len = PASSWORD_FILE_OVERHEAD + length data;
                          file_data = PASSWORD_FILE_VERSION # salt @ iv @ ct @ take 32 mac;
                          (written, fs) = write_file os path file_data fs
                      in (written = file_len, fs))"

definition password_open ::
  "crypto \<Rightarrow> 'fs os \<Rightarrow> bool \<Rightarrow> string \<Rightarrow> bytes \<Rightarrow> nat \<Rightarrow> 'fs \<Rightarrow> bytes option" where
  "password_open c os auth_ok path password len fs =
     (let (read, file_data) = read_file os path fs in
      if read \<noteq> len + PASSWORD_FILE_OVERHEAD then None
      else let version = hd file_data;
               salt = take 16 (drop 1 file_data);
               iv = take 16 (drop 17 file_data);
               ct = take len (drop 33 file_data);
               mac_stored = drop (33 + len) file_data;
               keys = pbkdf2_64 c password salt
           in if \<not> auth_ok then None
              else let auth = version # salt @ iv @ ct;
                       mac_expected = hmac_sha256 c (drop 32 keys) auth
                   in if \<not> ct_equal mac_expected mac_stored 32 then None
                      else Some (ctr_decrypt c (take 32 keys) iv ct))"

section \<open>Key derivation\<close>

text \<open>The specification, RFC 2898: \<open>U 1\<close> is the code of salt and block number, each next one the code of
  the one before, and a byte of the block is the exclusive or of that byte of all of them.\<close>

fun pbkdf2_U :: "crypto \<Rightarrow> bytes \<Rightarrow> bytes \<Rightarrow> nat \<Rightarrow> bytes" where
  "pbkdf2_U c pw msg 0 = hmac c pw msg"
| "pbkdf2_U c pw msg (Suc n) = hmac c pw (pbkdf2_U c pw msg n)"

lemma pbkdf2_U_length: "crypto_laws c \<Longrightarrow> length (pbkdf2_U c pw msg n) = 32"
  by (cases n) (simp_all add: crypto_lawsD)

lemma pbkdf2_turns:
  assumes "crypto_laws c"
  shows "(pbkdf2_turn c pw ^^ n) (hmac c pw msg, hmac c pw msg)
    = (pbkdf2_U c pw msg n, map (\<lambda>j. fold (\<lambda>i x. x XOR pbkdf2_U c pw msg i ! j) [0..<Suc n] 0) [0..<32])"
proof (induction n)
  case 0
  show ?case using assms by (simp add: crypto_lawsD list_eq_iff_nth_eq)
next
  case (Suc n)
  show ?case
    unfolding funpow.simps comp_def Suc
    by (simp add: pbkdf2_turn_def Let_def list_eq_iff_nth_eq crypto_lawsD[OF assms])
qed

lemma pbkdf2_block_length: "crypto_laws c \<Longrightarrow> length (pbkdf2_block c pw salt b) = 32"
  by (simp add: pbkdf2_block_def Let_def pbkdf2_turns)

lemma pbkdf2_64_length: "crypto_laws c \<Longrightarrow> length (pbkdf2_64 c pw salt) = 64"
  by (simp add: pbkdf2_64_def Let_def pbkdf2_block_length)

section \<open>The layout\<close>

interpretation pw: sealed_layout 32 PASSWORD_FILE_OVERHEAD
  by unfold_locales (simp add: PASSWORD_FILE_OVERHEAD_def)

text \<open>What opening does with a file cut into its parts; \<open>v\<close> is any version byte.\<close>

lemma open_sealed:
  assumes "crypto_laws c" "length salt = 16" "length iv = 16" "length code = 32"
    and "read_file os path fs = (length ct + 65, v # salt @ iv @ ct @ code)"
  shows "password_open c os auth_ok path password len fs =
    (if len = length ct \<and> auth_ok \<and> hmac_sha256 c (drop 32 (pbkdf2_64 c password salt)) (v # salt @ iv @ ct) = code
     then Some (ctr_decrypt c (take 32 (pbkdf2_64 c password salt)) iv ct) else None)"
proof (cases "len = length ct")
  case True
  have "length (hmac_sha256 c k m) = 32" for k m using assms(1) by (simp add: hmac_sha256_def crypto_lawsD)
  then show ?thesis
    using assms(2-4) True by (simp add: password_open_def Let_def assms(5) PASSWORD_FILE_OVERHEAD_def ct_equal_iff)
qed (simp add: password_open_def assms(5) PASSWORD_FILE_OVERHEAD_def)

lemma password_file_reopens:
  assumes "crypto_laws c" "os_laws view os" "length salt = 16" "length iv = 16"
    and "password_protect c os salt iv ct_ok auth_ok path pw data fs = (ok, fs')"
  shows "ok \<Longrightarrow> password_open c os True path pw len fs' = (if len = length data then Some data else None)"
    and "q \<noteq> path \<Longrightarrow> view fs' q = view fs q"
    and "\<forall>b. b \<noteq> [] \<longrightarrow> fst (write_file os path b fs) < length b \<Longrightarrow> \<not> ok"
proof -
  define keys where "keys = pbkdf2_64 c pw salt"
  define ct where "ct = ctr_encrypt c (take 32 keys) iv data"
  define code where "code = hmac_sha256 c (drop 32 keys) (PASSWORD_FILE_VERSION # salt @ iv @ ct)"
  define blob where "blob = PASSWORD_FILE_VERSION # salt @ iv @ ct @ code"
  have code: "length code = 32" and ct: "length ct = length data"
    using assms(1) by (simp_all add: code_def hmac_sha256_def ct_def crypto_lawsD)
  have len: "length blob = PASSWORD_FILE_OVERHEAD + length data"
    using assms(3,4) code ct by (simp add: blob_def PASSWORD_FILE_OVERHEAD_def)
  have protect: "password_protect c os salt iv ct_ok auth_ok path pw data fs =
    (if ct_ok \<and> auth_ok then (fst (write_file os path blob fs) = length blob, snd (write_file os path blob fs)) else (False, fs))"
    using assms(3,4) code
    by (simp add: password_protect_def Let_def case_prod_unfold len flip: keys_def ct_def code_def blob_def)
  have ok: "ok \<Longrightarrow> view fs' path = Some blob"
    using assms(5) os_lawsD(6)[OF assms(2), of path blob fs] by (simp add: protect split: if_splits)
  show "q \<noteq> path \<Longrightarrow> view fs' q = view fs q"
    using assms(5) os_lawsD(7)[OF assms(2)] by (auto simp: protect split: if_splits)
  show "\<forall>b. b \<noteq> [] \<longrightarrow> fst (write_file os path b fs) < length b \<Longrightarrow> \<not> ok"
    using assms(5) by (auto simp: protect blob_def split: if_splits dest!: spec[of _ blob])
  show "password_open c os True path pw len fs' = (if len = length data then Some data else None)" if "ok"
  proof -
    have "read_file os path fs' = (length ct + 65, PASSWORD_FILE_VERSION # salt @ iv @ ct @ code)"
      using os_lawsD(3)[OF assms(2) ok[OF that]] len ct by (simp add: PASSWORD_FILE_OVERHEAD_def blob_def)
    from open_sealed[OF assms(1,3,4) code this] show ?thesis
      by (simp add: ct crypto_lawsD[OF assms(1)] flip: keys_def code_def) (simp add: ct_def crypto_lawsD[OF assms(1)])
  qed
qed

section \<open>Properties\<close>

text \<open>C17: a derived block is the one of RFC 2898: each byte is the exclusive or of that byte of the
  hundred thousand codes, the first of salt and block number, each next one of the one before.\<close>

theorem pbkdf2_block_is_rfc2898:
  assumes "crypto_laws c" "length salt = 16" "j < 32"
  shows "pbkdf2_block c pw salt b ! j =
    fold (\<lambda>i x. x XOR pbkdf2_U c pw (salt @ [ucast (drop_bit 24 b), ucast (drop_bit 16 b), ucast (drop_bit 8 b), ucast b]) i ! j)
      [0..<100000] 0"
  using assms by (simp add: pbkdf2_block_def Let_def pbkdf2_turns PBKDF2_ITERATIONS_def del: upt_Suc)

theorem pbkdf2_block_is_rfc2898_witness:
  "pbkdf2_block toy_crypto [1, 2] (replicate 16 5) 0x01020304 ! 3 =
    fold (\<lambda>i x. x XOR pbkdf2_U toy_crypto [1, 2] (replicate 16 5 @ [1, 2, 3, 4]) i ! 3) [0..<100000] 0"
proof -
  have blk: "[ucast (drop_bit 24 (0x01020304 :: u32)), ucast (drop_bit 16 (0x01020304 :: u32)),
      ucast (drop_bit 8 (0x01020304 :: u32)), ucast (0x01020304 :: u32)] = ([1, 2, 3, 4] :: u8 list)"
    by code_simp
  show ?thesis
    unfolding blk[symmetric] by (rule pbkdf2_block_is_rfc2898[OF toy_crypto_laws length_replicate]) simp
qed

text \<open>C16: a file sealed under a password opens under it. When sealing reports success, opening with the
  same password and the length of the data gives the data, asking for another length gives nothing,
  and no other file has changed. When the write falls short, sealing reports failure.\<close>

theorem password_file_round_trip:
  assumes "crypto_laws c" "os_laws view os" "length salt = 16" "length iv = 16"
    and "password_protect c os salt iv ct_ok auth_ok path pw data fs = (ok, fs')"
  shows "(ok \<longrightarrow> password_open c os True path pw len fs' = (if len = length data then Some data else None))
    \<and> (q \<noteq> path \<longrightarrow> view fs' q = view fs q)
    \<and> ((\<forall>b. b \<noteq> [] \<longrightarrow> fst (write_file os path b fs) < length b) \<longrightarrow> \<not> ok)"
  using password_file_reopens[OF assms] by blast

lemma password_protect_map_os:
  assumes "crypto_laws c" "length salt = 16" "length iv = 16"
  shows "\<exists>fs'. password_protect c map_os salt iv True True path pw data fs = (True, fs')"
  using assms
  by (simp add: password_protect_def Let_def map_os_def PASSWORD_FILE_OVERHEAD_def hmac_sha256_def crypto_lawsD)

theorem password_file_round_trip_witness:
  "\<exists>fs'. password_protect toy_crypto map_os (replicate 16 7) (replicate 16 9) True True ''/f'' [1, 2] [3, 4, 5] Map.empty = (True, fs')
     \<and> password_open toy_crypto map_os True ''/f'' [1, 2] 3 fs' = Some [3, 4, 5]"
proof -
  obtain fs' where w: "password_protect toy_crypto map_os (replicate 16 7) (replicate 16 9) True True ''/f'' [1, 2] [3, 4, 5]
      Map.empty = (True, fs')"
    using password_protect_map_os[OF toy_crypto_laws length_replicate length_replicate] by blast
  have "password_open toy_crypto map_os True ''/f'' [1, 2] 3 fs' = Some [3, 4, 5]"
    using password_file_round_trip[OF toy_crypto_laws map_os_laws(1) length_replicate length_replicate w] by simp
  with w show ?thesis by blast
qed

end
