(* ===== verification/Vault.thy ===== *)
theory Vault
  imports Password
begin

text \<open>
  The identity of the device, \<open>src/main.cpp\<close>: the sealed vault with its count of attempts, and the step
  of the bring-up that creates the identity or loads it.
\<close>

section \<open>The operations\<close>

text \<open>The parts outside the repository: primitives, file system, and the identities of the network
  stack. \<open>id_valid\<close> is an identity tested as a Boolean.\<close>

record ('id, 'fs) platform =
  prims :: crypto
  files :: "'fs os"
  id_valid :: "'id \<Rightarrow> bool"
  get_private_key :: "'id \<Rightarrow> bytes"
  load_private_key :: "bytes \<Rightarrow> bool \<times> 'id"
  from_file :: "string \<Rightarrow> 'fs \<Rightarrow> 'id"
  to_file :: "'id \<Rightarrow> string \<Rightarrow> 'fs \<Rightarrow> bool \<times> 'fs"

text \<open>The globals the step changes, with the contents of the flash.\<close>

record ('id, 'fs) boot =
  g_identity :: 'id
  g_identity_source :: string
  flash :: 'fs

text \<open>The build flags \<open>THICKET_NO_PERSISTENCE\<close> and \<open>THICKET_IDENTITY_CODE\<close>.\<close>

record build =
  no_persistence :: bool
  identity_code :: "bytes option"

text \<open>What one boot draws: a generated identity, random bytes, and how the allocations go.\<close>

record 'id draws =
  generated :: 'id
  draw_salt :: bytes
  draw_iv :: bytes
  ct_alloc :: bool
  auth_alloc :: bool

definition IDENTITY_PATH :: string where "IDENTITY_PATH = ''/thicket_identity''"

definition IDENTITY_PRV_BYTES :: nat where "IDENTITY_PRV_BYTES = 64"

definition VAULT_TRIES_PATH :: string where "VAULT_TRIES_PATH = ''/thicket_vault_tries''"

definition VAULT_MAX_TRIES :: u8 where "VAULT_MAX_TRIES = 10"

definition vault_tries_read :: "'fs os \<Rightarrow> 'fs \<Rightarrow> u8" where
  "vault_tries_read os fs =
     (if \<not> file_exists os VAULT_TRIES_PATH fs then 0
      else let (n, b) = read_file os VAULT_TRIES_PATH fs in if n < 1 then 0 else hd b)"

definition vault_tries_write :: "'fs os \<Rightarrow> u8 \<Rightarrow> 'fs \<Rightarrow> 'fs" where
  "vault_tries_write os n fs = snd (write_file os VAULT_TRIES_PATH [n] fs)"

definition vault_open ::
  "('id, 'fs) platform \<Rightarrow> bool \<Rightarrow> bytes \<Rightarrow> ('id, 'fs) boot \<Rightarrow> bool \<times> ('id, 'fs) boot" where
  "vault_open P auth_ok code s =
     (let tried = vault_tries_read (files P) (flash s) in
      if VAULT_MAX_TRIES \<le> tried then (False, s)
      else let s = s\<lparr>flash := vault_tries_write (files P) (tried + 1) (flash s)\<rparr> in
           case password_open (prims P) (files P) auth_ok IDENTITY_PATH code IDENTITY_PRV_BYTES (flash s) of
             None \<Rightarrow>
               (False, if VAULT_MAX_TRIES - tried - 1 = 0
                       then s\<lparr>flash := remove_file (files P) IDENTITY_PATH (flash s)\<rparr> else s)
           | Some prv \<Rightarrow>
               let (loaded, i) = load_private_key P prv;
                   s = s\<lparr>g_identity := i\<rparr>
               in (loaded, if loaded then s\<lparr>flash := remove_file (files P) VAULT_TRIES_PATH (flash s)\<rparr> else s))"

definition vault_seal ::
  "('id, 'fs) platform \<Rightarrow> 'id draws \<Rightarrow> bytes \<Rightarrow> ('id, 'fs) boot \<Rightarrow> bool \<times> ('id, 'fs) boot" where
  "vault_seal P d code s =
     (let prv = get_private_key P (g_identity s) in
      if length prv \<noteq> IDENTITY_PRV_BYTES then (False, s)
      else let (sealed, fs) = password_protect (prims P) (files P) (draw_salt d) (draw_iv d) (ct_alloc d) (auth_alloc d)
                 IDENTITY_PATH code prv (flash s)
           in (sealed, s\<lparr>flash := fs\<rparr>))"

definition bringup_identity ::
  "('id, 'fs) platform \<Rightarrow> build \<Rightarrow> 'id draws \<Rightarrow> ('id, 'fs) boot \<Rightarrow> bool \<times> ('id, 'fs) boot" where
  "bringup_identity P B d s =
     (if no_persistence B then
        (let s = s\<lparr>g_identity := generated d\<rparr> in (id_valid P (g_identity s), s))
      else if file_exists (files P) IDENTITY_PATH (flash s) then
        (case identity_code B of
           Some code \<Rightarrow>
             let (opened, s) = vault_open P (auth_alloc d) code s in
             if \<not> opened then (False, s)
             else (True, s\<lparr>g_identity_source := ''opened from sealed vault on external flash''\<rparr>)
         | None \<Rightarrow>
             let s = s\<lparr>g_identity := from_file P IDENTITY_PATH (flash s)\<rparr> in
             if id_valid P (g_identity s) then (True, s\<lparr>g_identity_source := ''loaded from external flash''\<rparr>)
             else (False, s))
      else
        let s = s\<lparr>g_identity := generated d\<rparr> in
        if \<not> id_valid P (g_identity s) then (False, s)
        else case identity_code B of
               Some code \<Rightarrow>
                 let (sealed, s) = vault_seal P d code s in
                 if \<not> sealed then (False, s)
                 else (True, s\<lparr>g_identity_source := ''generated and sealed (first boot)''\<rparr>)
             | None \<Rightarrow>
                 let (written, fs) = to_file P (g_identity s) IDENTITY_PATH (flash s);
                     s = s\<lparr>flash := fs\<rparr>
                 in if \<not> written then (False, s)
                    else (True, s\<lparr>g_identity_source := ''generated and written (first boot)''\<rparr>))"

text \<open>A run of attempts, one code after the other.\<close>

fun vault_attempts ::
  "('id, 'fs) platform \<Rightarrow> bool \<Rightarrow> bytes list \<Rightarrow> ('id, 'fs) boot \<Rightarrow> ('id, 'fs) boot" where
  "vault_attempts P auth_ok [] s = s"
| "vault_attempts P auth_ok (code # codes) s = vault_attempts P auth_ok codes (snd (vault_open P auth_ok code s))"

section \<open>Laws of the platform\<close>

definition platform_laws :: "('fs \<Rightarrow> string \<Rightarrow> bytes option) \<Rightarrow> ('id, 'fs) platform \<Rightarrow> bool" where
  "platform_laws view P \<longleftrightarrow>
     crypto_laws (prims P) \<and> os_laws view (files P)
     \<and> (\<forall>i. id_valid P i \<longrightarrow> length (get_private_key P i) = 64 \<and> load_private_key P (get_private_key P i) = (True, i))"

lemma platform_lawsD:
  assumes "platform_laws view P"
  shows "crypto_laws (prims P)" "os_laws view (files P)"
    "id_valid P i \<Longrightarrow> length (get_private_key P i) = 64"
    "id_valid P i \<Longrightarrow> load_private_key P (get_private_key P i) = (True, i)"
  using assms by (simp_all add: platform_laws_def)

lemma paths_differ [simp]: "IDENTITY_PATH \<noteq> VAULT_TRIES_PATH" "VAULT_TRIES_PATH \<noteq> IDENTITY_PATH"
  by (simp_all add: IDENTITY_PATH_def VAULT_TRIES_PATH_def)

section \<open>The count of attempts\<close>

definition tries_of :: "bytes option \<Rightarrow> u8" where
  "tries_of f = (case f of None \<Rightarrow> 0 | Some [] \<Rightarrow> 0 | Some (n # _) \<Rightarrow> n)"

lemma vault_tries_read_view: "os_laws view os \<Longrightarrow> vault_tries_read os fs = tries_of (view fs VAULT_TRIES_PATH)"
  by (cases "view fs VAULT_TRIES_PATH")
    (auto simp: vault_tries_read_def tries_of_def os_lawsD split: list.splits)

text \<open>Opening reads one file only.\<close>

lemma password_open_view:
  assumes "os_laws view os" "view fs path = view fs' path"
  shows "password_open c os auth_ok path pw len fs = password_open c os auth_ok path pw len fs'"
proof (cases "view fs path")
  case None
  then have "fst (read_file os path fs) = 0" "fst (read_file os path fs') = 0"
    using assms os_lawsD(4)[OF assms(1)] by simp_all
  then show ?thesis by (simp add: password_open_def case_prod_unfold PASSWORD_FILE_OVERHEAD_def)
next
  case (Some b)
  then have "read_file os path fs = (length b, b)" "read_file os path fs' = (length b, b)"
    using assms os_lawsD(3)[OF assms(1)] by simp_all
  then show ?thesis by (simp add: password_open_def)
qed

abbreviation wrong :: "('id, 'fs) platform \<Rightarrow> bool \<Rightarrow> bytes \<Rightarrow> 'fs \<Rightarrow> bool" where
  "wrong P auth_ok code fs \<equiv> password_open (prims P) (files P) auth_ok IDENTITY_PATH code IDENTITY_PRV_BYTES fs = None"

lemma tries_write_view:
  assumes "os_laws view os"
  shows "view (vault_tries_write os n fs) IDENTITY_PATH = view fs IDENTITY_PATH"
    "writes_succeed os \<Longrightarrow> view (vault_tries_write os n fs) VAULT_TRIES_PATH = Some [n]"
  using assms os_lawsD(6)[OF assms, of VAULT_TRIES_PATH "[n]" fs]
  by (simp_all add: vault_tries_write_def os_lawsD writes_succeed_def)

text \<open>One wrong code, with attempts left.\<close>

lemma vault_open_wrong:
  assumes "platform_laws view P" "tries_of (view (flash s) VAULT_TRIES_PATH) = t" "t < 10" "wrong P auth_ok code (flash s)"
  shows "vault_open P auth_ok code s =
    (False, s\<lparr>flash := (if t = 9 then remove_file (files P) IDENTITY_PATH else id)
                        (vault_tries_write (files P) (t + 1) (flash s))\<rparr>)"
proof -
  note os = platform_lawsD(2)[OF assms(1)]
  have "wrong P auth_ok code (vault_tries_write (files P) (t + 1) (flash s))"
    using assms(4) password_open_view[OF os] tries_write_view(1)[OF os] by metis
  moreover have "9 - t = 0 \<longleftrightarrow> t = 9" by auto
  ultimately show ?thesis
    using assms(2,3)
    by (simp add: vault_open_def vault_tries_read_view[OF os] VAULT_MAX_TRIES_def not_le)
qed

lemma vault_open_locked:
  assumes "platform_laws view P" "10 \<le> tries_of (view (flash s) VAULT_TRIES_PATH)"
  shows "vault_open P auth_ok code s = (False, s)"
  using assms by (simp add: vault_open_def vault_tries_read_view[OF platform_lawsD(2)[OF assms(1)]] VAULT_MAX_TRIES_def)

lemma vault_attempts_locked:
  assumes "platform_laws view P" "10 \<le> tries_of (view (flash s) VAULT_TRIES_PATH)"
  shows "vault_attempts P auth_ok codes s = s"
  by (induction codes) (simp_all add: vault_open_locked[OF assms])

lemma vault_attempts_wrong:
  assumes "platform_laws view P" "writes_succeed (files P)" "tries_of (view (flash s) VAULT_TRIES_PATH) = of_nat n" "n \<le> 10"
    and "\<forall>code \<in> set codes. wrong P auth_ok code (flash s)"
  shows "tries_of (view (flash (vault_attempts P auth_ok codes s)) VAULT_TRIES_PATH) = of_nat (min 10 (n + length codes))
    \<and> view (flash (vault_attempts P auth_ok codes s)) IDENTITY_PATH
        = (if n < 10 \<and> 10 \<le> n + length codes then None else view (flash s) IDENTITY_PATH)
    \<and> g_identity (vault_attempts P auth_ok codes s) = g_identity s"
  using assms(3-5)
proof (induction codes arbitrary: s n)
  case Nil
  then show ?case by (auto simp: min_def)
next
  case (Cons code codes)
  note os = platform_lawsD(2)[OF assms(1)]
  show ?case
  proof (cases "n = 10")
    case True
    then show ?thesis using Cons.prems(1) vault_attempts_locked[OF assms(1)] by (simp del: vault_attempts.simps)
  next
    case False
    then have n: "n < 10" using Cons.prems(2) by simp
    have t: "(of_nat n :: u8) < 10" "(of_nat n :: u8) = 9 \<longleftrightarrow> n = 9"
      using n by (auto simp: word_less_nat_alt unat_of_nat word_unat_eq_iff)
    let ?w = "vault_tries_write (files P) (of_nat n + 1) (flash s)"
    have vo: "snd (vault_open P auth_ok code s)
        = s\<lparr>flash := (if n = 9 then remove_file (files P) IDENTITY_PATH else id) ?w\<rparr>"
      using vault_open_wrong[OF assms(1) Cons.prems(1) t(1)] Cons.prems(3) t(2) by simp
    have tw: "tries_of (view ?w VAULT_TRIES_PATH) = of_nat (Suc n)"
      using tries_write_view(2)[OF os assms(2)] by (simp add: tries_of_def)
    show ?thesis
    proof (cases "n = 9")
      case True
      then show ?thesis
        using tw vault_attempts_locked[OF assms(1), where s = "s\<lparr>flash := remove_file (files P) IDENTITY_PATH ?w\<rparr>"]
        by (simp add: vo os_lawsD(5)[OF os] del: of_nat_Suc)
    next
      case False
      have "\<forall>code \<in> set codes. wrong P auth_ok code ?w"
        using Cons.prems(3) password_open_view[OF os tries_write_view(1)[OF os]] by simp
      then show ?thesis
        using Cons.IH[where s = "s\<lparr>flash := ?w\<rparr>" and n = "Suc n"] tw n False
        by (simp add: vo tries_write_view(1)[OF os] del: of_nat_Suc)
    qed
  qed
qed

section \<open>A first boot and the boot after it\<close>

text \<open>The first boot seals what it generated, and the next one opens it while attempts are left.\<close>

lemma first_boot_seals:
  assumes "platform_laws view P" "writes_succeed (files P)" "\<not> no_persistence B" "identity_code B = Some code"
    and "view (flash s) IDENTITY_PATH = None" "id_valid P (generated d)" "ct_alloc d" "auth_alloc d"
    and "length (draw_salt d) = 16" "length (draw_iv d) = 16"
  obtains fs' where
    "bringup_identity P B d s
      = (True, s\<lparr>g_identity := generated d, flash := fs', g_identity_source := ''generated and sealed (first boot)''\<rparr>)"
    "view fs' VAULT_TRIES_PATH = view (flash s) VAULT_TRIES_PATH" "view fs' IDENTITY_PATH \<noteq> None"
    "password_open (prims P) (files P) True IDENTITY_PATH code IDENTITY_PRV_BYTES fs' = Some (get_private_key P (generated d))"
proof -
  note laws = platform_lawsD[OF assms(1)]
  define r where "r = password_protect (prims P) (files P) (draw_salt d) (draw_iv d) (ct_alloc d) (auth_alloc d)
    IDENTITY_PATH code (get_private_key P (generated d)) (flash s)"
  obtain fs' where r: "r = (True, fs')"
  proof (cases r)
    case (Pair a fs')
    have "a" using assms(2,7-10) Pair laws(1) laws(3)[OF assms(6)]
      by (auto simp: r_def password_protect_def Let_def case_prod_unfold writes_succeed_def PASSWORD_FILE_OVERHEAD_def
          hmac_sha256_def crypto_lawsD)
    with Pair show ?thesis using that by simp
  qed
  note rt = password_file_reopens[OF laws(1,2) assms(9,10) r[unfolded r_def]]
  show ?thesis
  proof (rule that)
    show "bringup_identity P B d s
        = (True, s\<lparr>g_identity := generated d, flash := fs', g_identity_source := ''generated and sealed (first boot)''\<rparr>)"
      using assms(3-6) r laws(3)[OF assms(6)]
      by (simp add: bringup_identity_def vault_seal_def os_lawsD(1)[OF laws(2)] IDENTITY_PRV_BYTES_def flip: r_def)
    show op: "password_open (prims P) (files P) True IDENTITY_PATH code IDENTITY_PRV_BYTES fs'
        = Some (get_private_key P (generated d))"
      using rt(1) laws(3)[OF assms(6)] by (simp add: IDENTITY_PRV_BYTES_def)
    show "view fs' VAULT_TRIES_PATH = view (flash s) VAULT_TRIES_PATH" using rt(2) by simp
    show "view fs' IDENTITY_PATH \<noteq> None"
    proof
      assume "view fs' IDENTITY_PATH = None"
      then have "fst (read_file (files P) IDENTITY_PATH fs') = 0" using os_lawsD(4)[OF laws(2)] by simp
      with op show False by (simp add: password_open_def case_prod_unfold PASSWORD_FILE_OVERHEAD_def)
    qed
  qed
qed

lemma sealed_boot:
  assumes "platform_laws view P" "\<not> no_persistence B" "identity_code B = Some code" "auth_alloc d"
    and "view (flash s) IDENTITY_PATH \<noteq> None" "id_valid P i"
    and "password_open (prims P) (files P) True IDENTITY_PATH code IDENTITY_PRV_BYTES (flash s) = Some (get_private_key P i)"
  shows "fst (bringup_identity P B d s) \<longleftrightarrow> tries_of (view (flash s) VAULT_TRIES_PATH) < 10"
    and "fst (bringup_identity P B d s) \<Longrightarrow> g_identity (snd (bringup_identity P B d s)) = i"
    and "fst (bringup_identity P B d s) \<Longrightarrow> view (flash (snd (bringup_identity P B d s))) VAULT_TRIES_PATH = None"
proof -
  note laws = platform_lawsD[OF assms(1)]
  have "password_open (prims P) (files P) True IDENTITY_PATH code IDENTITY_PRV_BYTES (vault_tries_write (files P) n (flash s))
      = Some (get_private_key P i)" for n
    using assms(7) password_open_view[OF laws(2) tries_write_view(1)[OF laws(2)]] by simp
  then have vo: "vault_open P True code s =
    (if 10 \<le> tries_of (view (flash s) VAULT_TRIES_PATH) then (False, s)
     else (True, s\<lparr>g_identity := i,
                   flash := remove_file (files P) VAULT_TRIES_PATH
                     (vault_tries_write (files P) (tries_of (view (flash s) VAULT_TRIES_PATH) + 1) (flash s))\<rparr>))"
    using laws(4)[OF assms(6)]
    by (simp add: vault_open_def Let_def vault_tries_read_view[OF laws(2)] VAULT_MAX_TRIES_def)
  have b: "bringup_identity P B d s = (let (opened, s) = vault_open P True code s in
      if \<not> opened then (False, s) else (True, s\<lparr>g_identity_source := ''opened from sealed vault on external flash''\<rparr>))"
    using assms(2-5) os_lawsD(1)[OF laws(2)] by (simp add: bringup_identity_def)
  show "fst (bringup_identity P B d s) \<longleftrightarrow> tries_of (view (flash s) VAULT_TRIES_PATH) < 10"
    "fst (bringup_identity P B d s) \<Longrightarrow> g_identity (snd (bringup_identity P B d s)) = i"
    "fst (bringup_identity P B d s) \<Longrightarrow> view (flash (snd (bringup_identity P B d s))) VAULT_TRIES_PATH = None"
    unfolding b vo by (auto simp: os_lawsD(5)[OF laws(2)] dest: leD split: if_splits)
qed

section \<open>Properties\<close>


text \<open>A platform for the examples: an identity is its key.\<close>

definition toy_platform :: "(bytes, string \<Rightarrow> bytes option) platform" where
  "toy_platform =
     \<lparr>prims = toy_crypto, files = map_os, id_valid = (\<lambda>i. length i = 64), get_private_key = (\<lambda>i. i),
      load_private_key = (\<lambda>b. (True, b)), from_file = (\<lambda>p fs. case fs p of None \<Rightarrow> [] | Some b \<Rightarrow> b),
      to_file = (\<lambda>i p fs. (True, fs(p \<mapsto> i)))\<rparr>"

definition toy_draws :: "bytes draws" where
  "toy_draws = \<lparr>generated = replicate 64 3, draw_salt = replicate 16 7, draw_iv = replicate 16 9, ct_alloc = True, auth_alloc = True\<rparr>"

lemma toy_platform_laws: "platform_laws (\<lambda>fs. fs) toy_platform" "writes_succeed (files toy_platform)"
  by (simp_all add: platform_laws_def toy_platform_def toy_crypto_laws map_os_laws)

lemma toy_draws_ok:
  "id_valid toy_platform (generated toy_draws)" "ct_alloc toy_draws" "auth_alloc toy_draws"
  "length (draw_salt toy_draws) = 16" "length (draw_iv toy_draws) = 16"
  by (simp_all add: toy_platform_def toy_draws_def)

text \<open>A damaged vault: every code is wrong.\<close>

definition damaged :: "(bytes, string \<Rightarrow> bytes option) boot" where
  "damaged = \<lparr>g_identity = [], g_identity_source = ''unknown'', flash = [IDENTITY_PATH \<mapsto> [0]]\<rparr>"

lemma damaged_wrong: "wrong toy_platform ok code (flash damaged)"
  by (simp add: damaged_def toy_platform_def map_os_def password_open_def PASSWORD_FILE_OVERHEAD_def)


text \<open>C6: an identity made at a first boot is the identity of the next one. With the code built in, a
  boot that finds no vault generates an identity, seals it and succeeds; the next boot succeeds with
  the same identity, and clears the count, exactly when fewer than ten attempts are on record. The
  first boot does not clear that record.\<close>

theorem next_boot_restores_the_identity:
  assumes "platform_laws view P" "writes_succeed (files P)" "\<not> no_persistence B" "identity_code B = Some code"
    and "view (flash s) IDENTITY_PATH = None" "id_valid P (generated d)" "ct_alloc d" "auth_alloc d" "auth_alloc d'"
    and "length (draw_salt d) = 16" "length (draw_iv d) = 16"
    and "bringup_identity P B d s = (ok, s1)" and "bringup_identity P B d' (s1\<lparr>g_identity := z\<rparr>) = (ok', s2)"
  shows "(ok \<and> g_identity s1 = generated d) \<and> ok' = (tries_of (view (flash s) VAULT_TRIES_PATH) < 10)
    \<and> (ok' \<longrightarrow> g_identity s2 = generated d \<and> view (flash s2) VAULT_TRIES_PATH = None)"
proof -
  obtain fs' where f: "bringup_identity P B d s
      = (True, s\<lparr>g_identity := generated d, flash := fs', g_identity_source := ''generated and sealed (first boot)''\<rparr>)"
    "view fs' VAULT_TRIES_PATH = view (flash s) VAULT_TRIES_PATH" "view fs' IDENTITY_PATH \<noteq> None"
    "password_open (prims P) (files P) True IDENTITY_PATH code IDENTITY_PRV_BYTES fs' = Some (get_private_key P (generated d))"
    by (rule first_boot_seals[OF assms(1-8,10,11)])
  have first: "ok \<and> g_identity s1 = generated d" using f(1) assms(12) by auto
  have s1: "flash (s1\<lparr>g_identity := z\<rparr>) = fs'" using f(1) assms(12) by auto
  note sb = sealed_boot[OF assms(1,3,4,9) _ assms(6), where s = "s1\<lparr>g_identity := z\<rparr>", unfolded s1 assms(13), OF f(3,4)]
  show ?thesis using first sb f(2) by simp
qed

definition empty_flash :: "(bytes, string \<Rightarrow> bytes option) boot" where
  "empty_flash = \<lparr>g_identity = [], g_identity_source = ''unknown'', flash = Map.empty\<rparr>"

theorem next_boot_restores_the_identity_witness:
  "let B = \<lparr>no_persistence = False, identity_code = Some [49, 50]\<rparr>;
       s1 = snd (bringup_identity toy_platform B toy_draws empty_flash)
   in fst (bringup_identity toy_platform B toy_draws (s1\<lparr>g_identity := []\<rparr>))
      \<and> g_identity (snd (bringup_identity toy_platform B toy_draws (s1\<lparr>g_identity := []\<rparr>))) = replicate 64 3"
proof -
  define B where "B = \<lparr>no_persistence = False, identity_code = Some [49 :: u8, 50]\<rparr>"
  have B: "\<not> no_persistence B" "identity_code B = Some [49, 50]" by (simp_all add: B_def)
  have v: "flash empty_flash IDENTITY_PATH = None" "flash empty_flash VAULT_TRIES_PATH = None"
    by (simp_all add: empty_flash_def)
  note n = next_boot_restores_the_identity[where z = "[]" and view = "\<lambda>fs. fs",
      OF toy_platform_laws B v(1) toy_draws_ok(1,2,3,3,4,5) prod.collapse[symmetric] prod.collapse[symmetric]]
  show ?thesis
    unfolding Let_def B_def[symmetric] using n v(2) by (simp add: tries_of_def toy_draws_def)
qed

text \<open>C31: the record of attempts outlives the vault it belongs to. After ten wrong codes have destroyed
  the vault the next boot generates and seals a new identity and reports success; the boot after it,
  with the code the new vault was sealed under, is refused.\<close>

theorem destroyed_vault_locks_out_the_next_identity:
  assumes "platform_laws view P" "writes_succeed (files P)" "\<not> no_persistence B" "identity_code B = Some code"
    and "view (flash s) VAULT_TRIES_PATH = None" "10 \<le> length codes" "\<forall>c \<in> set codes. wrong P ok c (flash s)"
    and "id_valid P (generated d)" "ct_alloc d" "auth_alloc d" "auth_alloc d'"
    and "length (draw_salt d) = 16" "length (draw_iv d) = 16"
    and "bringup_identity P B d (vault_attempts P ok codes s) = (ok1, s1)"
    and "bringup_identity P B d' (s1\<lparr>g_identity := z\<rparr>) = (ok2, s2)"
  shows "ok1 \<and> \<not> ok2"
proof -
  let ?s0 = "vault_attempts P ok codes s"
  have gone: "view (flash ?s0) IDENTITY_PATH = None" "tries_of (view (flash ?s0) VAULT_TRIES_PATH) = 10"
    using vault_attempts_wrong[OF assms(1,2) _ _ assms(7), where n = 0] assms(5,6) by (simp_all add: tries_of_def)
  obtain fs' where f: "bringup_identity P B d ?s0
      = (True, ?s0\<lparr>g_identity := generated d, flash := fs', g_identity_source := ''generated and sealed (first boot)''\<rparr>)"
    "view fs' VAULT_TRIES_PATH = view (flash ?s0) VAULT_TRIES_PATH" "view fs' IDENTITY_PATH \<noteq> None"
    "password_open (prims P) (files P) True IDENTITY_PATH code IDENTITY_PRV_BYTES fs' = Some (get_private_key P (generated d))"
    by (rule first_boot_seals[OF assms(1-4) gone(1) assms(8-10,12,13)])
  have s1: "ok1" "flash (s1\<lparr>g_identity := z\<rparr>) = fs'" using f(1) assms(14) by auto
  note sb = sealed_boot(1)[OF assms(1,3,4,11) _ assms(8), where s = "s1\<lparr>g_identity := z\<rparr>", unfolded s1(2) assms(15), OF f(3,4)]
  show ?thesis using s1(1) sb f(2) gone(2) by simp
qed

theorem destroyed_vault_locks_out_the_next_identity_witness:
  "let B = \<lparr>no_persistence = False, identity_code = Some [49, 50]\<rparr>;
       b1 = bringup_identity toy_platform B toy_draws (vault_attempts toy_platform True (replicate 10 [48]) damaged);
       b2 = bringup_identity toy_platform B toy_draws ((snd b1)\<lparr>g_identity := []\<rparr>)
   in fst b1 \<and> \<not> fst b2"
proof -
  define B where "B = \<lparr>no_persistence = False, identity_code = Some [49 :: u8, 50]\<rparr>"
  have B: "\<not> no_persistence B" "identity_code B = Some [49, 50]" by (simp_all add: B_def)
  have v: "flash damaged VAULT_TRIES_PATH = None" by (simp add: damaged_def)
  have w: "10 \<le> length (replicate 10 [48 :: u8])" "\<forall>c \<in> set (replicate 10 [48 :: u8]). wrong toy_platform True c (flash damaged)"
    by (simp_all add: damaged_wrong)
  show ?thesis
    unfolding Let_def B_def[symmetric]
    by (rule destroyed_vault_locks_out_the_next_identity[where view = "\<lambda>fs. fs", OF toy_platform_laws B v w toy_draws_ok(1,2,3,3,4,5)
          prod.collapse[symmetric] prod.collapse[symmetric]])
qed

text \<open>C33: the count does not fail closed. When writes of the count are lost, any number of wrong codes
  can be tried: the flash is as it was, the vault is still there and no attempt is on record.\<close>

theorem lost_count_allows_endless_attempts:
  assumes "platform_laws view P" "\<forall>n fs. view (snd (write_file (files P) VAULT_TRIES_PATH [n] fs)) = view fs"
    and "view (flash s) VAULT_TRIES_PATH = None" "\<forall>code \<in> set codes. wrong P auth_ok code (flash s)"
  shows "view (flash (vault_attempts P auth_ok codes s)) = view (flash s)"
  using assms(3,4)
proof (induction codes arbitrary: s)
  case (Cons code codes)
  note os = platform_lawsD(2)[OF assms(1)]
  let ?w = "vault_tries_write (files P) 1 (flash s)"
  have vo: "snd (vault_open P auth_ok code s) = s\<lparr>flash := ?w\<rparr>"
    using vault_open_wrong[OF assms(1), where s = s and t = 0 and code = code and auth_ok = auth_ok] Cons.prems
    by (simp add: tries_of_def)
  have w: "view ?w = view (flash s)" using assms(2) by (simp add: vault_tries_write_def)
  have "\<forall>code \<in> set codes. wrong P auth_ok code ?w"
    using Cons.prems(2) password_open_view[OF os, of ?w IDENTITY_PATH "flash s"] w by simp
  then show ?case using Cons.IH[where s = "s\<lparr>flash := ?w\<rparr>"] Cons.prems(1) by (simp add: vo w)
qed simp

text \<open>A flash that is full: a write of at least one byte is lost.\<close>

definition full_platform :: "(bytes, string \<Rightarrow> bytes option) platform" where
  "full_platform =
     toy_platform\<lparr>files := map_os\<lparr>write_file := (\<lambda>p b fs. if b = [] then (0, fs(p \<mapsto> b)) else (0, fs))\<rparr>\<rparr>"

lemma full_platform_laws: "platform_laws (\<lambda>fs. fs) full_platform"
  using toy_crypto_laws
  by (auto simp: platform_laws_def full_platform_def os_laws_def toy_platform_def map_os_def split: option.splits)

theorem lost_count_allows_endless_attempts_witness:
  "flash (vault_attempts full_platform True (replicate 1000 [49]) damaged) = [IDENTITY_PATH \<mapsto> [0]]"
proof -
  have lost: "\<forall>n fs. snd (write_file (files full_platform) VAULT_TRIES_PATH [n] fs) = fs"
    by (simp add: full_platform_def)
  have w: "\<forall>code \<in> set (replicate 1000 [49 :: u8]). wrong full_platform True code (flash damaged)"
    by (simp add: full_platform_def toy_platform_def damaged_def map_os_def password_open_def PASSWORD_FILE_OVERHEAD_def)
  show ?thesis
    using lost_count_allows_endless_attempts[where view = "\<lambda>fs. fs", OF full_platform_laws lost _ w]
    by (simp add: damaged_def)
qed

text \<open>C32: bring-up never writes over an identity that is there. Whatever the boot finds in a vault or a
  plain identity file, that file is as it was afterwards, or it is gone because the code was wrong
  for the tenth time; then bring-up has failed. Without a code the flash does not change at all.\<close>

theorem existing_identity_is_never_replaced:
  assumes "platform_laws view P" "\<not> no_persistence B" "view (flash s) IDENTITY_PATH = Some b"
    and "bringup_identity P B d s = (ok, s')"
  shows "(view (flash s') IDENTITY_PATH = Some b
      \<or> view (flash s') IDENTITY_PATH = None \<and> \<not> ok \<and> tries_of (view (flash s) VAULT_TRIES_PATH) = 9)
    \<and> (identity_code B = None \<longrightarrow> flash s' = flash s \<and> ok = id_valid P (from_file P IDENTITY_PATH (flash s)))"
proof
  note os = platform_lawsD(2)[OF assms(1)]
  have ex: "file_exists (files P) IDENTITY_PATH (flash s)" using assms(3) by (simp add: os_lawsD(1)[OF os])
  show n: "identity_code B = None \<longrightarrow> flash s' = flash s \<and> ok = id_valid P (from_file P IDENTITY_PATH (flash s))"
    using assms(2,4) ex by (auto simp: bringup_identity_def Let_def split: if_splits)
  show "view (flash s') IDENTITY_PATH = Some b
      \<or> view (flash s') IDENTITY_PATH = None \<and> \<not> ok \<and> tries_of (view (flash s) VAULT_TRIES_PATH) = 9"
  proof (cases "identity_code B")
    case None
    then show ?thesis using n assms(3) by simp
  next
    case (Some code)
    obtain op s1 where vo: "vault_open P (auth_alloc d) code s = (op, s1)" by fastforce
    have "ok = op" "flash s' = flash s1"
      using assms(2,4) ex Some vo by (auto simp: bringup_identity_def split: if_splits)
    moreover have "9 - t = 0 \<longleftrightarrow> t = 9" for t :: u8 by auto
    ultimately show ?thesis
      using vo assms(3) tries_write_view(1)[OF os]
      by (auto simp: vault_open_def Let_def vault_tries_read_view[OF os] VAULT_MAX_TRIES_def os_lawsD(5)[OF os]
          split: if_splits option.splits prod.splits)
  qed
qed

theorem existing_identity_is_never_replaced_witness:
  "let r = bringup_identity toy_platform \<lparr>no_persistence = False, identity_code = None\<rparr> toy_draws damaged
   in \<not> fst r \<and> flash (snd r) = [IDENTITY_PATH \<mapsto> [0]]"
proof -
  have e: "flash damaged IDENTITY_PATH = Some [0]" by (simp add: damaged_def)
  show ?thesis
    using existing_identity_is_never_replaced[where view = "\<lambda>fs. fs", OF toy_platform_laws(1) _ e prod.collapse[symmetric],
        of "\<lparr>no_persistence = False, identity_code = None\<rparr>" toy_draws]
    by (simp add: Let_def toy_platform_def damaged_def)
qed

end
