(* ===== verification/Firmware.thy ===== *)
theory Firmware
  imports Diag
begin

text \<open>
  The work loop of \<open>src/main.cpp\<close>: sending a message, the callback for a received one with the reply it
  arms, announces, the timed send, the loop body and the order of the bring-up. The network stack is
  outside: what it answers is in the arguments, what it is handed is recorded in the state.
\<close>

section \<open>State\<close>

record reply_request =
  armed :: bool
  due_ms :: u32
  to_hash :: bytes
  signal_valid :: bool
  rssi :: rat
  snr :: rat

text \<open>The file's globals. \<open>handed\<close> is what \<open>handle_outbound\<close> has been given, oldest first, \<open>announced\<close> counts
  the calls of the router's \<open>announce\<close>, \<open>pinned\<close> is what \<open>pin_destination\<close> has been given; \<open>g_router\<close> and
  \<open>g_store\<close> say whether the pointers are set.\<close>

record fw =
  g_stack_up :: bool
  g_router :: bool
  g_store :: bool
  g_reply :: reply_request
  g_send_counter :: u32
  g_saved_in :: u32
  g_saved_out :: u32
  g_save_failures :: u32
  g_last_announce :: rat
  g_autosend_dest :: bytes
  g_autosend_ok :: bool
  g_last_autosend :: rat
  blink_last :: u32
  blink_on :: bool
  led :: bool
  handed :: "(bytes \<times> string) list"
  announced :: nat
  pinned :: "bytes list"

text \<open>What a build and a device fix: the flags \<open>THICKET_HAVE_STORE\<close>, \<open>RNS_PINNED_DESTINATIONS\<close>,
  \<open>THICKET_ANNOUNCE_INTERVAL_S\<close> and \<open>THICKET_AUTOSEND_INTERVAL_S\<close>, the address of the device and its
  identity's hash in hexadecimal.\<close>

record config =
  have_store :: bool
  pins :: bool
  announce_interval :: rat
  autosend_interval :: "rat option"
  own_hash :: bytes
  own_hex :: string

definition REPLY_DELAY_MS :: u32 where "REPLY_DELAY_MS = 1500"

section \<open>Sending\<close>

definition store_message :: "bool \<Rightarrow> bool \<Rightarrow> fw \<Rightarrow> fw" where
  "store_message save_ok inbound s =
     (if \<not> g_store s then s
      else if save_ok then
        (if inbound then s\<lparr>g_saved_in := g_saved_in s + 1\<rparr> else s\<lparr>g_saved_out := g_saved_out s + 1\<rparr>)
      else s\<lparr>g_save_failures := g_save_failures s + 1\<rparr>)"

text \<open>How the stack behaves during a send: room for the message, a router that takes it without an
  exception, a store that saves it.\<close>

record send_env =
  heap_ok :: bool
  outbound_ok :: bool
  save_ok :: bool

definition send_lxmf :: "config \<Rightarrow> send_env \<Rightarrow> bytes \<Rightarrow> string \<Rightarrow> fw \<Rightarrow> bool \<times> fw" where
  "send_lxmf C e destination_hash body s =
     (if \<not> g_router s then (False, s)
      else if length destination_hash \<noteq> 16 then (False, s)
      else if \<not> heap_ok e then (False, s)
      else if \<not> outbound_ok e then (False, s)
      else let s = s\<lparr>handed := handed s @ [(destination_hash, body)]\<rparr>;
               s = (if have_store C then store_message (save_ok e) False s else s)
           in (True, s\<lparr>g_send_counter := g_send_counter s + 1\<rparr>))"

definition announce :: "rat \<Rightarrow> fw \<Rightarrow> fw" where
  "announce time s =
     (if \<not> g_router s then s else s\<lparr>announced := announced s + 1, g_last_announce := time\<rparr>)"

section \<open>Receiving\<close>

text \<open>An inbound message, with what the radio and the clock say when it is delivered.\<close>

record inbound =
  source_hash :: bytes
  in_signal :: "(rat \<times> rat) option"
  in_ms :: u32
  in_save_ok :: bool

definition delivery_callback :: "config \<Rightarrow> inbound \<Rightarrow> fw \<Rightarrow> fw" where
  "delivery_callback C m s =
     (let sig = (in_signal m \<noteq> None);
          rs = (case in_signal m of None \<Rightarrow> 0 | Some (r, n) \<Rightarrow> r);
          sn = (case in_signal m of None \<Rightarrow> 0 | Some (r, n) \<Rightarrow> n);
          s = (if have_store C then store_message (in_save_ok m) True s else s)
      in if length (source_hash m) \<noteq> 16 then s
         else if source_hash m = own_hash C then s
         else let s = (if pins C then s\<lparr>pinned := pinned s @ [source_hash m]\<rparr> else s)
              in s\<lparr>g_reply := \<lparr>armed = True, due_ms = in_ms m + REPLY_DELAY_MS, to_hash = source_hash m,
                              signal_valid = sig, rssi = rs, snr = sn\<rparr>\<rparr>)"

section \<open>The timed send\<close>

definition is_hex :: "char \<Rightarrow> bool" where
  "is_hex c =
     (let n = (of_char c :: nat)
      in (of_char CHR ''0'' \<le> n \<and> n \<le> of_char CHR ''9'') \<or> (of_char CHR ''a'' \<le> n \<and> n \<le> of_char CHR ''f'')
         \<or> (of_char CHR ''A'' \<le> n \<and> n \<le> of_char CHR ''F''))"

text \<open>\<open>assignHex\<close> is a routine of the network stack.\<close>

definition bringup_autosend :: "(string \<Rightarrow> bytes) \<Rightarrow> string \<Rightarrow> rat \<Rightarrow> fw \<Rightarrow> fw" where
  "bringup_autosend assignHex hex time s =
     (if length hex \<noteq> 32 then s
      else if \<exists>c \<in> set hex. \<not> is_hex c then s
      else let s = s\<lparr>g_autosend_dest := assignHex hex\<rparr> in
           if length (g_autosend_dest s) \<noteq> 16 then s
           else s\<lparr>g_autosend_ok := True, g_last_autosend := time\<rparr>)"

section \<open>The work loop\<close>

text \<open>What one pass of the loop meets, in the order it asks: the messages the router delivers, the clocks
  it reads, the radio's last frame, and how the sends go.\<close>

record turn =
  deliveries :: "inbound list"
  announce_check :: rat
  announce_set :: rat
  reply_check :: u32
  reply_ms :: u32
  reply_env :: send_env
  auto_check :: rat
  auto_set :: rat
  auto_signal :: "(rat \<times> rat) option"
  auto_ms :: u32
  auto_env :: send_env
  blink_ms :: "u32"

definition blink :: "turn \<Rightarrow> fw \<Rightarrow> fw" where
  "blink t s =
     (if blink_ms t - blink_last s \<ge> 120 then
        (let s = s\<lparr>blink_last := blink_ms t, blink_on := \<not> blink_on s\<rparr> in s\<lparr>led := blink_on s\<rparr>)
      else s)"

definition timer_announce :: "config \<Rightarrow> turn \<Rightarrow> fw \<Rightarrow> fw" where
  "timer_announce C t s =
     (if announce_check t - g_last_announce s > announce_interval C then announce (announce_set t) s else s)"

definition reply_step :: "config \<Rightarrow> turn \<Rightarrow> fw \<Rightarrow> fw" where
  "reply_step C t s =
     (if armed (g_reply s) \<and> sint (reply_check t - due_ms (g_reply s)) \<ge> 0 then
        (let s = s\<lparr>g_reply := (g_reply s)\<lparr>armed := False\<rparr>\<rparr>;
             body = fst (build_diag_body BODY_BUF (own_hex C) (g_send_counter s) (reply_ms t)
                           (signal_valid (g_reply s)) (rssi (g_reply s)) (snr (g_reply s)))
         in snd (send_lxmf C (reply_env t) (to_hash (g_reply s)) body s))
      else s)"

definition autosend_step :: "config \<Rightarrow> turn \<Rightarrow> fw \<Rightarrow> fw" where
  "autosend_step C t s =
     (case autosend_interval C of
        None \<Rightarrow> s
      | Some interval \<Rightarrow>
          if g_autosend_ok s \<and> auto_check t - g_last_autosend s > interval then
            (let s = s\<lparr>g_last_autosend := auto_set t\<rparr>;
                 sig = (auto_signal t \<noteq> None);
                 rs = (case auto_signal t of None \<Rightarrow> 0 | Some (r, n) \<Rightarrow> r);
                 sn = (case auto_signal t of None \<Rightarrow> 0 | Some (r, n) \<Rightarrow> n);
                 body = fst (build_diag_body BODY_BUF (own_hex C) (g_send_counter s) (auto_ms t) sig rs sn)
             in snd (send_lxmf C (auto_env t) (g_autosend_dest s) body s))
          else s)"

definition thicket_work :: "config \<Rightarrow> turn \<Rightarrow> fw \<Rightarrow> fw" where
  "thicket_work C t s =
     (if \<not> g_stack_up s then blink t s
      else let s = fold (delivery_callback C) (deliveries t) s;
               s = timer_announce C t s;
               s = reply_step C t s
           in autosend_step C t s)"

section \<open>Bring-up\<close>

text \<open>How the steps of one boot go. \<open>lxmf_router\<close> says whether the router could be made: the step may fail
  after that.\<close>

record steps =
  storage_ok :: bool
  identity_ok :: bool
  radio_ok :: bool
  reticulum_ok :: bool
  lxmf_router :: bool
  lxmf_ok :: bool
  task_ok :: bool

definition fw_setup :: "config \<Rightarrow> steps \<Rightarrow> (string \<Rightarrow> bytes) \<Rightarrow> string \<Rightarrow> rat \<Rightarrow> rat \<Rightarrow> fw \<Rightarrow> fw" where
  "fw_setup C b assignHex dest_hex boot_time auto_time s =
     (let s = s\<lparr>led := False\<rparr> in
      if \<not> storage_ok b then s
      else if \<not> identity_ok b then s
      else if \<not> radio_ok b then s
      else if \<not> reticulum_ok b then s
      else let s = s\<lparr>g_router := lxmf_router b, g_store := g_store s \<or> have_store C \<and> lxmf_router b\<rparr> in
           if \<not> (lxmf_router b \<and> lxmf_ok b) then s
           else let s = announce boot_time s;
                    s = (if autosend_interval C \<noteq> None then bringup_autosend assignHex dest_hex auto_time s else s);
                    s = s\<lparr>g_stack_up := True, led := True\<rparr>
                in if \<not> task_ok b then s\<lparr>g_stack_up := False\<rparr> else s)"

definition fw_init :: fw where
  "fw_init =
     \<lparr>g_stack_up = False, g_router = False, g_store = False,
      g_reply = \<lparr>armed = False, due_ms = 0, to_hash = [], signal_valid = False, rssi = 0, snr = 0\<rparr>,
      g_send_counter = 0, g_saved_in = 0, g_saved_out = 0, g_save_failures = 0, g_last_announce = 0,
      g_autosend_dest = [], g_autosend_ok = False, g_last_autosend = 0, blink_last = 0, blink_on = False, led = False,
      handed = [], announced = 0, pinned = []\<rparr>"

text \<open>A boot and the passes of the loop after it.\<close>

definition fw_run :: "config \<Rightarrow> steps \<Rightarrow> (string \<Rightarrow> bytes) \<Rightarrow> string \<Rightarrow> rat \<Rightarrow> rat \<Rightarrow> turn list \<Rightarrow> fw" where
  "fw_run C b assignHex dest_hex boot_time auto_time ts =
     fold (thicket_work C) ts (fw_setup C b assignHex dest_hex boot_time auto_time fw_init)"

section \<open>What the operations leave alone\<close>

lemma store_message_frame [simp]:
  "handed (store_message ok i s) = handed s" "g_reply (store_message ok i s) = g_reply s"
  "g_send_counter (store_message ok i s) = g_send_counter s" "announced (store_message ok i s) = announced s"
  "g_last_announce (store_message ok i s) = g_last_announce s" "g_stack_up (store_message ok i s) = g_stack_up s"
  "g_autosend_ok (store_message ok i s) = g_autosend_ok s" "g_router (store_message ok i s) = g_router s"
  by (simp_all add: store_message_def)

lemma delivery_frame [simp]:
  "handed (delivery_callback C m s) = handed s" "g_send_counter (delivery_callback C m s) = g_send_counter s"
  "announced (delivery_callback C m s) = announced s" "g_last_announce (delivery_callback C m s) = g_last_announce s"
  "g_stack_up (delivery_callback C m s) = g_stack_up s" "g_router (delivery_callback C m s) = g_router s"
  by (simp_all add: delivery_callback_def Let_def)

lemma deliveries_frame [simp]:
  "handed (fold (delivery_callback C) ms s) = handed s"
  "g_send_counter (fold (delivery_callback C) ms s) = g_send_counter s"
  "announced (fold (delivery_callback C) ms s) = announced s"
  "g_last_announce (fold (delivery_callback C) ms s) = g_last_announce s"
  "g_stack_up (fold (delivery_callback C) ms s) = g_stack_up s"
  "g_router (fold (delivery_callback C) ms s) = g_router s"
  by (induction ms arbitrary: s) simp_all

lemma timer_announce_frame [simp]:
  "handed (timer_announce C t s) = handed s" "g_reply (timer_announce C t s) = g_reply s"
  "g_send_counter (timer_announce C t s) = g_send_counter s" "g_router (timer_announce C t s) = g_router s"
  by (simp_all add: timer_announce_def announce_def)

text \<open>A send hands over one message or none.\<close>

lemma send_lxmf_frame [simp]:
  "g_reply (snd (send_lxmf C e d body s)) = g_reply s" "announced (snd (send_lxmf C e d body s)) = announced s"
  "g_last_announce (snd (send_lxmf C e d body s)) = g_last_announce s"
  "g_stack_up (snd (send_lxmf C e d body s)) = g_stack_up s"
  by (simp_all add: send_lxmf_def Let_def)

lemma send_lxmf_hands_over:
  "handed (snd (send_lxmf C e d body s)) = handed s \<and> g_send_counter (snd (send_lxmf C e d body s)) = g_send_counter s
   \<or> length d = 16 \<and> handed (snd (send_lxmf C e d body s)) = handed s @ [(d, body)]
     \<and> g_send_counter (snd (send_lxmf C e d body s)) = g_send_counter s + 1"
  by (simp add: send_lxmf_def Let_def)

lemma thicket_work_announced:
  "announced (thicket_work C t s) = (if g_stack_up s then announced (timer_announce C t s) else announced s)"
  "g_last_announce (thicket_work C t s) = (if g_stack_up s then g_last_announce (timer_announce C t s) else g_last_announce s)"
  by (auto simp: thicket_work_def Let_def autosend_step_def reply_step_def blink_def timer_announce_def announce_def
      split: option.splits)

section \<open>Numbering\<close>

text \<open>A body is headed by its number.\<close>

definition headed :: "nat \<Rightarrow> string \<Rightarrow> bool" where
  "headed n body \<longleftrightarrow> (\<exists>rest. body = ''#'' @ dec (n mod 2 ^ 32) @ '' up'' @ rest)"

definition numbered :: "fw \<Rightarrow> bool" where
  "numbered s \<longleftrightarrow> g_send_counter s = of_nat (length (handed s)) \<and> (\<forall>i < length (handed s). headed i (snd (handed s ! i)))"

lemma diag_body_headed:
  assumes "n = of_nat i"
  shows "headed i (fst (build_diag_body BODY_BUF h n ms v r x))"
  using diag_body_fits_lemma[where id_hex = h and counter = n and now = ms and signal_valid = v and rssi = r and snr = x] assms
  by (auto simp: headed_def unat_of_nat)

lemma send_numbered:
  assumes "numbered s" "headed (length (handed s)) body"
  shows "numbered (snd (send_lxmf C e d body s))"
  using send_lxmf_hands_over[of C e d body s] assms
  by (auto simp: numbered_def nth_append less_Suc_eq)

lemma numbered_cong:
  assumes "numbered s" "handed s' = handed s" "g_send_counter s' = g_send_counter s"
  shows "numbered s'"
  using assms by (simp add: numbered_def)

lemma numbered_update [simp]:
  "numbered (s\<lparr>g_reply := r\<rparr>) = numbered s" "numbered (s\<lparr>g_last_autosend := x\<rparr>) = numbered s"
  by (simp_all add: numbered_def)

lemma thicket_work_numbered:
  assumes "numbered s"
  shows "numbered (thicket_work C t s)"
proof -
  have head: "headed (length (handed s)) (fst (build_diag_body BODY_BUF h (g_send_counter s) ms v r x))"
    if "numbered s" for s h ms v r x
    using that by (intro diag_body_headed) (simp add: numbered_def)
  have r: "numbered (reply_step C t s)" if "numbered s" for s
    using that by (auto simp: reply_step_def Let_def intro!: send_numbered head)
  have a: "numbered (autosend_step C t s)" if "numbered s" for s
    using that by (auto simp: autosend_step_def Let_def split: option.splits intro!: send_numbered head)
  have f: "numbered (timer_announce C t (fold (delivery_callback C) (deliveries t) s))"
    by (rule numbered_cong[OF assms]) simp_all
  have "numbered (blink t s)" by (rule numbered_cong[OF assms]) (simp_all add: blink_def Let_def)
  then show ?thesis using a[OF r[OF f]] by (simp add: thicket_work_def Let_def)
qed

lemma fw_setup_fields [simp]:
  "handed (fw_setup C b ah hex t0 t1 s) = handed s" "g_send_counter (fw_setup C b ah hex t0 t1 s) = g_send_counter s"
  "g_reply (fw_setup C b ah hex t0 t1 s) = g_reply s"
  by (simp_all add: fw_setup_def Let_def announce_def bringup_autosend_def)

section \<open>Correspondents\<close>

text \<open>A message the device answers: from a well-formed address that is not its own.\<close>

definition answerable :: "config \<Rightarrow> inbound \<Rightarrow> bool" where
  "answerable C m \<longleftrightarrow> length (source_hash m) = 16 \<and> source_hash m \<noteq> own_hash C"

lemma delivery_reply:
  "g_reply (delivery_callback C m s) =
    (if answerable C m
     then \<lparr>armed = True, due_ms = in_ms m + REPLY_DELAY_MS, to_hash = source_hash m, signal_valid = in_signal m \<noteq> None,
           rssi = (case in_signal m of None \<Rightarrow> 0 | Some (r, n) \<Rightarrow> r), snr = (case in_signal m of None \<Rightarrow> 0 | Some (r, n) \<Rightarrow> n)\<rparr>
     else g_reply s)"
  by (simp add: delivery_callback_def answerable_def Let_def)

text \<open>The messages handed over and a pending reply are owed to distinct messages that came in:
  \<open>owed C ms s\<close> for the messages \<open>ms\<close> delivered so far.\<close>

definition owed :: "config \<Rightarrow> inbound list \<Rightarrow> fw \<Rightarrow> bool" where
  "owed C ms s \<longleftrightarrow>
     (\<forall>d \<in> fst ` set (handed s) \<union> (if armed (g_reply s) then {to_hash (g_reply s)} else {}).
        \<exists>m \<in> set ms. answerable C m \<and> source_hash m = d)
     \<and> length (handed s) + of_bool (armed (g_reply s)) \<le> length (filter (answerable C) ms)"

lemma owed_cong: "owed C ms s \<Longrightarrow> handed s' = handed s \<Longrightarrow> g_reply s' = g_reply s \<Longrightarrow> owed C ms s'"
  by (simp add: owed_def)

lemma owed_delivery: "owed C ms s \<Longrightarrow> owed C (ms @ [m]) (delivery_callback C m s)"
  by (auto simp: owed_def delivery_reply split: if_splits)

lemma owed_deliveries: "owed C ms s \<Longrightarrow> owed C (ms @ ns) (fold (delivery_callback C) ns s)"
proof (induction ns arbitrary: ms s)
  case (Cons n ns)
  from Cons.IH[OF owed_delivery[OF Cons.prems]] show ?case by simp
qed simp

lemma owed_reply: "owed C ms s \<Longrightarrow> owed C ms (reply_step C t s)"
proof -
  assume o: "owed C ms s"
  let ?s = "s\<lparr>g_reply := (g_reply s)\<lparr>armed := False\<rparr>\<rparr>"
  have "owed C ms (snd (send_lxmf C e (to_hash (g_reply s)) body ?s))" if "armed (g_reply s)" for e body
    using send_lxmf_hands_over[of C e "to_hash (g_reply s)" body ?s] o that by (fastforce simp: owed_def)
  with o show ?thesis by (simp add: reply_step_def Let_def)
qed

lemma owed_more: "owed C ms s \<Longrightarrow> owed C (ms @ ns) s"
  unfolding owed_def by (auto simp: bex_Un)

lemma owed_work:
  assumes "owed C ms s" "autosend_interval C = None"
  shows "owed C (ms @ deliveries t) (thicket_work C t s)"
proof (cases "g_stack_up s")
  case True
  have "owed C (ms @ deliveries t) (timer_announce C t (fold (delivery_callback C) (deliveries t) s))"
    by (rule owed_cong[OF owed_deliveries[OF assms(1)]]) simp_all
  from owed_reply[OF this] show ?thesis using True assms(2) by (simp add: thicket_work_def Let_def autosend_step_def)
next
  case False
  have "owed C (ms @ deliveries t) (blink t s)"
    by (rule owed_cong[OF owed_more[OF assms(1)]]) (simp_all add: blink_def Let_def)
  with False show ?thesis by (simp add: thicket_work_def)
qed

lemma owed_run:
  "owed C ms s \<Longrightarrow> autosend_interval C = None \<Longrightarrow> owed C (ms @ concat (map deliveries ts)) (fold (thicket_work C) ts s)"
proof (induction ts arbitrary: ms s)
  case (Cons t ts)
  from Cons.IH[OF owed_work[OF Cons.prems] Cons.prems(2)] show ?case by simp
qed simp

lemma owedD:
  assumes "owed C ms s"
  shows "length (handed s) \<le> length (filter (answerable C) ms)
    \<and> fst ` set (handed s) \<subseteq> source_hash ` set (filter (answerable C) ms)"
proof -
  have "\<exists>m \<in> set ms. answerable C m \<and> source_hash m = d" if "d \<in> fst ` set (handed s)" for d
    using assms that by (simp add: owed_def)
  then have "fst ` set (handed s) \<subseteq> source_hash ` set (filter (answerable C) ms)" by fastforce
  moreover have "length (handed s) \<le> length (filter (answerable C) ms)" using assms by (simp add: owed_def)
  ultimately show ?thesis by blast
qed

section \<open>Announces\<close>

lemma thicket_work_announce_interval:
  assumes "announce_check t \<le> announce_set t"
  shows "announced s \<le> announced (thicket_work C t s)
    \<and> of_nat (announced (thicket_work C t s) - announced s) * announce_interval C
        \<le> g_last_announce (thicket_work C t s) - g_last_announce s"
  using assms by (simp add: thicket_work_announced timer_announce_def announce_def)

lemma run_announce_interval:
  assumes "\<forall>t \<in> set ts. announce_check t \<le> announce_set t"
  shows "announced s \<le> announced (fold (thicket_work C) ts s)
    \<and> of_nat (announced (fold (thicket_work C) ts s) - announced s) * announce_interval C
        \<le> g_last_announce (fold (thicket_work C) ts s) - g_last_announce s"
  using assms
proof (induction ts arbitrary: s)
  case (Cons t ts)
  let ?s = "thicket_work C t s"
  let ?r = "fold (thicket_work C) ts ?s"
  have a: "announced s \<le> announced ?s"
    "of_nat (announced ?s - announced s) * announce_interval C \<le> g_last_announce ?s - g_last_announce s"
    using thicket_work_announce_interval[of t s C] Cons.prems by (auto simp only: list.set insert_iff)
  have b: "announced ?s \<le> announced ?r"
    "of_nat (announced ?r - announced ?s) * announce_interval C \<le> g_last_announce ?r - g_last_announce ?s"
    using Cons.IH[of ?s] Cons.prems by (auto simp only: list.set insert_iff)
  have "(of_nat (announced ?r - announced s) :: rat)
      = of_nat (announced ?r - announced ?s) + of_nat (announced ?s - announced s)"
    using a(1) b(1) by (simp add: of_nat_diff)
  then show ?case using a b by (simp add: algebra_simps)
qed simp

section \<open>Properties\<close>

text \<open>C12: every message the device sends is numbered: after any boot and any passes of the loop, with
  replies and timed sends, refused sends and failed ones, the text of the message handed over as
  number \<open>i\<close> begins with \<open>#i\<close>, and the next number is the count of those handed over, modulo \<open>2\<^sup>3\<^sup>2\<close>.\<close>

theorem sent_messages_are_numbered:
  "g_send_counter (fw_run C b ah hex t0 t1 ts) = of_nat (length (handed (fw_run C b ah hex t0 t1 ts)))
   \<and> list_all (\<lambda>i. headed i (snd (handed (fw_run C b ah hex t0 t1 ts) ! i)))
       [0..<length (handed (fw_run C b ah hex t0 t1 ts))]"
proof -
  have "numbered (fold (thicket_work C) ts s)" if "numbered s" for s
    using that by (induction ts arbitrary: s) (simp_all add: thicket_work_numbered)
  from this[of "fw_setup C b ah hex t0 t1 fw_init"] have "numbered (fw_run C b ah hex t0 t1 ts)"
    by (simp add: fw_run_def numbered_def fw_init_def)
  then show ?thesis by (simp add: numbered_def list_all_iff)
qed

text \<open>A device, a message that arrives just before the clock wraps around, and three passes of the loop.\<close>

definition demo_config :: config where
  "demo_config =
     \<lparr>have_store = True, pins = True, announce_interval = 1800, autosend_interval = None,
      own_hash = replicate 16 1, own_hex = ''3f9ac114deadbeef''\<rparr>"

definition demo_inbound :: inbound where
  "demo_inbound = \<lparr>source_hash = replicate 16 2, in_signal = Some (-96, 41 / 5), in_ms = 4294967000, in_save_ok = True\<rparr>"

definition demo_turn :: "inbound list \<Rightarrow> rat \<Rightarrow> u32 \<Rightarrow> turn" where
  "demo_turn ms time now =
     \<lparr>deliveries = ms, announce_check = time, announce_set = time, reply_check = now, reply_ms = now,
      reply_env = \<lparr>heap_ok = True, outbound_ok = True, save_ok = True\<rparr>, auto_check = time, auto_set = time,
      auto_signal = None, auto_ms = now, auto_env = \<lparr>heap_ok = True, outbound_ok = True, save_ok = True\<rparr>, blink_ms = now\<rparr>"

definition demo_steps :: steps where
  "demo_steps = \<lparr>storage_ok = True, identity_ok = True, radio_ok = True, reticulum_ok = True, lxmf_router = True,
     lxmf_ok = True, task_ok = True\<rparr>"

definition demo_turns :: "turn list" where
  "demo_turns = [demo_turn [demo_inbound] 10 4294967000, demo_turn [] 11 704, demo_turn [] 2000 1204]"

definition demo_run :: fw where
  "demo_run = fw_run demo_config demo_steps (\<lambda>_. []) [] 5 5 demo_turns"

text \<open>C13: a stock build sends nothing unsolicited. Without the timed send, every message handed over goes
  to the source of a message that came in, an address of sixteen bytes that is not the device's own,
  and there are at most as many of them as messages to answer came in.\<close>

theorem replies_only_to_correspondents:
  assumes "autosend_interval C = None"
  shows "length (handed (fw_run C b ah hex t0 t1 ts)) \<le> length (filter (answerable C) (concat (map deliveries ts)))
    \<and> fst ` set (handed (fw_run C b ah hex t0 t1 ts))
        \<subseteq> source_hash ` set (filter (answerable C) (concat (map deliveries ts)))"
proof -
  have "owed C [] (fw_setup C b ah hex t0 t1 fw_init)" by (simp add: owed_def) (simp add: fw_init_def)
  from owed_run[OF this assms] have "owed C (concat (map deliveries ts)) (fw_run C b ah hex t0 t1 ts)"
    by (simp add: fw_run_def)
  then show ?thesis by (rule owedD)
qed

theorem replies_only_to_correspondents_witness:
  "handed demo_run = [(replicate 16 2, ''#0 up1s r-96 s+8.2 id3f9ac114'')]
   \<and> fst ` set (handed demo_run) \<subseteq> {replicate 16 2}"
proof
  show "handed demo_run = [(replicate 16 2, ''#0 up1s r-96 s+8.2 id3f9ac114'')]" by code_simp
  have "source_hash ` set (filter (answerable demo_config) (concat (map deliveries demo_turns))) = {replicate 16 2}"
    by code_simp
  then show "fst ` set (handed demo_run) \<subseteq> {replicate 16 2}"
    using replies_only_to_correspondents[of demo_config demo_steps "\<lambda>_. []" "[]" 5 5 demo_turns]
    by (simp add: demo_run_def demo_config_def)
qed



text \<open>C15: announces keep their distance. When a bring-up succeeds at \<open>t0\<close> and no pass of the loop sees the
  clock run backwards between asking and announcing, the device has announced once for the boot, and
  the announces after that take at least one interval each: their number times the interval is at
  most the time from the boot to the last one.\<close>

theorem announces_keep_their_distance:
  assumes "\<forall>t \<in> set ts. announce_check t \<le> announce_set t"
    and "storage_ok b" "identity_ok b" "radio_ok b" "reticulum_ok b" "lxmf_router b" "lxmf_ok b"
  shows "1 \<le> announced (fw_run C b ah hex t0 t1 ts)
    \<and> of_nat (announced (fw_run C b ah hex t0 t1 ts) - 1) * announce_interval C
      \<le> g_last_announce (fw_run C b ah hex t0 t1 ts) - t0"
proof -
  have s: "announced (fw_setup C b ah hex t0 t1 fw_init) = 1" "g_last_announce (fw_setup C b ah hex t0 t1 fw_init) = t0"
    using assms(2-) by (simp_all add: fw_setup_def Let_def announce_def bringup_autosend_def fw_init_def)
  show ?thesis
    using run_announce_interval[OF assms(1), of "fw_setup C b ah hex t0 t1 fw_init" C] unfolding fw_run_def s by blast
qed

theorem announces_keep_their_distance_witness:
  "of_nat (announced demo_run - 1) * 1800 \<le> g_last_announce demo_run - 5 \<and> announced demo_run = 2"
proof
  have "\<forall>t \<in> set demo_turns. announce_check t \<le> announce_set t" by (simp add: demo_turns_def demo_turn_def)
  moreover have "storage_ok demo_steps" "identity_ok demo_steps" "radio_ok demo_steps" "reticulum_ok demo_steps"
    "lxmf_router demo_steps" "lxmf_ok demo_steps"
    by (simp_all add: demo_steps_def)
  ultimately have d: "1 \<le> announced demo_run
    \<and> of_nat (announced demo_run - 1) * announce_interval demo_config \<le> g_last_announce demo_run - 5"
    unfolding demo_run_def by (rule announces_keep_their_distance)
  have i: "announce_interval demo_config = 1800" by (simp add: demo_config_def)
  show "of_nat (announced demo_run - 1) * 1800 \<le> g_last_announce demo_run - 5"
    unfolding i[symmetric] by (rule d[THEN conjunct2])
qed code_simp

text \<open>A device whose bring-up failed stays silent. When any step fails, or the work task cannot be
  made, no pass of the loop hands over a message, reads one, or announces again.\<close>

theorem failed_bring_up_stays_silent:
  assumes "\<not> (storage_ok b \<and> identity_ok b \<and> radio_ok b \<and> reticulum_ok b \<and> lxmf_router b \<and> lxmf_ok b \<and> task_ok b)"
  shows "handed (fw_run C b ah hex t0 t1 ts) = [] \<and> \<not> armed (g_reply (fw_run C b ah hex t0 t1 ts))
    \<and> announced (fw_run C b ah hex t0 t1 ts)
        = of_bool (storage_ok b \<and> identity_ok b \<and> radio_ok b \<and> reticulum_ok b \<and> lxmf_router b \<and> lxmf_ok b)"
proof -
  define s where "s = fw_setup C b ah hex t0 t1 fw_init"
  have s: "\<not> g_stack_up s" "announced s
      = of_bool (storage_ok b \<and> identity_ok b \<and> radio_ok b \<and> reticulum_ok b \<and> lxmf_router b \<and> lxmf_ok b)"
    using assms by (auto simp: s_def fw_setup_def Let_def announce_def bringup_autosend_def fw_init_def)
  have h: "handed s = []" "\<not> armed (g_reply s)" by (simp_all add: s_def) (simp_all add: fw_init_def)
  have "handed (fold (thicket_work C) ts s) = handed s \<and> g_reply (fold (thicket_work C) ts s) = g_reply s
      \<and> announced (fold (thicket_work C) ts s) = announced s \<and> g_stack_up (fold (thicket_work C) ts s) = g_stack_up s"
    using s(1)
  proof (induction ts arbitrary: s)
    case (Cons t ts)
    have "thicket_work C t s = blink t s" using Cons.prems by (simp add: thicket_work_def)
    with Cons show ?case by (simp add: blink_def Let_def)
  qed simp
  then show ?thesis using s h by (simp add: fw_run_def s_def)
qed

theorem failed_bring_up_stays_silent_witness:
  "handed (fw_run demo_config (demo_steps\<lparr>task_ok := False\<rparr>) (\<lambda>_. []) [] 5 5 demo_turns) = []
   \<and> announced (fw_run demo_config (demo_steps\<lparr>task_ok := False\<rparr>) (\<lambda>_. []) [] 5 5 demo_turns) = 1"
  using failed_bring_up_stays_silent[of "demo_steps\<lparr>task_ok := False\<rparr>" demo_config "\<lambda>_. []" "[]" 5 5 demo_turns]
  by (simp add: demo_steps_def)

end
