(* ===== verification/Silicon.thy ===== *)
theory Silicon
  imports Prelude
begin

unbundle bit_operations_syntax

text \<open>
  The report on the chip and its debug port, \<open>report_silicon_and_approtect\<close> of \<open>src/main.cpp\<close>, as a
  function of the three registers it reads.
\<close>

text \<open>The letters of the variant register, up to a zero byte where it is printed.\<close>

definition variant_chars :: "u32 \<Rightarrow> string" where
  "variant_chars v =
     map (\<lambda>k. char_of (unat (drop_bit k v AND 0xFF))) [24, 16, 8, 0]"

definition c_string :: "string \<Rightarrow> string" where "c_string s = takeWhile (\<lambda>c. c \<noteq> char_of (0 :: nat)) s"

definition hw_approtect_part :: "u32 \<Rightarrow> bool" where
  "hw_approtect_part v =
     (let n = (of_char (variant_chars v ! 2) :: nat) in of_char CHR ''F'' \<le> n \<and> n \<le> of_char CHR ''Z'')"

definition approtect_meaning :: "u32 \<Rightarrow> string" where
  "approtect_meaning approt =
     (let approt_b = approt AND 0xFF in
      if approt = 0xFFFFFFFF then ''erased (0xFFFFFFFF)''
      else if approt_b = 0x5A then ''HwDisabled - debug port OPEN''
      else if approt_b = 0 then ''Enabled - debug port LOCKED''
      else ''unrecognised value'')"

datatype approtect_line = Locked | DebugPortOpen | HardwareOnly

text \<open>The line on the state of the port, none for a part of the newer kind opened by its register.\<close>

definition approtect_info :: "u32 \<Rightarrow> u32 \<Rightarrow> approtect_line option" where
  "approtect_info v approt =
     (if hw_approtect_part v then
        (if approt = 0xFFFFFFFF \<or> approt AND 0xFF \<noteq> 0x5A then Some Locked else None)
      else if approt = 0xFFFFFFFF \<or> approt AND 0xFF = 0x5A then Some DebugPortOpen
      else Some HardwareOnly)"

definition debug_port_protected :: "u32 \<Rightarrow> u32 \<Rightarrow> bool" where
  "debug_port_protected v approt = (hw_approtect_part v \<and> approt AND 0xFF \<noteq> 0x5A)"

definition thicket_sec_line :: "u32 \<Rightarrow> u32 \<Rightarrow> string" where
  "thicket_sec_line v approt =
     take 79 (''THICKET-SEC v1 variant='' @ c_string (variant_chars v) @ '' approtect=''
       @ (if debug_port_protected v approt then ''protected'' else ''OPEN''))"

text \<open>The gate and the two lines agree: the port counts as protected exactly when the console says
  locked, and the machine-readable line says so, unclipped.\<close>

lemma approtect_lines_agree:
  "debug_port_protected v approt \<longleftrightarrow> approtect_info v approt = Some Locked"
  "thicket_sec_line v approt = ''THICKET-SEC v1 variant='' @ c_string (variant_chars v) @ '' approtect=''
     @ (if approtect_info v approt = Some Locked then ''protected'' else ''OPEN'')"
proof -
  show a: "debug_port_protected v approt \<longleftrightarrow> approtect_info v approt = Some Locked"
    by (auto simp: debug_port_protected_def approtect_info_def split: if_splits)
  have "length (c_string (variant_chars v)) \<le> 4"
    using length_takeWhile_le[of _ "variant_chars v"] by (simp add: c_string_def variant_chars_def)
  then show "thicket_sec_line v approt = ''THICKET-SEC v1 variant='' @ c_string (variant_chars v) @ '' approtect=''
     @ (if approtect_info v approt = Some Locked then ''protected'' else ''OPEN'')"
    by (auto simp: thicket_sec_line_def a)
qed

end
