(* ===== verification/Spec2Isabelle.thy ===== *)
theory Spec2Isabelle
  imports InputLayer Tca8418 TableDraw Browser LoRa StoreProbe Vault Firmware Silicon
begin

text \<open>
  Thicket firmware: a verification library for the handheld's own code.

  The program is a messenger for a board with a LoRa radio, a Sharp memory display and a keypad. Keys
  come from the keypad controller through the input layer; pages in Micron markup are laid out by
  the page renderer into a framebuffer, which the display driver clocks out line by line; packets
  travel over the radio in one frame or two; the identity and the messages lie encrypted on flash;
  a work loop answers messages and announces the device.

  Theories and the code they model, in the order of their imports:

  \<^item> \<open>Prelude\<close>: widths, byte lists and the lemmas on lists the components share.
  \<^item> \<open>InputLayer\<close>: \<open>lib/Keypad/src/InputLayer.{h,cpp}\<close>, with an abstract keyboard it refines.
  \<^item> \<open>Tca8418\<close>: \<open>lib/Keypad/src/Tca8418.{h,cpp}\<close>. The controller's side of the bus is a locale of
    laws, interpreted on a register file with an event queue.
  \<^item> \<open>TableSearch\<close>, \<open>FontCozette\<close>, \<open>FontBig\<close>, \<open>FontTamzen\<close>: the glyph tables of \<open>lib/SharpLcd/src\<close> as
    they stand in the headers, and the binary search over them with its contract as a locale.
  \<^item> \<open>SharpLcd\<close>, \<open>Glyphs\<close>: \<open>SharpLcd.{h,cpp}\<close>, framebuffer, dirty lines, rectangles, dithering, the wire
    protocol; UTF-8 and the drawing of text. \<open>VirtualPanel\<close>: the panel's side of the wire.
    \<open>Display\<close> puts the two together: what the framebuffer holds is what the panel shows.
  \<^item> \<open>MicronRender\<close>, \<open>MicronLayout\<close>, \<open>MicronRuns\<close>, \<open>MicronPage\<close>: \<open>lib/MicronRender/src/MicronRender.{h,cpp}\<close>
    without its tables: the operations, the layout as a function of the text alone, one run of
    text, whole pages as sequences of the parser's callbacks.
  \<^item> \<open>MicronTable\<close>, \<open>TableRows\<close>, \<open>TableLines\<close>, \<open>TableDraw\<close>: the tables of the same files, their operations,
    then what the buffer holds, how cells are broken into lines, and how tables are drawn.
  \<^item> \<open>Compose\<close>: \<open>lib/MicronRender/src/ComposePage.h\<close>, a source of lines to a frame on the panel, with the
    parser as a parameter. \<open>Browser\<close>: \<open>desktop/browser.cpp\<close>, the frame and its links, the focus overlay,
    finding linked pages on disk, the history and the script driver.
  \<^item> \<open>LoRa\<close>: \<open>lib/LoRaInterface/src/LoRaInterface.{h,cpp}\<close>, framing, splitting and reassembly, with an
    abstract link it refines.
  \<^item> \<open>Sealed\<close>: what the encrypted formats share: the primitives and the file system, both
    parameters with stated laws, and the layout of a sealed blob as a locale. \<open>EncryptedStore\<close> and
    \<open>Password\<close> (\<open>lib/EncryptedStore/src\<close>, \<open>lib/Password/src\<close>) interpret it.
  \<^item> \<open>Vault\<close>: \<open>vault_open\<close>, \<open>vault_seal\<close>, \<open>bringup_identity\<close> of \<open>src/main.cpp\<close>, for each build flag.
    \<open>StoreProbe\<close>: the self-test of the message store in \<open>bringup_lxmf\<close>.
  \<^item> \<open>Diag\<close>, \<open>Firmware\<close>: \<open>build_diag_body\<close>; \<open>send_lxmf\<close>, the delivery callback, announces, the timed
    send, \<open>thicket_work\<close> and the order of \<open>setup\<close> in \<open>src/main.cpp\<close>.
  \<^item> \<open>Silicon\<close>: \<open>report_silicon_and_approtect\<close> of \<open>src/main.cpp\<close>.

  Correspondence. A class or struct is a record of its members, a method a function from the record
  to its result and the record; integers have the width of the code, sizes and indices that cannot
  wrap are natural numbers. A loop with no bound of its own is a partial function into an option,
  so that not returning is \<open>None\<close>, and theorems that something returns say \<open>Some\<close>. A read past a
  buffer is \<open>None\<close> as well. What a hardware bus, a clock, an allocator or the network stack answers
  is an argument. The values of radio figures and times of the operating system, floating-point in
  the code, are rational numbers.

  Groups of lemmas. In each theory invariants and frame lemmas come first, then the functional
  behaviour, then the properties, each under its claim number with a concrete instance where it
  has hypotheses. The framebuffer and panel theories lead to \<open>panel_shows_framebuffer\<close> and, with
  the renderer, to \<open>composed_page_reaches_the_panel\<close>; the layout theories to the independence of
  layout and scrolling; the sealed-file theories to the round trips and to the life of the vault.

  Bounds. The only fuel is the length of the input: scanning loops carry a measure and are total.
  PBKDF2 runs its hundred thousand iterations by \<open>funpow\<close>; nothing evaluates them.

  Not modelled: the Micron parser, the network stack (microReticulum, microLXMF), RadioLib and the
  cryptographic primitives, which are not part of the repository; board setup, memory probes and
  console output in \<open>src/main.cpp\<close>; \<open>src/display_bringup.cpp\<close>, which only draws a test pattern; the
  interoperability programs and their UDP interface under \<open>test_interop\<close>, the mock-ups under
  \<open>tools/uihost\<close>; of the desktop browser the SDL window, the command line and \<open>LiveFetch.cpp\<close>.
\<close>

end
